(* ===== verification/KcPrelude.thy ===== *)
theory KcPrelude imports Main "HOL-Library.AList" "HOL-Library.Multiset" begin

text \<open>
  Shared vocabulary of the development. It holds

  \<^item> the outcome type of a Go call (\<open>Ret\<close>, an error return, a panic) and the error values the
    code builds with \<^verbatim>\<open>fmt.Errorf\<close>;
  \<^item> actions, that is state passing calls, with the one combinator \<open>tryM\<close> that stands for
    \<^verbatim>\<open>x, err := m(); if err != nil { return h(err) }\<close>;
  \<^item> Go maps: possibly nil, with the order of the association list standing for the order in
    which the runtime happens to enumerate the keys;
  \<^item> the copy loop \<^verbatim>\<open>for k, v := range src { dst[k] = v }\<close>, proved once for any map;
  \<^item> the documented contract of client-go's retry helpers.
\<close>

named_theorems go_iff \<open>when an action returns, fails or panics\<close>
named_theorems keeps_intro \<open>state predicates an action keeps\<close>

section \<open>Outcomes of a call\<close>

datatype api_reason = NotFound | AlreadyExists | Conflict | OtherReason string

text \<open>
  An error is a message, a message around another error (\<open>Wrapw\<close> for the verb \<^verbatim>\<open>%w\<close>, which
  keeps the cause inspectable, \<open>Fmtv\<close> for \<^verbatim>\<open>%v\<close>, which does not), an API status, or the error
  value of a library call.
\<close>

datatype gerr =
    Errorf string
  | Fmtv string gerr
  | Wrapw string gerr
  | ApiStatus api_reason
  | LibErr string

fun reason_of :: "gerr \<Rightarrow> api_reason option" where
  "reason_of (ApiStatus r) = Some r"
| "reason_of (Wrapw _ e) = reason_of e"
| "reason_of _ = None"

definition IsNotFound :: "gerr \<Rightarrow> bool" where
  "IsNotFound e \<longleftrightarrow> reason_of e = Some NotFound"

definition IsAlreadyExists :: "gerr \<Rightarrow> bool" where
  "IsAlreadyExists e \<longleftrightarrow> reason_of e = Some AlreadyExists"

definition IsConflict :: "gerr \<Rightarrow> bool" where
  "IsConflict e \<longleftrightarrow> reason_of e = Some Conflict"

datatype 'a go = Ret 'a | Fail gerr | Panic string

primrec is_Ret :: "'a go \<Rightarrow> bool" where
  "is_Ret (Ret x) = True"
| "is_Ret (Fail e) = False"
| "is_Ret (Panic p) = False"

primrec is_Panic :: "'a go \<Rightarrow> bool" where
  "is_Panic (Ret x) = False"
| "is_Panic (Fail e) = False"
| "is_Panic (Panic p) = True"

definition tryG :: "'a go \<Rightarrow> (gerr \<Rightarrow> gerr) \<Rightarrow> ('a \<Rightarrow> 'b go) \<Rightarrow> 'b go" where
  "tryG m h k = (case m of Ret x \<Rightarrow> k x | Fail e \<Rightarrow> Fail (h e) | Panic p \<Rightarrow> Panic p)"

lemma tryG_simps [simp]:
  "tryG (Ret x) h k = k x"
  "tryG (Fail e) h k = Fail (h e)"
  "tryG (Panic p) h k = Panic p"
  by (simp_all add: tryG_def)

lemma tryG_Ret_iff [go_iff]: "tryG m h k = Ret y \<longleftrightarrow> (\<exists>x. m = Ret x \<and> k x = Ret y)"
  by (cases m) auto

lemma tryG_Fail_iff [go_iff]:
  "tryG m h k = Fail e \<longleftrightarrow> (\<exists>e'. m = Fail e' \<and> e = h e') \<or> (\<exists>x. m = Ret x \<and> k x = Fail e)"
  by (cases m) auto

lemma tryG_Panic_iff [go_iff]:
  "tryG m h k = Panic p \<longleftrightarrow> m = Panic p \<or> (\<exists>x. m = Ret x \<and> k x = Panic p)"
  by (cases m) auto

section \<open>Actions: calls that change a state\<close>

type_synonym ('s, 'a) act = "'s \<Rightarrow> 'a go \<times> 's"

definition ret :: "'a \<Rightarrow> ('s, 'a) act" where
  "ret x s = (Ret x, s)"

definition failM :: "gerr \<Rightarrow> ('s, 'a) act" where
  "failM e s = (Fail e, s)"

definition panicM :: "string \<Rightarrow> ('s, 'a) act" where
  "panicM p s = (Panic p, s)"

definition liftG :: "'a go \<Rightarrow> ('s, 'a) act" where
  "liftG r s = (r, s)"

definition getM :: "('s, 's) act" where
  "getM s = (Ret s, s)"

definition putM :: "'s \<Rightarrow> ('s, unit) act" where
  "putM t s = (Ret (), t)"

definition modM :: "('s \<Rightarrow> 's) \<Rightarrow> ('s, unit) act" where
  "modM f s = (Ret (), f s)"

definition tryM :: "('s, 'a) act \<Rightarrow> (gerr \<Rightarrow> gerr) \<Rightarrow> ('a \<Rightarrow> ('s, 'b) act) \<Rightarrow> ('s, 'b) act" where
  "tryM m h k s =
     (case m s of
        (Ret x, s') \<Rightarrow> k x s'
      | (Fail e, s') \<Rightarrow> (Fail (h e), s')
      | (Panic p, s') \<Rightarrow> (Panic p, s'))"

text \<open>Go looks at the error without returning: \<^verbatim>\<open>err := m(); if err != nil { h } else { k }\<close>.\<close>

definition catchM :: "('s, 'a) act \<Rightarrow> (gerr \<Rightarrow> ('s, 'b) act) \<Rightarrow> ('a \<Rightarrow> ('s, 'b) act) \<Rightarrow> ('s, 'b) act"
  where
  "catchM m h k s =
     (case m s of
        (Ret x, s') \<Rightarrow> k x s'
      | (Fail e, s') \<Rightarrow> h e s'
      | (Panic p, s') \<Rightarrow> (Panic p, s'))"

text \<open>An action on one part of a larger state.\<close>

definition zoomM :: "('s \<Rightarrow> 't) \<Rightarrow> ('t \<Rightarrow> 's \<Rightarrow> 's) \<Rightarrow> ('t, 'a) act \<Rightarrow> ('s, 'a) act" where
  "zoomM g p m s = (case m (g s) of (r, t) \<Rightarrow> (r, p t s))"

lemma act_simps [simp]:
  "ret x s = (Ret x, s)"
  "failM e s = (Fail e, s)"
  "panicM p s = (Panic p, s)"
  "liftG r s = (r, s)"
  "getM s = (Ret s, s)"
  "putM t s = (Ret (), t)"
  "modM f s = (Ret (), f s)"
  by (simp_all add: ret_def failM_def panicM_def liftG_def getM_def putM_def modM_def)

lemma tryM_Ret_iff [go_iff]:
  "tryM m h k s = (Ret y, t) \<longleftrightarrow> (\<exists>x u. m s = (Ret x, u) \<and> k x u = (Ret y, t))"
  by (auto simp: tryM_def split: prod.splits go.splits)

lemma tryM_Fail_iff [go_iff]:
  "tryM m h k s = (Fail e, t) \<longleftrightarrow>
     (\<exists>e'. m s = (Fail e', t) \<and> e = h e') \<or> (\<exists>x u. m s = (Ret x, u) \<and> k x u = (Fail e, t))"
  by (auto simp: tryM_def split: prod.splits go.splits)

lemma tryM_Panic_iff [go_iff]:
  "tryM m h k s = (Panic p, t) \<longleftrightarrow>
     m s = (Panic p, t) \<or> (\<exists>x u. m s = (Ret x, u) \<and> k x u = (Panic p, t))"
  by (auto simp: tryM_def split: prod.splits go.splits)

lemma catchM_Ret_iff [go_iff]:
  "catchM m h k s = (Ret y, t) \<longleftrightarrow>
     (\<exists>e u. m s = (Fail e, u) \<and> h e u = (Ret y, t)) \<or> (\<exists>x u. m s = (Ret x, u) \<and> k x u = (Ret y, t))"
  by (auto simp: catchM_def split: prod.splits go.splits)

lemma tryM_step:
  "m s = (Ret x, u) \<Longrightarrow> tryM m h k s = k x u"
  "m s = (Fail e, u) \<Longrightarrow> tryM m h k s = (Fail (h e), u)"
  "m s = (Panic p, u) \<Longrightarrow> tryM m h k s = (Panic p, u)"
  by (simp_all add: tryM_def)

lemma catchM_step:
  "m s = (Ret x, u) \<Longrightarrow> catchM m h k s = k x u"
  "m s = (Fail e, u) \<Longrightarrow> catchM m h k s = h e u"
  "m s = (Panic p, u) \<Longrightarrow> catchM m h k s = (Panic p, u)"
  by (simp_all add: catchM_def)

lemma tryM_ret [simp]: "tryM (ret x) h k = k x"
  by (rule ext) (simp add: tryM_def)

lemma zoomM_apply: "zoomM g p m s = (fst (m (g s)), p (snd (m (g s))) s)"
  by (simp add: zoomM_def split: prod.split)

section \<open>Predicates an action keeps\<close>

definition keeps :: "('s \<Rightarrow> bool) \<Rightarrow> ('s, 'a) act \<Rightarrow> bool" where
  "keeps I m \<longleftrightarrow> (\<forall>s. I s \<longrightarrow> I (snd (m s)))"

lemma keepsD: "keeps I m \<Longrightarrow> m s = (r, t) \<Longrightarrow> I s \<Longrightarrow> I t"
  by (metis keeps_def snd_conv)

lemma keeps_pure [keeps_intro, intro, simp]:
  "keeps I (ret x)" "keeps I (failM e)" "keeps I (panicM p)" "keeps I (liftG r)" "keeps I getM"
  by (simp_all add: keeps_def)

lemma keeps_modM [keeps_intro]: "(\<And>s. I s \<Longrightarrow> I (f s)) \<Longrightarrow> keeps I (modM f)"
  by (simp add: keeps_def)

lemma keeps_tryM [keeps_intro]:
  assumes "keeps I m" and "\<And>x. keeps I (k x)"
  shows "keeps I (tryM m h k)"
  unfolding keeps_def
proof (intro allI impI)
  fix s assume "I s"
  then have "I (snd (m s))" using assms(1) by (simp add: keeps_def)
  then show "I (snd (tryM m h k s))"
    using assms(2) by (auto simp: tryM_def keeps_def split: prod.splits go.splits)
qed

lemma keeps_catchM [keeps_intro]:
  assumes "keeps I m" and "\<And>e. keeps I (h e)" and "\<And>x. keeps I (k x)"
  shows "keeps I (catchM m h k)"
  unfolding keeps_def
proof (intro allI impI)
  fix s assume "I s"
  then have "I (snd (m s))" using assms(1) by (simp add: keeps_def)
  then show "I (snd (catchM m h k s))"
    using assms(2,3) by (auto simp: catchM_def keeps_def split: prod.splits go.splits)
qed

lemma keeps_If [keeps_intro]: "keeps I m \<Longrightarrow> keeps I n \<Longrightarrow> keeps I (if b then m else n)"
  by simp

section \<open>Go maps\<close>

text \<open>\<open>None\<close> is the nil map: it reads as empty, and writing to it panics.\<close>

type_synonym ('k, 'v) gomap = "('k \<times> 'v) list option"

definition gmake :: "('k, 'v) gomap" where
  "gmake = Some []"

definition grange :: "('k, 'v) gomap \<Rightarrow> ('k \<times> 'v) list" where
  "grange m = (case m of None \<Rightarrow> [] | Some es \<Rightarrow> es)"

definition glookup :: "('k, 'v) gomap \<Rightarrow> 'k \<Rightarrow> 'v option" where
  "glookup m k = map_of (grange m) k"

definition glen :: "('k, 'v) gomap \<Rightarrow> nat" where
  "glen m = length (grange m)"

text \<open>\<^verbatim>\<open>m[k]\<close> in a string valued map: the empty string when the key is missing.\<close>

definition gindex :: "('k, string) gomap \<Rightarrow> 'k \<Rightarrow> string" where
  "gindex m k = (case glookup m k of None \<Rightarrow> [] | Some v \<Rightarrow> v)"

definition gset :: "('k, 'v) gomap \<Rightarrow> 'k \<Rightarrow> 'v \<Rightarrow> ('k, 'v) gomap go" where
  "gset m k v =
     (case m of
        None \<Rightarrow> Panic ''assignment to entry in nil map''
      | Some es \<Rightarrow> Ret (Some (AList.update k v es)))"

definition gdelete :: "('k, 'v) gomap \<Rightarrow> 'k \<Rightarrow> ('k, 'v) gomap" where
  "gdelete m k = map_option (AList.delete k) m"

definition gmap_ok :: "('k, 'v) gomap \<Rightarrow> bool" where
  "gmap_ok m \<longleftrightarrow> distinct (map fst (grange m))"

lemma grange_simps [simp]: "grange None = []" "grange (Some es) = es" "grange gmake = []"
  by (simp_all add: grange_def gmake_def)

lemma glookup_simps [simp]:
  "glookup None k = None" "glookup gmake k = None" "glookup (Some es) k = map_of es k"
  by (simp_all add: glookup_def)

lemma glen_simps [simp]: "glen None = 0" "glen gmake = 0" "glen (Some es) = length es"
  by (simp_all add: glen_def)

lemma gset_Some [simp]: "gset (Some es) k v = Ret (Some (AList.update k v es))"
  by (simp add: gset_def)

lemma gset_nil [simp]: "gset None k v = Panic ''assignment to entry in nil map''"
  by (simp add: gset_def)

lemma gset_Ret_iff [go_iff]:
  "gset m k v = Ret m' \<longleftrightarrow> (\<exists>es. m = Some es \<and> m' = Some (AList.update k v es))"
  by (auto simp: gset_def split: option.splits)

lemma gmap_ok_update [simp]:
  "gmap_ok (Some es) \<Longrightarrow> gmap_ok (Some (AList.update k v es))"
  by (simp add: gmap_ok_def distinct_update)

lemma gmap_ok_gdelete [simp]: "gmap_ok m \<Longrightarrow> gmap_ok (gdelete m k)"
  by (cases m) (simp_all add: gmap_ok_def gdelete_def distinct_delete)

lemma gmap_ok_gmake [simp]: "gmap_ok gmake"
  by (simp add: gmap_ok_def)

lemma glookup_gdelete: "glookup (gdelete m k) j = (if j = k then None else glookup m j)"
  by (cases m) (simp_all add: gdelete_def delete_conv)

lemma glen_0_iff: "glen m = 0 \<longleftrightarrow> glookup m = Map.empty"
  by (cases m) (simp_all add: glen_def glookup_def [abs_def])

section \<open>The copy loop, for any map\<close>

text \<open>
  A writable map promises one law, what a lookup returns after a write. From it follows, once,
  what the copy loop leaves behind. Entries of the source come in the order of the enumeration;
  a Go map has distinct keys, so the order does not show in the result.
\<close>

locale writable_map =
  fixes lkp :: "'m \<Rightarrow> 'k \<Rightarrow> 'v option"
    and upd :: "'k \<Rightarrow> 'v \<Rightarrow> 'm \<Rightarrow> 'm"
  assumes lkp_upd: "lkp (upd k v m) j = (if j = k then Some v else lkp m j)"
begin

lemma lkp_copy:
  "lkp (fold (\<lambda>(k, v). upd k v) src m) = lkp m ++ map_of (rev src)"
proof (induction src arbitrary: m)
  case Nil
  then show ?case by simp
next
  case (Cons e src)
  obtain k v where e: "e = (k, v)" by (cases e)
  have upd: "lkp (upd k v m) = (lkp m)(k \<mapsto> v)"
    by (rule ext) (simp add: lkp_upd)
  show ?case
    by (simp only: fold_simps e prod.case Cons.IH upd) (auto simp: map_add_def split: option.split)
qed

lemma lkp_copy_distinct:
  assumes "distinct (map fst src)"
  shows "lkp (fold (\<lambda>(k, v). upd k v) src m) = lkp m ++ map_of src"
proof -
  have "map_of (rev src) = map_of src"
    using assms by (subst map_of_inject_set) (simp_all add: rev_map [symmetric])
  then show ?thesis by (simp add: lkp_copy)
qed

lemma lkp_copy_order:
  assumes "distinct (map fst src)" and "mset src = mset src'"
  shows "lkp (fold (\<lambda>(k, v). upd k v) src m) = lkp (fold (\<lambda>(k, v). upd k v) src' m)"
proof -
  have d: "distinct (map fst src')"
    using assms by (metis mset_map mset_eq_imp_distinct_iff)
  have "map_of src = map_of src'"
    using assms d by (metis map_of_inject_set set_mset_mset)
  then show ?thesis using assms d by (simp add: lkp_copy_distinct)
qed

end

interpretation alist_map: writable_map "map_of" "AList.update"
  by unfold_locales (auto simp: update_conv' fun_upd_def)

text \<open>\<^verbatim>\<open>for k, v := range src { dst[k] = v }\<close> on maps that are allocated.\<close>

definition copy_into :: "('k \<times> 'v) list \<Rightarrow> ('k \<times> 'v) list \<Rightarrow> ('k \<times> 'v) list" where
  "copy_into src dst = fold (\<lambda>(k, v). AList.update k v) src dst"

lemma copy_into_simps [simp]:
  "copy_into [] dst = dst"
  "copy_into ((k, v) # src) dst = copy_into src (AList.update k v dst)"
  by (simp_all add: copy_into_def)

lemma copy_into_fresh: "distinct (map fst (dst @ src)) \<Longrightarrow> copy_into src dst = dst @ src"
proof (induction src arbitrary: dst)
  case (Cons e src)
  obtain k v where e: "e = (k, v)" by (cases e)
  with Cons.prems have new: "k \<notin> fst ` set dst" by auto
  then have "AList.update k v dst = dst @ [(k, v)]" by (induction dst) auto
  with Cons.IH [of "dst @ [(k, v)]"] Cons.prems e show ?case by simp
qed simp

lemma copy_into_distinct: "distinct (map fst dst) \<Longrightarrow> distinct (map fst (copy_into src dst))"
  by (induction src arbitrary: dst) (auto simp: distinct_update)

lemma copy_into_again: "copy_into (copy_into es []) [] = copy_into es []"
  using copy_into_fresh [of "[]" "copy_into es []"] copy_into_distinct [of "[]" es] by simp

lemma map_of_copy_into:
  "distinct (map fst src) \<Longrightarrow> map_of (copy_into src dst) = map_of dst ++ map_of src"
  unfolding copy_into_def by (rule alist_map.lkp_copy_distinct)

lemma map_of_copy_into_rev: "map_of (copy_into src dst) = map_of dst ++ map_of (rev src)"
  unfolding copy_into_def by (rule alist_map.lkp_copy)

lemma distinct_copy_into [simp]:
  "distinct (map fst dst) \<Longrightarrow> distinct (map fst (copy_into src dst))"
  by (induction src arbitrary: dst) (auto simp: distinct_update)

section \<open>Enumeration order\<close>

text \<open>
  A range loop over a map built by the program enumerates its entries in an order the runtime
  picks: \<open>ord\<close> stands for that choice.
\<close>

definition range_order :: "(('k \<times> 'v) list \<Rightarrow> ('k \<times> 'v) list) \<Rightarrow> bool" where
  "range_order ord \<longleftrightarrow> (\<forall>es. mset (ord es) = mset es)"

lemma range_order_set: "range_order ord \<Longrightarrow> set (ord es) = set es"
  by (metis range_order_def set_mset_mset)

lemma range_order_id: "range_order (\<lambda>es. es)" and range_order_rev: "range_order rev"
  by (simp_all add: range_order_def)

section \<open>Retry helpers\<close>

text \<open>
  The contract of \<^verbatim>\<open>retry.RetryOnConflict\<close> and \<^verbatim>\<open>retry.OnError\<close>: the closure runs at least
  once and is run again, a bounded number of times, while its error is retriable; the last
  outcome is returned. \<open>attempts r n\<close> runs it at most \<open>n + 1\<close> times.
\<close>

fun attempts :: "(gerr \<Rightarrow> bool) \<Rightarrow> nat \<Rightarrow> ('s, 'a) act \<Rightarrow> ('s, 'a) act" where
  "attempts r 0 f s = f s"
| "attempts r (Suc n) f s =
     (case f s of
        (Fail e, t) \<Rightarrow> (if r e then attempts r n f t else (Fail e, t))
      | res \<Rightarrow> res)"

definition retries :: "(gerr \<Rightarrow> bool) \<Rightarrow> (('s, 'a) act \<Rightarrow> ('s, 'a) act) \<Rightarrow> bool" where
  "retries r R \<longleftrightarrow> (\<forall>f s. \<exists>n. R f s = attempts r n f s)"

lemma retries_attempts: "retries r (attempts r n)"
  by (auto simp: retries_def)

lemma attempts_no_error:
  "(\<And>e. fst (f s) \<noteq> Fail e) \<Longrightarrow> attempts r n f s = f s"
  by (cases n; cases "f s"; cases "fst (f s)") auto

lemma retries_no_error:
  assumes "retries r R" and "\<And>e. fst (f s) \<noteq> Fail e"
  shows "R f s = f s"
  using assms by (metis retries_def attempts_no_error)

lemma attempts_invariant:
  assumes "\<And>s. I s \<Longrightarrow> I (snd (f s))"
  shows "I s \<Longrightarrow> I (snd (attempts r n f s))"
proof (induction n arbitrary: s)
  case 0
  then show ?case using assms by simp
next
  case (Suc n)
  then have "I (snd (f s))" using assms by blast
  then show ?case using Suc.IH by (auto split: prod.splits go.splits)
qed

lemma keeps_retries:
  assumes "retries r R" and "keeps I f"
  shows "keeps I (R f)"
  using assms unfolding keeps_def retries_def by (metis attempts_invariant)

text \<open>What holds of every successful run of the closure holds of the successful retry.\<close>

lemma attempts_Ret:
  assumes "\<And>s x t. f s = (Ret x, t) \<Longrightarrow> Q x t"
  shows "attempts r n f s = (Ret x, t) \<Longrightarrow> Q x t"
proof (induction n arbitrary: s)
  case 0
  then show ?case using assms by simp
next
  case (Suc n)
  then show ?case using assms by (auto split: prod.splits go.splits if_splits)
qed

lemma retries_Ret:
  assumes "retries r R" and "R f s = (Ret x, t)" and "\<And>s x t. f s = (Ret x, t) \<Longrightarrow> Q x t"
  shows "Q x t"
  using assms by (metis retries_def attempts_Ret)

text \<open>
  If a failed run leaves what \<open>a\<close> observes of the state alone, the outcome of the retry is that
  of one run of the closure from a state that looks like the first one.
\<close>

lemma attempts_last:
  assumes "\<And>s e t. f s = (Fail e, t) \<Longrightarrow> a t = a s"
  shows "attempts r n f s = (x, t) \<Longrightarrow> \<exists>u. a u = a s \<and> f u = (x, t)"
proof (induction n arbitrary: s)
  case 0
  then show ?case by auto
next
  case (Suc n)
  show ?case
  proof (cases "\<exists>e u. f s = (Fail e, u) \<and> r e")
    case True
    then obtain e u where f: "f s = (Fail e, u)" and "r e" by blast
    with Suc.prems have "attempts r n f u = (x, t)" by simp
    with Suc.IH assms [OF f] show ?thesis by metis
  next
    case False
    with Suc.prems have "f s = (x, t)" by (auto split: prod.splits go.splits if_splits)
    then show ?thesis by blast
  qed
qed

lemma retries_last:
  assumes "retries r R" and "R f s = (x, t)" and "\<And>s e t. f s = (Fail e, t) \<Longrightarrow> a t = a s"
  shows "\<exists>u. a u = a s \<and> f u = (x, t)"
proof -
  obtain n where n: "attempts r n f s = (x, t)"
    using assms(1,2) unfolding retries_def by metis
  show ?thesis by (rule attempts_last [where f = f and r = r and n = n]) (use assms(3) n in blast)+
qed

end
