(* ===== verification/KcTypes.thy ===== *)
theory KcTypes imports KcPrelude "HOL-Library.Word" begin

text \<open>
  The data model. The first half are the Kubernetes objects with the fields the program reads or
  writes; the fields it only carries along are one opaque string per object. The second half are
  the program's own types: the SidecarConfig resource of api/v1alpha1/sidecarconfig_types.go and
  the configuration the sidecar process reads, api/types.go.
\<close>

section \<open>Kubernetes objects\<close>

type_synonym labels = "(string, string) gomap"

record volume_mount =
  vm_Name :: string
  vm_MountPath :: string
  vm_rest :: string

record env_var =
  ev_Name :: string
  ev_Value :: string
  ev_FieldPath :: "string option" \<comment> \<open>ValueFrom.FieldRef.FieldPath\<close>

record container =
  c_Name :: string
  c_Image :: string
  c_Env :: "env_var list"
  c_Ports :: "(string \<times> int) list" \<comment> \<open>Name and ContainerPort\<close>
  c_VolumeMounts :: "volume_mount list"
  c_RestartPolicy :: "string option"
  c_rest :: string

record volume =
  v_Name :: string
  v_ConfigMap :: "string option" \<comment> \<open>VolumeSource.ConfigMap.Name\<close>
  v_rest :: string

record pod =
  pod_Name :: string
  pod_Namespace :: string
  pod_Labels :: labels
  pod_Annotations :: labels
  pod_Phase :: string
  ps_ServiceAccountName :: string
  ps_Containers :: "container list"
  ps_InitContainers :: "container list"
  ps_Volumes :: "volume list"
  ps_ShareProcessNamespace :: "bool option"
  pod_rest :: string

record configmap =
  cm_Name :: string
  cm_Namespace :: string
  cm_Data :: "(string, string) gomap"
  cm_Annotations :: "(string, string) gomap"
  cm_Owner :: "string option"

record label_selector =
  ls_MatchLabels :: "(string \<times> string) list"
  ls_MatchExpressions :: "(string \<times> string \<times> string list) list"

text \<open>A compiled selector is used only through \<^verbatim>\<open>Matches\<close>.\<close>

type_synonym selector = "labels \<Rightarrow> bool"

section \<open>The SidecarConfig resource\<close>

record InjectConfig =
  inj_Selector :: "label_selector option"
  inj_InjectKidecar :: bool
  inj_UseKubeNativeSidecar :: bool
  inj_Namespace :: string
  inj_NamespaceSelector :: "label_selector option"
  inj_InitContainers :: "container list"
  inj_Containers :: "container list"
  inj_Volumes :: "volume list"
  inj_VolumeMounts :: "volume_mount list"
  inj_ForceInjectServiceAccount :: "bool option"
  inj_ServiceAccountName :: string
  inj_ShareProcessNamespace :: "bool option"

record Binary =
  bin_Path :: string
  bin_Version :: string
  bin_Checksum :: string
  bin_Args :: "string list"
  bin_Env :: "string list"
  bin_Dependencies :: "string list"
  bin_Permissions :: string
  bin_Description :: string
  bin_DownloadURL :: string

text \<open>\<^verbatim>\<open>runtime.RawExtension\<close> by its \<^verbatim>\<open>Raw\<close> bytes.\<close>

record PluginConfig =
  pc_Name :: string
  pc_Config :: "string option"
  pc_Binary :: "Binary option"
  pc_BootOrder :: int

record KidecarConfig =
  kc_Plugins :: "PluginConfig list"
  kc_RestartPolicy :: string
  kc_Resources :: "(string, string) gomap"
  kc_SidecarStartOrder :: string

record SidecarConfigSpec =
  spec_Injection :: InjectConfig
  spec_Kidecar :: KidecarConfig

type_synonym int32 = "32 word"

record SidecarConfigStatus =
  st_MatchedPods :: int32
  st_UpdatedPods :: int32
  st_ReadyPods :: int32
  st_UpdatedReadyPods :: int32

record SidecarConfig =
  sc_Name :: string
  sc_Namespace :: string
  sc_Annotations :: "(string, string) gomap"
  sc_Spec :: SidecarConfigSpec
  sc_Status :: SidecarConfigStatus

section \<open>The configuration of the sidecar process\<close>

text \<open>A decoded JSON document, as \<^verbatim>\<open>encoding/json\<close> and \<^verbatim>\<open>gjson\<close> give it to Go code.\<close>

datatype json =
    JNull
  | JBool bool
  | JNumber string
  | JString string
  | JArray "json list"
  | JObject "(string \<times> json) list"

text \<open>An \<^verbatim>\<open>interface{}\<close> as the plugin configuration holds it.\<close>

datatype iface = INil | IMap "(string, json) gomap" | IOther string

record ApiPluginConfig =
  apc_Name :: string
  apc_Binary :: "Binary option"
  apc_Config :: iface
  apc_BootOrder :: int

record ApiSidecarConfig =
  asc_Plugins :: "ApiPluginConfig list"
  asc_RestartPolicy :: string
  asc_Resources :: "(string, string) gomap"
  asc_SidecarStartOrder :: string

record PluginStatus =
  pst_Name :: string
  pst_Version :: string
  pst_Running :: bool
  pst_LastChecked :: string
  pst_Health :: string
  pst_Infos :: "string list"

section \<open>The controller's API client\<close>

text \<open>
  \<^verbatim>\<open>client.Client\<close> of controller-runtime, as far as it is called, over the state \<open>'k\<close> of the
  API server. Each call may change that state, so other clients may act between any two calls.
  The record is a parameter of every operation that talks to the server.
\<close>

record 'k ctrl_client =
  cl_ListSidecarConfigs :: "('k, SidecarConfig list) act"
  cl_ListPods :: "string option \<Rightarrow> selector option \<Rightarrow> ('k, pod list) act"
  cl_GetNamespace :: "string \<Rightarrow> ('k, labels) act"
  cl_GetServiceAccount :: "string \<Rightarrow> string \<Rightarrow> ('k, unit) act" \<comment> \<open>namespace, name\<close>
  cl_GetConfigMap :: "string \<Rightarrow> string \<Rightarrow> ('k, configmap) act" \<comment> \<open>namespace, name\<close>
  cl_CreateConfigMap :: "configmap \<Rightarrow> ('k, unit) act"
  cl_UpdateConfigMap :: "configmap \<Rightarrow> ('k, unit) act"
  cl_GetSidecarConfig :: "string \<Rightarrow> string \<Rightarrow> ('k, SidecarConfig) act" \<comment> \<open>namespace, name\<close>
  cl_UpdateStatus :: "SidecarConfig \<Rightarrow> ('k, unit) act"
  cl_RetryOnConflict :: "('k, unit) act \<Rightarrow> ('k, unit) act"

text \<open>Library functions the controller calls, without state.\<close>

record ctrl_lib =
  lib_LabelSelectorAsSelector :: "label_selector option \<Rightarrow> selector go"
  lib_JsonUnmarshal :: "string \<Rightarrow> (string, json) gomap go"
  lib_YamlMarshal :: "ApiSidecarConfig \<Rightarrow> string go"
  lib_Sha256 :: "string \<Rightarrow> string"
  lib_SetOwnerReference :: "SidecarConfig \<Rightarrow> configmap \<Rightarrow> configmap"

text \<open>The process environment: \<^verbatim>\<open>os.LookupEnv\<close> is a map, \<^verbatim>\<open>os.Getenv\<close> reads \<open>''''\<close> for a gap.\<close>

type_synonym environment = "string \<rightharpoonup> string"

definition Getenv :: "environment \<Rightarrow> string \<Rightarrow> string" where
  "Getenv env n = (case env n of None \<Rightarrow> [] | Some v \<Rightarrow> v)"

lemma Getenv_simps [simp]:
  "env n = None \<Longrightarrow> Getenv env n = []"
  "env n = Some v \<Longrightarrow> Getenv env n = v"
  by (simp_all add: Getenv_def)

end
