(* ===== verification/KcConfigMap.thy ===== *)
theory KcConfigMap imports KcTypes begin

text \<open>
  pkg/injector/configmap.go and pkg/utils/hash.go: the ConfigMap \<^verbatim>\<open>kidecar-config\<close> that carries
  the sidecar's configuration into the namespace of an injected pod. It is created or updated
  when its hash annotation does not fit the configuration.
\<close>

section \<open>Hashing\<close>

definition hexdigit :: "nat \<Rightarrow> char" where
  "hexdigit n = char_of (if n < 10 then 48 + n else 87 + n)"

text \<open>\<^verbatim>\<open>fmt.Sprintf("%x", bytes)\<close>.\<close>

definition hexstr :: "string \<Rightarrow> string" where
  "hexstr bs = concat (map (\<lambda>c. [hexdigit (of_char c div 16), hexdigit (of_char c mod 16)]) bs)"

definition Hash :: "ctrl_lib \<Rightarrow> string \<Rightarrow> string" where
  "Hash lib dat = hexstr (lib_Sha256 lib dat)"

lemma hexdigit_inj: "m < 16 \<Longrightarrow> n < 16 \<Longrightarrow> hexdigit m = hexdigit n \<Longrightarrow> m = n"
  by (auto simp: hexdigit_def char_of_eq_iff take_bit_eq_mod split: if_splits)

lemma hexstr_simps [simp]:
  "hexstr [] = []"
  "hexstr (c # cs) = hexdigit (of_char c div 16) # hexdigit (of_char c mod 16) # hexstr cs"
  by (simp_all add: hexstr_def)

lemma length_hexstr: "length (hexstr bs) = 2 * length bs"
  by (induction bs) simp_all

lemma hexbyte_inj:
  assumes "hexdigit (of_char c div 16) = hexdigit (of_char d div 16)"
    and "hexdigit (of_char c mod 16) = hexdigit (of_char d mod 16)"
  shows "c = d"
proof -
  have b: "of_char x div 16 < (16::nat)" for x :: char
    by (rule less_mult_imp_div_less) simp
  have q: "of_char c div 16 = (of_char d div 16 :: nat)"
    using hexdigit_inj [OF b b assms(1)] .
  have "of_char c mod 16 = (of_char d mod 16 :: nat)"
    using hexdigit_inj [OF _ _ assms(2)] by simp
  then have "of_char c = (of_char d :: nat)"
    using q by (metis div_mult_mod_eq)
  then show ?thesis by (metis of_char_eq_iff)
qed

lemma hexstr_inj: "hexstr xs = hexstr ys \<Longrightarrow> xs = ys"
proof (induction xs arbitrary: ys)
  case Nil
  then show ?case by (cases ys) simp_all
next
  case (Cons x xs)
  then show ?case by (cases ys) (auto dest: hexbyte_inj)
qed

section \<open>From the resource to the sidecar's configuration\<close>

definition KidecarConfigmapName :: string where
  "KidecarConfigmapName = ''kidecar-config''"

definition ConfigmapHashKey :: string where
  "ConfigmapHashKey = ''sidecarconfig.kidecar.io/hash''"

definition convertRawToMap :: "ctrl_lib \<Rightarrow> string option \<Rightarrow> (string, json) gomap go" where
  "convertRawToMap lib raw =
     (case raw of
        None \<Rightarrow> Ret None
      | Some bs \<Rightarrow>
          (if length bs < 1 then Ret None
           else tryG (lib_JsonUnmarshal lib bs) (Fmtv ''failed to unmarshal raw extension'')
                  (\<lambda>m. Ret m)))"

fun convertPlugins :: "ctrl_lib \<Rightarrow> PluginConfig list \<Rightarrow> ApiPluginConfig list \<Rightarrow> ApiPluginConfig list go"
  where
  "convertPlugins lib [] acc = Ret acc"
| "convertPlugins lib (p # ps) acc =
     tryG (convertRawToMap lib (pc_Config p)) (Fmtv ''failed to convert raw extension to map'')
       (\<lambda>m. convertPlugins lib ps
              (acc @ [\<lparr>apc_Name = pc_Name p, apc_Binary = pc_Binary p, apc_Config = IMap m,
                       apc_BootOrder = pc_BootOrder p\<rparr>]))"

definition convertKubeConfigToSidecarConfig :: "ctrl_lib \<Rightarrow> KidecarConfig \<Rightarrow> ApiSidecarConfig go" where
  "convertKubeConfigToSidecarConfig lib config =
     tryG (convertPlugins lib (kc_Plugins config) []) id
       (\<lambda>ps. Ret \<lparr>asc_Plugins = ps, asc_RestartPolicy = kc_RestartPolicy config,
                   asc_Resources = kc_Resources config,
                   asc_SidecarStartOrder = kc_SidecarStartOrder config\<rparr>)"

definition buildConfigYaml :: "ctrl_lib \<Rightarrow> KidecarConfig \<Rightarrow> string go" where
  "buildConfigYaml lib config =
     tryG (convertKubeConfigToSidecarConfig lib config)
       (Fmtv ''failed to convert kube config to sidecar config'')
       (\<lambda>api. tryG (lib_YamlMarshal lib api) (Fmtv ''failed to marshal kidecarConfig to YAML'')
                (\<lambda>y. Ret y))"

section \<open>Create, update, ensure\<close>

definition isConfigChanged :: "ctrl_lib \<Rightarrow> string \<Rightarrow> configmap \<Rightarrow> bool" where
  "isConfigChanged lib configmapYaml cm \<longleftrightarrow>
     gindex (cm_Annotations cm) ConfigmapHashKey \<noteq> Hash lib configmapYaml"

definition newConfigmap :: "ctrl_lib \<Rightarrow> string \<Rightarrow> string \<Rightarrow> SidecarConfig \<Rightarrow> configmap" where
  "newConfigmap lib namespace configYaml sc =
     (lib_SetOwnerReference lib sc
        \<lparr>cm_Name = KidecarConfigmapName, cm_Namespace = namespace,
         cm_Data = Some [(''config.yaml'', configYaml)], cm_Annotations = None, cm_Owner = None\<rparr>)
       \<lparr>cm_Annotations := Some [(ConfigmapHashKey, Hash lib configYaml)]\<rparr>"

definition createConfigmap ::
    "ctrl_lib \<Rightarrow> 'k ctrl_client \<Rightarrow> string \<Rightarrow> string \<Rightarrow> SidecarConfig \<Rightarrow> ('k, unit) act" where
  "createConfigmap lib cl namespace configYaml sc =
     catchM (cl_CreateConfigMap cl (newConfigmap lib namespace configYaml sc))
       (\<lambda>e. if IsAlreadyExists e then ret () else failM e)
       (\<lambda>_. ret ())"

definition updateClosure :: "ctrl_lib \<Rightarrow> 'k ctrl_client \<Rightarrow> string \<Rightarrow> string \<Rightarrow> ('k, unit) act" where
  "updateClosure lib cl namespace configYaml =
     tryM (cl_GetConfigMap cl namespace KidecarConfigmapName) id (\<lambda>cm.
     tryM (liftG (gset (cm_Data cm) ''config.yaml'' configYaml)) id (\<lambda>d.
     tryM (liftG (gset (cm_Annotations cm) ConfigmapHashKey (Hash lib configYaml))) id (\<lambda>a.
       cl_UpdateConfigMap cl (cm\<lparr>cm_Data := d, cm_Annotations := a\<rparr>))))"

definition updateConfigmap ::
    "ctrl_lib \<Rightarrow> 'k ctrl_client \<Rightarrow> string \<Rightarrow> string \<Rightarrow> ('k, unit) act" where
  "updateConfigmap lib cl namespace configYaml =
     cl_RetryOnConflict cl (updateClosure lib cl namespace configYaml)"

definition EnsureConfigmap ::
    "ctrl_lib \<Rightarrow> 'k ctrl_client \<Rightarrow> string \<Rightarrow> SidecarConfig \<Rightarrow> ('k, unit) act" where
  "EnsureConfigmap lib cl namespace sc =
     tryM (liftG (buildConfigYaml lib (spec_Kidecar (sc_Spec sc))))
       (Fmtv ''failed to marshal SidecarConfig to YAML'') (\<lambda>configYaml.
     catchM (cl_GetConfigMap cl namespace KidecarConfigmapName)
       (\<lambda>e. if IsNotFound e then createConfigmap lib cl namespace configYaml sc else failM e)
       (\<lambda>cm. if isConfigChanged lib configYaml cm then updateConfigmap lib cl namespace configYaml
              else ret ()))"

section \<open>Properties of the conversion\<close>

lemma convertPlugins_acc:
  "convertPlugins lib ps acc =
     (case convertPlugins lib ps [] of Ret qs \<Rightarrow> Ret (acc @ qs) | Fail e \<Rightarrow> Fail e | Panic p \<Rightarrow> Panic p)"
proof (induction ps arbitrary: acc)
  case Nil
  then show ?case by simp
next
  case (Cons p ps)
  show ?case
  proof (cases "convertRawToMap lib (pc_Config p)")
    case (Ret m)
    let ?q = "\<lparr>apc_Name = pc_Name p, apc_Binary = pc_Binary p, apc_Config = IMap m,
               apc_BootOrder = pc_BootOrder p\<rparr>"
    show ?thesis
      using Cons.IH [of "acc @ [?q]"] Cons.IH [of "[?q]"] Ret by (simp split: go.split)
  qed simp_all
qed

lemma convertPlugins_Ret:
  "convertPlugins lib ps [] = Ret qs \<Longrightarrow>
     list_all2 (\<lambda>p q. apc_Name q = pc_Name p \<and> apc_Binary q = pc_Binary p \<and>
       apc_BootOrder q = pc_BootOrder p \<and>
       (\<exists>m. convertRawToMap lib (pc_Config p) = Ret m \<and> apc_Config q = IMap m)) ps qs"
proof (induction ps arbitrary: qs)
  case Nil
  then show ?case by simp
next
  case (Cons p ps)
  then obtain m where m: "convertRawToMap lib (pc_Config p) = Ret m"
    by (auto simp: go_iff)
  let ?q = "\<lparr>apc_Name = pc_Name p, apc_Binary = pc_Binary p, apc_Config = IMap m,
             apc_BootOrder = pc_BootOrder p\<rparr>"
  from Cons.prems m obtain rs where rs: "convertPlugins lib ps [] = Ret rs" "qs = ?q # rs"
    using convertPlugins_acc [of lib ps "[?q]"] by (auto split: go.splits)
  show ?case using Cons.IH [OF rs(1)] m rs(2) by simp
qed

end
