(* ===== verification/KcMemApi.thy ===== *)
theory KcMemApi imports KcConfigMap begin

text \<open>
  The documented behaviour of the API server that the properties rely on, as predicates on the
  client parameter, and one concrete server held in memory that satisfies them. The witnesses run
  the model against that server.
\<close>

section \<open>What the server promises for ConfigMaps\<close>

definition cm_key :: "configmap \<Rightarrow> string \<times> string" where
  "cm_key cm = (cm_Namespace cm, cm_Name cm)"

text \<open>
  A read returns the stored object under its own name and changes nothing. A write that succeeds
  stores its object, a write that fails changes nothing, a create fails with AlreadyExists only
  if there is an object. \<open>store\<close> abstracts the server's state.
\<close>

definition configmap_api :: "'k ctrl_client \<Rightarrow> ('k \<Rightarrow> string \<times> string \<rightharpoonup> configmap) \<Rightarrow> bool" where
  "configmap_api cl store \<longleftrightarrow>
     (\<forall>ns n k r k'. cl_GetConfigMap cl ns n k = (r, k') \<longrightarrow>
        store k' = store k \<and>
        (\<forall>cm. r = Ret cm \<longrightarrow> store k (ns, n) = Some cm \<and> cm_key cm = (ns, n)) \<and>
        (\<forall>e. r = Fail e \<and> IsNotFound e \<longrightarrow> store k (ns, n) = None)) \<and>
     (\<forall>cm k r k'. cl_CreateConfigMap cl cm k = (r, k') \<longrightarrow>
        store k' = (if r = Ret () then (store k)(cm_key cm \<mapsto> cm) else store k) \<and>
        (\<forall>e. r = Fail e \<and> IsAlreadyExists e \<longrightarrow> store k (cm_key cm) \<noteq> None)) \<and>
     (\<forall>cm k r k'. cl_UpdateConfigMap cl cm k = (r, k') \<longrightarrow>
        store k' = (if r = Ret () then (store k)(cm_key cm \<mapsto> cm) else store k))"

lemmas configmap_api_GetD = configmap_api_def [THEN iffD1, THEN conjunct1, rule_format]
lemmas configmap_api_CreateD =
  configmap_api_def [THEN iffD1, THEN conjunct2, THEN conjunct1, rule_format]
lemmas configmap_api_UpdateD =
  configmap_api_def [THEN iffD1, THEN conjunct2, THEN conjunct2, rule_format]

lemma configmap_api_Get:
  assumes "configmap_api cl store" and "cl_GetConfigMap cl ns n k = (r, k')"
  shows "store k' = store k"
    and "r = Ret cm \<Longrightarrow> store k (ns, n) = Some cm"
    and "r = Ret cm \<Longrightarrow> cm_key cm = (ns, n)"
    and "r = Fail e \<Longrightarrow> IsNotFound e \<Longrightarrow> store k (ns, n) = None"
  using configmap_api_GetD [OF assms] by simp_all

lemma configmap_api_Create:
  assumes "configmap_api cl store" and "cl_CreateConfigMap cl cm k = (r, k')"
  shows "store k' = (if r = Ret () then (store k)(cm_key cm \<mapsto> cm) else store k)"
    and "r = Fail e \<Longrightarrow> IsAlreadyExists e \<Longrightarrow> store k (cm_key cm) \<noteq> None"
  using configmap_api_CreateD [OF assms] by simp_all

lemma configmap_api_Update:
  assumes "configmap_api cl store" and "cl_UpdateConfigMap cl cm k = (r, k')"
  shows "store k' = (if r = Ret () then (store k)(cm_key cm \<mapsto> cm) else store k)"
  using configmap_api_UpdateD [OF assms] by simp

text \<open>\<^verbatim>\<open>controllerutil.SetOwnerReference\<close> touches the owner references only.\<close>

definition owner_ok :: "ctrl_lib \<Rightarrow> bool" where
  "owner_ok lib \<longleftrightarrow> (\<forall>sc cm. \<exists>x. lib_SetOwnerReference lib sc cm = cm\<lparr>cm_Owner := x\<rparr>)"

lemma newConfigmap_fields:
  assumes "owner_ok lib"
  shows "cm_key (newConfigmap lib ns y sc) = (ns, KidecarConfigmapName)"
    and "cm_Data (newConfigmap lib ns y sc) = Some [(''config.yaml'', y)]"
    and "cm_Annotations (newConfigmap lib ns y sc) = Some [(ConfigmapHashKey, Hash lib y)]"
proof -
  obtain x where "lib_SetOwnerReference lib sc
        \<lparr>cm_Name = KidecarConfigmapName, cm_Namespace = ns,
         cm_Data = Some [(''config.yaml'', y)], cm_Annotations = None, cm_Owner = None\<rparr> =
        \<lparr>cm_Name = KidecarConfigmapName, cm_Namespace = ns,
         cm_Data = Some [(''config.yaml'', y)], cm_Annotations = None, cm_Owner = None\<rparr>
          \<lparr>cm_Owner := x\<rparr>"
    using assms unfolding owner_ok_def by blast
  then show "cm_key (newConfigmap lib ns y sc) = (ns, KidecarConfigmapName)"
    and "cm_Data (newConfigmap lib ns y sc) = Some [(''config.yaml'', y)]"
    and "cm_Annotations (newConfigmap lib ns y sc) = Some [(ConfigmapHashKey, Hash lib y)]"
    by (simp_all add: newConfigmap_def cm_key_def)
qed

section \<open>A server in memory\<close>

record apiserver =
  srv_configs :: "SidecarConfig list"
  srv_namespaces :: "(string \<times> labels) list"
  srv_accounts :: "(string \<times> string) list"
  srv_configmaps :: "((string \<times> string) \<times> configmap) list"
  srv_pods :: "pod list"

definition find_or :: "gerr \<Rightarrow> 'a option \<Rightarrow> 'a go" where
  "find_or e r = (case r of None \<Rightarrow> Fail e | Some x \<Rightarrow> Ret x)"

definition named :: "string \<times> string \<Rightarrow> configmap \<Rightarrow> configmap" where
  "named key cm = cm\<lparr>cm_Namespace := fst key, cm_Name := snd key\<rparr>"

definition mem_store :: "apiserver \<Rightarrow> string \<times> string \<rightharpoonup> configmap" where
  "mem_store k key = map_option (named key) (map_of (srv_configmaps k) key)"

definition mem_client :: "apiserver ctrl_client" where
  "mem_client =
     \<lparr>cl_ListSidecarConfigs = (\<lambda>k. (Ret (srv_configs k), k)),
      cl_ListPods = (\<lambda>ns sel k.
        (Ret (filter (\<lambda>p. (ns = None \<or> ns = Some (pod_Namespace p)) \<and>
                (case sel of None \<Rightarrow> True | Some m \<Rightarrow> m (pod_Labels p))) (srv_pods k)), k)),
      cl_GetNamespace = (\<lambda>n k. (find_or (ApiStatus NotFound) (map_of (srv_namespaces k) n), k)),
      cl_GetServiceAccount = (\<lambda>ns n k.
        (if (ns, n) \<in> set (srv_accounts k) then Ret () else Fail (ApiStatus NotFound), k)),
      cl_GetConfigMap = (\<lambda>ns n k. (find_or (ApiStatus NotFound) (mem_store k (ns, n)), k)),
      cl_CreateConfigMap = (\<lambda>cm k.
        if mem_store k (cm_key cm) \<noteq> None then (Fail (ApiStatus AlreadyExists), k)
        else (Ret (), k\<lparr>srv_configmaps := AList.update (cm_key cm) cm (srv_configmaps k)\<rparr>)),
      cl_UpdateConfigMap = (\<lambda>cm k.
        if mem_store k (cm_key cm) = None then (Fail (ApiStatus NotFound), k)
        else (Ret (), k\<lparr>srv_configmaps := AList.update (cm_key cm) cm (srv_configmaps k)\<rparr>)),
      cl_GetSidecarConfig = (\<lambda>ns n k.
        (find_or (ApiStatus NotFound)
           (find (\<lambda>c. sc_Name c = n \<and> sc_Namespace c = ns) (srv_configs k)), k)),
      cl_UpdateStatus = (\<lambda>c k.
        (Ret (), k\<lparr>srv_configs := map (\<lambda>d. if sc_Name d = sc_Name c \<and> sc_Namespace d = sc_Namespace c
                                          then d\<lparr>sc_Status := sc_Status c\<rparr> else d) (srv_configs k)\<rparr>)),
      cl_RetryOnConflict = attempts IsConflict 4\<rparr>"

definition mem_lib :: ctrl_lib where
  "mem_lib =
     \<lparr>lib_LabelSelectorAsSelector = (\<lambda>sel. Ret (\<lambda>ls.
        (case sel of None \<Rightarrow> False
         | Some s \<Rightarrow> list_all (\<lambda>(k, v). glookup ls k = Some v) (ls_MatchLabels s)))),
      lib_JsonUnmarshal = (\<lambda>bs. Ret (Some [(bs, JNull)])),
      lib_YamlMarshal = (\<lambda>c. Ret (concat (map apc_Name (asc_Plugins c)))),
      lib_Sha256 = (\<lambda>s. s @ ''#''),
      lib_SetOwnerReference = (\<lambda>sc cm. cm\<lparr>cm_Owner := Some (sc_Name sc)\<rparr>)\<rparr>"

text \<open>The calls and functions one by one, so that a witness evaluates without unfolding the records.\<close>

named_theorems demo_eval \<open>evaluation of a run against the server in memory\<close>

lemma mem_client_calls [demo_eval]:
  "cl_ListSidecarConfigs mem_client k = (Ret (srv_configs k), k)"
  "cl_ListPods mem_client ns sel k =
     (Ret (filter (\<lambda>p. (ns = None \<or> ns = Some (pod_Namespace p)) \<and>
        (case sel of None \<Rightarrow> True | Some m \<Rightarrow> m (pod_Labels p))) (srv_pods k)), k)"
  "cl_GetNamespace mem_client x k = (find_or (ApiStatus NotFound) (map_of (srv_namespaces k) x), k)"
  "cl_GetServiceAccount mem_client x n k =
     (if (x, n) \<in> set (srv_accounts k) then Ret () else Fail (ApiStatus NotFound), k)"
  "cl_GetConfigMap mem_client x n k = (find_or (ApiStatus NotFound) (mem_store k (x, n)), k)"
  "cl_CreateConfigMap mem_client cm k =
     (if mem_store k (cm_key cm) \<noteq> None then (Fail (ApiStatus AlreadyExists), k)
      else (Ret (), k\<lparr>srv_configmaps := AList.update (cm_key cm) cm (srv_configmaps k)\<rparr>))"
  "cl_UpdateConfigMap mem_client cm k =
     (if mem_store k (cm_key cm) = None then (Fail (ApiStatus NotFound), k)
      else (Ret (), k\<lparr>srv_configmaps := AList.update (cm_key cm) cm (srv_configmaps k)\<rparr>))"
  "cl_GetSidecarConfig mem_client x n k =
     (find_or (ApiStatus NotFound)
        (find (\<lambda>c. sc_Name c = n \<and> sc_Namespace c = x) (srv_configs k)), k)"
  "cl_UpdateStatus mem_client c k =
     (Ret (), k\<lparr>srv_configs := map (\<lambda>d. if sc_Name d = sc_Name c \<and> sc_Namespace d = sc_Namespace c
                                      then d\<lparr>sc_Status := sc_Status c\<rparr> else d) (srv_configs k)\<rparr>)"
  "cl_RetryOnConflict mem_client f k = attempts IsConflict 4 f k"
  by (simp_all add: mem_client_def)

lemma mem_lib_functions [demo_eval]:
  "lib_LabelSelectorAsSelector mem_lib sel = Ret (\<lambda>ls.
     (case sel of None \<Rightarrow> False
      | Some s \<Rightarrow> list_all (\<lambda>(k, v). glookup ls k = Some v) (ls_MatchLabels s)))"
  "lib_JsonUnmarshal mem_lib bs = Ret (Some [(bs, JNull)])"
  "lib_YamlMarshal mem_lib c = Ret (concat (map apc_Name (asc_Plugins c)))"
  "lib_Sha256 mem_lib s = s @ ''#''"
  "lib_SetOwnerReference mem_lib sc cm = cm\<lparr>cm_Owner := Some (sc_Name sc)\<rparr>"
  by (simp_all add: mem_lib_def)

lemmas [demo_eval] = find_or_def tryM_def catchM_def Hash_def IsNotFound_def IsAlreadyExists_def
  IsConflict_def gindex_def

lemma attempts_4 [demo_eval]: "attempts r 4 = attempts r (Suc (Suc (Suc (Suc 0))))"
  by (simp add: eval_nat_numeral)

lemma named_key [simp]: "named (cm_key cm) cm = cm"
  by (simp add: named_def cm_key_def)

lemma cm_key_named [simp]: "cm_key (named key cm) = key"
  by (simp add: named_def cm_key_def)

lemma mem_store_update [simp]:
  "mem_store (k\<lparr>srv_configmaps := AList.update (cm_key cm) cm (srv_configmaps k)\<rparr>) =
     (mem_store k)(cm_key cm \<mapsto> cm)"
  by (rule ext) (simp add: mem_store_def update_conv')

lemma mem_client_configmap_api: "configmap_api mem_client mem_store"
  unfolding configmap_api_def
  by (intro conjI allI impI)
    (auto simp: mem_client_def find_or_def mem_store_def IsNotFound_def IsAlreadyExists_def
       split: option.splits if_splits)

lemma mem_client_retries: "retries IsConflict (cl_RetryOnConflict mem_client)"
  by (simp add: mem_client_def retries_attempts)

lemma mem_lib_owner_ok: "owner_ok mem_lib"
  by (auto simp: owner_ok_def mem_lib_def)

section \<open>Inputs of the witnesses\<close>

definition demo_container :: container where
  "demo_container =
     \<lparr>c_Name = ''game'', c_Image = ''nginx'', c_Env = [], c_Ports = [],
      c_VolumeMounts =
        [\<lparr>vm_Name = ''data'', vm_MountPath = ''/data'', vm_rest = []\<rparr>,
         \<lparr>vm_Name = ''token'', vm_MountPath = ''/var/run/secrets/kubernetes.io/serviceaccount'',
          vm_rest = []\<rparr>],
      c_RestartPolicy = None, c_rest = []\<rparr>"

definition demo_pod :: pod where
  "demo_pod =
     \<lparr>pod_Name = ''p'', pod_Namespace = ''ns'', pod_Labels = Some [(''app'', ''game'')],
      pod_Annotations = None, pod_Phase = ''Running'', ps_ServiceAccountName = [],
      ps_Containers = [demo_container], ps_InitContainers = [], ps_Volumes = [],
      ps_ShareProcessNamespace = None, pod_rest = []\<rparr>"

definition demo_selector :: label_selector where
  "demo_selector = \<lparr>ls_MatchLabels = [(''app'', ''game'')], ls_MatchExpressions = []\<rparr>"

definition demo_inject :: InjectConfig where
  "demo_inject =
     \<lparr>inj_Selector = Some demo_selector, inj_InjectKidecar = True, inj_UseKubeNativeSidecar = False,
      inj_Namespace = ''ns'', inj_NamespaceSelector = None, inj_InitContainers = [],
      inj_Containers = [], inj_Volumes = [],
      inj_VolumeMounts = [\<lparr>vm_Name = ''data'', vm_MountPath = ''/shared'', vm_rest = []\<rparr>],
      inj_ForceInjectServiceAccount = None, inj_ServiceAccountName = ''sa'',
      inj_ShareProcessNamespace = Some True\<rparr>"

definition demo_config :: SidecarConfig where
  "demo_config =
     \<lparr>sc_Name = ''scc'', sc_Namespace = [], sc_Annotations = Some [(''team'', ''a'')],
      sc_Spec =
        \<lparr>spec_Injection = demo_inject,
         spec_Kidecar =
           \<lparr>kc_Plugins = [\<lparr>pc_Name = ''hot_update'', pc_Config = Some ''x'', pc_Binary = None,
                          pc_BootOrder = 1\<rparr>],
            kc_RestartPolicy = ''Always'', kc_Resources = None, kc_SidecarStartOrder = ''Before''\<rparr>\<rparr>,
      sc_Status =
        \<lparr>st_MatchedPods = 3, st_UpdatedPods = 0, st_ReadyPods = 0, st_UpdatedReadyPods = 0\<rparr>\<rparr>"

definition demo_server :: apiserver where
  "demo_server =
     \<lparr>srv_configs = [demo_config], srv_namespaces = [(''ns'', None)],
      srv_accounts = [(''ns'', ''sa'')], srv_configmaps = [], srv_pods = [demo_pod]\<rparr>"

text \<open>The same server with a ConfigMap that somebody made by hand.\<close>

definition demo_bare_configmap :: configmap where
  "demo_bare_configmap =
     \<lparr>cm_Name = KidecarConfigmapName, cm_Namespace = ''ns'', cm_Data = Some [],
      cm_Annotations = None, cm_Owner = None\<rparr>"

definition demo_server_bare :: apiserver where
  "demo_server_bare =
     demo_server\<lparr>srv_configmaps := [((''ns'', KidecarConfigmapName), demo_bare_configmap)]\<rparr>"

lemmas demo_defs = demo_container_def demo_pod_def demo_selector_def demo_inject_def demo_config_def
  demo_server_def demo_bare_configmap_def demo_server_bare_def

end
