(* ===== verification/KcInjector.thy ===== *)
theory KcInjector imports KcMemApi begin

text \<open>
  pkg/injector/pod.go and pkg/webhook/pod_inject.go: the mutating webhook that adds the sidecar to
  a new pod. The pod is changed in place, so an action runs on the pod and the API server's state;
  what an error return leaves behind in the pod is part of the model.
\<close>

section \<open>Constants\<close>

definition InjectAnnotationKey :: string where
  "InjectAnnotationKey = ''sidecarconfig.kidecar.io/inject''"

definition EnvKidecarImage :: string where
  "EnvKidecarImage = ''KIDECAR_IMAGE''"

definition DefaultKidecarImage :: string where
  "DefaultKidecarImage = ''113745426946.dkr.ecr.us-east-1.amazonaws.com/xuetaotest/kidecar:v5''"

definition serviceAccountTokenMountPath :: string where
  "serviceAccountTokenMountPath = ''/var/run/secrets/kubernetes.io/serviceaccount''"

definition ContainerRestartPolicyAlways :: string where
  "ContainerRestartPolicyAlways = ''Always''"

section \<open>Which SidecarConfig applies\<close>

definition MatchLabelSelector :: "ctrl_lib \<Rightarrow> label_selector option \<Rightarrow> labels \<Rightarrow> bool go" where
  "MatchLabelSelector lib sel podLabels =
     (case sel of
        None \<Rightarrow> Ret True
      | Some _ \<Rightarrow> tryG (lib_LabelSelectorAsSelector lib sel) id (\<lambda>s. Ret (s podLabels)))"

definition MatchNamespace ::
    "ctrl_lib \<Rightarrow> 'k ctrl_client \<Rightarrow> string \<Rightarrow> label_selector option \<Rightarrow> ('k, bool) act" where
  "MatchNamespace lib cl namespace sel =
     (case sel of
        None \<Rightarrow> ret True
      | Some _ \<Rightarrow>
          tryM (liftG (lib_LabelSelectorAsSelector lib sel)) id (\<lambda>s.
          tryM (cl_GetNamespace cl namespace) (Fmtv (''failed to get namespace '' @ namespace))
            (\<lambda>nsLabels. ret (s nsLabels))))"

definition Match ::
    "ctrl_lib \<Rightarrow> 'k ctrl_client \<Rightarrow> pod \<Rightarrow> SidecarConfigSpec \<Rightarrow> ('k, bool) act" where
  "Match lib cl p spec =
     tryM (case inj_NamespaceSelector (spec_Injection spec) of
             None \<Rightarrow> ret True
           | Some sel \<Rightarrow> MatchNamespace lib cl (pod_Namespace p) (Some sel)) id (\<lambda>m1.
     if \<not> m1 then ret False else
     tryM (case inj_Selector (spec_Injection spec) of
             None \<Rightarrow> ret True
           | Some sel \<Rightarrow> liftG (MatchLabelSelector lib (Some sel) (pod_Labels p))) id (\<lambda>m2.
     if \<not> m2 then ret False else ret True))"

fun firstMatch ::
    "ctrl_lib \<Rightarrow> 'k ctrl_client \<Rightarrow> pod \<Rightarrow> SidecarConfig list \<Rightarrow> ('k, SidecarConfig option) act" where
  "firstMatch lib cl p [] = ret None"
| "firstMatch lib cl p (c # cs) =
     tryM (Match lib cl p (sc_Spec c)) (Fmtv ''failed to match SidecarConfig'') (\<lambda>matched.
     if matched then ret (Some c) else firstMatch lib cl p cs)"

definition GetSidecarConfigOfPod ::
    "ctrl_lib \<Rightarrow> 'k ctrl_client \<Rightarrow> pod \<Rightarrow> ('k, SidecarConfig option) act" where
  "GetSidecarConfigOfPod lib cl p =
     tryM (cl_ListSidecarConfigs cl) (Fmtv ''failed to list SidecarConfig'') (firstMatch lib cl p)"

section \<open>Changes to the pod\<close>

fun first_index :: "('a \<Rightarrow> bool) \<Rightarrow> 'a list \<Rightarrow> nat option" where
  "first_index P [] = None"
| "first_index P (x # xs) = (if P x then Some 0 else map_option Suc (first_index P xs))"

text \<open>The inner loop: splice the first mount on the token path out of the container's slice.\<close>

definition strip_token_mount :: "container \<Rightarrow> container" where
  "strip_token_mount c =
     (case first_index (\<lambda>m. vm_MountPath m = serviceAccountTokenMountPath) (c_VolumeMounts c) of
        None \<Rightarrow> c
      | Some j \<Rightarrow>
          (if length (c_VolumeMounts c) = 1 then c\<lparr>c_VolumeMounts := []\<rparr>
           else c\<lparr>c_VolumeMounts := take j (c_VolumeMounts c) @ drop (Suc j) (c_VolumeMounts c)\<rparr>))"

definition setServiceAccount :: "string \<Rightarrow> bool \<Rightarrow> pod \<Rightarrow> pod" where
  "setServiceAccount serviceAccountName force p =
     (let p1 = (if serviceAccountName \<noteq> [] \<and>
                   (ps_ServiceAccountName p = ''default'' \<or> ps_ServiceAccountName p = [])
                then p\<lparr>ps_ServiceAccountName := serviceAccountName\<rparr> else p);
          p2 = (if force then p1\<lparr>ps_ServiceAccountName := serviceAccountName\<rparr> else p1)
      in p2\<lparr>ps_Containers := map strip_token_mount (ps_Containers p2)\<rparr>)"

text \<open>Actions on the pod, on the API server, and on the API server with the pod at hand.\<close>

definition on_pod :: "(pod \<Rightarrow> pod) \<Rightarrow> (pod \<times> 'k, unit) act" where
  "on_pod f = modM (\<lambda>(p, k). (f p, k))"

definition on_api :: "(pod \<Rightarrow> ('k, 'a) act) \<Rightarrow> (pod \<times> 'k, 'a) act" where
  "on_api m s = (case m (fst s) (snd s) of (r, k') \<Rightarrow> (r, (fst s, k')))"

definition injectServiceAccount ::
    "'k ctrl_client \<Rightarrow> string \<Rightarrow> bool \<Rightarrow> (pod \<times> 'k, unit) act" where
  "injectServiceAccount cl serviceAccountName force =
     tryM (if serviceAccountName \<noteq> []
           then tryM (on_api (\<lambda>p. cl_GetServiceAccount cl (pod_Namespace p) serviceAccountName))
                  (Fmtv (''failed to get service account '' @ serviceAccountName)) (\<lambda>_. ret ())
           else ret ()) id
       (\<lambda>_. on_pod (setServiceAccount serviceAccountName force))"

definition addContainers :: "container list \<Rightarrow> pod \<Rightarrow> pod" where
  "addContainers cs p = (if length cs = 0 then p else p\<lparr>ps_Containers := cs @ ps_Containers p\<rparr>)"

definition addInitContainers :: "container list \<Rightarrow> pod \<Rightarrow> pod" where
  "addInitContainers cs p =
     (if length cs = 0 then p else p\<lparr>ps_InitContainers := cs @ ps_InitContainers p\<rparr>)"

definition addVolumes :: "volume list \<Rightarrow> pod \<Rightarrow> pod" where
  "addVolumes vs p = (if length vs = 0 then p else p\<lparr>ps_Volumes := vs @ ps_Volumes p\<rparr>)"

definition shareProcessNamespace :: "bool \<Rightarrow> pod \<Rightarrow> pod" where
  "shareProcessNamespace b p = (if b then p\<lparr>ps_ShareProcessNamespace := Some True\<rparr> else p)"

text \<open>
  \<^verbatim>\<open>for _, container := range xs { container.VolumeMounts = ... }\<close>: the loop variable is a copy of
  the element. The loop runs on the pair of the slice and the variable; each round loads the
  variable from the slice and the assignment goes to the variable.
\<close>

definition mount_round ::
    "volume_mount list \<Rightarrow> nat \<Rightarrow> container list \<times> container option \<Rightarrow> container list \<times> container option"
  where
  "mount_round vms i st =
     (case st of (xs, _) \<Rightarrow>
       (let var = xs ! i in (xs, Some (var\<lparr>c_VolumeMounts := vms @ c_VolumeMounts var\<rparr>))))"

definition mount_loop :: "volume_mount list \<Rightarrow> container list \<Rightarrow> container list" where
  "mount_loop vms xs = fst (fold (mount_round vms) [0..<length xs] (xs, None))"

definition addVolumeMounts :: "volume_mount list \<Rightarrow> pod \<Rightarrow> pod" where
  "addVolumeMounts vms p =
     (let p1 = p\<lparr>ps_Containers := mount_loop vms (ps_Containers p)\<rparr>
      in p1\<lparr>ps_InitContainers := mount_loop vms (ps_InitContainers p1)\<rparr>)"

definition addAnnotations :: "(string, string) gomap \<Rightarrow> pod \<Rightarrow> pod" where
  "addAnnotations annotations p =
     (let m0 = grange (if pod_Annotations p = None then gmake else pod_Annotations p);
          m1 = copy_into (grange annotations) m0
      in p\<lparr>pod_Annotations := Some (AList.update InjectAnnotationKey ''true'' m1)\<rparr>)"

definition getKidecarImage :: "environment \<Rightarrow> string" where
  "getKidecarImage env =
     (let image = Getenv env EnvKidecarImage in if image = [] then DefaultKidecarImage else image)"

definition kidecarContainer :: "environment \<Rightarrow> bool \<Rightarrow> container" where
  "kidecarContainer env native =
     \<lparr>c_Name = ''kidecar'',
      c_Image = getKidecarImage env,
      c_Env =
        [\<lparr>ev_Name = ''POD_NAME'', ev_Value = [], ev_FieldPath = Some ''metadata.name''\<rparr>,
         \<lparr>ev_Name = ''POD_NAMESPACE'', ev_Value = [], ev_FieldPath = Some ''metadata.namespace''\<rparr>,
         \<lparr>ev_Name = ''PROCESS_NAME'', ev_Value = ''nginx: master process nginx'', ev_FieldPath = None\<rparr>],
      c_Ports = [(''hot-update-port'', 5000)],
      c_VolumeMounts =
        [\<lparr>vm_Name = KidecarConfigmapName, vm_MountPath = ''/opt/kidecar'', vm_rest = []\<rparr>],
      c_RestartPolicy = (if native then Some ContainerRestartPolicyAlways else None),
      c_rest = []\<rparr>"

definition kidecarVolume :: volume where
  "kidecarVolume =
     \<lparr>v_Name = KidecarConfigmapName, v_ConfigMap = Some KidecarConfigmapName, v_rest = []\<rparr>"

definition addKidecarContainer :: "environment \<Rightarrow> SidecarConfig \<Rightarrow> pod \<Rightarrow> pod" where
  "addKidecarContainer env sc p =
     (let native = inj_UseKubeNativeSidecar (spec_Injection (sc_Spec sc));
          k = kidecarContainer env native;
          p1 = (if native then p\<lparr>ps_InitContainers := ps_InitContainers p @ [k]\<rparr>
                else p\<lparr>ps_Containers := ps_Containers p @ [k]\<rparr>)
      in p1\<lparr>ps_Volumes := ps_Volumes p1 @ [kidecarVolume]\<rparr>)"

section \<open>The injection\<close>

text \<open>The closure that records the match: a fresh read, but the count from the listed object.\<close>

definition bumpMatchedPods :: "'k ctrl_client \<Rightarrow> SidecarConfig \<Rightarrow> ('k, unit) act" where
  "bumpMatchedPods cl config =
     tryM (cl_GetSidecarConfig cl (sc_Namespace config) (sc_Name config)) id (\<lambda>originConfig.
       cl_UpdateStatus cl (originConfig\<lparr>sc_Status := (sc_Status originConfig)
         \<lparr>st_MatchedPods := st_MatchedPods (sc_Status config) + 1\<rparr>\<rparr>))"

definition deref_bool :: "bool option \<Rightarrow> bool" where
  "deref_bool b \<longleftrightarrow> b \<noteq> None \<and> the b"

definition injectConfigured ::
    "ctrl_lib \<Rightarrow> environment \<Rightarrow> 'k ctrl_client \<Rightarrow> SidecarConfig \<Rightarrow> (pod \<times> 'k, unit) act" where
  "injectConfigured lib env cl config =
     (let ic = spec_Injection (sc_Spec config) in
     tryM (injectServiceAccount cl (inj_ServiceAccountName ic)
             (deref_bool (inj_ForceInjectServiceAccount ic))) id (\<lambda>_.
     tryM (if inj_InjectKidecar ic
           then tryM (on_pod (addKidecarContainer env config)) id (\<lambda>_.
                  on_api (\<lambda>p. EnsureConfigmap lib cl (pod_Namespace p) config))
           else tryM (on_pod (addContainers (inj_Containers ic))) id (\<lambda>_.
                  on_pod (addInitContainers (inj_InitContainers ic)))) id (\<lambda>_.
     tryM (on_pod (addVolumes (inj_Volumes ic))) id (\<lambda>_.
     tryM (on_pod (addVolumeMounts (inj_VolumeMounts ic))) id (\<lambda>_.
     tryM (on_pod (shareProcessNamespace (deref_bool (inj_ShareProcessNamespace ic)))) id (\<lambda>_.
     tryM (on_pod (addAnnotations (sc_Annotations config))) id (\<lambda>_.
     catchM (on_api (\<lambda>_. cl_RetryOnConflict cl (bumpMatchedPods cl config)))
       (\<lambda>e. ret ()) (\<lambda>_. ret ()))))))))"

definition annotated :: "pod \<Rightarrow> bool" where
  "annotated p \<longleftrightarrow> glookup (pod_Annotations p) InjectAnnotationKey \<noteq> None"

definition InjectPod :: "ctrl_lib \<Rightarrow> environment \<Rightarrow> 'k ctrl_client \<Rightarrow> (pod \<times> 'k, unit) act" where
  "InjectPod lib env cl =
     tryM (on_api (GetSidecarConfigOfPod lib cl)) id (\<lambda>config.
       case config of
         None \<Rightarrow> ret ()
       | Some c \<Rightarrow> (\<lambda>s. if annotated (fst s) then ret () s else injectConfigured lib env cl c s))"

section \<open>The webhook\<close>

datatype runtime_object = PodObject pod | OtherObject string

record 'k PodInjector =
  pi_Client :: "'k ctrl_client option" \<comment> \<open>nil until the webhook is set up\<close>

definition PodInjector_Default ::
    "ctrl_lib \<Rightarrow> environment \<Rightarrow> 'k PodInjector \<Rightarrow> (runtime_object \<times> 'k, unit) act" where
  "PodInjector_Default lib env a s =
     (case fst s of
        OtherObject ty \<Rightarrow> (Fail (Errorf (''expected a Pod but got a '' @ ty)), s)
      | PodObject p \<Rightarrow>
          (case pi_Client a of
             None \<Rightarrow> (Panic ''nil pointer dereference: Client'', s)
           | Some cl \<Rightarrow>
               (case tryM (InjectPod lib env cl) (Wrapw ''failed to inject pod'') ret (p, snd s) of
                  (r, (p', k')) \<Rightarrow> (r, (PodObject p', k')))))"

end
