(* ===== verification/KcConfigMapProps.thy ===== *)
theory KcConfigMapProps imports KcMemApi begin

text \<open>
  What \<open>EnsureConfigmap\<close> leaves on the server, that it settles after one run, and where it
  crashes.
\<close>

text \<open>A ConfigMap whose hash annotation is the hash of its configuration.\<close>

definition cm_consistent :: "ctrl_lib \<Rightarrow> configmap \<Rightarrow> bool" where
  "cm_consistent lib cm \<longleftrightarrow>
     gindex (cm_Annotations cm) ConfigmapHashKey = Hash lib (gindex (cm_Data cm) ''config.yaml'')"

definition carries :: "ctrl_lib \<Rightarrow> string \<Rightarrow> configmap \<Rightarrow> bool" where
  "carries lib y cm \<longleftrightarrow>
     gindex (cm_Data cm) ''config.yaml'' = y \<and>
     gindex (cm_Annotations cm) ConfigmapHashKey = Hash lib y"

lemma carries_consistent: "carries lib y cm \<Longrightarrow> cm_consistent lib cm"
  by (simp add: carries_def cm_consistent_def)

lemma isConfigChanged_carries: "carries lib y cm \<Longrightarrow> \<not> isConfigChanged lib y cm"
  by (simp add: carries_def isConfigChanged_def)

lemma newConfigmap_carries: "owner_ok lib \<Longrightarrow> carries lib y (newConfigmap lib ns y sc)"
  by (simp add: carries_def newConfigmap_fields gindex_def)

lemma gindex_update [simp]: "gindex (Some (AList.update k v es)) k = v"
  by (simp add: gindex_def update_conv')

lemma updateClosure_outcome:
  assumes api: "configmap_api cl store" and run: "updateClosure lib cl ns y k = (r, k')"
  shows "r \<noteq> Ret () \<Longrightarrow> store k' = store k"
    and "r = Ret () \<Longrightarrow>
      \<exists>cm. store k' = (store k)((ns, KidecarConfigmapName) \<mapsto> cm) \<and> carries lib y cm"
proof -
  let ?n = KidecarConfigmapName
  obtain g k1 where get: "cl_GetConfigMap cl ns ?n k = (g, k1)" by (cases "cl_GetConfigMap cl ns ?n k")
  note st = configmap_api_Get(1) [OF api get]
  have wr: "store k' = (if r = Ret () then (store k)((ns, ?n) \<mapsto> cm') else store k)"
    if "g = Ret cm" "cm' = cm\<lparr>cm_Data := d, cm_Annotations := a\<rparr>"
      "cl_UpdateConfigMap cl cm' k1 = (r, k')" for cm cm' d a
    using configmap_api_Update [OF api that(3)] configmap_api_Get(3) [OF api get that(1)] that(2) st
    by (simp add: cm_key_def)
  show "r \<noteq> Ret () \<Longrightarrow> store k' = store k"
    using run get st wr unfolding updateClosure_def
    by (cases r) (auto simp: go_iff gset_def tryM_def split: go.splits prod.splits option.splits)
  assume r: "r = Ret ()"
  then show "\<exists>cm. store k' = (store k)((ns, ?n) \<mapsto> cm) \<and> carries lib y cm"
    using run get unfolding updateClosure_def
    by (auto simp: go_iff carries_def dest!: wr [OF _ refl])
qed

lemma updateConfigmap_outcome:
  assumes api: "configmap_api cl store" and R: "retries IsConflict (cl_RetryOnConflict cl)"
    and run: "updateConfigmap lib cl ns y k = (r, k')"
  shows "r \<noteq> Ret () \<Longrightarrow> store k' = store k"
    and "r = Ret () \<Longrightarrow>
      \<exists>cm. store k' = (store k)((ns, KidecarConfigmapName) \<mapsto> cm) \<and> carries lib y cm"
proof -
  obtain u where "store u = store k" and "updateClosure lib cl ns y u = (r, k')"
    using retries_last [OF R run [unfolded updateConfigmap_def], of store]
      updateClosure_outcome(1) [OF api] by blast
  then show "r \<noteq> Ret () \<Longrightarrow> store k' = store k"
    and "r = Ret () \<Longrightarrow>
      \<exists>cm. store k' = (store k)((ns, KidecarConfigmapName) \<mapsto> cm) \<and> carries lib y cm"
    using updateClosure_outcome [OF api] by metis+
qed

lemma createConfigmap_outcome:
  assumes api: "configmap_api cl store" and lib: "owner_ok lib"
    and none: "store k (ns, KidecarConfigmapName) = None"
    and run: "createConfigmap lib cl ns y sc k = (r, k')"
  shows "r \<noteq> Ret () \<Longrightarrow> store k' = store k"
    and "r = Ret () \<Longrightarrow>
      store k' = (store k)((ns, KidecarConfigmapName) \<mapsto> newConfigmap lib ns y sc)"
proof -
  obtain g k1 where cr: "cl_CreateConfigMap cl (newConfigmap lib ns y sc) k = (g, k1)"
    by (cases "cl_CreateConfigMap cl (newConfigmap lib ns y sc) k")
  note st = configmap_api_Create [OF api cr, unfolded newConfigmap_fields(1) [OF lib]]
  have "k' = k1 \<and> (r = Ret () \<longleftrightarrow> g = Ret ())"
    using run cr st(2) none unfolding createConfigmap_def
    by (cases g) (auto simp: catchM_def split: if_splits)
  with st(1) show "r \<noteq> Ret () \<Longrightarrow> store k' = store k"
    and "r = Ret () \<Longrightarrow>
      store k' = (store k)((ns, KidecarConfigmapName) \<mapsto> newConfigmap lib ns y sc)"
    by simp_all
qed

text \<open>
  What one run does to the server, whatever it returns: nothing, and then success means that the
  object in place fits, or it wrote exactly one object.
\<close>

definition ensure_effect :: "ctrl_lib \<Rightarrow> string \<Rightarrow> string \<Rightarrow>
    (string \<times> string \<rightharpoonup> configmap) \<Rightarrow> unit go \<Rightarrow> (string \<times> string \<rightharpoonup> configmap) \<Rightarrow> bool" where
  "ensure_effect lib y ns st r st' \<longleftrightarrow>
     st' = st \<and> (r = Ret () \<longrightarrow>
       (\<exists>cm. st (ns, KidecarConfigmapName) = Some cm \<and> \<not> isConfigChanged lib y cm)) \<or>
     r = Ret () \<and> (\<exists>cm. carries lib y cm \<and> st' = st((ns, KidecarConfigmapName) \<mapsto> cm))"

lemma ensure_present:
  assumes api: "configmap_api cl store" and R: "retries IsConflict (cl_RetryOnConflict cl)"
    and st: "store k (ns, KidecarConfigmapName) = Some cm"
    and run: "(if isConfigChanged lib y cm then updateConfigmap lib cl ns y else ret ()) k = (r, k')"
  shows "ensure_effect lib y ns (store k) r (store k')"
proof (cases "isConfigChanged lib y cm")
  case True
  with run have "updateConfigmap lib cl ns y k = (r, k')" by simp
  from updateConfigmap_outcome [OF api R this] show ?thesis
    by (cases "r = Ret ()") (auto simp: ensure_effect_def)
next
  case False
  with run st show ?thesis by (simp add: ensure_effect_def)
qed

lemma ensure_absent:
  assumes api: "configmap_api cl store" and lib: "owner_ok lib"
    and st: "IsNotFound e \<Longrightarrow> store k (ns, KidecarConfigmapName) = None"
    and run: "(if IsNotFound e then createConfigmap lib cl ns y sc else failM e) k = (r, k')"
  shows "ensure_effect lib y ns (store k) r (store k')"
proof (cases "IsNotFound e")
  case True
  with run have "createConfigmap lib cl ns y sc k = (r, k')" by simp
  note C = createConfigmap_outcome [OF api lib st [OF True] this]
  show ?thesis
  proof (cases "r = Ret ()")
    case True
    with C(2) show ?thesis
      unfolding ensure_effect_def using newConfigmap_carries [OF lib] by blast
  next
    case False
    with C(1) show ?thesis by (simp add: ensure_effect_def)
  qed
next
  case False
  with run show ?thesis by (auto simp: ensure_effect_def)
qed

lemma EnsureConfigmap_outcome:
  assumes api: "configmap_api cl store" and R: "retries IsConflict (cl_RetryOnConflict cl)"
    and lib: "owner_ok lib" and y: "buildConfigYaml lib (spec_Kidecar (sc_Spec sc)) = Ret y"
    and run: "EnsureConfigmap lib cl ns sc k = (r, k')"
  shows "ensure_effect lib y ns (store k) r (store k')"
proof -
  obtain g k1 where get: "cl_GetConfigMap cl ns KidecarConfigmapName k = (g, k1)"
    by (cases "cl_GetConfigMap cl ns KidecarConfigmapName k")
  note G = configmap_api_Get [OF api get]
  note unfold = EnsureConfigmap_def tryM_def catchM_def
  show ?thesis
  proof (cases g)
    case (Ret cm)
    then have "(if isConfigChanged lib y cm then updateConfigmap lib cl ns y else ret ()) k1 = (r, k')"
      using run get y by (simp add: unfold)
    from ensure_present [OF api R _ this] show ?thesis using G(1) G(2) [OF Ret] by simp
  next
    case (Fail e)
    then have "(if IsNotFound e then createConfigmap lib cl ns y sc else failM e) k1 = (r, k')"
      using run get y by (simp add: unfold)
    from ensure_absent [OF api lib _ this] show ?thesis using G(1) G(4) [OF Fail] by simp
  next
    case (Panic p)
    then show ?thesis using run get G(1) y by (auto simp: unfold ensure_effect_def)
  qed
qed

lemma EnsureConfigmap_no_yaml:
  assumes "\<And>y. buildConfigYaml lib (spec_Kidecar (sc_Spec sc)) \<noteq> Ret y"
  shows "snd (EnsureConfigmap lib cl ns sc k) = k" and "fst (EnsureConfigmap lib cl ns sc k) \<noteq> Ret ()"
  using assms by (cases "buildConfigYaml lib (spec_Kidecar (sc_Spec sc))";
      simp add: EnsureConfigmap_def tryM_def)+

lemma demo_yaml [demo_eval]:
  "buildConfigYaml mem_lib (spec_Kidecar (sc_Spec demo_config)) = Ret ''hot_update''"
  by (simp add: buildConfigYaml_def convertKubeConfigToSidecarConfig_def convertRawToMap_def
      demo_eval demo_config_def)

lemma demo_ensure:
  "EnsureConfigmap mem_lib mem_client ''ns'' demo_config demo_server =
     (Ret (), demo_server\<lparr>srv_configmaps :=
        [((''ns'', KidecarConfigmapName), newConfigmap mem_lib ''ns'' ''hot_update'' demo_config)]\<rparr>)"
  by (simp add: EnsureConfigmap_def createConfigmap_def demo_eval mem_store_def demo_server_def
      newConfigmap_fields(1) [OF mem_lib_owner_ok])

lemma demo_ensure_bare:
  "fst (EnsureConfigmap mem_lib mem_client ''ns'' demo_config demo_server_bare) =
     Panic ''assignment to entry in nil map''"
  by (simp add: EnsureConfigmap_def updateConfigmap_def updateClosure_def isConfigChanged_def demo_eval
      mem_store_def named_def demo_server_bare_def demo_bare_configmap_def)

section \<open>Properties\<close>

lemma EnsureConfigmap_delivery:
  assumes "configmap_api cl store" and "retries IsConflict (cl_RetryOnConflict cl)" and "owner_ok lib"
    and "buildConfigYaml lib (spec_Kidecar (sc_Spec sc)) = Ret y"
    and "\<And>cm. store k (ns, KidecarConfigmapName) = Some cm \<Longrightarrow> cm_consistent lib cm"
    and "EnsureConfigmap lib cl ns sc k = (Ret (), k')"
  shows "\<exists>cm. store k' (ns, KidecarConfigmapName) = Some cm \<and> cm_consistent lib cm \<and>
           gindex (cm_Annotations cm) ConfigmapHashKey = Hash lib y \<and>
           lib_Sha256 lib (gindex (cm_Data cm) ''config.yaml'') = lib_Sha256 lib y \<and>
           (\<forall>key. key \<noteq> (ns, KidecarConfigmapName) \<longrightarrow> store k' key = store k key)"
proof -
  have same: "lib_Sha256 lib (gindex (cm_Data cm) ''config.yaml'') = lib_Sha256 lib y"
    if "cm_consistent lib cm" "gindex (cm_Annotations cm) ConfigmapHashKey = Hash lib y" for cm
    using that by (simp add: cm_consistent_def Hash_def hexstr_inj)
  consider cm where "store k' = store k" "store k (ns, KidecarConfigmapName) = Some cm"
      "\<not> isConfigChanged lib y cm"
    | cm where "carries lib y cm" "store k' = (store k)((ns, KidecarConfigmapName) \<mapsto> cm)"
    using EnsureConfigmap_outcome [OF assms(1-4,6)] by (auto simp: ensure_effect_def)
  then show ?thesis
  proof cases
    case (1 cm)
    then show ?thesis using assms(5) same by (simp add: isConfigChanged_def)
  next
    case (2 cm)
    then show ?thesis using same [OF carries_consistent [OF 2(1)]]
      by (simp add: carries_consistent carries_def)
  qed
qed





text \<open>
  C21: \<open>EnsureConfigmap\<close> settles. After a success, a second run for the same SidecarConfig
  writes nothing, and it fails only if the read fails.
\<close>

theorem EnsureConfigmap_settles:
  assumes "configmap_api cl store" and "retries IsConflict (cl_RetryOnConflict cl)" and "owner_ok lib"
    and "EnsureConfigmap lib cl ns sc k = (Ret (), k')"
    and "cl_GetConfigMap cl ns KidecarConfigmapName k' = (Ret cm, k1)"
  shows "EnsureConfigmap lib cl ns sc k' = (Ret (), k1) \<and> store k1 = store k'"
proof -
  obtain y where y: "buildConfigYaml lib (spec_Kidecar (sc_Spec sc)) = Ret y"
    using EnsureConfigmap_no_yaml(2) assms(4) by (metis fst_conv)
  have "\<not> isConfigChanged lib y cm"
    using EnsureConfigmap_outcome [OF assms(1-3) y assms(4)] configmap_api_Get(2) [OF assms(1,5)]
    by (auto simp: ensure_effect_def carries_def isConfigChanged_def)
  then show ?thesis
    using y assms(5) configmap_api_Get(1) [OF assms(1,5)]
    by (simp add: EnsureConfigmap_def tryM_def catchM_def)
qed

theorem EnsureConfigmap_settles_witness:
  "fst (EnsureConfigmap mem_lib mem_client ''ns'' demo_config
      (snd (EnsureConfigmap mem_lib mem_client ''ns'' demo_config demo_server))) = Ret ()"
proof -
  let ?k = "demo_server\<lparr>srv_configmaps :=
        [((''ns'', KidecarConfigmapName), newConfigmap mem_lib ''ns'' ''hot_update'' demo_config)]\<rparr>"
  have "cl_GetConfigMap mem_client ''ns'' KidecarConfigmapName ?k =
      (Ret (named (''ns'', KidecarConfigmapName)
         (newConfigmap mem_lib ''ns'' ''hot_update'' demo_config)), ?k)"
    by (simp add: demo_eval mem_store_def)
  from EnsureConfigmap_settles [OF mem_client_configmap_api mem_client_retries mem_lib_owner_ok
      demo_ensure this]
  show ?thesis unfolding demo_ensure by simp
qed

text \<open>
  A ConfigMap of that name that carries no annotations at all (one made by hand) crashes
  the webhook handler: the update writes into a nil map.
\<close>

lemma EnsureConfigmap_nil_annotations_panics:
  assumes "configmap_api cl store" and "retries IsConflict (cl_RetryOnConflict cl)"
    and "buildConfigYaml lib (spec_Kidecar (sc_Spec sc)) = Ret y" and "lib_Sha256 lib y \<noteq> []"
    and "\<And>k. store k (ns, KidecarConfigmapName) = Some cm \<Longrightarrow>
           fst (cl_GetConfigMap cl ns KidecarConfigmapName k) = Ret cm"
    and "store k (ns, KidecarConfigmapName) = Some cm" and "cm_Annotations cm = None"
  shows "is_Panic (fst (EnsureConfigmap lib cl ns sc k))"
proof -
  let ?n = KidecarConfigmapName
  obtain k1 where k1: "cl_GetConfigMap cl ns ?n k = (Ret cm, k1)"
    using assms(5) [OF assms(6)] by (cases "cl_GetConfigMap cl ns ?n k") auto
  have "store k1 (ns, ?n) = Some cm" using configmap_api_Get(1) [OF assms(1) k1] assms(6) by simp
  then obtain k2 where k2: "cl_GetConfigMap cl ns ?n k1 = (Ret cm, k2)"
    using assms(5) by (cases "cl_GetConfigMap cl ns ?n k1") fastforce
  have "isConfigChanged lib y cm"
    using assms(4,7) by (cases "lib_Sha256 lib y") (auto simp: isConfigChanged_def gindex_def Hash_def)
  moreover have p: "is_Panic (fst (updateClosure lib cl ns y k1))"
    using k2 assms(7) by (cases "cm_Data cm") (simp_all add: updateClosure_def tryM_def)
  then have "updateConfigmap lib cl ns y k1 = updateClosure lib cl ns y k1"
    unfolding updateConfigmap_def by (intro retries_no_error [OF assms(2)]) auto
  ultimately show ?thesis
    using k1 p assms(3) by (simp add: EnsureConfigmap_def tryM_def catchM_def)
qed

lemma EnsureConfigmap_nil_annotations_panics_example:
  "is_Panic (fst (EnsureConfigmap mem_lib mem_client ''ns'' demo_config demo_server_bare))"
proof (rule EnsureConfigmap_nil_annotations_panics
    [OF mem_client_configmap_api mem_client_retries, where y = "''hot_update''" and cm = demo_bare_configmap])
  show "buildConfigYaml mem_lib (spec_Kidecar (sc_Spec demo_config)) = Ret ''hot_update''"
    by (rule demo_yaml)
  show "mem_store demo_server_bare (''ns'', KidecarConfigmapName) = Some demo_bare_configmap"
    by (simp add: mem_store_def named_def demo_server_bare_def demo_bare_configmap_def)
  show "fst (cl_GetConfigMap mem_client ''ns'' KidecarConfigmapName k) = Ret demo_bare_configmap"
    if "mem_store k (''ns'', KidecarConfigmapName) = Some demo_bare_configmap" for k
    using that by (simp add: demo_eval)
qed (simp_all add: mem_lib_def demo_bare_configmap_def)

end
