(* ===== verification/KcInjectorProps.thy ===== *)
theory KcInjectorProps imports KcInjector KcConfigMapProps "HOL-Library.Sublist" begin

text \<open>
  The injection against its specification \<open>injected_pod\<close>: what a successful run makes of the pod,
  that a second run changes nothing, what an error leaves behind, which SidecarConfig is chosen,
  and how the match counter behaves.
\<close>

section \<open>Helper lemmas\<close>

lemma first_index_None_iff: "first_index P xs = None \<longleftrightarrow> (\<forall>x \<in> set xs. \<not> P x)"
  by (induction xs) auto

lemma first_index_Some_split:
  "first_index P xs = Some i \<Longrightarrow>
     take i xs = takeWhile (\<lambda>x. \<not> P x) xs \<and> drop (Suc i) xs = drop 1 (dropWhile (\<lambda>x. \<not> P x) xs)"
  by (induction xs arbitrary: i) (auto split: if_splits)

definition on_token_path :: "volume_mount \<Rightarrow> bool" where
  "on_token_path m \<longleftrightarrow> vm_MountPath m = serviceAccountTokenMountPath"

lemma strip_token_mount_cases:
  "strip_token_mount c =
     (case first_index on_token_path (c_VolumeMounts c) of
        None \<Rightarrow> c
      | Some j \<Rightarrow>
          (if length (c_VolumeMounts c) = 1 then c\<lparr>c_VolumeMounts := []\<rparr>
           else c\<lparr>c_VolumeMounts := take j (c_VolumeMounts c) @ drop (Suc j) (c_VolumeMounts c)\<rparr>))"
  by (simp add: strip_token_mount_def on_token_path_def [abs_def])

lemma strip_token_mount_eq:
  "strip_token_mount c = c\<lparr>c_VolumeMounts :=
     takeWhile (\<lambda>m. \<not> on_token_path m) (c_VolumeMounts c) @
     drop 1 (dropWhile (\<lambda>m. \<not> on_token_path m) (c_VolumeMounts c))\<rparr>"
proof (cases "first_index on_token_path (c_VolumeMounts c)")
  case None
  then have all: "\<forall>x \<in> set (c_VolumeMounts c). \<not> on_token_path x"
    by (simp add: first_index_None_iff)
  have tw: "takeWhile (\<lambda>m. \<not> on_token_path m) (c_VolumeMounts c) = c_VolumeMounts c"
    and dw: "dropWhile (\<lambda>m. \<not> on_token_path m) (c_VolumeMounts c) = []"
    using all by simp_all
  show ?thesis by (simp add: strip_token_mount_cases None tw dw)
next
  case (Some j)
  have one: "take j vs @ drop (Suc j) vs = []"
    if "length vs = 1" "first_index on_token_path vs = Some j" for vs
    using that by (cases vs) (auto split: if_splits)
  show ?thesis
    using Some one [OF _ Some] first_index_Some_split [OF Some]
    by (simp add: strip_token_mount_cases)
qed

lemma strip_drop_once:
  "length (filter P xs) \<le> 1 \<Longrightarrow>
     takeWhile (\<lambda>x. \<not> P x) xs @ drop 1 (dropWhile (\<lambda>x. \<not> P x) xs) = filter (\<lambda>x. \<not> P x) xs"
proof (induction xs)
  case (Cons x xs)
  then show ?case by (cases "P x") (auto simp: filter_id_conv filter_empty_conv)
qed simp

definition without_mounts :: "container \<Rightarrow> container" where
  "without_mounts c = c\<lparr>c_VolumeMounts := []\<rparr>"

lemma without_mounts_strip [simp]: "without_mounts (strip_token_mount c) = without_mounts c"
  by (simp add: strip_token_mount_eq without_mounts_def)

lemma mount_loop_id: "mount_loop vms xs = xs"
proof -
  have "fst (fold (mount_round vms) is st) = fst st" for "is" st
    by (induction "is" arbitrary: st) (auto simp: mount_round_def Let_def split: prod.split)
  then show ?thesis by (simp add: mount_loop_def)
qed

lemma addVolumeMounts_id: "addVolumeMounts vms p = p"
  by (simp add: addVolumeMounts_def mount_loop_id)

text \<open>Each edit as one record update, without the source's early returns.\<close>

lemma addContainers_eq: "addContainers cs p = p\<lparr>ps_Containers := cs @ ps_Containers p\<rparr>"
  and addInitContainers_eq: "addInitContainers cs p = p\<lparr>ps_InitContainers := cs @ ps_InitContainers p\<rparr>"
  and addVolumes_eq: "addVolumes vs p = p\<lparr>ps_Volumes := vs @ ps_Volumes p\<rparr>"
  and shareProcessNamespace_eq: "shareProcessNamespace b p =
    p\<lparr>ps_ShareProcessNamespace := (if b then Some True else ps_ShareProcessNamespace p)\<rparr>"
  by (simp_all add: addContainers_def addInitContainers_def addVolumes_def shareProcessNamespace_def)

lemma addAnnotations_eq:
  "addAnnotations as p = p\<lparr>pod_Annotations :=
     Some (AList.update InjectAnnotationKey ''true'' (copy_into (grange as) (grange (pod_Annotations p))))\<rparr>"
  by (cases "pod_Annotations p") (simp_all add: addAnnotations_def)

lemma setServiceAccount_eq:
  "setServiceAccount n force p =
     p\<lparr>ps_ServiceAccountName :=
         (if force \<or> n \<noteq> [] \<and> ps_ServiceAccountName p \<in> {''default'', []} then n
          else ps_ServiceAccountName p),
       ps_Containers := map strip_token_mount (ps_Containers p)\<rparr>"
  by (auto simp: setServiceAccount_def Let_def)

lemma addKidecarContainer_eq:
  "addKidecarContainer env c p =
     (let native = inj_UseKubeNativeSidecar (spec_Injection (sc_Spec c)); k = kidecarContainer env native
      in p\<lparr>ps_Containers := ps_Containers p @ (if native then [] else [k]),
           ps_InitContainers := ps_InitContainers p @ (if native then [k] else []),
           ps_Volumes := ps_Volumes p @ [kidecarVolume]\<rparr>)"
  by (simp add: addKidecarContainer_def Let_def)

lemmas pod_edits_eq = addContainers_eq addInitContainers_eq addVolumes_eq shareProcessNamespace_eq
  addAnnotations_eq setServiceAccount_eq addKidecarContainer_eq addVolumeMounts_id

lemma on_pod_apply [simp]: "on_pod f s = (Ret (), (f (fst s), snd s))"
  by (cases s) (simp add: on_pod_def)

lemma on_api_Ret_iff [go_iff]:
  "on_api m s = (r, s') \<longleftrightarrow> fst s' = fst s \<and> m (fst s) (snd s) = (r, snd s')"
  by (cases s'; cases "m (fst s) (snd s)") (auto simp: on_api_def)

lemma keeps_on_pod [keeps_intro]: "(\<And>p. P p \<Longrightarrow> P (f p)) \<Longrightarrow> keeps (\<lambda>s. P (fst s)) (on_pod f)"
  by (simp add: keeps_def)

lemma keeps_on_api [keeps_intro]: "keeps (\<lambda>s. P (fst s)) (on_api m)"
  by (auto simp: keeps_def on_api_def split: prod.split)

lemma keeps_injectServiceAccount [keeps_intro]:
  assumes "\<And>p. P p \<Longrightarrow> P (setServiceAccount n f p)"
  shows "keeps (\<lambda>s. P (fst s)) (injectServiceAccount cl n f)"
  unfolding injectServiceAccount_def using assms by (intro keeps_intro) auto

section \<open>The specification\<close>

definition chosen_account :: "InjectConfig \<Rightarrow> string \<Rightarrow> string" where
  "chosen_account ic old =
     (if deref_bool (inj_ForceInjectServiceAccount ic) \<or>
         inj_ServiceAccountName ic \<noteq> [] \<and> old \<in> {''default'', []}
      then inj_ServiceAccountName ic else old)"

text \<open>
  The pod an injection makes, field by field: the kidecar container goes to the end of the
  containers (or, as a native sidecar, of the init containers); user defined containers go in
  front; configured volumes go in front of the pod's; the service account token mount disappears
  from each container of the pod; the pod is marked.
\<close>

definition injected_pod :: "environment \<Rightarrow> SidecarConfig \<Rightarrow> pod \<Rightarrow> pod" where
  "injected_pod env c p =
     (let ic = spec_Injection (sc_Spec c); native = inj_UseKubeNativeSidecar ic;
          own = map strip_token_mount (ps_Containers p); k = kidecarContainer env native
      in p\<lparr>ps_ServiceAccountName := chosen_account ic (ps_ServiceAccountName p),
           ps_Containers := (if inj_InjectKidecar ic then own @ (if native then [] else [k])
                             else inj_Containers ic @ own),
           ps_InitContainers :=
             (if inj_InjectKidecar ic then ps_InitContainers p @ (if native then [k] else [])
              else inj_InitContainers ic @ ps_InitContainers p),
           ps_Volumes := inj_Volumes ic @ ps_Volumes p @
             (if inj_InjectKidecar ic then [kidecarVolume] else []),
           ps_ShareProcessNamespace :=
             (if deref_bool (inj_ShareProcessNamespace ic) then Some True
              else ps_ShareProcessNamespace p),
           pod_Annotations := Some (AList.update InjectAnnotationKey ''true''
             (copy_into (grange (sc_Annotations c)) (grange (pod_Annotations p))))\<rparr>)"

lemma annotated_injected_pod: "annotated (injected_pod env c p)"
  by (simp add: annotated_def injected_pod_def Let_def update_conv')

definition edited_pod :: "environment \<Rightarrow> SidecarConfig \<Rightarrow> pod \<Rightarrow> pod" where
  "edited_pod env c p =
     (let ic = spec_Injection (sc_Spec c);
          p1 = setServiceAccount (inj_ServiceAccountName ic)
                 (deref_bool (inj_ForceInjectServiceAccount ic)) p;
          p2 = (if inj_InjectKidecar ic then addKidecarContainer env c p1
                else addInitContainers (inj_InitContainers ic) (addContainers (inj_Containers ic) p1))
      in addAnnotations (sc_Annotations c)
           (shareProcessNamespace (deref_bool (inj_ShareProcessNamespace ic))
              (addVolumeMounts (inj_VolumeMounts ic) (addVolumes (inj_Volumes ic) p2))))"

lemma edited_pod_eq: "edited_pod env c p = injected_pod env c p"
  by (simp add: edited_pod_def injected_pod_def pod_edits_eq chosen_account_def Let_def)

lemma tryM_on_pod [simp]: "tryM (on_pod f) h k s = k () (f (fst s), snd s)"
  by (simp add: tryM_def)

lemma injectServiceAccount_Ret:
  "injectServiceAccount cl n f s = (Ret (), s') \<Longrightarrow> fst s' = setServiceAccount n f (fst s)"
  by (auto simp: injectServiceAccount_def go_iff split: if_splits)

lemma injectServiceAccount_no_Ret:
  "injectServiceAccount cl n f s = (r, s') \<Longrightarrow> r \<noteq> Ret () \<Longrightarrow> fst s' = fst s"
  by (cases r) (auto simp: injectServiceAccount_def go_iff split: if_splits)

text \<open>The middle part adds the containers, the last part edits the pod and records the match.\<close>

definition add_sidecar ::
    "ctrl_lib \<Rightarrow> environment \<Rightarrow> 'k ctrl_client \<Rightarrow> SidecarConfig \<Rightarrow> (pod \<times> 'k, unit) act" where
  "add_sidecar lib env cl c =
     (if inj_InjectKidecar (spec_Injection (sc_Spec c))
      then tryM (on_pod (addKidecarContainer env c)) id (\<lambda>_.
             on_api (\<lambda>p. EnsureConfigmap lib cl (pod_Namespace p) c))
      else tryM (on_pod (addContainers (inj_Containers (spec_Injection (sc_Spec c))))) id (\<lambda>_.
             on_pod (addInitContainers (inj_InitContainers (spec_Injection (sc_Spec c))))))"

definition finish_injection :: "'k ctrl_client \<Rightarrow> SidecarConfig \<Rightarrow> (pod \<times> 'k, unit) act" where
  "finish_injection cl c s =
     catchM (on_api (\<lambda>_. cl_RetryOnConflict cl (bumpMatchedPods cl c))) (\<lambda>e. ret ()) (\<lambda>_. ret ())
       (addAnnotations (sc_Annotations c)
          (shareProcessNamespace (deref_bool (inj_ShareProcessNamespace (spec_Injection (sc_Spec c))))
             (addVolumeMounts (inj_VolumeMounts (spec_Injection (sc_Spec c)))
                (addVolumes (inj_Volumes (spec_Injection (sc_Spec c))) (fst s)))), snd s)"

lemma finish_injection_eq:
  "finish_injection cl c =
     tryM (on_pod (addVolumes (inj_Volumes (spec_Injection (sc_Spec c))))) id (\<lambda>_.
     tryM (on_pod (addVolumeMounts (inj_VolumeMounts (spec_Injection (sc_Spec c))))) id (\<lambda>_.
     tryM (on_pod (shareProcessNamespace
             (deref_bool (inj_ShareProcessNamespace (spec_Injection (sc_Spec c)))))) id (\<lambda>_.
     tryM (on_pod (addAnnotations (sc_Annotations c))) id (\<lambda>_.
     catchM (on_api (\<lambda>_. cl_RetryOnConflict cl (bumpMatchedPods cl c)))
       (\<lambda>e. ret ()) (\<lambda>_. ret ())))))"
  by (rule ext) (simp add: finish_injection_def)

lemma injectConfigured_split:
  "injectConfigured lib env cl c =
     tryM (injectServiceAccount cl (inj_ServiceAccountName (spec_Injection (sc_Spec c)))
             (deref_bool (inj_ForceInjectServiceAccount (spec_Injection (sc_Spec c))))) id (\<lambda>_.
     tryM (add_sidecar lib env cl c) id (\<lambda>_. finish_injection cl c))"
  by (simp only: injectConfigured_def add_sidecar_def finish_injection_eq Let_def)

lemma add_sidecar_pod:
  "add_sidecar lib env cl c s = (r, s') \<Longrightarrow>
     fst s' = (if inj_InjectKidecar (spec_Injection (sc_Spec c)) then addKidecarContainer env c (fst s)
               else addInitContainers (inj_InitContainers (spec_Injection (sc_Spec c)))
                      (addContainers (inj_Containers (spec_Injection (sc_Spec c))) (fst s)))"
  by (auto simp: add_sidecar_def on_api_def split: if_splits prod.splits)

lemma finish_injection_pod:
  "fst (snd (finish_injection cl c s)) =
     addAnnotations (sc_Annotations c)
       (shareProcessNamespace (deref_bool (inj_ShareProcessNamespace (spec_Injection (sc_Spec c))))
          (addVolumeMounts (inj_VolumeMounts (spec_Injection (sc_Spec c)))
             (addVolumes (inj_Volumes (spec_Injection (sc_Spec c))) (fst s))))"
  by (simp add: finish_injection_def catchM_def on_api_def split: prod.split go.split)

lemma finish_injection_no_Fail: "fst (finish_injection cl c s) \<noteq> Fail e"
  by (simp add: finish_injection_def catchM_def on_api_def split: prod.split go.split)

lemma injectConfigured_Ret:
  assumes "injectConfigured lib env cl c s = (Ret (), s')"
  shows "fst s' = injected_pod env c (fst s)"
proof -
  obtain s1 s2 where
    1: "injectServiceAccount cl (inj_ServiceAccountName (spec_Injection (sc_Spec c)))
          (deref_bool (inj_ForceInjectServiceAccount (spec_Injection (sc_Spec c)))) s = (Ret (), s1)"
    and 2: "add_sidecar lib env cl c s1 = (Ret (), s2)"
    and 3: "finish_injection cl c s2 = (Ret (), s')"
    using assms by (auto simp: injectConfigured_split go_iff)
  show ?thesis
    using injectServiceAccount_Ret [OF 1] add_sidecar_pod [OF 2] finish_injection_pod [of cl c s2] 3
    by (simp add: edited_pod_eq [symmetric] edited_pod_def Let_def)
qed

text \<open>An error return comes before the pod is marked.\<close>

lemma injectConfigured_Fail:
  assumes "injectConfigured lib env cl c s = (Fail e, s')"
  shows "pod_Annotations (fst s') = pod_Annotations (fst s)"
proof -
  let ?sa = "injectServiceAccount cl (inj_ServiceAccountName (spec_Injection (sc_Spec c)))
          (deref_bool (inj_ForceInjectServiceAccount (spec_Injection (sc_Spec c))))"
  consider e' where "?sa s = (Fail e', s')"
    | s1 e' where "?sa s = (Ret (), s1)" "add_sidecar lib env cl c s1 = (Fail e', s')"
    using assms finish_injection_no_Fail [of cl c]
    by (auto simp: injectConfigured_split go_iff) (metis fst_conv)
  then show ?thesis
    by cases (auto dest!: injectServiceAccount_no_Ret injectServiceAccount_Ret add_sidecar_pod
        simp: pod_edits_eq Let_def)
qed

text \<open>The run by the outcome of the search.\<close>

lemma InjectPod_run:
  "InjectPod lib env cl (p, k) =
     (case GetSidecarConfigOfPod lib cl p k of
        (Ret None, k1) \<Rightarrow> (Ret (), (p, k1))
      | (Ret (Some c), k1) \<Rightarrow>
          (if annotated p then (Ret (), (p, k1)) else injectConfigured lib env cl c (p, k1))
      | (Fail e, k1) \<Rightarrow> (Fail e, (p, k1))
      | (Panic x, k1) \<Rightarrow> (Panic x, (p, k1)))"
  by (auto simp: InjectPod_def tryM_def on_api_def split: prod.splits go.splits option.splits)

lemma InjectPod_Ret_cases:
  assumes "InjectPod lib env cl (p, k) = (Ret (), (p', k'))"
  obtains k1 where "GetSidecarConfigOfPod lib cl p k = (Ret None, k1)" "p' = p"
    | c k1 where "GetSidecarConfigOfPod lib cl p k = (Ret (Some c), k1)"
        "p' = (if annotated p then p else injected_pod env c p)"
  using assms injectConfigured_Ret unfolding InjectPod_run
  by (fastforce split: prod.splits go.splits option.splits if_splits)

lemma InjectPod_Fail_annotations:
  assumes "InjectPod lib env cl (p, k) = (Fail e, (p', k'))"
  shows "pod_Annotations p' = pod_Annotations p"
  using assms unfolding InjectPod_run
  by (auto split: prod.splits go.splits option.splits if_splits dest: injectConfigured_Fail)

lemma InjectPod_annotated: "annotated p \<Longrightarrow> fst (snd (InjectPod lib env cl (p, k))) = p"
  unfolding InjectPod_run by (simp split: prod.split go.split option.split)

lemma keeps_EnsureConfigmap_pod [keeps_intro]: "keeps (\<lambda>s. P (fst s)) (add_sidecar lib env cl c)"
  if "\<And>p. P p \<Longrightarrow> P (addKidecarContainer env c p)" "\<And>cs p. P p \<Longrightarrow> P (addContainers cs p)"
    "\<And>cs p. P p \<Longrightarrow> P (addInitContainers cs p)"
  unfolding add_sidecar_def using that by (intro keeps_intro) auto

text \<open>A predicate on the pod that every edit keeps survives an injection, whatever its outcome.\<close>

lemma keeps_InjectPod:
  assumes "\<And>n f p. P p \<Longrightarrow> P (setServiceAccount n f p)"
    and "\<And>c p. P p \<Longrightarrow> P (addKidecarContainer env c p)"
    and "\<And>cs p. P p \<Longrightarrow> P (addContainers cs p)" and "\<And>cs p. P p \<Longrightarrow> P (addInitContainers cs p)"
    and "\<And>vs p. P p \<Longrightarrow> P (addVolumes vs p)" and "\<And>b p. P p \<Longrightarrow> P (shareProcessNamespace b p)"
    and "\<And>as p. P p \<Longrightarrow> P (addAnnotations as p)"
  shows "keeps (\<lambda>s. P (fst s)) (InjectPod lib env cl)"
proof -
  have vm: "P p \<Longrightarrow> P (addVolumeMounts vms p)" for vms p by (simp add: addVolumeMounts_id)
  have fin: "keeps (\<lambda>s. P (fst s)) (finish_injection cl c)" for c
    unfolding finish_injection_eq using assms vm by (intro keeps_intro) auto
  have "keeps (\<lambda>s. P (fst s)) (injectConfigured lib env cl c)" for c
    unfolding injectConfigured_split using assms fin by (intro keeps_intro) auto
  then have "keeps (\<lambda>s. P (fst s))
      (\<lambda>s. if annotated (fst s) then ret () s else injectConfigured lib env cl c s)" for c
    by (simp add: keeps_def)
  then show ?thesis unfolding InjectPod_def by (intro keeps_intro) (auto split: option.split)
qed

lemma bumpMatchedPods_Ret:
  assumes "bumpMatchedPods cl c k = (Ret (), k')"
  obtains oc k1 where "cl_GetSidecarConfig cl (sc_Namespace c) (sc_Name c) k = (Ret oc, k1)"
    "cl_UpdateStatus cl (oc\<lparr>sc_Status := (sc_Status oc)
       \<lparr>st_MatchedPods := st_MatchedPods (sc_Status c) + 1\<rparr>\<rparr>) k1 = (Ret (), k')"
  using assms by (auto simp: bumpMatchedPods_def go_iff)

text \<open>
  What the server promises for the status of a SidecarConfig: a read returns an object of that
  name, and after a status update the next read shows that status.
\<close>

definition status_api :: "'k ctrl_client \<Rightarrow> bool" where
  "status_api cl \<longleftrightarrow>
     (\<forall>ns n k c k'. cl_GetSidecarConfig cl ns n k = (Ret c, k') \<longrightarrow>
        sc_Namespace c = ns \<and> sc_Name c = n) \<and>
     (\<forall>c k k' c' k''. cl_UpdateStatus cl c k = (Ret (), k') \<longrightarrow>
        cl_GetSidecarConfig cl (sc_Namespace c) (sc_Name c) k' = (Ret c', k'') \<longrightarrow>
        sc_Status c' = sc_Status c)"

lemma status_api_names:
  assumes "status_api cl" and "cl_GetSidecarConfig cl ns n k = (Ret c, k')"
  shows "sc_Namespace c = ns" and "sc_Name c = n"
  using assms(1) [unfolded status_api_def, THEN conjunct1, rule_format, OF assms(2)] by simp_all

lemma status_api_update:
  assumes "status_api cl" and "cl_UpdateStatus cl c k = (Ret (), k')"
    and "cl_GetSidecarConfig cl (sc_Namespace c) (sc_Name c) k' = (Ret c', k'')"
  shows "sc_Status c' = sc_Status c"
  using assms(1) [unfolded status_api_def, THEN conjunct2, rule_format, OF assms(2,3)] .

lemma find_SomeD: "find P xs = Some x \<Longrightarrow> P x"
  by (auto simp: find_Some_iff)

lemma find_map_status:
  "find (\<lambda>c. sc_Name c = n \<and> sc_Namespace c = ns)
     (map (\<lambda>d. if sc_Name d = n \<and> sc_Namespace d = ns then d\<lparr>sc_Status := st\<rparr> else d) cs) = Some c \<Longrightarrow>
   sc_Status c = st"
proof (induction cs)
  case (Cons d cs)
  show ?case
  proof (cases "sc_Name d = n \<and> sc_Namespace d = ns")
    case True
    with Cons.prems have "c = d\<lparr>sc_Status := st\<rparr>" by simp
    then show ?thesis by simp
  next
    case False
    then have "find (\<lambda>c. sc_Name c = n \<and> sc_Namespace c = ns)
       (map (\<lambda>d. if sc_Name d = n \<and> sc_Namespace d = ns then d\<lparr>sc_Status := st\<rparr> else d) cs) = Some c"
      using Cons.prems by (simp split: if_split_asm)
    then show ?thesis by (rule Cons.IH)
  qed
qed simp

lemma mem_client_status_api: "status_api mem_client"
proof -
  have g: "find (\<lambda>c. sc_Name c = n \<and> sc_Namespace c = ns) (srv_configs k) = Some c"
    if "cl_GetSidecarConfig mem_client ns n k = (Ret c, k')" for ns n k c k'
    using that by (auto simp: mem_client_calls find_or_def split: option.splits)
  show ?thesis
    unfolding status_api_def
  proof (intro conjI allI impI)
    fix c k k' c' k''
    assume "cl_UpdateStatus mem_client c k = (Ret (), k')"
      and "cl_GetSidecarConfig mem_client (sc_Namespace c) (sc_Name c) k' = (Ret c', k'')"
    then show "sc_Status c' = sc_Status c"
      by (auto simp: mem_client_calls find_or_def split: option.splits intro: find_map_status)
  qed (use find_SomeD [OF g] in simp_all)
qed

section \<open>Runs of the witnesses\<close>

definition demo_env :: environment where
  "demo_env = (\<lambda>_. None)"

text \<open>A SidecarConfig with a container of its own, and the server that holds only it.\<close>

definition demo_own :: SidecarConfig where
  "demo_own = demo_config\<lparr>sc_Spec := (sc_Spec demo_config)\<lparr>spec_Injection :=
     demo_inject\<lparr>inj_InjectKidecar := False, inj_ServiceAccountName := [],
       inj_Containers := [demo_container\<lparr>c_Name := ''side''\<rparr>]\<rparr>\<rparr>\<rparr>"

definition demo_server_own :: apiserver where
  "demo_server_own = demo_server\<lparr>srv_configs := [demo_own]\<rparr>"

lemma demo_Match:
  "Match mem_lib mem_client demo_pod (sc_Spec demo_config) k = (Ret True, k)"
  "Match mem_lib mem_client demo_pod (sc_Spec demo_own) k = (Ret True, k)"
  by (simp_all add: Match_def MatchLabelSelector_def demo_eval demo_own_def demo_config_def
      demo_inject_def demo_selector_def demo_pod_def)

lemma demo_search:
  "GetSidecarConfigOfPod mem_lib mem_client demo_pod demo_server = (Ret (Some demo_config), demo_server)"
  "GetSidecarConfigOfPod mem_lib mem_client demo_pod demo_server_own = (Ret (Some demo_own), demo_server_own)"
  by (simp_all add: GetSidecarConfigOfPod_def tryM_def mem_client_calls demo_Match demo_server_def
      demo_server_own_def)

lemma demo_not_annotated: "\<not> annotated demo_pod"
  by (simp add: annotated_def demo_pod_def)

lemma demo_account:
  "injectServiceAccount mem_client ''sa'' False (demo_pod, demo_server) =
     (Ret (), (setServiceAccount ''sa'' False demo_pod, demo_server))"
  "injectServiceAccount mem_client ''sa'' False (demo_pod, demo_server\<lparr>srv_accounts := []\<rparr>) =
     (Fail (Fmtv ''failed to get service account sa'' (ApiStatus NotFound)),
      (demo_pod, demo_server\<lparr>srv_accounts := []\<rparr>))"
  by (simp_all add: injectServiceAccount_def tryM_def on_api_def mem_client_calls demo_server_def
      demo_pod_def)

lemma demo_inject_run:
  "InjectPod mem_lib demo_env mem_client (demo_pod, demo_server) =
     (Ret (), (injected_pod demo_env demo_config demo_pod,
       snd (snd (InjectPod mem_lib demo_env mem_client (demo_pod, demo_server)))))"
proof -
  have ns: "pod_Namespace (addKidecarContainer demo_env demo_config
      (setServiceAccount ''sa'' False demo_pod)) = ''ns''"
    by (simp add: pod_edits_eq Let_def demo_pod_def)
  have f: "inj_ServiceAccountName (spec_Injection (sc_Spec demo_config)) = ''sa''"
    "inj_ForceInjectServiceAccount (spec_Injection (sc_Spec demo_config)) = None"
    "inj_InjectKidecar (spec_Injection (sc_Spec demo_config))"
    by (simp_all add: demo_config_def demo_inject_def)
  have st: "fst (attempts IsConflict 4 (bumpMatchedPods mem_client demo_config)
      (demo_server\<lparr>srv_configmaps := x\<rparr>)) = Ret ()" for x
    by (simp add: demo_eval bumpMatchedPods_def demo_server_def)
  let ?k = "demo_server\<lparr>srv_configmaps :=
        [((''ns'', KidecarConfigmapName), newConfigmap mem_lib ''ns'' ''hot_update'' demo_config)]\<rparr>"
  obtain k2 where "attempts IsConflict 4 (bumpMatchedPods mem_client demo_config) ?k = (Ret (), k2)"
    using st by (metis prod.collapse)
  then have "fst (InjectPod mem_lib demo_env mem_client (demo_pod, demo_server)) = Ret ()"
    by (simp add: InjectPod_run demo_search demo_not_annotated injectConfigured_split f
        deref_bool_def tryM_def demo_account add_sidecar_def on_api_def ns demo_ensure
        finish_injection_def catchM_def mem_client_calls)
  then have r: "InjectPod mem_lib demo_env mem_client (demo_pod, demo_server) =
      (Ret (), snd (InjectPod mem_lib demo_env mem_client (demo_pod, demo_server)))"
    by (metis prod.collapse)
  obtain p' k' where pk: "snd (InjectPod mem_lib demo_env mem_client (demo_pod, demo_server)) = (p', k')"
    by (cases "snd (InjectPod mem_lib demo_env mem_client (demo_pod, demo_server))")
  from r [unfolded pk] have "p' = injected_pod demo_env demo_config demo_pod"
    by (rule InjectPod_Ret_cases) (simp_all add: demo_search demo_not_annotated)
  then show ?thesis using r pk by simp
qed

section \<open>Properties\<close>



text \<open>
  C10: injection is idempotent. Once a run has changed the pod and returned without error,
  a second run, for any client, environment and server state, leaves the pod as it is.
\<close>

theorem InjectPod_idempotent:
  assumes "InjectPod lib env cl (p, k) = (Ret (), (p', k'))" and "p' \<noteq> p"
  shows "fst (snd (InjectPod lib2 env2 cl2 (p', k2))) = p'"
proof -
  from assms(1) have "annotated p'"
    by (rule InjectPod_Ret_cases) (use assms(2) annotated_injected_pod in \<open>auto split: if_splits\<close>)
  then show ?thesis by (rule InjectPod_annotated)
qed

theorem InjectPod_idempotent_witness:
  "fst (snd (InjectPod mem_lib demo_env mem_client
      (injected_pod demo_env demo_config demo_pod, demo_server))) =
     injected_pod demo_env demo_config demo_pod"
proof (rule InjectPod_idempotent [OF demo_inject_run])
  show "injected_pod demo_env demo_config demo_pod \<noteq> demo_pod"
    using annotated_injected_pod demo_not_annotated by metis
qed

text \<open>
  C20: an injection that returns an error never marks the pod as injected, so a retried
  admission is not skipped.
\<close>

theorem InjectPod_error_does_not_mark:
  assumes "InjectPod lib env cl (p, k) = (Fail e, (p', k'))"
  shows "annotated p' = annotated p"
  using InjectPod_Fail_annotations [OF assms] by (simp add: annotated_def)

theorem InjectPod_error_does_not_mark_witness:
  "\<not> annotated (fst (snd (InjectPod mem_lib demo_env mem_client
      (demo_pod, demo_server\<lparr>srv_accounts := []\<rparr>))))"
proof -
  have s: "GetSidecarConfigOfPod mem_lib mem_client demo_pod (demo_server\<lparr>srv_accounts := []\<rparr>) =
      (Ret (Some demo_config), demo_server\<lparr>srv_accounts := []\<rparr>)"
    by (simp add: GetSidecarConfigOfPod_def tryM_def mem_client_calls demo_Match demo_server_def)
  have f: "inj_ServiceAccountName (spec_Injection (sc_Spec demo_config)) = ''sa''"
    "inj_ForceInjectServiceAccount (spec_Injection (sc_Spec demo_config)) = None"
    by (simp_all add: demo_config_def demo_inject_def)
  have run: "InjectPod mem_lib demo_env mem_client (demo_pod, demo_server\<lparr>srv_accounts := []\<rparr>) =
      (Fail (Fmtv ''failed to get service account sa'' (ApiStatus NotFound)),
       (demo_pod, demo_server\<lparr>srv_accounts := []\<rparr>))"
    by (simp add: InjectPod_run s demo_not_annotated injectConfigured_split f deref_bool_def tryM_def
        demo_account)
  show ?thesis using InjectPod_error_does_not_mark [OF run] by (simp add: run demo_not_annotated)
qed

text \<open>
  C23: whatever the outcome (success, error or panic), the containers the pod came with are
  still there, in their order, with everything but their volume mounts; the pod's name, namespace
  and labels are untouched.
\<close>

theorem InjectPod_keeps_containers:
  "subseq (map without_mounts (ps_Containers p))
     (map without_mounts (ps_Containers (fst (snd (InjectPod lib env cl (p, k)))))) \<and>
   pod_Name (fst (snd (InjectPod lib env cl (p, k)))) = pod_Name p \<and>
   pod_Namespace (fst (snd (InjectPod lib env cl (p, k)))) = pod_Namespace p \<and>
   pod_Labels (fst (snd (InjectPod lib env cl (p, k)))) = pod_Labels p"
proof -
  let ?P = "\<lambda>q. subseq (map without_mounts (ps_Containers p)) (map without_mounts (ps_Containers q)) \<and>
    pod_Name q = pod_Name p \<and> pod_Namespace q = pod_Namespace p \<and> pod_Labels q = pod_Labels p"
  have "keeps (\<lambda>s. ?P (fst s)) (InjectPod lib env cl)"
    by (rule keeps_InjectPod)
      (auto simp: pod_edits_eq Let_def comp_def intro: list_emb_prefix subseq_drop_many)
  then have "?P (fst (snd (InjectPod lib env cl (p, k))))"
    by (simp add: keeps_def del: fst_conv snd_conv) (metis fst_conv subseq_order.order_refl)
  then show ?thesis by simp
qed



text \<open>
  The field \<open>Namespace\<close> of the injection settings plays no part in the match. Its
  comment says that a SidecarConfig with a namespace matches only pods of that namespace.
\<close>

lemma Match_ignores_namespace:
  "Match lib cl p (spec\<lparr>spec_Injection := (spec_Injection spec)\<lparr>inj_Namespace := ns\<rparr>\<rparr>) =
   Match lib cl p spec"
  unfolding Match_def by (simp cong: if_cong)

text \<open>
  \<open>addVolumeMounts\<close> has no effect. The assignments of its two loops go to the loop
  variable, a copy of the container, so the configured volume mounts never reach the pod.
\<close>

lemma addVolumeMounts_no_effect: "addVolumeMounts vms p = p"
  by (rule addVolumeMounts_id)

text \<open>
  When each container has at most one service account token mount (the API server adds
  one), an injection removes exactly these mounts from the containers and keeps all other mounts
  in their order.
\<close>

lemma setServiceAccount_strips_token:
  assumes "\<forall>c \<in> set (ps_Containers p). length (filter on_token_path (c_VolumeMounts c)) \<le> 1"
  shows "ps_Containers (setServiceAccount n force p) =
     map (\<lambda>c. c\<lparr>c_VolumeMounts := filter (\<lambda>m. \<not> on_token_path m) (c_VolumeMounts c)\<rparr>) (ps_Containers p)"
  using assms by (auto simp: setServiceAccount_eq strip_token_mount_eq strip_drop_once [simplified])

lemma setServiceAccount_strips_token_example:
  "ps_Containers (setServiceAccount ''sa'' False demo_pod) =
     [demo_container\<lparr>c_VolumeMounts :=
        [\<lparr>vm_Name = ''data'', vm_MountPath = ''/data'', vm_rest = []\<rparr>]\<rparr>]"
  by (subst setServiceAccount_strips_token)
    (simp_all add: demo_pod_def demo_container_def on_token_path_def serviceAccountTokenMountPath_def)

text \<open>
  C24: the match counter is not a counter. The closure reads the object afresh but writes
  the count of the listed copy plus one, so two injections that listed the same count leave the
  counter one higher, not two.
\<close>

theorem bumpMatchedPods_lost_update:
  assumes "status_api cl" and "sc_Namespace c' = sc_Namespace c" and "sc_Name c' = sc_Name c"
    and "st_MatchedPods (sc_Status c) = n" and "st_MatchedPods (sc_Status c') = n"
    and "bumpMatchedPods cl c k = (Ret (), k1)" and "bumpMatchedPods cl c' k1 = (Ret (), k2)"
    and "cl_GetSidecarConfig cl (sc_Namespace c) (sc_Name c) k2 = (Ret r, k3)"
  shows "st_MatchedPods (sc_Status r) = n + 1"
proof -
  obtain oc q where "cl_GetSidecarConfig cl (sc_Namespace c') (sc_Name c') k1 = (Ret oc, q)"
    and u: "cl_UpdateStatus cl (oc\<lparr>sc_Status := (sc_Status oc)
       \<lparr>st_MatchedPods := st_MatchedPods (sc_Status c') + 1\<rparr>\<rparr>) q = (Ret (), k2)"
    using assms(7) by (rule bumpMatchedPods_Ret)
  then have names: "sc_Namespace oc = sc_Namespace c" "sc_Name oc = sc_Name c"
    using status_api_names [OF assms(1)] assms(2,3) by simp_all
  have "sc_Status r = (sc_Status oc)\<lparr>st_MatchedPods := st_MatchedPods (sc_Status c') + 1\<rparr>"
    using status_api_update [OF assms(1) u, of r k3] assms(8) by (simp add: names)
  then show ?thesis using assms(5) by simp
qed

theorem bumpMatchedPods_lost_update_witness:
  "\<exists>r k. cl_GetSidecarConfig mem_client [] ''scc''
      (snd (bumpMatchedPods mem_client demo_config
        (snd (bumpMatchedPods mem_client demo_config demo_server)))) = (Ret r, k) \<and>
     st_MatchedPods (sc_Status r) = 4"
proof -
  let ?b = "bumpMatchedPods mem_client demo_config"
  have n: "sc_Namespace demo_config = []" "sc_Name demo_config = ''scc''"
    "st_MatchedPods (sc_Status demo_config) = 3"
    by (simp_all add: demo_config_def)
  let ?k = "demo_server\<lparr>srv_configs := [demo_config\<lparr>sc_Status :=
      (sc_Status demo_config)\<lparr>st_MatchedPods := 4\<rparr>\<rparr>]\<rparr>"
  have 1: "?b demo_server = (Ret (), ?k)" and 2: "?b ?k = (Ret (), ?k)"
    by (simp_all add: bumpMatchedPods_def demo_eval n demo_server_def)
  have 3: "cl_GetSidecarConfig mem_client (sc_Namespace demo_config) (sc_Name demo_config) ?k =
      (Ret (demo_config\<lparr>sc_Status := (sc_Status demo_config)\<lparr>st_MatchedPods := 4\<rparr>\<rparr>), ?k)"
    by (simp add: demo_eval n)
  from bumpMatchedPods_lost_update [OF mem_client_status_api refl refl n(3) n(3) 1 2 3] 3
  show ?thesis by (simp add: 1 2 n)
qed

text \<open>
  A status update that fails after all retries does not fail the injection. For a
  SidecarConfig with its own containers and no service account the run succeeds whenever one is
  found and the status update returns at all.
\<close>

lemma InjectPod_survives_status_failure:
  assumes "GetSidecarConfigOfPod lib cl p k = (Ret (Some c), k1)" and "\<not> annotated p"
    and "inj_ServiceAccountName (spec_Injection (sc_Spec c)) = []"
    and "\<not> inj_InjectKidecar (spec_Injection (sc_Spec c))"
    and "\<not> is_Panic (fst (cl_RetryOnConflict cl (bumpMatchedPods cl c) k1))"
  shows "\<exists>k'. InjectPod lib env cl (p, k) = (Ret (), (injected_pod env c p, k'))"
proof -
  obtain r k2 where rk: "cl_RetryOnConflict cl (bumpMatchedPods cl c) k1 = (r, k2)"
    by (cases "cl_RetryOnConflict cl (bumpMatchedPods cl c) k1")
  obtain s' where s': "injectConfigured lib env cl c (p, k1) = (Ret (), s')"
    using assms(3-5) rk
    by (cases r) (simp_all add: injectConfigured_split injectServiceAccount_def add_sidecar_def
        finish_injection_def tryM_def catchM_def on_api_def)
  moreover have "fst s' = injected_pod env c p" using injectConfigured_Ret [OF s'] by simp
  ultimately show ?thesis
    using assms(1,2) by (cases s') (simp add: InjectPod_run)
qed

lemma InjectPod_survives_status_failure_example:
  "\<exists>k'. InjectPod mem_lib demo_env mem_client (demo_pod, demo_server_own) =
     (Ret (), (injected_pod demo_env demo_own demo_pod, k'))"
  by (rule InjectPod_survives_status_failure [OF demo_search(2) demo_not_annotated])
    (simp_all add: demo_own_def demo_config_def demo_inject_def demo_server_own_def demo_server_def
      bumpMatchedPods_def demo_eval)

end
