(* ===== verification/KcInfo.thy ===== *)
theory KcInfo imports KcMemApi begin

text \<open>
  pkg/info and the process-wide state of the sidecar: the Kubernetes interface it was given, the
  cache of its own pod with the timers that expire its entries, and the patterns registered on
  \<^verbatim>\<open>http.DefaultServeMux\<close>. Time is counted in seconds.
\<close>

section \<open>The sidecar's Kubernetes interface\<close>

record pod_patch = \<comment> \<open>a strategic merge patch of the metadata\<close>
  pp_annotations :: "(string \<times> string) list option"
  pp_labels :: "(string \<times> string) list option"

record json_op = \<comment> \<open>one operation of a JSON patch\<close>
  op_Operation :: string
  op_Path :: string
  op_Value :: string

record gvr =
  gvr_Group :: string
  gvr_Version :: string
  gvr_Resource :: string

text \<open>
  \<^verbatim>\<open>kubernetes.Interface\<close>, \<^verbatim>\<open>dynamic.Interface\<close> and client-go's retry helper, as far as they are
  called, over the state \<open>'k\<close> of everything outside the process.
\<close>

record 'k kube_iface =
  ki_GetPod :: "string \<Rightarrow> string \<Rightarrow> ('k, pod) act" \<comment> \<open>namespace, name\<close>
  ki_PatchPod :: "string \<Rightarrow> string \<Rightarrow> pod_patch \<Rightarrow> ('k, unit) act"
  ki_GetConfigMap :: "string \<Rightarrow> string \<Rightarrow> ('k, configmap) act" \<comment> \<open>namespace, name\<close>
  ki_UpdateConfigMap :: "configmap \<Rightarrow> ('k, unit) act"
  ki_NewDynamic :: "('k, unit) act"
  ki_PatchObject :: "gvr \<Rightarrow> string \<Rightarrow> string \<Rightarrow> json_op list \<Rightarrow> ('k, unit) act"
  ki_RetryOnConflict :: "('k, unit) act \<Rightarrow> ('k, unit) act"

record 'k proc =
  pr_kube :: bool \<comment> \<open>\<open>globalKubeInterface\<close> is set\<close>
  pr_cache :: "(string \<times> pod) list"
  pr_timers :: "(nat \<times> string) list" \<comment> \<open>deadline and key of each pending \<^verbatim>\<open>time.AfterFunc\<close>\<close>
  pr_now :: nat
  pr_mux :: "string list"
  pr_servers :: "string list" \<comment> \<open>addresses of \<^verbatim>\<open>go http.ListenAndServe\<close> that have not listened yet\<close>
  pr_api :: 'k

definition on_kube :: "('k, 'a) act \<Rightarrow> ('k proc, 'a) act" where
  "on_kube m s =
     (if pr_kube s then zoomM pr_api (\<lambda>k s. s\<lparr>pr_api := k\<rparr>) m s
      else (Panic ''nil pointer dereference: globalKubeInterface'', s))"

definition SetGlobalKubeInterface :: "'k proc \<Rightarrow> 'k proc" where
  "SetGlobalKubeInterface s = s\<lparr>pr_kube := True\<rparr>"

section \<open>Which pod this is\<close>

definition cacheExpiration :: nat where
  "cacheExpiration = 60"

definition errCurrentPod :: gerr where
  "errCurrentPod = Errorf ''failed to get current pod namespace and name''"

definition GetCurrentPodNamespaceAndName :: "environment \<Rightarrow> (string \<times> string) go" where
  "GetCurrentPodNamespaceAndName env =
     (let ns = Getenv env ''POD_NAMESPACE''; name = Getenv env ''POD_NAME''
      in if ns = [] \<or> name = [] then Fail errCurrentPod else Ret (ns, name))"

text \<open>\<^verbatim>\<open>types.NamespacedName.String\<close>.\<close>

definition nsname_String :: "string \<times> string \<Rightarrow> string" where
  "nsname_String n = fst n @ ''/'' @ snd n"

definition GetCurrentPodInfo :: "environment \<Rightarrow> string go" where
  "GetCurrentPodInfo env =
     (let ns = Getenv env ''POD_NAMESPACE''; name = Getenv env ''POD_NAME''
      in if ns = [] \<or> name = [] then Fail errCurrentPod else Ret (ns @ ''-'' @ name))"

text \<open>
  The cached pod, or a read from the API server whose result is cached together with a timer that
  deletes the entry again.
\<close>

definition GetCurrentPod :: "environment \<Rightarrow> 'k kube_iface \<Rightarrow> ('k proc, pod) act" where
  "GetCurrentPod env ki =
     tryM (liftG (GetCurrentPodNamespaceAndName env)) id (\<lambda>nsname s.
       case map_of (pr_cache s) (nsname_String nsname) of
         Some p \<Rightarrow> ret p s
       | None \<Rightarrow>
           tryM (on_kube (ki_GetPod ki (fst nsname) (snd nsname))) id (\<lambda>p.
           tryM (modM (\<lambda>s. s\<lparr>pr_cache := AList.update (nsname_String nsname) p (pr_cache s)\<rparr>)) id (\<lambda>_.
           tryM (modM (\<lambda>s. s\<lparr>pr_timers :=
                   pr_timers s @ [(pr_now s + cacheExpiration, nsname_String nsname)]\<rparr>)) id (\<lambda>_.
             ret p))) s)"

text \<open>What a timer does when it fires.\<close>

definition expire :: "nat \<times> string \<Rightarrow> 'k proc \<Rightarrow> 'k proc" where
  "expire t s = s\<lparr>pr_timers := remove1 t (pr_timers s), pr_cache := AList.delete (snd t) (pr_cache s)\<rparr>"

section \<open>ConfigMaps\<close>

definition GetConfigmap :: "'k kube_iface \<Rightarrow> string \<Rightarrow> string \<Rightarrow> ('k proc, configmap) act" where
  "GetConfigmap ki name namespace =
     tryM (on_kube (ki_GetConfigMap ki namespace name)) id (\<lambda>cm. ret cm)"

definition UpdateConfigmap :: "'k kube_iface \<Rightarrow> configmap \<Rightarrow> ('k proc, unit) act" where
  "UpdateConfigmap ki cm = tryM (on_kube (ki_UpdateConfigMap ki cm)) id (\<lambda>_. ret ())"

section \<open>The cache as a state machine\<close>

text \<open>
  A sidecar's own steps on this state: a lookup by any part of the program (whatever the client
  does to the world), a second passing while no timer is due, a due timer firing. The environment
  of a process does not change.
\<close>

inductive info_step :: "environment \<Rightarrow> 'k proc \<Rightarrow> 'k proc \<Rightarrow> bool" for env where
  lookup: "GetCurrentPod env ki s = (r, t) \<Longrightarrow> info_step env s t"
| tick: "\<forall>(d, key) \<in> set (pr_timers s). pr_now s < d \<Longrightarrow>
    info_step env s (s\<lparr>pr_now := Suc (pr_now s)\<rparr>)"
| fire: "t \<in> set (pr_timers s) \<Longrightarrow> fst t \<le> pr_now s \<Longrightarrow> info_step env s (expire t s)"

definition info_init :: "'k proc \<Rightarrow> bool" where
  "info_init s \<longleftrightarrow> pr_cache s = [] \<and> pr_timers s = []"

inductive info_reachable :: "environment \<Rightarrow> 'k proc \<Rightarrow> bool" for env where
  start: "info_init s \<Longrightarrow> info_reachable env s"
| step: "info_reachable env s \<Longrightarrow> info_step env s t \<Longrightarrow> info_reachable env t"

text \<open>
  The cache and the timers hold the same keys, each once, and every deadline is in the next 60
  seconds.
\<close>

definition info_inv :: "'k proc \<Rightarrow> bool" where
  "info_inv s \<longleftrightarrow>
     distinct (map fst (pr_cache s)) \<and>
     mset (map snd (pr_timers s)) = mset (map fst (pr_cache s)) \<and>
     (\<forall>(d, key) \<in> set (pr_timers s). pr_now s \<le> d \<and> d \<le> pr_now s + cacheExpiration)"

lemma info_inv_init: "info_init s \<Longrightarrow> info_inv s"
  by (simp add: info_init_def info_inv_def)

lemma on_kube_frame:
  "on_kube m s = (r, t) \<Longrightarrow>
     pr_cache t = pr_cache s \<and> pr_timers t = pr_timers s \<and> pr_now t = pr_now s \<and> pr_mux t = pr_mux s \<and>
     pr_servers t = pr_servers s"
  by (auto simp: on_kube_def zoomM_apply split: if_splits)

lemma GetCurrentPod_cases:
  assumes "GetCurrentPod env ki s = (r, t)"
  obtains e where "GetCurrentPodNamespaceAndName env = Fail e" "r = Fail e" "t = s"
    | n p where "GetCurrentPodNamespaceAndName env = Ret n"
        "map_of (pr_cache s) (nsname_String n) = Some p" "r = Ret p" "t = s"
    | n u where "GetCurrentPodNamespaceAndName env = Ret n"
        "map_of (pr_cache s) (nsname_String n) = None"
        "on_kube (ki_GetPod ki (fst n) (snd n)) s = (r, u)" "\<And>p. r \<noteq> Ret p" "t = u"
    | n p u where "GetCurrentPodNamespaceAndName env = Ret n"
        "map_of (pr_cache s) (nsname_String n) = None"
        "on_kube (ki_GetPod ki (fst n) (snd n)) s = (Ret p, u)" "r = Ret p"
        "t = u\<lparr>pr_cache := AList.update (nsname_String n) p (pr_cache u),
               pr_timers := pr_timers u @ [(pr_now u + cacheExpiration, nsname_String n)]\<rparr>"
proof (cases "GetCurrentPodNamespaceAndName env")
  case (Ret n)
  show thesis
  proof (cases "map_of (pr_cache s) (nsname_String n)")
    case None
    obtain q u where q: "on_kube (ki_GetPod ki (fst n) (snd n)) s = (q, u)"
      by (cases "on_kube (ki_GetPod ki (fst n) (snd n)) s")
    note unfold = GetCurrentPod_def tryM_def Ret None q
    show thesis
    proof (cases q)
      case (Ret p)
      with assms have "r = Ret p" "t = u\<lparr>pr_cache := AList.update (nsname_String n) p (pr_cache u),
               pr_timers := pr_timers u @ [(pr_now u + cacheExpiration, nsname_String n)]\<rparr>"
        by (simp_all add: unfold)
      with Ret q show thesis by (intro that(4) [OF \<open>_ = Ret n\<close> None]) simp_all
    next
      case (Fail e)
      with assms have "r = Fail e" "t = u" by (simp_all add: unfold)
      with Fail q show thesis by (intro that(3) [OF \<open>_ = Ret n\<close> None]) simp_all
    next
      case (Panic e)
      with assms have "r = Panic e" "t = u" by (simp_all add: unfold)
      with Panic q show thesis by (intro that(3) [OF \<open>_ = Ret n\<close> None]) simp_all
    qed
  next
    case (Some p)
    with assms Ret have "r = Ret p" "t = s" by (simp_all add: GetCurrentPod_def tryM_def)
    with Ret Some show thesis by (rule that(2))
  qed
next
  case (Fail e)
  with assms have "r = Fail e" "t = s" by (simp_all add: GetCurrentPod_def tryM_def)
  with Fail show thesis by (rule that(1))
next
  case (Panic e)
  then have False by (simp add: GetCurrentPodNamespaceAndName_def Let_def split: if_splits)
  then show thesis ..
qed

lemma GetCurrentPod_again:
  assumes "GetCurrentPod env ki s = (Ret p, t)"
  shows "GetCurrentPod env ki2 t = (Ret p, t)"
  using assms
proof (cases rule: GetCurrentPod_cases)
  case (4 n q u)
  then show ?thesis by (simp add: GetCurrentPod_def tryM_def update_conv')
qed (auto simp: GetCurrentPod_def tryM_def)

lemma update_new: "map_of es k = None \<Longrightarrow> AList.update k v es = es @ [(k, v)]"
  by (induction es) (auto split: if_splits)

lemma info_inv_lookup:
  assumes "GetCurrentPod env ki s = (r, t)" and "info_inv s"
  shows "info_inv t"
  using assms(1)
proof (cases rule: GetCurrentPod_cases)
  case (4 n p u)
  note fr = on_kube_frame [OF 4(3)]
  have "nsname_String n \<notin> fst ` set (pr_cache s)"
    using 4(2) by (simp add: map_of_eq_None_iff)
  then show ?thesis
    using assms(2) 4 fr by (auto simp: info_inv_def update_new)
next
  case (3 n u)
  then show ?thesis using on_kube_frame [OF 3(3)] assms(2) by (simp add: info_inv_def)
qed (use assms(2) in simp_all)

lemma info_inv_tick:
  "info_inv s \<Longrightarrow> \<forall>(d, key) \<in> set (pr_timers s). pr_now s < d \<Longrightarrow> info_inv (s\<lparr>pr_now := Suc (pr_now s)\<rparr>)"
  by (fastforce simp: info_inv_def)

lemma info_inv_fire:
  assumes "info_inv s" and "t \<in> set (pr_timers s)"
  shows "info_inv (expire t s)"
proof -
  have d: "distinct (map fst (pr_cache s))"
    and m: "mset (map snd (pr_timers s)) = mset (map fst (pr_cache s))"
    using assms(1) by (simp_all add: info_inv_def)
  have "mset (map snd (remove1 t (pr_timers s))) = mset (map snd (pr_timers s)) - {#snd t#}"
    using assms(2) by (simp add: image_mset_Diff)
  also have "\<dots> = mset (remove1 (snd t) (map fst (pr_cache s)))" by (simp only: m mset_remove1)
  also have "remove1 (snd t) (map fst (pr_cache s)) = map fst (AList.delete (snd t) (pr_cache s))"
    using d by (simp only: distinct_remove1_removeAll delete_keys)
  finally show ?thesis
    using assms d by (auto simp: info_inv_def expire_def distinct_delete dest!: set_remove1_subset [THEN subsetD])
qed

lemma info_step_inv: "info_step env s t \<Longrightarrow> info_inv s \<Longrightarrow> info_inv t"
  by (induction rule: info_step.induct) (simp_all add: info_inv_lookup info_inv_tick info_inv_fire)

lemma info_reachable_inv: "info_reachable env s \<Longrightarrow> info_inv s"
  by (induction rule: info_reachable.induct) (auto intro: info_inv_init info_step_inv)

section \<open>The server in memory, seen from the sidecar\<close>

definition is_pod :: "string \<Rightarrow> string \<Rightarrow> pod \<Rightarrow> bool" where
  "is_pod ns n p \<longleftrightarrow> pod_Namespace p = ns \<and> pod_Name p = n"

definition merge_meta :: "(string \<times> string) list option \<Rightarrow> labels \<Rightarrow> labels" where
  "merge_meta upd m = (case upd of None \<Rightarrow> m | Some es \<Rightarrow> Some (copy_into es (grange m)))"

definition mem_kube :: "apiserver kube_iface" where
  "mem_kube =
     \<lparr>ki_GetPod = (\<lambda>ns n k. (find_or (ApiStatus NotFound) (find (is_pod ns n) (srv_pods k)), k)),
      ki_PatchPod = (\<lambda>ns n u k.
        (if find (is_pod ns n) (srv_pods k) = None then Fail (ApiStatus NotFound) else Ret (),
         k\<lparr>srv_pods := map (\<lambda>p. if is_pod ns n p
              then p\<lparr>pod_Annotations := merge_meta (pp_annotations u) (pod_Annotations p),
                     pod_Labels := merge_meta (pp_labels u) (pod_Labels p)\<rparr> else p) (srv_pods k)\<rparr>)),
      ki_GetConfigMap = cl_GetConfigMap mem_client,
      ki_UpdateConfigMap = cl_UpdateConfigMap mem_client,
      ki_NewDynamic = ret (),
      ki_PatchObject = (\<lambda>g ns n ops. ret ()),
      ki_RetryOnConflict = attempts IsConflict 4\<rparr>"

lemma mem_kube_calls [demo_eval]:
  "ki_GetPod mem_kube x n k = (find_or (ApiStatus NotFound) (find (is_pod x n) (srv_pods k)), k)"
  "ki_PatchPod mem_kube x n u k =
     (if find (is_pod x n) (srv_pods k) = None then Fail (ApiStatus NotFound) else Ret (),
      k\<lparr>srv_pods := map (\<lambda>p. if is_pod x n p
           then p\<lparr>pod_Annotations := merge_meta (pp_annotations u) (pod_Annotations p),
                  pod_Labels := merge_meta (pp_labels u) (pod_Labels p)\<rparr> else p) (srv_pods k)\<rparr>)"
  "ki_GetConfigMap mem_kube = cl_GetConfigMap mem_client"
  "ki_UpdateConfigMap mem_kube = cl_UpdateConfigMap mem_client"
  "ki_NewDynamic mem_kube = ret ()"
  "ki_PatchObject mem_kube g x n ops = ret ()"
  "ki_RetryOnConflict mem_kube = attempts IsConflict 4"
  by (simp_all add: mem_kube_def)

definition pod_env :: environment where
  "pod_env = [''POD_NAMESPACE'' \<mapsto> ''ns'', ''POD_NAME'' \<mapsto> ''p'']"

definition demo_proc :: "apiserver proc" where
  "demo_proc =
     \<lparr>pr_kube = True, pr_cache = [], pr_timers = [], pr_now = 0, pr_mux = [], pr_servers = [], pr_api = demo_server\<rparr>"

definition demo_proc_cached :: "apiserver proc" where
  "demo_proc_cached = demo_proc\<lparr>pr_cache := [(''ns/p'', demo_pod)], pr_timers := [(60, ''ns/p'')]\<rparr>"

lemma pod_env_names [demo_eval]:
  "GetCurrentPodNamespaceAndName pod_env = Ret (''ns'', ''p'')"
  "GetCurrentPodInfo pod_env = Ret ''ns-p''"
  by (simp_all add: GetCurrentPodNamespaceAndName_def GetCurrentPodInfo_def Getenv_def pod_env_def)

lemma demo_GetCurrentPod:
  "GetCurrentPod pod_env mem_kube demo_proc = (Ret demo_pod, demo_proc_cached)"
proof -
  have "is_pod ''ns'' ''p'' demo_pod" by (simp add: is_pod_def demo_pod_def)
  then show ?thesis
    by (simp add: GetCurrentPod_def tryM_def pod_env_names on_kube_def zoomM_apply mem_kube_calls
        find_or_def demo_proc_def demo_proc_cached_def demo_server_def nsname_String_def cacheExpiration_def)
qed

section \<open>Properties\<close>



text \<open>
  Once the pod was found, the next lookup gives the same pod and changes nothing, with
  no call to the API server, whatever client it is given.
\<close>

lemma GetCurrentPod_cached:
  assumes "GetCurrentPod env ki s = (Ret p, t)"
  shows "GetCurrentPod env ki2 t = (Ret p, t)"
  using assms by (rule GetCurrentPod_again)

lemma GetCurrentPod_cached_example:
  "GetCurrentPod pod_env (mem_kube\<lparr>ki_GetPod := (\<lambda>_ _. failM (LibErr ''down''))\<rparr>) demo_proc_cached =
     (Ret demo_pod, demo_proc_cached)"
  by (rule GetCurrentPod_cached [OF demo_GetCurrentPod])

text \<open>
  The name \<open>GetCurrentPodInfo\<close> gives a pod, namespace and name joined by a dash, is
  shared by different pods: pod \<^verbatim>\<open>c\<close> of namespace \<^verbatim>\<open>a-b\<close> and pod \<^verbatim>\<open>b-c\<close> of namespace \<^verbatim>\<open>a\<close>.
  It is the key under which each pod's persisted results are kept.
\<close>

lemma GetCurrentPodInfo_collides:
  "GetCurrentPodInfo [''POD_NAMESPACE'' \<mapsto> ''a-b'', ''POD_NAME'' \<mapsto> ''c''] =
   GetCurrentPodInfo [''POD_NAMESPACE'' \<mapsto> ''a'', ''POD_NAME'' \<mapsto> ''b-c''] \<and>
   GetCurrentPodNamespaceAndName [''POD_NAMESPACE'' \<mapsto> ''a-b'', ''POD_NAME'' \<mapsto> ''c''] \<noteq>
   GetCurrentPodNamespaceAndName [''POD_NAMESPACE'' \<mapsto> ''a'', ''POD_NAME'' \<mapsto> ''b-c'']"
  by (simp add: GetCurrentPodInfo_def GetCurrentPodNamespaceAndName_def Getenv_def)

end
