(* ===== verification/KcStrings.thy ===== *)
theory KcStrings imports KcPrelude "HOL-Library.Sublist" begin

text \<open>
  What the program uses of Go's string library: \<^verbatim>\<open>strings.Contains\<close>, \<^verbatim>\<open>strings.Split\<close>,
  \<^verbatim>\<open>strings.Fields\<close>, \<^verbatim>\<open>strconv.Atoi\<close>, the byte replacer of the JSON pointer encoding, and
  regular expressions without submatches. A string is its bytes.
\<close>

section \<open>strings.Contains\<close>

fun Contains :: "string \<Rightarrow> string \<Rightarrow> bool" where
  "Contains [] sub = (sub = [])"
| "Contains (c # s) sub = (prefix sub (c # s) \<or> Contains s sub)"

lemma Contains_iff: "Contains s sub \<longleftrightarrow> (\<exists>a b. s = a @ sub @ b)"
proof (induction s)
  case Nil
  then show ?case by auto
next
  case (Cons c s)
  note IH = Cons.IH
  show ?case
  proof
    assume "Contains (c # s) sub"
    then consider b where "c # s = sub @ b" | a b where "s = a @ sub @ b"
      using IH by (auto simp: prefix_def)
    then show "\<exists>a b. c # s = a @ sub @ b"
      by cases (metis append_Nil, metis append_Cons)
  next
    assume "\<exists>a b. c # s = a @ sub @ b"
    then obtain a b where ab: "c # s = a @ sub @ b" by blast
    show "Contains (c # s) sub"
    proof (cases a)
      case Nil
      with ab have "prefix sub (c # s)" by simp
      then show ?thesis by simp
    next
      case (Cons d a')
      with ab have "s = a' @ sub @ b" by simp
      then have "Contains s sub" using IH by blast
      then show ?thesis by simp
    qed
  qed
qed

lemma Contains_empty [simp]: "Contains s []"
  by (cases s) simp_all

section \<open>strings.Split on one byte\<close>

fun split_on :: "char \<Rightarrow> string \<Rightarrow> string list" where
  "split_on d [] = [[]]"
| "split_on d (c # s) =
     (if c = d then [] # split_on d s
      else (case split_on d s of [] \<Rightarrow> [[c]] | w # ws \<Rightarrow> (c # w) # ws))"

fun join_with :: "char \<Rightarrow> string list \<Rightarrow> string" where
  "join_with d [] = []"
| "join_with d [w] = w"
| "join_with d (w # v # ws) = w @ d # join_with d (v # ws)"

lemma split_on_not_Nil [simp]: "split_on d s \<noteq> []"
  by (induction s) (auto split: list.split)

lemma join_split: "join_with d (split_on d s) = s"
proof (induction s)
  case (Cons c s)
  obtain w ws where "split_on d s = w # ws" by (cases "split_on d s") auto
  with Cons show ?case by (cases ws) auto
qed simp

lemma split_on_free: "w \<in> set (split_on d s) \<Longrightarrow> d \<notin> set w"
proof (induction s arbitrary: w)
  case (Cons c s)
  obtain v ws where "split_on d s = v # ws" by (cases "split_on d s") auto
  with Cons show ?case by (auto split: if_splits)
qed simp

lemma split_on_unsplit: "d \<notin> set w \<Longrightarrow> split_on d w = [w]"
  by (induction w) auto

lemma split_on_append: "d \<notin> set w \<Longrightarrow> split_on d (w @ d # s) = w # split_on d s"
  by (induction w) auto

lemma split_join:
  "ws \<noteq> [] \<Longrightarrow> (\<forall>w \<in> set ws. d \<notin> set w) \<Longrightarrow> split_on d (join_with d ws) = ws"
  by (induction d ws rule: join_with.induct) (auto simp: split_on_unsplit split_on_append)

section \<open>strings.Fields\<close>

definition is_space :: "char \<Rightarrow> bool" where
  "is_space c \<longleftrightarrow> of_char c \<in> {9, 10, 11, 12, 13, 32 :: nat}"

fun Fields_from :: "string \<Rightarrow> string \<Rightarrow> string list" where
  "Fields_from w [] = (if w = [] then [] else [w])"
| "Fields_from w (c # s) =
     (if is_space c then (if w = [] then Fields_from [] s else w # Fields_from [] s)
      else Fields_from (w @ [c]) s)"

definition Fields :: "string \<Rightarrow> string list" where
  "Fields s = Fields_from [] s"

lemma Fields_from_word:
  "list_all (\<lambda>c. \<not> is_space c) v \<Longrightarrow> Fields_from w (v @ s) = Fields_from (w @ v) s"
  by (induction v arbitrary: w) auto

lemma Fields_from_concat:
  "concat (Fields_from w s) = w @ filter (\<lambda>c. \<not> is_space c) s"
  by (induction s arbitrary: w) auto

section \<open>strconv.Atoi\<close>

definition is_digit :: "char \<Rightarrow> bool" where
  "is_digit c \<longleftrightarrow> 48 \<le> (of_char c :: nat) \<and> (of_char c :: nat) \<le> 57"

definition digits_value :: "string \<Rightarrow> int" where
  "digits_value ds = foldl (\<lambda>n c. 10 * n + (of_char c - 48)) 0 ds"

definition atoi_digits :: "string \<Rightarrow> int option" where
  "atoi_digits ds = (if ds \<noteq> [] \<and> list_all is_digit ds then Some (digits_value ds) else None)"

definition Atoi :: "string \<Rightarrow> int go" where
  "Atoi s =
     (let r = (case s of
                 [] \<Rightarrow> None
               | c # ds \<Rightarrow>
                   (if c = CHR ''-'' then map_option uminus (atoi_digits ds)
                    else if c = CHR ''+'' then atoi_digits ds
                    else atoi_digits (c # ds)))
      in case r of
           None \<Rightarrow> Fail (LibErr ''strconv.Atoi: invalid syntax'')
         | Some n \<Rightarrow>
             (if - (2 ^ 63) \<le> n \<and> n < 2 ^ 63 then Ret n
              else Fail (LibErr ''strconv.Atoi: value out of range'')))"

section \<open>The encoding of JSON pointer segments\<close>

text \<open>\<^verbatim>\<open>strings.NewReplacer("~", "~0", "/", "~1")\<close>, byte by byte; the decoder undoes it.\<close>

definition rfc6901_byte :: "char \<Rightarrow> string" where
  "rfc6901_byte c = (if c = CHR ''~'' then ''~0'' else if c = CHR ''/'' then ''~1'' else [c])"

definition rfc6901Encode :: "string \<Rightarrow> string" where
  "rfc6901Encode s = concat (map rfc6901_byte s)"

fun rfc6901Decode :: "string \<Rightarrow> string" where
  "rfc6901Decode [] = []"
| "rfc6901Decode [c] = [c]"
| "rfc6901Decode (c # d # s) =
     (if c = CHR ''~'' \<and> d = CHR ''0'' then CHR ''~'' # rfc6901Decode s
      else if c = CHR ''~'' \<and> d = CHR ''1'' then CHR ''/'' # rfc6901Decode s
      else c # rfc6901Decode (d # s))"

lemma rfc6901_simps [simp]:
  "rfc6901Encode [] = []"
  "rfc6901Encode (c # s) = rfc6901_byte c @ rfc6901Encode s"
  by (simp_all add: rfc6901Encode_def)

lemma rfc6901Decode_plain: "c \<noteq> CHR ''~'' \<Longrightarrow> rfc6901Decode (c # s) = c # rfc6901Decode s"
  by (cases s) auto

lemma rfc6901_decode_encode: "rfc6901Decode (rfc6901Encode s) = s"
  by (induction s) (auto simp: rfc6901_byte_def rfc6901Decode_plain)

lemma rfc6901_encode_inj: "rfc6901Encode s = rfc6901Encode t \<Longrightarrow> s = t"
  by (metis rfc6901_decode_encode)

lemma rfc6901_encode_no_slash: "CHR ''/'' \<notin> set (rfc6901Encode s)"
  by (induction s) (auto simp: rfc6901_byte_def)

section \<open>Regular expressions\<close>

text \<open>
  \<^verbatim>\<open>regexp.MustCompile(...).MatchString\<close> for an anchored pattern: the whole string is in the
  language. The matcher works by derivatives; \<open>lang\<close> is the language it decides.
\<close>

datatype re = Void | Eps | Byte "char \<Rightarrow> bool" | Or re re | Then re re | Many re

fun eps_in :: "re \<Rightarrow> bool" where
  "eps_in Void = False"
| "eps_in Eps = True"
| "eps_in (Byte P) = False"
| "eps_in (Or a b) = (eps_in a \<or> eps_in b)"
| "eps_in (Then a b) = (eps_in a \<and> eps_in b)"
| "eps_in (Many a) = True"

fun after :: "char \<Rightarrow> re \<Rightarrow> re" where
  "after c Void = Void"
| "after c Eps = Void"
| "after c (Byte P) = (if P c then Eps else Void)"
| "after c (Or a b) = Or (after c a) (after c b)"
| "after c (Then a b) =
     (if eps_in a then Or (Then (after c a) b) (after c b) else Then (after c a) b)"
| "after c (Many a) = Then (after c a) (Many a)"

fun re_match :: "re \<Rightarrow> string \<Rightarrow> bool" where
  "re_match r [] = eps_in r"
| "re_match r (c # s) = re_match (after c r) s"

inductive lang :: "re \<Rightarrow> string \<Rightarrow> bool" where
  "lang Eps []"
| "P c \<Longrightarrow> lang (Byte P) [c]"
| "lang a s \<Longrightarrow> lang (Or a b) s"
| "lang b s \<Longrightarrow> lang (Or a b) s"
| "lang a s \<Longrightarrow> lang b t \<Longrightarrow> lang (Then a b) (s @ t)"
| "lang (Many a) []"
| "lang a s \<Longrightarrow> lang (Many a) t \<Longrightarrow> lang (Many a) (s @ t)"

inductive_simps lang_Void: "lang Void s"
inductive_simps lang_Eps: "lang Eps s"
inductive_simps lang_Byte: "lang (Byte P) s"
inductive_simps lang_Or: "lang (Or a b) s"
inductive_simps lang_Then: "lang (Then a b) s"

lemma lang_Many_step: "lang (Many a) (c # s) \<Longrightarrow> \<exists>u v. s = u @ v \<and> lang a (c # u) \<and> lang (Many a) v"
proof (induction "Many a" "c # s" arbitrary: s rule: lang.induct)
  case (7 u t)
  then show ?case by (cases u) auto
qed

lemma eps_in_iff: "eps_in r \<longleftrightarrow> lang r []"
  by (induction r) (auto simp: lang_Void lang_Eps lang_Byte lang_Or lang_Then intro: lang.intros)

lemma after_iff: "lang (after c r) s \<longleftrightarrow> lang r (c # s)"
proof (induction r arbitrary: s)
  case (Then a b)
  have "lang (Then a b) (c # s) \<longleftrightarrow>
      (\<exists>u v. s = u @ v \<and> lang a (c # u) \<and> lang b v) \<or> lang a [] \<and> lang b (c # s)"
    by (auto simp: lang_Then Cons_eq_append_conv)
  with Then show ?case by (auto simp: lang_Or lang_Then eps_in_iff)
next
  case (Many a)
  then show ?case
    by (auto simp: lang_Then dest: lang_Many_step intro: lang.intros(7) [of _ "_ # _", simplified])
qed (auto simp: lang_Void lang_Eps lang_Byte lang_Or)

lemma re_match_lang: "re_match r s \<longleftrightarrow> lang r s"
  by (induction s arbitrary: r) (simp_all add: eps_in_iff after_iff)

end
