(* ===== verification/KcPersistent.thy ===== *)
theory KcPersistent imports KcInfo KcStrings begin

text \<open>
  pkg/store/persistent.go: results of a plugin kept in the ConfigMap \<^verbatim>\<open>kube-system/sidecar-result\<close>,
  one YAML document per pod, which maps a plugin's type to its results. YAML is a parameter.
\<close>

section \<open>Operations\<close>

definition SidecarResultConfigMapName :: string where
  "SidecarResultConfigMapName = ''sidecar-result''"

definition SidecarResultConfigMapNamespace :: string where
  "SidecarResultConfigMapNamespace = ''kube-system''"

type_synonym results = "(string, string) gomap"
type_synonym persistent_info = "(string, results) gomap"

record PersistentConfig =
  per_Type :: string
  per_Result :: results

text \<open>\<^verbatim>\<open>yaml.Unmarshal\<close> decodes into a map that exists already.\<close>

record yaml_lib =
  yl_Marshal :: "persistent_info \<Rightarrow> string go"
  yl_Unmarshal :: "string \<Rightarrow> persistent_info \<Rightarrow> persistent_info go"

text \<open>The receiver may be nil; it and the process state change together.\<close>

type_synonym 'k per_state = "PersistentConfig option \<times> 'k proc"

definition on_snd :: "('t, 'a) act \<Rightarrow> ('s \<times> 't, 'a) act" where
  "on_snd = zoomM snd (\<lambda>t s. (fst s, t))"

definition setResult :: "results \<Rightarrow> ('k per_state, unit) act" where
  "setResult r = modM (\<lambda>s. (map_option (\<lambda>p. p\<lparr>per_Result := r\<rparr>) (fst s), snd s))"

definition resultMap :: "'k kube_iface \<Rightarrow> ('k per_state, configmap) act" where
  "resultMap ki =
     tryM (on_snd (GetConfigmap ki SidecarResultConfigMapName SidecarResultConfigMapNamespace))
       (Fmtv ''failed to get hotupdate configmap kube-system/sidecar-result'') ret"

text \<open>\<^verbatim>\<open>for version, url := range res { p.Result[version] = url }\<close>, where the map is allocated.\<close>

definition addResults :: "results \<Rightarrow> ('k per_state, unit) act" where
  "addResults m =
     modM (\<lambda>s. (map_option (\<lambda>p. p\<lparr>per_Result := Some (copy_into (grange m) (grange (per_Result p)))\<rparr>)
                  (fst s), snd s))"

text \<open>
  The loop over all documents when the pod has none of its own. The variable that is decoded into
  is declared before the loop.
\<close>

fun collectResults ::
    "yaml_lib \<Rightarrow> string \<Rightarrow> (string \<times> string) list \<Rightarrow> persistent_info \<Rightarrow> ('k per_state, unit) act" where
  "collectResults yl ty [] info = ret ()"
| "collectResults yl ty (kv # docs) info =
     tryM (liftG (yl_Unmarshal yl (snd kv) info)) (Fmtv ''failed to unmarshal hotUpdateInfo'') (\<lambda>info'.
     tryM (case glookup info' ty of None \<Rightarrow> ret () | Some m \<Rightarrow> addResults m) id (\<lambda>_.
       collectResults yl ty docs info'))"

definition loadResults ::
    "yaml_lib \<Rightarrow> string \<Rightarrow> (string, string) gomap \<Rightarrow> string \<Rightarrow> ('k per_state, unit) act" where
  "loadResults yl ty dat name =
     (case glookup dat name of
        Some doc \<Rightarrow>
          tryM (liftG (yl_Unmarshal yl doc gmake)) (Fmtv ''failed to unmarshal hotUpdateInfo'') (\<lambda>info.
            case glookup info ty of None \<Rightarrow> ret () | Some m \<Rightarrow> setResult m)
      | None \<Rightarrow> collectResults yl ty (grange dat) gmake)"

definition GetPersistenceInfo ::
    "environment \<Rightarrow> 'k kube_iface \<Rightarrow> yaml_lib \<Rightarrow> ('k per_state, unit) act" where
  "GetPersistenceInfo env ki yl s =
     (case fst s of
        None \<Rightarrow> failM (Errorf ''persistent config is nil'') s
      | Some p \<Rightarrow>
          (if per_Type p = [] then failM (Errorf ''persistent config type is invalid'') s
           else tryM (resultMap ki) id (\<lambda>cm.
                tryM (liftG (GetCurrentPodInfo env))
                  (Wrapw ''failed to get current pod namespace and name'') (\<lambda>name.
                tryM (setResult gmake) id (\<lambda>_.
                  loadResults yl (per_Type p) (cm_Data cm) name))) s))"

text \<open>\<^verbatim>\<open>for k, v := range result { m[k] = v }\<close> on a map that may be nil.\<close>

definition put_all :: "results \<Rightarrow> results \<Rightarrow> results go" where
  "put_all res m =
     (if grange res = [] then Ret m
      else case m of
        None \<Rightarrow> Panic ''assignment to entry in nil map''
      | Some es \<Rightarrow> Ret (Some (copy_into (grange res) es)))"

definition mergeResults ::
    "yaml_lib \<Rightarrow> PersistentConfig \<Rightarrow> (string, string) gomap \<Rightarrow> string \<Rightarrow> persistent_info go" where
  "mergeResults yl p dat name =
     tryG (case glookup dat name of
             None \<Rightarrow> Ret gmake
           | Some doc \<Rightarrow> tryG (yl_Unmarshal yl doc gmake) (Fmtv ''failed to unmarshal hotUpdateInfo'') Ret) id
       (\<lambda>info.
     tryG (if glookup info (per_Type p) = None then gset info (per_Type p) gmake else Ret info) id (\<lambda>info.
     tryG (put_all (per_Result p) (the (glookup info (per_Type p)))) id (\<lambda>inner.
       gset info (per_Type p) inner)))"

definition SetPersistenceInfo ::
    "environment \<Rightarrow> 'k kube_iface \<Rightarrow> yaml_lib \<Rightarrow> ('k per_state, unit) act" where
  "SetPersistenceInfo env ki yl s =
     (case fst s of
        None \<Rightarrow> failM (Errorf ''persistent config is invalid'') s
      | Some p \<Rightarrow>
          (if per_Type p = [] then failM (Errorf ''persistent config is invalid'') s
           else tryM (resultMap ki) id (\<lambda>cm.
                tryM (liftG (GetCurrentPodInfo env))
                  (Wrapw ''failed to get current pod namespace and name'') (\<lambda>name.
                let dat = (if glen (cm_Data cm) = 0 then gmake else cm_Data cm) in
                tryM (liftG (mergeResults yl p dat name)) id (\<lambda>info.
                tryM (liftG (yl_Marshal yl info)) (Fmtv ''failed to marshal hotUpdateInfo'') (\<lambda>doc.
                tryM (liftG (gset dat name doc)) id (\<lambda>dat'.
                tryM (on_snd (UpdateConfigmap ki (cm\<lparr>cm_Data := dat'\<rparr>)))
                  (Fmtv ''failed to update hotupdate configmap kube-system/sidecar-result'')
                  (\<lambda>_. ret ())))))) s))"

section \<open>Views\<close>

text \<open>What a document says: the results of each type, by version.\<close>

definition info_view :: "persistent_info \<Rightarrow> string \<Rightarrow> (string \<rightharpoonup> string) option" where
  "info_view info ty = map_option glookup (glookup info ty)"

lemma empty_view [simp]: "glookup gmake = Map.empty" "glookup (Some []) = Map.empty" "glookup None = Map.empty"
  by (simp_all add: glookup_def [abs_def])

lemma put_all_Ret:
  "put_all res m = Ret m' \<Longrightarrow> gmap_ok res \<Longrightarrow> glookup m' = glookup m ++ glookup res"
  by (cases res; cases m)
    (auto simp: put_all_def gmap_ok_def map_of_copy_into glookup_def [abs_def] split: if_splits)

lemma gset_view:
  "gset info ty m = Ret info' \<Longrightarrow> glookup info' = (glookup info)(ty \<mapsto> m)"
  by (auto simp: go_iff glookup_def [abs_def] update_conv')

lemma mergeResults_view:
  assumes "mergeResults yl p dat name = Ret info'" and "gmap_ok (per_Result p)"
  shows "\<exists>info. (case glookup dat name of None \<Rightarrow> info = gmake
                 | Some doc \<Rightarrow> yl_Unmarshal yl doc gmake = Ret info) \<and>
     info_view info' = (info_view info)(per_Type p \<mapsto>
       (case info_view info (per_Type p) of None \<Rightarrow> Map.empty | Some m \<Rightarrow> m) ++ glookup (per_Result p))"
proof -
  obtain info info2 inner where
    load: "(case glookup dat name of None \<Rightarrow> Ret gmake
        | Some doc \<Rightarrow> tryG (yl_Unmarshal yl doc gmake) (Fmtv ''failed to unmarshal hotUpdateInfo'') Ret) = Ret info"
    and mk: "(if glookup info (per_Type p) = None then gset info (per_Type p) gmake else Ret info) = Ret info2"
    and put: "put_all (per_Result p) (the (glookup info2 (per_Type p))) = Ret inner"
    and set: "gset info2 (per_Type p) inner = Ret info'"
    using assms(1) by (auto simp: mergeResults_def tryG_Ret_iff)
  have inner: "glookup inner = glookup (the (glookup info2 (per_Type p))) ++ glookup (per_Result p)"
    using put_all_Ret [OF put assms(2)] .
  have info2: "glookup info2 = (glookup info)(per_Type p \<mapsto>
      (case glookup info (per_Type p) of None \<Rightarrow> gmake | Some m \<Rightarrow> m))"
    using mk by (auto split: if_splits dest: gset_view)
  have "glookup info' = (glookup info2)(per_Type p \<mapsto> inner)" using gset_view [OF set] .
  then have "info_view info' = (info_view info)(per_Type p \<mapsto>
      (case info_view info (per_Type p) of None \<Rightarrow> Map.empty | Some m \<Rightarrow> m) ++ glookup (per_Result p))"
    by (auto simp: info_view_def info2 inner empty_view split: option.splits)
  moreover have "case glookup dat name of None \<Rightarrow> info = gmake
      | Some doc \<Rightarrow> yl_Unmarshal yl doc gmake = Ret info"
    using load by (auto simp: tryG_Ret_iff split: option.splits)
  ultimately show ?thesis by blast
qed

section \<open>What the server and YAML promise\<close>

text \<open>A server on which reads do not fail, and an update that succeeds stores its object.\<close>

definition result_store :: "'k kube_iface \<Rightarrow> ('k \<Rightarrow> string \<times> string \<rightharpoonup> configmap) \<Rightarrow> bool" where
  "result_store ki store \<longleftrightarrow>
     (\<forall>ns n k. ki_GetConfigMap ki ns n k = (find_or (ApiStatus NotFound) (store k (ns, n)), k)) \<and>
     (\<forall>ns n k cm. store k (ns, n) = Some cm \<longrightarrow> cm_key cm = (ns, n)) \<and>
     (\<forall>cm k k'. ki_UpdateConfigMap ki cm k = (Ret (), k') \<longrightarrow> store k' = (store k)(cm_key cm \<mapsto> cm))"

text \<open>Decoding an encoded document gives back what it said.\<close>

definition yaml_ok :: "yaml_lib \<Rightarrow> bool" where
  "yaml_ok yl \<longleftrightarrow>
     (\<forall>m doc. yl_Marshal yl m = Ret doc \<longrightarrow>
        (\<exists>m'. yl_Unmarshal yl doc gmake = Ret m' \<and> info_view m' = info_view m))"

definition result_key :: "string \<times> string" where
  "result_key = (SidecarResultConfigMapNamespace, SidecarResultConfigMapName)"

text \<open>The results of a type that the document of one pod holds.\<close>

definition pod_results :: "yaml_lib \<Rightarrow> configmap \<Rightarrow> string \<Rightarrow> string \<Rightarrow> string \<rightharpoonup> string" where
  "pod_results yl cm name ty =
     (case glookup (cm_Data cm) name of
        None \<Rightarrow> Map.empty
      | Some doc \<Rightarrow>
          (case yl_Unmarshal yl doc gmake of
             Ret info \<Rightarrow> (case info_view info ty of None \<Rightarrow> Map.empty | Some m \<Rightarrow> m)
           | Fail e \<Rightarrow> Map.empty
           | Panic m \<Rightarrow> Map.empty))"

lemma resultMap_Ret_iff:
  assumes "result_store ki store"
  shows "resultMap ki (q, s) = (Ret cm, u) \<longleftrightarrow>
    pr_kube s \<and> store (pr_api s) result_key = Some cm \<and> u = (q, s)"
  using assms
  by (auto simp: resultMap_def on_snd_def zoomM_apply go_iff GetConfigmap_def on_kube_def result_store_def
      find_or_def result_key_def tryM_def split: option.splits if_splits)

lemma UpdateConfigmap_Ret:
  assumes "result_store ki store" and "UpdateConfigmap ki cm s = (Ret (), t)"
  shows "pr_kube t = pr_kube s \<and> store (pr_api t) = (store (pr_api s))(cm_key cm \<mapsto> cm)"
  using assms
  by (cases "ki_UpdateConfigMap ki cm (pr_api s)")
    (auto simp: UpdateConfigmap_def on_kube_def zoomM_apply go_iff result_store_def split: if_splits)

lemma Set_effect:
  assumes "result_store ki store" and "SetPersistenceInfo env ki yl (Some p, s) = (Ret (), (q, t))"
  shows "\<exists>cm name info doc cm'. pr_kube t \<and> per_Type p \<noteq> [] \<and> store (pr_api s) result_key = Some cm \<and>
     GetCurrentPodInfo env = Ret name \<and>
     mergeResults yl p (if glen (cm_Data cm) = 0 then gmake else cm_Data cm) name = Ret info \<and>
     yl_Marshal yl info = Ret doc \<and> store (pr_api t) = (store (pr_api s))(result_key \<mapsto> cm') \<and>
     glookup (cm_Data cm') = (glookup (cm_Data cm))(name \<mapsto> doc)"
proof -
  have ty: "per_Type p \<noteq> []"
    using assms(2) by (auto simp: SetPersistenceInfo_def)
  obtain cm name info doc dat' where
    cm: "resultMap ki (Some p, s) = (Ret cm, (Some p, s))" and name: "GetCurrentPodInfo env = Ret name"
    and info: "mergeResults yl p (if glen (cm_Data cm) = 0 then gmake else cm_Data cm) name = Ret info"
    and doc: "yl_Marshal yl info = Ret doc"
    and dat': "gset (if glen (cm_Data cm) = 0 then gmake else cm_Data cm) name doc = Ret dat'"
    and upd: "on_snd (UpdateConfigmap ki (cm\<lparr>cm_Data := dat'\<rparr>)) (Some p, s) = (Ret (), (q, t))"
    using assms(2) ty by (auto simp: SetPersistenceInfo_def Let_def go_iff resultMap_Ret_iff [OF assms(1)])
  have stored: "pr_kube s" "store (pr_api s) result_key = Some cm"
    using cm by (simp_all add: resultMap_Ret_iff [OF assms(1)])
  then have key: "cm_key (cm\<lparr>cm_Data := dat'\<rparr>) = result_key"
    using assms(1) by (auto simp: result_store_def cm_key_def result_key_def)
  have "UpdateConfigmap ki (cm\<lparr>cm_Data := dat'\<rparr>) s = (Ret (), t)"
    using upd by (auto simp: on_snd_def zoomM_apply prod_eq_iff)
  from UpdateConfigmap_Ret [OF assms(1) this] key
  have t: "pr_kube t" "store (pr_api t) = (store (pr_api s))(result_key \<mapsto> cm\<lparr>cm_Data := dat'\<rparr>)"
    using stored by simp_all
  have "glookup dat' = (glookup (cm_Data cm))(name \<mapsto> doc)"
    using gset_view [OF dat'] by (auto simp: glen_0_iff split: if_splits)
  then have "glookup (cm_Data (cm\<lparr>cm_Data := dat'\<rparr>)) = (glookup (cm_Data cm))(name \<mapsto> doc)" by simp
  with ty stored name info doc t show ?thesis by blast
qed

lemma mergeResults_pod_results:
  assumes "mergeResults yl p (if glen (cm_Data cm) = 0 then gmake else cm_Data cm) name = Ret info"
    and "gmap_ok (per_Result p)"
  shows "info_view info (per_Type p) = Some (pod_results yl cm name (per_Type p) ++ glookup (per_Result p))"
    and "ty \<noteq> per_Type p \<Longrightarrow>
      (case info_view info ty of None \<Rightarrow> Map.empty | Some m \<Rightarrow> m) = pod_results yl cm name ty"
proof -
  have look: "glookup (if glen (cm_Data cm) = 0 then gmake else cm_Data cm) name = glookup (cm_Data cm) name"
    by (simp add: glen_0_iff)
  obtain info0 where
    load: "case glookup (cm_Data cm) name of None \<Rightarrow> info0 = gmake | Some doc \<Rightarrow> yl_Unmarshal yl doc gmake = Ret info0"
    and view: "info_view info = (info_view info0)(per_Type p \<mapsto>
       (case info_view info0 (per_Type p) of None \<Rightarrow> Map.empty | Some m \<Rightarrow> m) ++ glookup (per_Result p))"
    using mergeResults_view [OF assms] unfolding look by blast
  have "pod_results yl cm name ty' = (case info_view info0 ty' of None \<Rightarrow> Map.empty | Some m \<Rightarrow> m)" for ty'
    using load by (auto simp: pod_results_def info_view_def split: option.splits)
  with view show
    "info_view info (per_Type p) = Some (pod_results yl cm name (per_Type p) ++ glookup (per_Result p))"
    "ty \<noteq> per_Type p \<Longrightarrow> (case info_view info ty of None \<Rightarrow> Map.empty | Some m \<Rightarrow> m) = pod_results yl cm name ty"
    by simp_all
qed

text \<open>What was saved is loaded by any process that sees the same ConfigMap, one that was restarted say.\<close>

lemma saved_results_load:
  assumes "result_store ki store" and "yaml_ok yl" and "gmap_ok (per_Result p)"
    and "SetPersistenceInfo env ki yl (Some p, s) = (Ret (), (q, t))"
    and "store (pr_api t') result_key = store (pr_api t) result_key" and "pr_kube t'"
    and "per_Type p2 = per_Type p"
  shows "\<exists>cm name r doc info. store (pr_api s) result_key = Some cm \<and> GetCurrentPodInfo env = Ret name \<and>
    GetPersistenceInfo env ki yl (Some p2, t') = (Ret (), (Some (p2\<lparr>per_Result := r\<rparr>), t')) \<and>
    glookup r = pod_results yl cm name (per_Type p) ++ glookup (per_Result p) \<and>
    yl_Unmarshal yl doc gmake = Ret info \<and> glookup info (per_Type p) = Some r"
proof -
  obtain cm name info doc cm' where eff: "pr_kube t" "per_Type p \<noteq> []" "store (pr_api s) result_key = Some cm"
    "GetCurrentPodInfo env = Ret name" "yl_Marshal yl info = Ret doc"
    "mergeResults yl p (if glen (cm_Data cm) = 0 then gmake else cm_Data cm) name = Ret info"
    "store (pr_api t) = (store (pr_api s))(result_key \<mapsto> cm')"
    "glookup (cm_Data cm') = (glookup (cm_Data cm))(name \<mapsto> doc)"
    using Set_effect [OF assms(1,4)] by blast
  obtain info' where info': "yl_Unmarshal yl doc gmake = Ret info'" "info_view info' = info_view info"
    using assms(2) eff(5) by (auto simp: yaml_ok_def)
  have "info_view info' (per_Type p) = Some (pod_results yl cm name (per_Type p) ++ glookup (per_Result p))"
    using mergeResults_pod_results(1) [OF eff(6) assms(3)] info'(2) by simp
  then obtain m where m: "glookup info' (per_Type p) = Some m"
    "glookup m = pod_results yl cm name (per_Type p) ++ glookup (per_Result p)"
    by (auto simp: info_view_def)
  have "resultMap ki (Some p2, t') = (Ret cm', (Some p2, t'))"
    using eff(7) assms(5,6) by (simp add: resultMap_Ret_iff [OF assms(1)])
  then have "GetPersistenceInfo env ki yl (Some p2, t') = (Ret (), (Some (p2\<lparr>per_Result := m\<rparr>), t'))"
    using eff(2,4,8) assms(7) info'(1) m(1)
    by (simp add: GetPersistenceInfo_def tryM_def setResult_def loadResults_def)
  with eff(3,4) m info'(1) show ?thesis by blast
qed

section \<open>Properties\<close>

text \<open>
  C12: after results were saved, loading the results of that type in the same pod succeeds
  and gives the saved results over the ones the pod had before.
\<close>

theorem Set_then_Get:
  assumes "result_store ki store" and "yaml_ok yl" and "gmap_ok (per_Result p)"
    and "SetPersistenceInfo env ki yl (Some p, s) = (Ret (), (q, t))" and "per_Type p2 = per_Type p"
  shows "\<exists>cm name r. store (pr_api s) result_key = Some cm \<and> GetCurrentPodInfo env = Ret name \<and>
    GetPersistenceInfo env ki yl (Some p2, t) = (Ret (), (Some (p2\<lparr>per_Result := r\<rparr>), t)) \<and>
    glookup r = pod_results yl cm name (per_Type p) ++ glookup (per_Result p)"
  using saved_results_load [OF assms(1-4) refl _ assms(5)] Set_effect [OF assms(1,4)] by metis

text \<open>A YAML library for documents with one type and one result, a line for each string.\<close>

definition nl :: char where
  "nl = CHR 0x0A"

definition mini_yaml :: yaml_lib where
  "mini_yaml =
     \<lparr>yl_Marshal = (\<lambda>m. case m of
         Some [(ty, Some [(v, u)])] \<Rightarrow>
           (if nl \<notin> set ty \<and> nl \<notin> set v \<and> nl \<notin> set u then Ret (join_with nl [ty, v, u])
            else Fail (LibErr ''yaml''))
       | _ \<Rightarrow> Fail (LibErr ''yaml'')),
      yl_Unmarshal = (\<lambda>doc m. case split_on nl doc of
         [ty, v, u] \<Rightarrow> Ret (Some (AList.update ty (Some [(v, u)]) (grange m)))
       | _ \<Rightarrow> Fail (LibErr ''yaml''))\<rparr>"

lemma mini_yaml_Marshal:
  "yl_Marshal mini_yaml m = Ret doc \<Longrightarrow>
     \<exists>ty v u. m = Some [(ty, Some [(v, u)])] \<and> doc = join_with nl [ty, v, u] \<and>
       nl \<notin> set ty \<and> nl \<notin> set v \<and> nl \<notin> set u"
  by (auto simp: mini_yaml_def split: option.splits list.splits if_splits)

lemma mini_yaml_Unmarshal:
  "nl \<notin> set ty \<and> nl \<notin> set v \<and> nl \<notin> set u \<Longrightarrow>
     yl_Unmarshal mini_yaml (join_with nl [ty, v, u]) m = Ret (Some (AList.update ty (Some [(v, u)]) (grange m)))"
  by (simp add: mini_yaml_def split_join del: join_with.simps)

lemma mini_yaml_ok: "yaml_ok mini_yaml"
  by (auto simp: yaml_ok_def dest!: mini_yaml_Marshal simp: mini_yaml_Unmarshal simp del: join_with.simps)

lemma mem_result_store: "result_store mem_kube mem_store"
  unfolding result_store_def
proof (intro conjI allI impI)
  show "ki_GetConfigMap mem_kube ns n k = (find_or (ApiStatus NotFound) (mem_store k (ns, n)), k)" for ns n k
    by (simp add: mem_kube_calls mem_client_calls)
  show "mem_store k (ns, n) = Some cm \<Longrightarrow> cm_key cm = (ns, n)" for k ns n cm
    by (auto simp: mem_store_def)
  show "ki_UpdateConfigMap mem_kube cm k = (Ret (), k') \<Longrightarrow> mem_store k' = (mem_store k)(cm_key cm \<mapsto> cm)" for cm k k'
    using configmap_api_Update [OF mem_client_configmap_api, of cm k "Ret ()" k']
    by (simp add: mem_kube_calls)
qed

definition demo_result_map :: configmap where
  "demo_result_map =
     \<lparr>cm_Name = SidecarResultConfigMapName, cm_Namespace = SidecarResultConfigMapNamespace,
      cm_Data = None, cm_Annotations = None, cm_Owner = None\<rparr>"

definition demo_proc_results :: "apiserver proc" where
  "demo_proc_results =
     demo_proc\<lparr>pr_api := demo_server\<lparr>srv_configmaps := [(result_key, demo_result_map)]\<rparr>\<rparr>"

definition demo_per :: PersistentConfig where
  "demo_per = \<lparr>per_Type = ''hot_update'', per_Result = Some [(''v1'', ''url'')]\<rparr>"

lemma demo_store: "mem_store (pr_api demo_proc_results) result_key = Some demo_result_map"
  by (simp add: mem_store_def demo_proc_results_def named_def demo_result_map_def result_key_def)

lemma demo_Set_ok:
  assumes "nl \<notin> set v" and "nl \<notin> set u"
  shows "fst (SetPersistenceInfo pod_env mem_kube mini_yaml
           (Some \<lparr>per_Type = ''hot_update'', per_Result = Some [(v, u)]\<rparr>, demo_proc_results)) = Ret ()"
proof -
  let ?p = "\<lparr>per_Type = ''hot_update'', per_Result = Some [(v, u)]\<rparr>"
  have get: "resultMap mem_kube (Some ?p, demo_proc_results) = (Ret demo_result_map, (Some ?p, demo_proc_results))"
    unfolding resultMap_Ret_iff [OF mem_result_store]
    using demo_store by (simp add: demo_proc_results_def demo_proc_def)
  have merge: "mergeResults mini_yaml ?p (Some []) ''ns-p'' = Ret (Some [(''hot_update'', Some [(v, u)])])"
    by (simp add: mergeResults_def gmake_def put_all_def)
  have doc: "yl_Marshal mini_yaml (Some [(''hot_update'', Some [(v, u)])]) = Ret (join_with nl [''hot_update'', v, u])"
    using assms by (simp add: mini_yaml_def nl_def del: join_with.simps)
  have old: "mem_store (pr_api demo_proc_results) (cm_key (demo_result_map\<lparr>cm_Data := d\<rparr>)) \<noteq> None" for d
    using demo_store by (simp add: cm_key_def demo_result_map_def result_key_def)
  have "pr_kube demo_proc_results" by (simp add: demo_proc_results_def demo_proc_def)
  with old show ?thesis
    by (simp add: SetPersistenceInfo_def get merge doc tryM_def pod_env_names gmake_def on_snd_def zoomM_apply
        UpdateConfigmap_def on_kube_def mem_kube_calls mem_client_calls
        demo_result_map_def [THEN arg_cong [where f = cm_Data]] del: join_with.simps)
qed

lemma demo_Set_runs: "fst (SetPersistenceInfo pod_env mem_kube mini_yaml (Some demo_per, demo_proc_results)) = Ret ()"
  unfolding demo_per_def by (rule demo_Set_ok) (simp_all add: nl_def)

theorem Set_then_Get_witness:
  "\<exists>r t. GetPersistenceInfo pod_env mem_kube mini_yaml
      (Some \<lparr>per_Type = ''hot_update'', per_Result = None\<rparr>,
       snd (snd (SetPersistenceInfo pod_env mem_kube mini_yaml (Some demo_per, demo_proc_results)))) =
      (Ret (), (Some \<lparr>per_Type = ''hot_update'', per_Result = r\<rparr>, t)) \<and> glookup r ''v1'' = Some ''url''"
proof -
  obtain q t where run: "SetPersistenceInfo pod_env mem_kube mini_yaml (Some demo_per, demo_proc_results) = (Ret (), (q, t))"
    using demo_Set_runs by (metis eq_fst_iff surj_pair)
  have "gmap_ok (per_Result demo_per)" by (simp add: demo_per_def gmap_ok_def)
  from Set_then_Get [OF mem_result_store mini_yaml_ok this run,
      of "\<lparr>per_Type = ''hot_update'', per_Result = None\<rparr>"] run
  show ?thesis by (auto simp: demo_per_def)
qed



section \<open>A pod without results of its own\<close>

text \<open>
  \<open>dec\<close> says what a document decodes to. Decoding into a map that has entries adds the decoded ones
  and overwrites those with the same key.
\<close>

definition yaml_decodes :: "yaml_lib \<Rightarrow> (string \<Rightarrow> (string \<times> results) list option) \<Rightarrow> bool" where
  "yaml_decodes yl dec \<longleftrightarrow>
     (\<forall>doc es. dec doc = Some es \<longrightarrow>
        (\<forall>m. yl_Unmarshal yl doc m = Ret (Some (copy_into es (grange m)))) \<and>
        distinct (map fst es) \<and> (\<forall>(ty, m) \<in> set es. gmap_ok m))"

definition doc_results :: "(string \<Rightarrow> (string \<times> results) list option) \<Rightarrow> string \<Rightarrow> string \<Rightarrow> string \<rightharpoonup> string"
  where
  "doc_results dec ty doc =
     (case Option.bind (dec doc) (\<lambda>es. map_of es ty) of None \<Rightarrow> Map.empty | Some m \<Rightarrow> glookup m)"

definition already_in :: "results option \<Rightarrow> (string \<times> string) list \<Rightarrow> bool" where
  "already_in m r \<longleftrightarrow>
     (case m of None \<Rightarrow> True | Some x \<Rightarrow> gmap_ok x \<and> map_of r ++ glookup x = map_of r)"

lemma map_add_twice: "m ++ a ++ a = m ++ a"
  by (rule ext) (simp add: map_add_def split: option.split)

lemma collectResults_sum:
  assumes "yaml_decodes yl dec"
  shows "(\<forall>kv \<in> set docs. dec (snd kv) \<noteq> None) \<Longrightarrow> already_in (glookup info ty) r \<Longrightarrow>
    \<exists>r'. collectResults yl ty docs info (Some (p\<lparr>per_Result := Some r\<rparr>), s) =
        (Ret (), (Some (p\<lparr>per_Result := Some r'\<rparr>), s)) \<and>
      map_of r' = fold (\<lambda>kv m. m ++ doc_results dec ty (snd kv)) docs (map_of r)"
proof (induction docs arbitrary: info r)
  case Nil
  show ?case by (rule exI [of _ r]) simp
next
  case (Cons kv docs)
  obtain es where es: "dec (snd kv) = Some es" using Cons.prems(1) by auto
  have un: "yl_Unmarshal yl (snd kv) info = Ret (Some (copy_into es (grange info)))" and d: "distinct (map fst es)"
    and oks: "\<forall>(ty, m) \<in> set es. gmap_ok m"
    using assms es unfolding yaml_decodes_def by blast+
  have ok: "gmap_ok m" if "map_of es ty = Some m" for m
    using bspec [OF oks map_of_SomeD [OF that]] by simp
  let ?m = "map_of (grange info) ++ map_of es"
  have look: "glookup (Some (copy_into es (grange info))) ty = ?m ty"
    using d by (simp add: map_of_copy_into)
  let ?r = "case ?m ty of None \<Rightarrow> r | Some m \<Rightarrow> copy_into (grange m) r"
  have okm: "gmap_ok m" if "?m ty = Some m" for m
    using that ok Cons.prems(2) by (auto simp: already_in_def glookup_def split: option.splits)
  have copied: "map_of (copy_into (grange m) r) = map_of r ++ glookup m" if "?m ty = Some m" for m
    using okm [OF that] by (simp add: map_of_copy_into gmap_ok_def glookup_def [abs_def])
  have sum: "map_of ?r = map_of r ++ doc_results dec ty (snd kv)"
    using Cons.prems(2) copied es
    by (cases "map_of es ty")
      (auto simp: doc_results_def already_in_def glookup_def [abs_def] map_add_def split: option.splits)
  have inv: "already_in (glookup (Some (copy_into es (grange info))) ty) ?r"
    using copied okm unfolding look by (auto simp: already_in_def map_add_twice split: option.split)
  have step: "collectResults yl ty (kv # docs) info (Some (p\<lparr>per_Result := Some r\<rparr>), s) =
      collectResults yl ty docs (Some (copy_into es (grange info))) (Some (p\<lparr>per_Result := Some ?r\<rparr>), s)"
    using look
    by (cases "?m ty") (simp_all add: un tryM_def addResults_def del: map_add_None map_add_Some_iff)
  from Cons.IH [OF _ inv] Cons.prems(1) show ?case unfolding step by (simp add: sum)
qed

text \<open>
  C30: a pod that has no document yet loads the results of all other pods: one map with every
  version that any document lists for the type, in the order of the documents where they differ.
  That a decoded document stays in the variable for the next round does not matter.
\<close>

theorem Get_collects_all_pods:
  assumes "result_store ki store" and "yaml_decodes yl dec" and "pr_kube s"
    and "GetCurrentPodInfo env = Ret name" and "store (pr_api s) result_key = Some cm"
    and "glookup (cm_Data cm) name = None" and "\<forall>kv \<in> set (grange (cm_Data cm)). dec (snd kv) \<noteq> None"
    and "per_Type p \<noteq> []"
  shows "\<exists>r. GetPersistenceInfo env ki yl (Some p, s) = (Ret (), (Some (p\<lparr>per_Result := Some r\<rparr>), s)) \<and>
    map_of r = fold (\<lambda>kv m. m ++ doc_results dec (per_Type p) (snd kv)) (grange (cm_Data cm)) Map.empty"
proof -
  have get: "resultMap ki (Some p, s) = (Ret cm, (Some p, s))"
    using assms(3,5) by (simp add: resultMap_Ret_iff [OF assms(1)])
  have "already_in (glookup gmake (per_Type p)) []" by (simp add: already_in_def)
  from collectResults_sum [OF assms(2,7) this, of p s]
  show ?thesis
    using assms(4,6,8)
    by (auto simp: GetPersistenceInfo_def get tryM_def setResult_def loadResults_def gmake_def)
qed

definition mini_dec :: "string \<Rightarrow> (string \<times> results) list option" where
  "mini_dec doc = (case split_on nl doc of [ty, v, u] \<Rightarrow> Some [(ty, Some [(v, u)])] | _ \<Rightarrow> None)"

lemma mini_yaml_decodes: "yaml_decodes mini_yaml mini_dec"
  by (auto simp: yaml_decodes_def mini_dec_def mini_yaml_def gmap_ok_def split: list.splits)

theorem Get_collects_all_pods_witness:
  "\<exists>r. GetPersistenceInfo pod_env mem_kube mini_yaml (Some demo_per,
       demo_proc\<lparr>pr_api := demo_server\<lparr>srv_configmaps := [(result_key, demo_result_map
         \<lparr>cm_Data := Some [(''a-x'', ''hot_update'' @ nl # ''v1'' @ nl # ''u1''),
                        (''a-y'', ''hot_update'' @ nl # ''v2'' @ nl # ''u2'')]\<rparr>)]\<rparr>\<rparr>) =
     (Ret (), (Some (demo_per\<lparr>per_Result := Some r\<rparr>), demo_proc\<lparr>pr_api := demo_server\<lparr>srv_configmaps :=
        [(result_key, demo_result_map
         \<lparr>cm_Data := Some [(''a-x'', ''hot_update'' @ nl # ''v1'' @ nl # ''u1''),
                        (''a-y'', ''hot_update'' @ nl # ''v2'' @ nl # ''u2'')]\<rparr>)]\<rparr>\<rparr>)) \<and>
     map_of r = [''v1'' \<mapsto> ''u1'', ''v2'' \<mapsto> ''u2'']"
proof -
  let ?docs = "[(''a-x'', ''hot_update'' @ nl # ''v1'' @ nl # ''u1''), (''a-y'', ''hot_update'' @ nl # ''v2'' @ nl # ''u2'')]"
  let ?cm = "demo_result_map\<lparr>cm_Data := Some ?docs\<rparr>"
  let ?s = "demo_proc\<lparr>pr_api := demo_server\<lparr>srv_configmaps := [(result_key, ?cm)]\<rparr>\<rparr>"
  have h: "pr_kube ?s" "mem_store (pr_api ?s) result_key = Some ?cm" "glookup (cm_Data ?cm) ''ns-p'' = None"
    "per_Type demo_per \<noteq> []"
    by (simp_all add: demo_proc_def mem_store_def named_def demo_result_map_def result_key_def demo_per_def)
  have docs: "\<forall>kv \<in> set (grange (cm_Data ?cm)). mini_dec (snd kv) \<noteq> None"
    by (simp add: demo_result_map_def mini_dec_def nl_def)
  have "doc_results mini_dec ''hot_update'' (''hot_update'' @ nl # ''v1'' @ nl # ''u1'') = [''v1'' \<mapsto> ''u1'']"
    "doc_results mini_dec ''hot_update'' (''hot_update'' @ nl # ''v2'' @ nl # ''u2'') = [''v2'' \<mapsto> ''u2'']"
    by (auto simp: doc_results_def mini_dec_def nl_def glookup_def)
  with Get_collects_all_pods [OF mem_result_store mini_yaml_decodes h(1) pod_env_names(2) h(2,3) docs h(4)]
  show ?thesis by (simp add: demo_per_def)
qed

end
