(* ===== verification/KcTemplate.thy ===== *)
theory KcTemplate imports KcInfo KcStrings begin

text \<open>
  pkg/template: values of the form \<^verbatim>\<open>${SELF:NAME}\<close> and \<^verbatim>\<open>${POD:NAME}\<close> in a configuration are
  replaced by environment variables of the sidecar or of the pod's first container. The walk over
  the configuration goes by reflection and is modelled on a universe of values.
\<close>

section \<open>Expressions\<close>

fun strip_prefix :: "string \<Rightarrow> string \<Rightarrow> string option" where
  "strip_prefix [] s = Some s"
| "strip_prefix (p # ps) [] = None"
| "strip_prefix (p # ps) (c # s) = (if p = c then strip_prefix ps s else None)"

text \<open>\<^verbatim>\<open>([^}]+)\}\<close> at the start of the text.\<close>

definition var_name :: "string \<Rightarrow> string option" where
  "var_name s =
     (let n = takeWhile (\<lambda>c. c \<noteq> CHR ''}'') s
      in if n \<noteq> [] \<and> length n < length s then Some n else None)"

text \<open>The pattern \<^verbatim>\<open>\$\{(SELF|POD):([^}]+)\}\<close> at the start of the text: its two groups.\<close>

definition match_here :: "string \<Rightarrow> (string \<times> string) option" where
  "match_here s =
     (case strip_prefix ''${SELF:'' s of
        Some r \<Rightarrow> map_option (Pair ''SELF'') (var_name r)
      | None \<Rightarrow>
          (case strip_prefix ''${POD:'' s of
             Some r \<Rightarrow> map_option (Pair ''POD'') (var_name r)
           | None \<Rightarrow> None))"

text \<open>\<^verbatim>\<open>FindStringSubmatch\<close>: the leftmost match.\<close>

fun find_expr :: "string \<Rightarrow> (string \<times> string) option" where
  "find_expr [] = None"
| "find_expr (c # s) =
     (case match_here (c # s) of Some m \<Rightarrow> Some m | None \<Rightarrow> find_expr s)"

definition ReplaceValue :: "environment \<Rightarrow> string \<Rightarrow> container \<Rightarrow> string go" where
  "ReplaceValue env val c =
     (case find_expr val of
        None \<Rightarrow> Ret val
      | Some (envType, envName) \<Rightarrow>
          (if envType = ''SELF'' then
             (case env envName of
                Some v \<Rightarrow> Ret v
              | None \<Rightarrow> Fail (Errorf (''environment variable '' @ envName @ '' not found'')))
           else if envType = ''POD'' then
             (case find (\<lambda>ev. ev_Name ev = envName) (c_Env c) of
                Some ev \<Rightarrow> Ret (ev_Value ev)
              | None \<Rightarrow> Fail (Errorf (''environment variable '' @ envName @ '' not found'')))
           else Fail (Errorf (''unknown environment variable type: '' @ envType))))"

definition expressionReplaceValue :: "environment \<Rightarrow> string \<Rightarrow> pod \<Rightarrow> string go" where
  "expressionReplaceValue env val p =
     (case ps_Containers p of
        [] \<Rightarrow> Panic ''index out of range [0] with length 0''
      | c # cs \<Rightarrow> ReplaceValue env val c)"

section \<open>The walk over a configuration\<close>

text \<open>
  The values the walk tells apart. A field has a name, an export flag, and the value of its
  \<^verbatim>\<open>parse\<close> tag if it has one. Slices, maps, numbers and booleans are \<open>ROther\<close>.
\<close>

datatype rvalue =
    RStr string
  | RStruct "rfield list"
  | RPtr "rvalue option"
  | ROther string
and rfield = RField string bool "string option" rvalue

primrec is_struct :: "rvalue \<Rightarrow> bool" where
  "is_struct (RStr x) = False"
| "is_struct (RStruct fs) = True"
| "is_struct (RPtr p) = False"
| "is_struct (ROther x) = False"

text \<open>
  \<^verbatim>\<open>ParseConfig\<close> after the pointer was followed. \<open>ad\<close> tells whether the value is addressable:
  it is when it was reached through a pointer. The walk changes the value in place, so the value
  comes back together with the outcome.
\<close>

function ParseValue ::
    "environment \<Rightarrow> 'k kube_iface \<Rightarrow> bool \<Rightarrow> rvalue \<Rightarrow> 'k proc \<Rightarrow> unit go \<times> rvalue \<times> 'k proc"
  and parseFields ::
    "environment \<Rightarrow> 'k kube_iface \<Rightarrow> bool \<Rightarrow> pod \<Rightarrow> rfield list \<Rightarrow> 'k proc \<Rightarrow>
       unit go \<times> rfield list \<times> 'k proc"
  and parseField ::
    "environment \<Rightarrow> 'k kube_iface \<Rightarrow> bool \<Rightarrow> pod \<Rightarrow> rfield \<Rightarrow> 'k proc \<Rightarrow> unit go \<times> rfield \<times> 'k proc"
  where
  "ParseValue env ki ad v s =
     (case GetCurrentPod env ki s of
        (Fail e, t) \<Rightarrow> (Fail (Wrapw ''failed to get current pod'' e), v, t)
      | (Panic m, t) \<Rightarrow> (Panic m, v, t)
      | (Ret p, t) \<Rightarrow>
          (case v of
             RStruct fs \<Rightarrow> (case parseFields env ki ad p fs t of (r, fs', u) \<Rightarrow> (r, RStruct fs', u))
           | _ \<Rightarrow> (Panic ''reflect: call of reflect.Value.NumField'', v, t)))"
| "parseFields env ki ad p [] s = (Ret (), [], s)"
| "parseFields env ki ad p (f # fs) s =
     (case parseField env ki ad p f s of
        (Ret x, f', t) \<Rightarrow> (case parseFields env ki ad p fs t of (r, fs', u) \<Rightarrow> (r, f' # fs', u))
      | (Fail e, f', t) \<Rightarrow> (Fail e, f' # fs, t)
      | (Panic m, f', t) \<Rightarrow> (Panic m, f' # fs, t))"
| "parseField env ki ad p (RField n exported tag v) s =
     (if \<not> exported then (Ret (), RField n exported tag v, s)
      else case v of
        RStr x \<Rightarrow>
          (if tag = Some ''true'' then
             (case expressionReplaceValue env x p of
                Fail e \<Rightarrow> (Fail (Wrapw (''failed to parse field '' @ n) e), RField n exported tag v, s)
              | Panic m \<Rightarrow> (Panic m, RField n exported tag v, s)
              | Ret y \<Rightarrow>
                  (if ad then (Ret (), RField n exported tag (RStr y), s)
                   else (Panic ''reflect: SetString using unaddressable value'',
                         RField n exported tag v, s)))
           else (Ret (), RField n exported tag v, s))
      | RStruct fs \<Rightarrow>
          (if \<not> ad then (Panic ''reflect.Value.Addr of unaddressable value'', RField n exported tag v, s)
           else case ParseValue env ki True (RStruct fs) s of
             (r, v', t) \<Rightarrow> (r, RField n exported tag v', t))
      | RPtr None \<Rightarrow> (Ret (), RField n exported tag v, s)
      | RPtr (Some w) \<Rightarrow>
          (if is_struct w
           then case ParseValue env ki True w s of
             (r, w', t) \<Rightarrow> (r, RField n exported tag (RPtr (Some w')), t)
           else (Ret (), RField n exported tag v, s))
      | ROther x \<Rightarrow> (Ret (), RField n exported tag v, s))"
  by pat_completeness auto

termination
  by (relation "measure (\<lambda>a. case a of
        Inl (_, _, _, v, _) \<Rightarrow> size v
      | Inr (Inl (_, _, _, _, fs, _)) \<Rightarrow> size_list size fs
      | Inr (Inr (_, _, _, _, f, _)) \<Rightarrow> size f)") auto

definition ParseConfig ::
    "environment \<Rightarrow> 'k kube_iface \<Rightarrow> rvalue \<Rightarrow> 'k proc \<Rightarrow> unit go \<times> rvalue \<times> 'k proc" where
  "ParseConfig env ki v s =
     (case v of
        RPtr (Some w) \<Rightarrow> (case ParseValue env ki True w s of (r, w', t) \<Rightarrow> (r, RPtr (Some w'), t))
      | RPtr None \<Rightarrow>
          (case GetCurrentPod env ki s of
             (Fail e, t) \<Rightarrow> (Fail (Wrapw ''failed to get current pod'' e), v, t)
           | (Panic m, t) \<Rightarrow> (Panic m, v, t)
           | (Ret p, t) \<Rightarrow> (Ret (), v, t))
      | _ \<Rightarrow> ParseValue env ki False v s)"

section \<open>What an expression is\<close>

text \<open>The text \<open>s\<close> starts with the expression of type \<open>ty\<close> for the variable \<open>n\<close>.\<close>

definition expr_at :: "string \<Rightarrow> string \<Rightarrow> string \<Rightarrow> bool" where
  "expr_at ty n s \<longleftrightarrow>
     (ty = ''SELF'' \<or> ty = ''POD'') \<and> n \<noteq> [] \<and> CHR ''}'' \<notin> set n \<and>
     (\<exists>post. s = ''${'' @ ty @ '':'' @ n @ ''}'' @ post)"

lemma strip_prefix_Some_iff: "strip_prefix p s = Some r \<longleftrightarrow> s = p @ r"
  by (induction p s rule: strip_prefix.induct) auto

lemma strip_prefix_append [simp]: "strip_prefix p (p @ r) = Some r"
  by (simp add: strip_prefix_Some_iff)

lemma takeWhile_stop: "x \<notin> set n \<Longrightarrow> takeWhile (\<lambda>c. c \<noteq> x) (n @ x # r) = n"
  by (induction n) auto

lemma var_name_Some_iff:
  "var_name s = Some n \<longleftrightarrow> n \<noteq> [] \<and> CHR ''}'' \<notin> set n \<and> (\<exists>post. s = n @ ''}'' @ post)"
proof
  assume "var_name s = Some n"
  then have n: "n = takeWhile (\<lambda>c. c \<noteq> CHR ''}'') s" "n \<noteq> []" "length n < length s"
    by (auto simp: var_name_def Let_def split: if_splits)
  have "dropWhile (\<lambda>c. c \<noteq> CHR ''}'') s \<noteq> []"
  proof
    assume "dropWhile (\<lambda>c. c \<noteq> CHR ''}'') s = []"
    then have "n = s" using takeWhile_dropWhile_id [of "\<lambda>c. c \<noteq> CHR ''}''" s] n(1) by simp
    then show False using n(3) by simp
  qed
  then obtain c post where d: "dropWhile (\<lambda>c. c \<noteq> CHR ''}'') s = c # post"
    by (cases "dropWhile (\<lambda>c. c \<noteq> CHR ''}'') s") auto
  then have "c = CHR ''}''" using hd_dropWhile [of "\<lambda>c. c \<noteq> CHR ''}''" s] by simp
  with d have "s = n @ ''}'' @ post"
    using takeWhile_dropWhile_id [of "\<lambda>c. c \<noteq> CHR ''}''" s] n(1) by simp
  moreover have "CHR ''}'' \<notin> set n" using n(1) by (auto dest: set_takeWhileD)
  ultimately show "n \<noteq> [] \<and> CHR ''}'' \<notin> set n \<and> (\<exists>post. s = n @ ''}'' @ post)"
    using n(2) by blast
qed (auto simp: var_name_def takeWhile_stop)

lemma expr_at_iff:
  "expr_at ty n s \<longleftrightarrow>
     (ty = ''SELF'' \<and> (\<exists>r. s = ''${SELF:'' @ r \<and> var_name r = Some n)) \<or>
     (ty = ''POD'' \<and> (\<exists>r. s = ''${POD:'' @ r \<and> var_name r = Some n))"
proof -
  have split: "(n \<noteq> [] \<and> CHR ''}'' \<notin> set n \<and> (\<exists>post. s = p @ n @ ''}'' @ post)) \<longleftrightarrow>
      (\<exists>r. s = p @ r \<and> var_name r = Some n)" for p
    unfolding var_name_Some_iff by blast
  show ?thesis
    using split [of "''${SELF:''"] split [of "''${POD:''"] by (cases "ty = ''SELF''"; cases "ty = ''POD''") (simp_all add: expr_at_def)
qed

lemma match_here_Some_iff: "match_here s = Some (ty, n) \<longleftrightarrow> expr_at ty n s"
proof (cases "strip_prefix ''${SELF:'' s")
  case (Some r)
  then have s: "s = ''${SELF:'' @ r" by (simp add: strip_prefix_Some_iff)
  show ?thesis unfolding expr_at_iff s by (auto simp: match_here_def)
next
  case self: None
  show ?thesis
  proof (cases "strip_prefix ''${POD:'' s")
    case (Some r)
    then have s: "s = ''${POD:'' @ r" by (simp add: strip_prefix_Some_iff)
    show ?thesis unfolding expr_at_iff s by (auto simp: match_here_def)
  next
    case None
    then show ?thesis
      using self unfolding expr_at_iff strip_prefix_Some_iff [symmetric]
      by (simp add: match_here_def)
  qed
qed

definition leftmost_expr :: "string \<Rightarrow> string \<Rightarrow> string \<Rightarrow> string \<Rightarrow> bool" where
  "leftmost_expr pre ty n s \<longleftrightarrow>
     (\<exists>suf. s = pre @ suf \<and> expr_at ty n suf) \<and>
     (\<forall>ty' n' k. k < length pre \<longrightarrow> \<not> expr_at ty' n' (drop k s))"

lemma find_expr_Some_iff: "find_expr s = Some (ty, n) \<longleftrightarrow> (\<exists>pre. leftmost_expr pre ty n s)"
proof (induction s)
  case Nil
  then show ?case by (auto simp: leftmost_expr_def expr_at_def)
next
  case (Cons c s)
  show ?case
  proof (cases "match_here (c # s)")
    case (Some m)
    obtain ty0 n0 where m: "m = (ty0, n0)" by (cases m)
    with Some have at0: "expr_at ty0 n0 (c # s)" by (simp add: match_here_Some_iff)
    have "leftmost_expr pre ty n (c # s) \<longleftrightarrow> pre = [] \<and> expr_at ty n (c # s)" for pre
      using at0 by (cases pre) (force simp: leftmost_expr_def)+
    moreover have "expr_at ty n (c # s) \<longleftrightarrow> ty = ty0 \<and> n = n0"
      using Some m by (simp add: match_here_Some_iff [symmetric]) blast
    ultimately show ?thesis using Some m by auto
  next
    case None
    then have no: "\<not> expr_at ty' n' (c # s)" for ty' n'
      by (metis match_here_Some_iff option.distinct(1))
    have "leftmost_expr pre ty n (c # s) \<longleftrightarrow> (\<exists>pre'. pre = c # pre' \<and> leftmost_expr pre' ty n s)" for pre
    proof (cases pre)
      case Nil
      then show ?thesis using no by (simp add: leftmost_expr_def)
    next
      case (Cons d pre')
      have "(\<forall>ty' n' k. k < length (d # pre') \<longrightarrow> \<not> expr_at ty' n' (drop k (c # s))) \<longleftrightarrow>
          (\<forall>ty' n' k. k < length pre' \<longrightarrow> \<not> expr_at ty' n' (drop k s))"
        using no by (simp only: length_Cons All_less_Suc2 all_simps(1) [symmetric]) simp
      then show ?thesis using Cons by (auto simp: leftmost_expr_def)
    qed
    then show ?thesis using Cons None by auto
  qed
qed

lemma find_expr_None_iff: "find_expr s = None \<longleftrightarrow> (\<forall>pre ty n. \<not> leftmost_expr pre ty n s)"
  by (metis find_expr_Some_iff not_None_eq surj_pair)

section \<open>What the walk leaves alone\<close>

text \<open>The value with every string the walk may replace blanked out.\<close>

primrec is_text :: "rvalue \<Rightarrow> bool" where
  "is_text (RStr x) = True"
| "is_text (RStruct fs) = False"
| "is_text (RPtr p) = False"
| "is_text (ROther x) = False"

primrec erase_value :: "rvalue \<Rightarrow> rvalue" and erase_field :: "rfield \<Rightarrow> rfield" where
  "erase_value (RStr x) = RStr x"
| "erase_value (RStruct fs) = RStruct (map erase_field fs)"
| "erase_value (RPtr p) = RPtr (map_option erase_value p)"
| "erase_value (ROther x) = ROther x"
| "erase_field (RField n exported tag v) =
     RField n exported tag
       (if \<not> exported then v
        else if tag = Some ''true'' \<and> is_text v then RStr []
        else erase_value v)"

lemma erase_value_StructD: "erase_value v = RStruct fs \<Longrightarrow> \<not> is_text v"
  by (cases v) simp_all

lemma walk_erase:
  "erase_value (fst (snd (ParseValue env ki ad v s))) = erase_value v"
  "map erase_field (fst (snd (parseFields env ki ad p fs s))) = map erase_field fs"
  "erase_field (fst (snd (parseField env ki ad p f s))) = erase_field f"
proof (induction env ki ad v s and env ki ad p fs s and env ki ad p f s
    rule: ParseValue_parseFields_parseField.induct)
  case (1 env ki ad v s)
  then show ?case
    by (cases "GetCurrentPod env ki s"; cases "fst (GetCurrentPod env ki s)"; cases v)
      (simp_all add: split_beta)
next
  case (2 env ki ad p s)
  then show ?case by simp
next
  case (3 env ki ad p f fs s)
  then show ?case by (auto split: prod.splits go.splits)
next
  case (4 env ki ad p n exported tag v s)
  then show ?case
    by (cases v) (auto split: prod.splits go.splits option.splits if_splits
          simp del: ParseValue.simps dest: erase_value_StructD)
qed

section \<open>Properties\<close>

text \<open>The variable an expression names, where it is set.\<close>

definition variable :: "environment \<Rightarrow> container \<Rightarrow> string \<Rightarrow> string \<Rightarrow> string option" where
  "variable env c ty n =
     (if ty = ''SELF'' then env n
      else map_option ev_Value (find (\<lambda>ev. ev_Name ev = n) (c_Env c)))"

lemma ReplaceValue_expr:
  assumes "find_expr val = Some (ty, n)"
  shows "ReplaceValue env val c =
     (case variable env c ty n of
        Some v \<Rightarrow> Ret v
      | None \<Rightarrow> Fail (Errorf (''environment variable '' @ n @ '' not found'')))"
proof -
  from assms obtain pre where "leftmost_expr pre ty n val" by (auto simp: find_expr_Some_iff)
  then have "ty = ''SELF'' \<or> ty = ''POD''" by (auto simp: leftmost_expr_def expr_at_def)
  then show ?thesis
    by (elim disjE) (simp_all add: ReplaceValue_def assms variable_def split: option.splits)
qed

text \<open>
  C14: a value with no expression stays as it is. Otherwise the leftmost expression decides,
  and the outcome is the variable it names, or an error if there is none: the text around the
  expression and all later expressions are dropped.
\<close>

theorem ReplaceValue_correct:
  "((\<forall>pre ty n. \<not> leftmost_expr pre ty n val) \<longrightarrow> ReplaceValue env val c = Ret val) \<and>
   (\<forall>pre ty n. leftmost_expr pre ty n val \<longrightarrow>
      ReplaceValue env val c =
        (case variable env c ty n of
           Some v \<Rightarrow> Ret v
         | None \<Rightarrow> Fail (Errorf (''environment variable '' @ n @ '' not found''))))"
proof (intro conjI allI impI)
  assume "\<forall>pre ty n. \<not> leftmost_expr pre ty n val"
  then have "find_expr val = None" by (simp add: find_expr_None_iff)
  then show "ReplaceValue env val c = Ret val" by (simp add: ReplaceValue_def)
next
  fix pre ty n assume "leftmost_expr pre ty n val"
  then have "find_expr val = Some (ty, n)" by (auto simp: find_expr_Some_iff)
  then show "ReplaceValue env val c =
      (case variable env c ty n of
         Some v \<Rightarrow> Ret v
       | None \<Rightarrow> Fail (Errorf (''environment variable '' @ n @ '' not found'')))"
    by (rule ReplaceValue_expr)
qed

theorem ReplaceValue_correct_witness:
  "ReplaceValue [''X'' \<mapsto> ''1''] ''a-${SELF:X}-${POD:Y}'' demo_container = Ret ''1'' \<and>
   ReplaceValue (\<lambda>_. None) ''a${SELF:}b'' demo_container = Ret ''a${SELF:}b''"
proof -
  have "find_expr ''a-${SELF:X}-${POD:Y}'' = Some (''SELF'', ''X'')"
    by (simp add: match_here_def var_name_def)
  then obtain pre where "leftmost_expr pre ''SELF'' ''X'' ''a-${SELF:X}-${POD:Y}''"
    unfolding find_expr_Some_iff by blast
  note 1 = ReplaceValue_correct [of "''a-${SELF:X}-${POD:Y}''" "[''X'' \<mapsto> ''1'']" demo_container,
      THEN conjunct2, rule_format, OF this]
  have "find_expr ''a${SELF:}b'' = None"
    by (simp add: match_here_def var_name_def)
  then have "\<forall>pre ty n. \<not> leftmost_expr pre ty n ''a${SELF:}b''" by (rule find_expr_None_iff [THEN iffD1])
  note 2 = ReplaceValue_correct [of "''a${SELF:}b''" "\<lambda>_. None" demo_container,
      THEN conjunct1, THEN mp, OF this]
  show ?thesis using 1 2 by (simp add: variable_def)
qed

text \<open>
  C28: whatever the outcome, an error or a panic half way included, the walk changes nothing
  of the configuration but exported string fields tagged \<^verbatim>\<open>parse:"true"\<close> that it reaches through
  structs and pointers to structs.
\<close>

theorem ParseConfig_keeps_rest:
  "erase_value (fst (snd (ParseConfig env ki v s))) = erase_value v"
proof -
  have "erase_value (fst (snd (ParseValue env ki ad w s))) = erase_value w" for ad w
    by (rule walk_erase(1))
  then show ?thesis
    by (cases v; cases "GetCurrentPod env ki s"; cases "fst (GetCurrentPod env ki s)")
      (simp_all add: ParseConfig_def split_beta del: ParseValue.simps split: option.split)
qed

end
