(* ===== verification/KcStoreConfig.thy ===== *)
theory KcStoreConfig imports KcTemplate begin

text \<open>
  pkg/store/config.go: the storage configuration of a plugin, its validation, the lookup of marker
  policies, and what the walk of pkg/template makes of such a configuration.
\<close>

section \<open>Types\<close>

record TargetKubeObject =
  tg_Group :: string
  tg_Version :: string
  tg_Resource :: string
  tg_Namespace :: string
  tg_Name :: string
  tg_PodOwner :: bool

record ProbeMarkerPolicy =
  pol_State :: string
  pol_Labels :: "(string, string) gomap"
  pol_Annotations :: "(string, string) gomap"

record InKubeConfig =
  ik_Target :: "TargetKubeObject option"
  ik_JsonPath :: "string option"
  ik_AnnotationKey :: "string option"
  ik_LabelKey :: "string option"
  ik_MarkerPolices :: "ProbeMarkerPolicy list"
  ik_policyMap :: "(string, ProbeMarkerPolicy) gomap"
  ik_preprocessd :: bool

record HTTPMetricConfig =
  hm_MetricName :: string

definition StorageTypeInKube :: string where
  "StorageTypeInKube = ''InKube''"

definition StorageTypeHTTPMetric :: string where
  "StorageTypeHTTPMetric = ''HTTPMetric''"

record StorageConfig =
  sg_Type :: string
  sg_InKube :: "InKubeConfig option"
  sg_HTTPMetric :: "HTTPMetricConfig option"

type_synonym FieldType = string

definition FieldTypeString :: FieldType where "FieldTypeString = ''string''"
definition FieldTypeInt :: FieldType where "FieldTypeInt = ''int''"
definition FieldTypeFloat :: FieldType where "FieldTypeFloat = ''float''"

record JSONPathConfig =
  jp_JSONPath :: string
  jp_FieldType :: FieldType

lemma storage_types_differ [simp]:
  "StorageTypeInKube \<noteq> StorageTypeHTTPMetric" "StorageTypeHTTPMetric \<noteq> StorageTypeInKube"
  by (simp_all add: StorageTypeInKube_def StorageTypeHTTPMetric_def)

section \<open>Validation\<close>

definition TargetKubeObject_IsValid :: "TargetKubeObject \<Rightarrow> unit go" where
  "TargetKubeObject_IsValid t =
     (if tg_Version t = [] then Fail (Errorf ''invalid version'')
      else if tg_Resource t = [] then Fail (Errorf ''invalid resource'')
      else if tg_Name t = [] then Fail (Errorf ''invalid name'')
      else Ret ())"

definition ToGvr :: "TargetKubeObject \<Rightarrow> gvr" where
  "ToGvr t = \<lparr>gvr_Group = tg_Group t, gvr_Version = tg_Version t, gvr_Resource = tg_Resource t\<rparr>"

definition InKubeConfig_IsValid :: "InKubeConfig \<Rightarrow> unit go" where
  "InKubeConfig_IsValid c =
     tryG (case ik_Target c of
             None \<Rightarrow> Ret ()
           | Some t \<Rightarrow> tryG (TargetKubeObject_IsValid t) (Wrapw ''invalid target'') (\<lambda>_. Ret ())) id
       (\<lambda>_. if ik_JsonPath c = None \<and> ik_AnnotationKey c = None \<and> ik_LabelKey c = None \<and>
                length (ik_MarkerPolices c) = 0
             then Fail (Errorf ''invalid annotationKey or labelKey or markerPolices'')
             else Ret ())"

section \<open>Marker policies\<close>

definition policy_entries ::
    "ProbeMarkerPolicy list \<Rightarrow> (string \<times> ProbeMarkerPolicy) list \<Rightarrow> (string \<times> ProbeMarkerPolicy) list"
  where
  "policy_entries ps m = fold (\<lambda>p. AList.update (pol_State p) p) ps m"

definition buildPolicyMap :: "InKubeConfig \<Rightarrow> InKubeConfig" where
  "buildPolicyMap c =
     (if length (ik_MarkerPolices c) < 1 then c
      else if ik_preprocessd c then c
      else c\<lparr>ik_policyMap := Some (policy_entries (ik_MarkerPolices c) [])\<rparr>)"

definition GetPolicyOfState :: "InKubeConfig \<Rightarrow> string \<Rightarrow> ProbeMarkerPolicy option" where
  "GetPolicyOfState c state =
     (if glen (ik_policyMap c) < 1 then None else glookup (ik_policyMap c) state)"

definition Preprocess :: "InKubeConfig \<Rightarrow> InKubeConfig" where
  "Preprocess c = (if ik_preprocessd c then c else (buildPolicyMap c)\<lparr>ik_preprocessd := True\<rparr>)"

text \<open>A configuration as it was decoded, or one that went through \<^verbatim>\<open>Preprocess\<close>.\<close>

definition policies_ok :: "InKubeConfig \<Rightarrow> bool" where
  "policies_ok c \<longleftrightarrow>
     (if ik_preprocessd c \<and> ik_MarkerPolices c \<noteq> []
      then ik_policyMap c = Some (policy_entries (ik_MarkerPolices c) [])
      else ik_policyMap c = None)"

lemma policies_ok_Preprocess [simp]: "policies_ok c \<Longrightarrow> policies_ok (Preprocess c)"
  by (cases "ik_MarkerPolices c = []") (auto simp: policies_ok_def Preprocess_def buildPolicyMap_def Suc_le_eq)

lemma Preprocess_preprocessd [simp]: "ik_preprocessd (Preprocess c)"
  by (simp add: Preprocess_def)

lemma Preprocess_twice [simp]: "Preprocess (Preprocess c) = Preprocess c"
  by (simp add: Preprocess_def [of "Preprocess c"])

lemma Preprocess_fields [simp]:
  "ik_Target (Preprocess c) = ik_Target c" "ik_AnnotationKey (Preprocess c) = ik_AnnotationKey c"
  "ik_LabelKey (Preprocess c) = ik_LabelKey c" "ik_MarkerPolices (Preprocess c) = ik_MarkerPolices c"
  "ik_JsonPath (Preprocess c) = ik_JsonPath c"
  by (simp_all add: Preprocess_def buildPolicyMap_def)

lemma map_of_policy_entries:
  "map_of (policy_entries ps m) st =
     (case find (\<lambda>p. pol_State p = st) (rev ps) of Some p \<Rightarrow> Some p | None \<Rightarrow> map_of m st)"
proof (induction ps rule: rev_induct)
  case Nil
  then show ?case by (simp add: policy_entries_def)
next
  case (snoc p ps)
  then show ?case by (simp add: policy_entries_def update_conv')
qed

text \<open>Once preprocessed, the last policy of a state is the one that counts.\<close>

lemma GetPolicyOfState_Preprocess:
  assumes "policies_ok c"
  shows "GetPolicyOfState (Preprocess c) st = find (\<lambda>p. pol_State p = st) (rev (ik_MarkerPolices c))"
proof (cases "ik_MarkerPolices c = []")
  case True
  then have "ik_policyMap (Preprocess c) = None"
    using assms by (simp add: policies_ok_def Preprocess_def buildPolicyMap_def)
  then show ?thesis using True by (simp add: GetPolicyOfState_def)
next
  case False
  then have m: "ik_policyMap (Preprocess c) = Some (policy_entries (ik_MarkerPolices c) [])"
    using policies_ok_Preprocess [OF assms] by (simp add: policies_ok_def)
  have "policy_entries (ik_MarkerPolices c) [] \<noteq> []"
  proof
    assume "policy_entries (ik_MarkerPolices c) [] = []"
    then have "find (\<lambda>p. pol_State p = pol_State (hd (ik_MarkerPolices c))) (rev (ik_MarkerPolices c)) = None"
      using map_of_policy_entries [of "ik_MarkerPolices c" "[]" "pol_State (hd (ik_MarkerPolices c))"]
      by (simp split: option.splits)
    then show False using hd_in_set [OF False] by (auto simp: find_None_iff)
  qed
  then show ?thesis
    using m by (simp add: GetPolicyOfState_def map_of_policy_entries split: option.split)
qed

section \<open>The configuration as the walk sees it\<close>

definition reflect_target :: "TargetKubeObject \<Rightarrow> rvalue" where
  "reflect_target t =
     RStruct
       [RField ''Group'' True None (RStr (tg_Group t)),
        RField ''Version'' True None (RStr (tg_Version t)),
        RField ''Resource'' True None (RStr (tg_Resource t)),
        RField ''Namespace'' True (Some ''true'') (RStr (tg_Namespace t)),
        RField ''Name'' True (Some ''true'') (RStr (tg_Name t)),
        RField ''PodOwner'' True None (ROther ''bool'')]"

definition reflect_inkube :: "InKubeConfig \<Rightarrow> rvalue" where
  "reflect_inkube c =
     RStruct
       [RField ''Target'' True None (RPtr (map_option reflect_target (ik_Target c))),
        RField ''JsonPath'' True None (RPtr (map_option RStr (ik_JsonPath c))),
        RField ''AnnotationKey'' True None (RPtr (map_option RStr (ik_AnnotationKey c))),
        RField ''LabelKey'' True None (RPtr (map_option RStr (ik_LabelKey c))),
        RField ''MarkerPolices'' True None (ROther ''[]ProbeMarkerPolicy''),
        RField ''policyMap'' False None (ROther ''map[string]ProbeMarkerPolicy''),
        RField ''preprocessd'' False None (ROther ''bool'')]"

definition reflect_metric :: "HTTPMetricConfig \<Rightarrow> rvalue" where
  "reflect_metric c = RStruct [RField ''MetricName'' True None (RStr (hm_MetricName c))]"

definition reflect_storage :: "StorageConfig \<Rightarrow> rvalue" where
  "reflect_storage c =
     RStruct
       [RField ''Type'' True None (RStr (sg_Type c)),
        RField ''InKube'' True None (RPtr (map_option reflect_inkube (sg_InKube c))),
        RField ''HTTPMetric'' True None (RPtr (map_option reflect_metric (sg_HTTPMetric c)))]"

text \<open>Reading the two replaceable strings back from a walked value, by field names.\<close>

fun field_named :: "string \<Rightarrow> rfield list \<Rightarrow> rvalue option" where
  "field_named n [] = None"
| "field_named n (RField m exported tag v # fs) = (if m = n then Some v else field_named n fs)"

fun subvalue :: "string list \<Rightarrow> rvalue \<Rightarrow> rvalue option" where
  "subvalue [] v = Some v"
| "subvalue (n # ns) (RStruct fs) =
     (case field_named n fs of None \<Rightarrow> None | Some v \<Rightarrow> subvalue ns v)"
| "subvalue (n # ns) (RPtr (Some (RStruct fs))) =
     (case field_named n fs of None \<Rightarrow> None | Some v \<Rightarrow> subvalue ns v)"
| "subvalue (n # ns) _ = None"

definition string_at :: "string list \<Rightarrow> rvalue \<Rightarrow> string \<Rightarrow> string" where
  "string_at ns v d = (case subvalue ns v of Some (RStr x) \<Rightarrow> x | _ \<Rightarrow> d)"

definition set_target :: "TargetKubeObject \<Rightarrow> StorageConfig \<Rightarrow> StorageConfig" where
  "set_target t c =
     c\<lparr>sg_InKube := map_option (\<lambda>k. k\<lparr>ik_Target := map_option (\<lambda>_. t) (ik_Target k)\<rparr>) (sg_InKube c)\<rparr>"

definition storage_target :: "StorageConfig \<Rightarrow> TargetKubeObject option" where
  "storage_target c = Option.bind (sg_InKube c) ik_Target"

definition read_back :: "rvalue \<Rightarrow> StorageConfig \<Rightarrow> StorageConfig" where
  "read_back v c =
     (case storage_target c of
        None \<Rightarrow> c
      | Some t \<Rightarrow>
          set_target
            (t\<lparr>tg_Namespace := string_at [''InKube'', ''Target'', ''Namespace''] v (tg_Namespace t),
               tg_Name := string_at [''InKube'', ''Target'', ''Name''] v (tg_Name t)\<rparr>) c)"

text \<open>
  \<^verbatim>\<open>template.ParseConfig\<close> on a storage configuration, given as a pointer to it or as a value. A
  value shares everything behind its pointers with the original, and the replaceable strings all
  are behind pointers, so the changes reach the original either way.
\<close>

definition ParseStorage ::
    "bool \<Rightarrow> environment \<Rightarrow> 'k kube_iface \<Rightarrow> (StorageConfig \<times> 'k proc, unit) act" where
  "ParseStorage by_pointer env ki s =
     (case ParseConfig env ki
             (if by_pointer then RPtr (Some (reflect_storage (fst s))) else reflect_storage (fst s))
             (snd s) of
        (r, v, t) \<Rightarrow> (r, (read_back v (fst s), t)))"

section \<open>The walk resolves the target\<close>

text \<open>What the walk is for: the namespace and then the name of the target are resolved.\<close>

definition resolve_target :: "environment \<Rightarrow> pod \<Rightarrow> TargetKubeObject \<Rightarrow> unit go \<times> TargetKubeObject" where
  "resolve_target env p t =
     (case expressionReplaceValue env (tg_Namespace t) p of
        Fail e \<Rightarrow> (Fail (Wrapw ''failed to parse field Namespace'' e), t)
      | Panic m \<Rightarrow> (Panic m, t)
      | Ret ns \<Rightarrow>
          (case expressionReplaceValue env (tg_Name t) p of
             Fail e \<Rightarrow> (Fail (Wrapw ''failed to parse field Name'' e), t\<lparr>tg_Namespace := ns\<rparr>)
           | Panic m \<Rightarrow> (Panic m, t\<lparr>tg_Namespace := ns\<rparr>)
           | Ret n \<Rightarrow> (Ret (), t\<lparr>tg_Namespace := ns, tg_Name := n\<rparr>)))"

lemma ParseValue_found:
  assumes "GetCurrentPod env ki s = (Ret p, t)"
  shows "ParseValue env ki ad (RStruct fs) s =
     (case parseFields env ki ad p fs t of (r, fs', u) \<Rightarrow> (r, RStruct fs', u))"
  by (simp add: assms)

lemma walk_target:
  assumes "GetCurrentPod env ki s = (Ret p, t)"
  shows "ParseValue env ki True (reflect_target tg) s =
     (case resolve_target env p tg of (r, tg') \<Rightarrow> (r, reflect_target tg', t))"
  by (simp add: reflect_target_def ParseValue_found [OF assms] resolve_target_def
      del: ParseValue.simps split: go.split)

lemma walk_metric:
  assumes "GetCurrentPod env ki s = (Ret p, t)"
  shows "ParseValue env ki True (reflect_metric c) s = (Ret (), reflect_metric c, t)"
  by (simp add: reflect_metric_def ParseValue_found [OF assms] del: ParseValue.simps)

lemma walk_inkube:
  assumes "GetCurrentPod env ki s = (Ret p, t)"
  shows "ParseValue env ki True (reflect_inkube c) s =
     (case ik_Target c of
        None \<Rightarrow> (Ret (), reflect_inkube c, t)
      | Some tg \<Rightarrow> (case resolve_target env p tg of
          (r, tg') \<Rightarrow> (r, reflect_inkube (c\<lparr>ik_Target := Some tg'\<rparr>), t)))"
proof -
  have again: "GetCurrentPod env ki t = (Ret p, t)" using assms by (rule GetCurrentPod_again)
  have [simp]: "is_struct (reflect_target tg)" for tg by (simp add: reflect_target_def)
  show ?thesis
    by (cases "ik_Target c"; cases "ik_JsonPath c"; cases "ik_AnnotationKey c"; cases "ik_LabelKey c")
      (simp_all add: reflect_inkube_def ParseValue_found [OF assms] walk_target [OF again]
        del: ParseValue.simps split: prod.split go.split)
qed

lemma walk_storage:
  assumes "GetCurrentPod env ki s = (Ret p, t)"
  shows "ParseValue env ki ad (reflect_storage c) s =
     (case storage_target c of
        None \<Rightarrow> (Ret (), reflect_storage c, t)
      | Some tg \<Rightarrow> (case resolve_target env p tg of
          (r, tg') \<Rightarrow> (r, reflect_storage (set_target tg' c), t)))"
proof -
  have again: "GetCurrentPod env ki t = (Ret p, t)" using assms by (rule GetCurrentPod_again)
  have [simp]: "is_struct (reflect_inkube k)" "is_struct (reflect_metric h)" for k h
    by (simp_all add: reflect_inkube_def reflect_metric_def)
  note [simp] = walk_inkube [OF again] walk_metric [OF again] ParseValue_found [OF assms]
  show ?thesis
  proof (cases "sg_InKube c")
    case None
    then show ?thesis
      by (cases "sg_HTTPMetric c")
        (simp_all add: reflect_storage_def storage_target_def del: ParseValue.simps)
  next
    case (Some k)
    then show ?thesis
      by (cases "ik_Target k"; cases "sg_HTTPMetric c")
        (simp_all add: reflect_storage_def storage_target_def set_target_def
          del: ParseValue.simps split: prod.split go.split)
  qed
qed

lemma set_target_same: "storage_target c = Some t \<Longrightarrow> set_target t c = c"
  by (cases c) (auto simp: set_target_def storage_target_def bind_eq_Some_conv)

lemma read_back_same [simp]: "read_back (reflect_storage c) c = c"
  by (auto simp: read_back_def string_at_def reflect_storage_def reflect_inkube_def reflect_target_def
      set_target_same storage_target_def bind_eq_Some_conv split: option.splits)

lemma string_at_pointer: "string_at (n # ns) (RPtr (Some (RStruct fs))) d = string_at (n # ns) (RStruct fs) d"
  by (simp add: string_at_def)

lemma read_back_pointer: "read_back (RPtr (Some (reflect_storage d))) c = read_back (reflect_storage d) c"
  by (simp add: read_back_def reflect_storage_def string_at_pointer split: option.split)

lemma read_back_target:
  assumes "storage_target c = Some tg"
    and "tg' = tg\<lparr>tg_Namespace := tg_Namespace tg', tg_Name := tg_Name tg'\<rparr>"
  shows "read_back (reflect_storage (set_target tg' c)) c = set_target tg' c"
proof -
  obtain k where k: "sg_InKube c = Some k" "ik_Target k = Some tg"
    using assms(1) by (auto simp: storage_target_def bind_eq_Some_conv)
  have "read_back (reflect_storage (set_target tg' c)) c =
      set_target (tg\<lparr>tg_Namespace := tg_Namespace tg', tg_Name := tg_Name tg'\<rparr>) c"
    using k assms(1) by (simp add: read_back_def string_at_def reflect_storage_def reflect_inkube_def
        reflect_target_def set_target_def)
  then show ?thesis using assms(2) by simp
qed

lemma resolve_target_frame:
  "resolve_target env p tg = (r, tg') \<Longrightarrow>
     tg' = tg\<lparr>tg_Namespace := tg_Namespace tg', tg_Name := tg_Name tg'\<rparr>"
  by (auto simp: resolve_target_def split: go.splits)

lemma ParseStorage_result:
  "ParseStorage by_pointer env ki (c, s) =
     (case GetCurrentPod env ki s of
        (Fail e, t) \<Rightarrow> (Fail (Wrapw ''failed to get current pod'' e), (c, t))
      | (Panic m, t) \<Rightarrow> (Panic m, (c, t))
      | (Ret p, t) \<Rightarrow>
          (case storage_target c of
             None \<Rightarrow> (Ret (), (c, t))
           | Some tg \<Rightarrow> (case resolve_target env p tg of (r, tg') \<Rightarrow> (r, (set_target tg' c, t)))))"
proof -
  obtain g t where g: "GetCurrentPod env ki s = (g, t)" by (cases "GetCurrentPod env ki s")
  have walk: "ParseStorage by_pointer env ki (c, s) =
      (case ParseValue env ki by_pointer (reflect_storage c) s of
         (r, v, u) \<Rightarrow> (r, (read_back (if by_pointer then RPtr (Some v) else v) c, u)))"
    by (cases by_pointer)
      (simp_all add: ParseStorage_def ParseConfig_def reflect_storage_def del: ParseValue.simps split: prod.split)
  show ?thesis
  proof (cases g)
    case (Ret p)
    then show ?thesis
      using g unfolding walk
      by (cases "storage_target c"; cases by_pointer)
        (auto simp: walk_storage read_back_pointer read_back_target resolve_target_frame
          simp del: ParseValue.simps split: prod.split)
  next
    case (Fail e)
    then show ?thesis using g unfolding walk by (simp add: read_back_pointer)
  next
    case (Panic m)
    then show ?thesis using g unfolding walk by (simp add: read_back_pointer)
  qed
qed


end
