(* ===== verification/KcStore.thy ===== *)
theory KcStore imports KcStoreConfig begin

text \<open>
  pkg/store: the two storages behind the \<^verbatim>\<open>Storage\<close> interface (in_kube.go, prom_metrics.go), the
  factory that hands them out (factory.go) and \<^verbatim>\<open>StorageConfig.StoreData\<close>. A plugin owns one
  factory and one configuration; both live beside the process state.
\<close>

section \<open>State\<close>

record inKube =
  ink_dynamic :: bool \<comment> \<open>the fields are set\<close>
  ink_Interface :: bool

type_synonym float64 = "64 word"

text \<open>
  The registry holds each gauge by name with its value; \<open>pm_metrics\<close> maps a metric name to a gauge,
  that is to its entry in the registry.
\<close>

record promMetric =
  pm_registry :: "(string \<times> float64) list option"
  pm_metrics :: "(string, string) gomap"

record 'k store_state =
  ss_inKube :: inKube
  ss_promMetric :: promMetric
  ss_config :: StorageConfig
  ss_proc :: "'k proc"

record store_lib =
  sl_ParseFloat :: "string \<Rightarrow> float64 go"
  sl_ValidMetricName :: "string \<Rightarrow> bool"

definition on_proc :: "('k proc, 'a) act \<Rightarrow> ('k store_state, 'a) act" where
  "on_proc = zoomM ss_proc (\<lambda>p s. s\<lparr>ss_proc := p\<rparr>)"

text \<open>A call through the interface the storage was set up with.\<close>

definition on_client :: "('k, 'a) act \<Rightarrow> ('k store_state, 'a) act" where
  "on_client m s =
     (if ink_Interface (ss_inKube s)
      then on_proc (zoomM pr_api (\<lambda>k p. p\<lparr>pr_api := k\<rparr>) m) s
      else (Panic ''nil pointer dereference: inKube.Interface'', s))"

section \<open>Patches\<close>

text \<open>One of the two maps of the pod patch: the configured key, then the entries of the policy.\<close>

definition patch_map :: "string \<Rightarrow> string option \<Rightarrow> (string, string) gomap \<Rightarrow> (string \<times> string) list" where
  "patch_map dat key pol =
     (let m0 = (case key of None \<Rightarrow> [] | Some k \<Rightarrow> AList.update k dat [])
      in if glen pol > 0 then copy_into (grange pol) m0 else m0)"

definition if_any :: "'a list \<Rightarrow> 'a list option" where
  "if_any xs = (if length xs > 0 then Some xs else None)"

definition buildPodPatch :: "string \<Rightarrow> InKubeConfig \<Rightarrow> pod_patch" where
  "buildPodPatch dat c =
     (let p = GetPolicyOfState c dat;
          annotations = patch_map dat (ik_AnnotationKey c)
            (case p of None \<Rightarrow> None | Some q \<Rightarrow> pol_Annotations q);
          ls = patch_map dat (ik_LabelKey c) (case p of None \<Rightarrow> None | Some q \<Rightarrow> pol_Labels q)
      in \<lparr>pp_annotations = if_any annotations, pp_labels = if_any ls\<rparr>)"

definition NewOperation :: "string \<Rightarrow> string \<Rightarrow> string \<Rightarrow> json_op" where
  "NewOperation o' path val = \<lparr>op_Operation = o', op_Path = path, op_Value = val\<rparr>"

definition replace_in :: "string \<Rightarrow> string \<Rightarrow> string \<Rightarrow> json_op" where
  "replace_in dir key val = NewOperation ''replace'' (dir @ rfc6901Encode key) val"

definition generatePatch :: "string \<Rightarrow> InKubeConfig \<Rightarrow> json_op list" where
  "generatePatch dat c =
     (case ik_AnnotationKey c of
        None \<Rightarrow> [] | Some k \<Rightarrow> [replace_in ''/metadata/annotations/'' k dat]) @
     (case ik_LabelKey c of
        None \<Rightarrow> [] | Some k \<Rightarrow> [replace_in ''/metadata/labels/'' k dat]) @
     (case GetPolicyOfState c dat of
        None \<Rightarrow> []
      | Some p \<Rightarrow>
          (if glen (pol_Annotations p) > 0
           then map (\<lambda>(k, v). replace_in ''/metadata/annotations/'' k v) (grange (pol_Annotations p))
           else []) @
          (if glen (pol_Labels p) > 0
           then map (\<lambda>(k, v). replace_in ''/metadata/labels/'' k v) (grange (pol_Labels p)) else []))"

section \<open>Storing in a Kubernetes object\<close>

definition inKube_IsInitialized :: "'k store_state \<Rightarrow> bool" where
  "inKube_IsInitialized s = ink_Interface (ss_inKube s)"

definition inKube_SetupWithManager :: "'k kube_iface \<Rightarrow> ('k store_state, unit) act" where
  "inKube_SetupWithManager ki =
     tryM (on_proc (zoomM pr_api (\<lambda>k p. p\<lparr>pr_api := k\<rparr>) (ki_NewDynamic ki)))
       (Wrapw ''failed to create dynamic client'')
       (\<lambda>_. modM (\<lambda>s. s\<lparr>ss_inKube := \<lparr>ink_dynamic = True, ink_Interface = True\<rparr>\<rparr>))"

definition storeInCurrentPod ::
    "environment \<Rightarrow> 'k kube_iface \<Rightarrow> string \<Rightarrow> InKubeConfig \<Rightarrow> ('k store_state, unit) act" where
  "storeInCurrentPod env ki dat config =
     tryM (on_proc (GetCurrentPod env ki)) (Wrapw ''failed to get current pod'') (\<lambda>currentPod.
     tryM (on_client (ki_RetryOnConflict ki
             (ki_PatchPod ki (pod_Namespace currentPod) (pod_Name currentPod) (buildPodPatch dat config))))
       (Wrapw ''failed to patch pod after mant retries'') (\<lambda>_. ret ()))"

definition storeInOtherObject ::
    "'k kube_iface \<Rightarrow> string \<Rightarrow> InKubeConfig \<Rightarrow> ('k store_state, unit) act" where
  "storeInOtherObject ki dat config =
     (case ik_Target config of
        None \<Rightarrow> ret ()
      | Some t \<Rightarrow>
          (if length (ik_MarkerPolices config) < 1 then ret ()
           else tryM (on_client (ki_PatchObject ki (ToGvr t) (tg_Namespace t) (tg_Name t)
                        (generatePatch dat config)))
                  (Wrapw ''failed to patch inKube'') (\<lambda>_. ret ())))"

text \<open>
  The \<^verbatim>\<open>interface{}\<close> argument of \<^verbatim>\<open>Store\<close>: one of the configuration's two pointers, which the
  storage follows, and changes the configuration through.
\<close>

datatype store_arg = InKubeArg | HTTPMetricArg

definition set_inkube :: "InKubeConfig \<Rightarrow> 'k store_state \<Rightarrow> 'k store_state" where
  "set_inkube c s = s\<lparr>ss_config := (ss_config s)\<lparr>sg_InKube := Some c\<rparr>\<rparr>"

definition inKube_Store ::
    "environment \<Rightarrow> 'k kube_iface \<Rightarrow> string \<Rightarrow> store_arg \<Rightarrow> ('k store_state, unit) act" where
  "inKube_Store env ki dat arg s =
     (case (if arg = InKubeArg then sg_InKube (ss_config s) else None) of
        None \<Rightarrow> failM (Errorf ''invalid in kube config type'') s
      | Some myconfig \<Rightarrow>
          tryM (liftG (InKubeConfig_IsValid myconfig)) (Wrapw ''invalid config'') (\<lambda>_.
          tryM (modM (set_inkube (Preprocess myconfig))) id (\<lambda>_.
          tryM (storeInCurrentPod env ki dat (Preprocess myconfig))
            (Wrapw ''failed to store in current pod'') (\<lambda>_.
            storeInOtherObject ki dat (Preprocess myconfig)))) s)"

section \<open>Storing in a metric\<close>

definition promMetric_IsInitialized :: "'k store_state \<Rightarrow> bool" where
  "promMetric_IsInitialized s \<longleftrightarrow> pm_registry (ss_promMetric s) \<noteq> None"

text \<open>\<^verbatim>\<open>http.Handle\<close> panics on a pattern that is registered already.\<close>

definition http_Handle :: "string \<Rightarrow> ('k proc, unit) act" where
  "http_Handle pattern s =
     (if pattern \<in> set (pr_mux s)
      then (Panic (''http: multiple registrations for '' @ pattern), s)
      else (Ret (), s\<lparr>pr_mux := pr_mux s @ [pattern]\<rparr>))"

text \<open>\<^verbatim>\<open>go http.ListenAndServe(addr, nil)\<close>: the goroutine listens later, and nobody looks at its error.\<close>

definition go_ListenAndServe :: "string \<Rightarrow> ('k proc, unit) act" where
  "go_ListenAndServe addr = modM (\<lambda>s. s\<lparr>pr_servers := pr_servers s @ [addr]\<rparr>)"

lemma on_proc_go [simp]:
  "on_proc (go_ListenAndServe addr) s =
     (Ret (), s\<lparr>ss_proc := (ss_proc s)\<lparr>pr_servers := pr_servers (ss_proc s) @ [addr]\<rparr>\<rparr>)"
  by (simp add: on_proc_def zoomM_apply go_ListenAndServe_def)

definition promMetric_SetupWithManager :: "('k store_state, unit) act" where
  "promMetric_SetupWithManager =
     tryM (on_proc (http_Handle ''/metrics'')) id (\<lambda>_.
     tryM (modM (\<lambda>s. s\<lparr>ss_promMetric := (ss_promMetric s)\<lparr>pm_registry := Some []\<rparr>\<rparr>)) id (\<lambda>_.
       on_proc (go_ListenAndServe '':8080'')))"

definition set_registry :: "(string \<times> float64) list \<Rightarrow> 'k store_state \<Rightarrow> 'k store_state" where
  "set_registry r s = s\<lparr>ss_promMetric := (ss_promMetric s)\<lparr>pm_registry := Some r\<rparr>\<rparr>"

definition MustRegister :: "store_lib \<Rightarrow> string \<Rightarrow> ('k store_state, unit) act" where
  "MustRegister sl name s =
     (case pm_registry (ss_promMetric s) of
        None \<Rightarrow> (Panic ''nil pointer dereference: registry'', s)
      | Some r \<Rightarrow>
          (if \<not> sl_ValidMetricName sl name \<or> name \<in> fst ` set r
           then (Panic ''MustRegister'', s)
           else (Ret (), set_registry (r @ [(name, 0)]) s)))"

definition getOrCreateGauge ::
    "store_lib \<Rightarrow> HTTPMetricConfig option \<Rightarrow> ('k store_state, string) act" where
  "getOrCreateGauge sl config s =
     (case config of
        None \<Rightarrow> (Panic ''nil pointer dereference: HTTPMetricConfig'', s)
      | Some c \<Rightarrow>
          (case glookup (pm_metrics (ss_promMetric s)) (hm_MetricName c) of
             Some g \<Rightarrow> (Ret g, s)
           | None \<Rightarrow>
               tryM (MustRegister sl (hm_MetricName c)) id (\<lambda>_ t.
                 tryM (liftG (gset (pm_metrics (ss_promMetric t)) (hm_MetricName c) (hm_MetricName c))) id
                   (\<lambda>m. tryM (modM (\<lambda>u. u\<lparr>ss_promMetric := (ss_promMetric u)\<lparr>pm_metrics := m\<rparr>\<rparr>)) id
                     (\<lambda>_. ret (hm_MetricName c))) t) s))"

definition gauge_Set :: "string \<Rightarrow> float64 \<Rightarrow> 'k store_state \<Rightarrow> 'k store_state" where
  "gauge_Set g f s =
     s\<lparr>ss_promMetric := (ss_promMetric s)
        \<lparr>pm_registry := map_option (AList.update g f) (pm_registry (ss_promMetric s))\<rparr>\<rparr>"

definition promMetric_Store :: "store_lib \<Rightarrow> string \<Rightarrow> store_arg \<Rightarrow> ('k store_state, unit) act" where
  "promMetric_Store sl dat arg s =
     (if arg \<noteq> HTTPMetricArg then failM (Errorf ''bad config of httpMetricConfig'') s
      else tryM (liftG (sl_ParseFloat sl dat)) (Wrapw ''bad data of httpMetricConfig'') (\<lambda>f.
           tryM (getOrCreateGauge sl (sg_HTTPMetric (ss_config s))) id (\<lambda>g.
             modM (gauge_Set g f))) s)"

section \<open>The factory\<close>

text \<open>\<^verbatim>\<open>NewStorageFactory\<close>: one fresh storage of each type.\<close>

definition NewStorageFactory :: "StorageConfig \<Rightarrow> 'k proc \<Rightarrow> 'k store_state" where
  "NewStorageFactory config p =
     \<lparr>ss_inKube = \<lparr>ink_dynamic = False, ink_Interface = False\<rparr>,
      ss_promMetric = \<lparr>pm_registry = None, pm_metrics = None\<rparr>,
      ss_config = config, ss_proc = p\<rparr>"

text \<open>The end of \<^verbatim>\<open>GetStorage\<close>, for any storage.\<close>

definition initialized ::
    "('s \<Rightarrow> bool) \<Rightarrow> ('s, unit) act \<Rightarrow> ('s, unit) act" where
  "initialized isInit configure s =
     (if isInit s then (Ret (), s)
      else tryM configure (Wrapw ''failed to setup storage'') (\<lambda>_. ret ()) s)"

definition GetStorage ::
    "environment \<Rightarrow> 'k kube_iface \<Rightarrow> store_lib \<Rightarrow> string \<Rightarrow>
       ('k store_state, string \<Rightarrow> store_arg \<Rightarrow> ('k store_state, unit) act) act" where
  "GetStorage env ki sl ty =
     (if ty = StorageTypeInKube
      then tryM (initialized inKube_IsInitialized (inKube_SetupWithManager ki)) id
             (\<lambda>_. ret (inKube_Store env ki))
      else if ty = StorageTypeHTTPMetric
      then tryM (initialized promMetric_IsInitialized promMetric_SetupWithManager) id
             (\<lambda>_. ret (promMetric_Store sl))
      else failM (Errorf (''storage type '' @ ty @ '' not found'')))"

definition StoreData ::
    "environment \<Rightarrow> 'k kube_iface \<Rightarrow> store_lib \<Rightarrow> string \<Rightarrow> ('k store_state, unit) act" where
  "StoreData env ki sl dat s =
     tryM (GetStorage env ki sl (sg_Type (ss_config s))) (Wrapw ''failed to get storage'') (\<lambda>store.
       if sg_Type (ss_config s) = StorageTypeInKube then store dat InKubeArg
       else if sg_Type (ss_config s) = StorageTypeHTTPMetric then store dat HTTPMetricArg
       else failM (Errorf (''unsupported storage type: '' @ sg_Type (ss_config s)))) s"

end
