(* ===== verification/KcStatus.thy ===== *)
theory KcStatus imports KcTypes begin

text \<open>
  pkg/plugins/hot_update/status.go and pkg/plugins/http_probe/status.go: the status cell of a
  plugin. The two files declare the same operations on two types; the laws are stated once, as a
  locale, and both types interpret it. Every writer holds the cell's mutex, so each is one step.
\<close>

section \<open>The two cells\<close>

type_synonym int64 = "64 word"

record HotUpdateStatus =
  hs_status :: string
  hs_err :: "gerr option"
  hs_activeGoroutines :: int64

record HttpProbeStatus =
  ps_status :: string
  ps_err :: "gerr option"
  ps_activeGoroutines :: int64

definition hs_setStatus :: "string \<Rightarrow> HotUpdateStatus \<Rightarrow> HotUpdateStatus" where
  "hs_setStatus x s = s\<lparr>hs_status := x\<rparr>"

definition hs_setError :: "gerr option \<Rightarrow> HotUpdateStatus \<Rightarrow> HotUpdateStatus" where
  "hs_setError e s = s\<lparr>hs_err := e\<rparr>"

definition hs_incrementGoroutines :: "HotUpdateStatus \<Rightarrow> HotUpdateStatus" where
  "hs_incrementGoroutines s = s\<lparr>hs_activeGoroutines := hs_activeGoroutines s + 1\<rparr>"

definition hs_decrementGoroutines :: "HotUpdateStatus \<Rightarrow> HotUpdateStatus" where
  "hs_decrementGoroutines s = s\<lparr>hs_activeGoroutines := hs_activeGoroutines s - 1\<rparr>"

definition hs_getStatus :: "HotUpdateStatus \<Rightarrow> string" where "hs_getStatus s = hs_status s"
definition hs_getError :: "HotUpdateStatus \<Rightarrow> gerr option" where "hs_getError s = hs_err s"
definition hs_getActiveGoroutines :: "HotUpdateStatus \<Rightarrow> int64" where
  "hs_getActiveGoroutines s = hs_activeGoroutines s"

definition ps_setStatus :: "string \<Rightarrow> HttpProbeStatus \<Rightarrow> HttpProbeStatus" where
  "ps_setStatus x s = s\<lparr>ps_status := x\<rparr>"

definition ps_setError :: "gerr option \<Rightarrow> HttpProbeStatus \<Rightarrow> HttpProbeStatus" where
  "ps_setError e s = s\<lparr>ps_err := e\<rparr>"

definition ps_incrementGoroutines :: "HttpProbeStatus \<Rightarrow> HttpProbeStatus" where
  "ps_incrementGoroutines s = s\<lparr>ps_activeGoroutines := ps_activeGoroutines s + 1\<rparr>"

definition ps_decrementGoroutines :: "HttpProbeStatus \<Rightarrow> HttpProbeStatus" where
  "ps_decrementGoroutines s = s\<lparr>ps_activeGoroutines := ps_activeGoroutines s - 1\<rparr>"

definition ps_getStatus :: "HttpProbeStatus \<Rightarrow> string" where "ps_getStatus s = ps_status s"
definition ps_getError :: "HttpProbeStatus \<Rightarrow> gerr option" where "ps_getError s = ps_err s"
definition ps_getActiveGoroutines :: "HttpProbeStatus \<Rightarrow> int64" where
  "ps_getActiveGoroutines s = ps_activeGoroutines s"

section \<open>Laws\<close>

datatype cell_op = SetStatus string | SetError "gerr option" | Increment | Decrement

locale status_cell =
  fixes setS :: "string \<Rightarrow> 's \<Rightarrow> 's" and getS :: "'s \<Rightarrow> string"
    and setE :: "gerr option \<Rightarrow> 's \<Rightarrow> 's" and getE :: "'s \<Rightarrow> gerr option"
    and inc :: "'s \<Rightarrow> 's" and dcr :: "'s \<Rightarrow> 's" and active :: "'s \<Rightarrow> int64"
  assumes get_set: "getS (setS x s) = x" "getE (setE e s) = e"
    and get_other: "getS (setE e s) = getS s" "getS (inc s) = getS s" "getS (dcr s) = getS s"
      "getE (setS x s) = getE s" "getE (inc s) = getE s" "getE (dcr s) = getE s"
    and active_step: "active (inc s) = active s + 1" "active (dcr s) = active s - 1"
      "active (setS x s) = active s" "active (setE e s) = active s"
begin

primrec cell_step :: "cell_op \<Rightarrow> 's \<Rightarrow> 's" where
  "cell_step (SetStatus x) s = setS x s"
| "cell_step (SetError e) s = setE e s"
| "cell_step Increment s = inc s"
| "cell_step Decrement s = dcr s"

lemma active_count:
  "active (fold cell_step ops s) =
     active s + of_nat (count_list ops Increment) - of_nat (count_list ops Decrement)"
proof (induction ops arbitrary: s)
  case (Cons a ops)
  then show ?case by (cases a) (simp_all add: active_step)
qed simp

lemma active_balanced:
  "count_list ops Increment = count_list ops Decrement \<Longrightarrow> active (fold cell_step ops s) = active s"
  by (simp add: active_count)

lemma status_last:
  "(\<And>x. SetStatus x \<notin> set ops) \<Longrightarrow> getS (fold cell_step ops (setS x s)) = x"
proof (induction ops rule: rev_induct)
  case (snoc a ops)
  then have "getS (fold cell_step ops (setS x s)) = x" by simp
  with snoc.prems show ?case by (cases a) (auto simp: get_other)
qed (simp add: get_set)

end

interpretation hs: status_cell hs_setStatus hs_getStatus hs_setError hs_getError
    hs_incrementGoroutines hs_decrementGoroutines hs_getActiveGoroutines
  by unfold_locales
    (simp_all add: hs_setStatus_def hs_getStatus_def hs_setError_def hs_getError_def
      hs_incrementGoroutines_def hs_decrementGoroutines_def hs_getActiveGoroutines_def)

interpretation ps: status_cell ps_setStatus ps_getStatus ps_setError ps_getError
    ps_incrementGoroutines ps_decrementGoroutines ps_getActiveGoroutines
  by unfold_locales
    (simp_all add: ps_setStatus_def ps_getStatus_def ps_setError_def ps_getError_def
      ps_incrementGoroutines_def ps_decrementGoroutines_def ps_getActiveGoroutines_def)

end
