(* ===== verification/KcHotUpdate.thy ===== *)
theory KcHotUpdate imports KcStore KcPersistent KcStatus begin

text \<open>
  pkg/plugins/hot_update: the plugin that downloads a new version of a file on request, tells the
  main process by a signal, and remembers the version. Files, processes and HTTP are the host, a
  parameter; paths, the parsing of \<^verbatim>\<open>ps\<close> output and the version check are modelled.
\<close>

section \<open>Paths\<close>

text \<open>\<^verbatim>\<open>filepath.Base\<close>, \<^verbatim>\<open>Clean\<close> and \<^verbatim>\<open>Join\<close> on Unix.\<close>

definition Base :: "string \<Rightarrow> string" where
  "Base p =
     (if p = [] then ''.''
      else let q = rev (dropWhile (\<lambda>c. c = CHR ''/'') (rev p));
               b = rev (takeWhile (\<lambda>c. c \<noteq> CHR ''/'') (rev q))
           in if b = [] then ''/'' else b)"

definition clean_step :: "bool \<Rightarrow> string list \<Rightarrow> string \<Rightarrow> string list" where
  "clean_step rooted acc c =
     (if c = [] \<or> c = ''.'' then acc
      else if c = ''..'' then
        (if acc \<noteq> [] \<and> last acc \<noteq> ''..'' then butlast acc
         else if rooted then acc else acc @ [''..''])
      else acc @ [c])"

definition path_rooted :: "string \<Rightarrow> bool" where
  "path_rooted p \<longleftrightarrow> p \<noteq> [] \<and> hd p = CHR ''/''"

definition path_parts :: "string \<Rightarrow> string list" where
  "path_parts p = foldl (clean_step (path_rooted p)) [] (split_on CHR ''/'' p)"

definition Clean :: "string \<Rightarrow> string" where
  "Clean p =
     (if path_rooted p then CHR ''/'' # join_with CHR ''/'' (path_parts p)
      else if path_parts p = [] then ''.''
      else join_with CHR ''/'' (path_parts p))"

definition Join :: "string \<Rightarrow> string \<Rightarrow> string" where
  "Join a b =
     (if a = [] then (if b = [] then [] else Clean b)
      else if b = [] then Clean a
      else Clean (a @ ''/'' @ b))"

section \<open>Types\<close>

record Signal =
  sig_SignalName :: string
  sig_ProcessName :: string

record Request =
  rq_Address :: string
  rq_Port :: int

record HotUpdateConfig =
  hc_LoadPatchType :: string
  hc_Signal :: Signal
  hc_Request :: Request
  hc_FileDir :: string
  hc_StorageConfig :: StorageConfig

record HotUpdateResult =
  hr_Result :: string
  hr_Version :: string
  hr_Url :: string

record 'k hotUpdate =
  hu_config :: HotUpdateConfig
  hu_status :: HotUpdateStatus
  hu_result :: HotUpdateResult
  hu_inKube :: inKube \<comment> \<open>the two storages of the plugin's factory\<close>
  hu_promMetric :: promMetric
  hu_proc :: "'k proc"

record http_request =
  req_Method :: string
  req_FormValue :: "string \<Rightarrow> string"

record response =
  rw_code :: "int option"
  rw_body :: string

text \<open>The host the sidecar runs on. An HTTP response is its body; a URL is used by its path.\<close>

record 'k host =
  h_Stat :: "string \<Rightarrow> ('k, unit) act"
  h_IsNotExist :: "gerr \<Rightarrow> bool"
  h_MkdirAll :: "string \<Rightarrow> ('k, unit) act"
  h_Remove :: "string \<Rightarrow> ('k, unit) act"
  h_Create :: "string \<Rightarrow> ('k, unit) act"
  h_Copy :: "string \<Rightarrow> string \<Rightarrow> ('k, unit) act" \<comment> \<open>file, body\<close>
  h_UrlPath :: "string \<Rightarrow> string go"
  h_HttpGet :: "string \<Rightarrow> ('k, string) act"
  h_PsAux :: "('k, string) act"
  h_Kill :: "string \<Rightarrow> string \<Rightarrow> ('k, unit) act" \<comment> \<open>signal, pid\<close>
  h_ListenAndServe :: "string \<Rightarrow> ('k, unit) act"

text \<open>
  Everything a plugin calls: the environment, the Kubernetes client, the libraries, the host,
  \<^verbatim>\<open>semver.Compare\<close>, and the order in which maps are enumerated.
\<close>

record 'k runtime =
  rt_env :: environment
  rt_kube :: "'k kube_iface"
  rt_store :: store_lib
  rt_yaml :: yaml_lib
  rt_host :: "'k host"
  rt_Compare :: "string \<Rightarrow> string \<Rightarrow> int"
  rt_range :: "(string \<times> string) list \<Rightarrow> (string \<times> string) list"

section \<open>Constants and validation\<close>

definition hotUpdateName :: string where "hotUpdateName = ''hot_update''"
definition URLKey :: string where "URLKey = ''url''"
definition LoadPatchTypeSignal :: string where "LoadPatchTypeSignal = ''signal''"
definition LoadPatchTypeRequest :: string where "LoadPatchTypeRequest = ''request''"
definition OriginVersion :: string where "OriginVersion = ''OriginVersion''"
definition OriginUrl :: string where "OriginUrl = ''OriginUrl''"

definition validateConfig :: "HotUpdateConfig \<Rightarrow> unit go" where
  "validateConfig c =
     (if hc_LoadPatchType c \<noteq> LoadPatchTypeRequest \<and> hc_LoadPatchType c \<noteq> LoadPatchTypeSignal
      then Fail (Errorf ''loadPatchType is empty'')
      else if hc_LoadPatchType c = LoadPatchTypeSignal \<and> sig_SignalName (hc_Signal c) = []
      then Fail (Errorf ''SignalName is empty'')
      else if hc_LoadPatchType c = LoadPatchTypeRequest \<and> rq_Address (hc_Request c) = []
      then Fail (Errorf ''address is empty'')
      else if hc_LoadPatchType c = LoadPatchTypeRequest \<and> rq_Port (hc_Request c) = 0
      then Fail (Errorf ''port is empty'')
      else if hc_FileDir c = [] then Fail (Errorf ''fileDir is empty'')
      else Ret ())"

text \<open>\<^verbatim>\<open>^v\d+(?:\.\d+)*$\<close>.\<close>

definition digits_re :: re where
  "digits_re = Then (Byte is_digit) (Many (Byte is_digit))"

definition version_re :: re where
  "version_re =
     Then (Byte (\<lambda>c. c = CHR ''v'')) (Then digits_re (Many (Then (Byte (\<lambda>c. c = CHR ''.'')) digits_re)))"

definition isValidVersion :: "string \<Rightarrow> bool" where
  "isValidVersion version = re_match version_re version"

section \<open>Access to the parts of the state\<close>

text \<open>\<^verbatim>\<open>err.Error()\<close>; the messages of the model are the constant parts of the code's.\<close>

primrec error_text :: "gerr \<Rightarrow> string" where
  "error_text (Errorf m) = m"
| "error_text (Fmtv m e) = m @ '': '' @ error_text e"
| "error_text (Wrapw m e) = m @ '': '' @ error_text e"
| "error_text (ApiStatus r) = ''api status''"
| "error_text (LibErr m) = m"

definition on_world :: "('k, 'a) act \<Rightarrow> ('k hotUpdate, 'a) act" where
  "on_world = zoomM (\<lambda>s. pr_api (hu_proc s)) (\<lambda>k s. s\<lparr>hu_proc := (hu_proc s)\<lparr>pr_api := k\<rparr>\<rparr>)"

definition to_store :: "'k hotUpdate \<Rightarrow> 'k store_state" where
  "to_store s =
     \<lparr>ss_inKube = hu_inKube s, ss_promMetric = hu_promMetric s,
      ss_config = hc_StorageConfig (hu_config s), ss_proc = hu_proc s\<rparr>"

definition from_store :: "'k store_state \<Rightarrow> 'k hotUpdate \<Rightarrow> 'k hotUpdate" where
  "from_store t s =
     s\<lparr>hu_inKube := ss_inKube t, hu_promMetric := ss_promMetric t,
       hu_config := (hu_config s)\<lparr>hc_StorageConfig := ss_config t\<rparr>, hu_proc := ss_proc t\<rparr>"

definition setVersion :: "string \<Rightarrow> ('k hotUpdate, unit) act" where
  "setVersion v = modM (\<lambda>s. s\<lparr>hu_result := (hu_result s)\<lparr>hr_Version := v\<rparr>\<rparr>)"

definition setUrl :: "string \<Rightarrow> ('k hotUpdate, unit) act" where
  "setUrl u = modM (\<lambda>s. s\<lparr>hu_result := (hu_result s)\<lparr>hr_Url := u\<rparr>\<rparr>)"

text \<open>\<^verbatim>\<open>h.result.Result = fmt.Sprintf("%s: ...", h.result.Version)\<close>.\<close>

definition setResultText :: "string \<Rightarrow> ('k hotUpdate, unit) act" where
  "setResultText x = modM (\<lambda>s. s\<lparr>hu_result := (hu_result s)\<lparr>hr_Result := hr_Version (hu_result s) @ '': '' @ x\<rparr>\<rparr>)"

definition setHotStatus :: "string \<Rightarrow> ('k hotUpdate, unit) act" where
  "setHotStatus x = modM (\<lambda>s. s\<lparr>hu_status := hs_setStatus x (hu_status s)\<rparr>)"

section \<open>Downloading\<close>

definition downloadFileByUrl :: "'k runtime \<Rightarrow> ('k hotUpdate, unit) act" where
  "downloadFileByUrl rt s =
     (let h = rt_host rt; dir = hc_FileDir (hu_config s); url = hr_Url (hu_result s) in
      tryM (catchM (on_world (h_Stat h dir))
              (\<lambda>e. if h_IsNotExist h e
                   then tryM (on_world (h_MkdirAll h dir)) (Fmtv ''failed to create directory'') ret
                   else ret ())
              ret) id (\<lambda>_.
      tryM (liftG (h_UrlPath h url)) (Wrapw ''failed to create request for URL'') (\<lambda>path.
      let savePath = Join dir (Base path) in
      tryM (catchM (on_world (h_Stat h savePath)) (\<lambda>e. ret ())
              (\<lambda>_. tryM (on_world (h_Remove h savePath)) (Wrapw ''failed to delete file'') ret)) id (\<lambda>_.
      tryM (on_world (h_HttpGet h url)) (Wrapw ''failed to download file'') (\<lambda>body.
      tryM (on_world (h_Create h savePath)) (Wrapw ''failed to create file'') (\<lambda>_.
      tryM (on_world (h_Copy h savePath body)) (Wrapw ''failed to save file'') ret)))))) s"

text \<open>The response writer: the first status wins, and writing a body implies 200.\<close>

type_synonym 'k handler = "'k hotUpdate \<times> response"

definition in_plugin :: "('k hotUpdate, 'a) act \<Rightarrow> ('k handler, 'a) act" where
  "in_plugin = zoomM fst (\<lambda>h s. (h, snd s))"

definition WriteHeader :: "int \<Rightarrow> ('k handler, unit) act" where
  "WriteHeader code =
     modM (\<lambda>(h, w). (h, w\<lparr>rw_code := (case rw_code w of None \<Rightarrow> Some code | Some c \<Rightarrow> Some c)\<rparr>))"

definition Fprintf :: "string \<Rightarrow> ('k handler, unit) act" where
  "Fprintf x =
     modM (\<lambda>(h, w). (h, w\<lparr>rw_code := (case rw_code w of None \<Rightarrow> Some 200 | Some c \<Rightarrow> Some c),
                           rw_body := rw_body w @ x\<rparr>))"

text \<open>\<^verbatim>\<open>w.WriteHeader(code); fmt.Fprintf(w, x); return err\<close>.\<close>

definition reject :: "int \<Rightarrow> string \<Rightarrow> gerr \<Rightarrow> ('k handler, unit) act" where
  "reject code x e = tryM (WriteHeader code) id (\<lambda>_. tryM (Fprintf x) id (\<lambda>_. failM e))"

definition downloadHotUpdateFile :: "'k runtime \<Rightarrow> http_request \<Rightarrow> ('k handler, unit) act" where
  "downloadHotUpdateFile rt r =
     (if req_Method r \<noteq> ''POST''
      then reject 405 ''only POST requests are allowed'' (Errorf ''only POST requests are allowed'')
      else let version = req_FormValue r ''version'' in
      if version = [] \<or> \<not> isValidVersion version
      then reject 400 ''please provide a valid version'' (Errorf ''please provide a valid version'')
      else tryM (in_plugin (setVersion version)) id (\<lambda>_.
      let url = req_FormValue r URLKey in
      if url = []
      then reject 400 ''please provide a valid URL'' (Errorf ''please provide a valid URL'')
      else tryM (in_plugin (setUrl url)) id (\<lambda>_.
      catchM (in_plugin (downloadFileByUrl rt))
        (\<lambda>e. reject 500 (''failed to download file: '' @ error_text e) e) ret)))"

section \<open>Loading\<close>

definition first_pid :: "string list \<Rightarrow> string option" where
  "first_pid ws = find (\<lambda>w. is_Ret (Atoi w)) ws"

fun signal_process ::
    "'k host \<Rightarrow> string \<Rightarrow> string \<Rightarrow> string list \<Rightarrow> ('k hotUpdate, unit) act" where
  "signal_process h name sg [] = failM (Errorf (''process not found, processName: '' @ name))"
| "signal_process h name sg (l # ls) =
     (if Contains l name
      then (case first_pid (Fields l) of
              Some pid \<Rightarrow> tryM (on_world (h_Kill h sg pid)) (Fmtv ''failed to send signal to PID'') ret
            | None \<Rightarrow> signal_process h name sg ls)
      else signal_process h name sg ls)"

definition loadHotUpdateFileBySignal :: "'k runtime \<Rightarrow> ('k hotUpdate, unit) act" where
  "loadHotUpdateFileBySignal rt s =
     tryM (on_world (h_PsAux (rt_host rt))) (Fmtv ''failed to get process list'') (\<lambda>psout.
       signal_process (rt_host rt) (sig_ProcessName (hc_Signal (hu_config s)))
         (sig_SignalName (hc_Signal (hu_config s))) (split_on CHR 0x0A psout)) s"

definition loadHotUpdateFileByRequest :: "('k hotUpdate, unit) act" where
  "loadHotUpdateFileByRequest = ret ()"

section \<open>Storing\<close>

definition parseStorageConfig :: "'k runtime \<Rightarrow> ('k hotUpdate, unit) act" where
  "parseStorageConfig rt =
     zoomM (\<lambda>s. (hc_StorageConfig (hu_config s), hu_proc s))
       (\<lambda>(c, p) s. s\<lparr>hu_config := (hu_config s)\<lparr>hc_StorageConfig := c\<rparr>, hu_proc := p\<rparr>)
       (ParseStorage False (rt_env rt) (rt_kube rt))"

definition storeHotData :: "'k runtime \<Rightarrow> ('k hotUpdate, unit) act" where
  "storeHotData rt =
     tryM (parseStorageConfig rt) (Fmtv ''failed to parse config'') (\<lambda>_ s.
       zoomM to_store from_store
         (StoreData (rt_env rt) (rt_kube rt) (rt_store rt) (hr_Result (hu_result s))) s)"

definition storeDataToConfigmap :: "'k runtime \<Rightarrow> ('k hotUpdate, unit) act" where
  "storeDataToConfigmap rt s =
     tryM (zoomM (\<lambda>s. (Some \<lparr>per_Type = hotUpdateName,
                           per_Result = Some [(hr_Version (hu_result s), hr_Url (hu_result s))]\<rparr>, hu_proc s))
             (\<lambda>(p, t) s. s\<lparr>hu_proc := t\<rparr>) (SetPersistenceInfo (rt_env rt) (rt_kube rt) (rt_yaml rt)))
       (\<lambda>e. Errorf ''failed to set hot update result to configmap'') ret s"

section \<open>The handler\<close>

definition persist :: "'k runtime \<Rightarrow> ('k handler, unit) act" where
  "persist rt =
     catchM (in_plugin (storeHotData rt)) (\<lambda>e. ret ()) (\<lambda>_.
     catchM (in_plugin (storeDataToConfigmap rt)) (\<lambda>e. ret ()) ret)"

definition hotUpdateHandle :: "'k runtime \<Rightarrow> http_request \<Rightarrow> ('k handler, unit) act" where
  "hotUpdateHandle rt r =
     catchM (downloadHotUpdateFile rt r) (\<lambda>e. ret ()) (\<lambda>_ s.
       if hc_LoadPatchType (hu_config (fst s)) = LoadPatchTypeSignal then
         catchM (in_plugin (loadHotUpdateFileBySignal rt))
           (\<lambda>e. in_plugin (setResultText (''Failed to load hot update file by signal: '' @ error_text e)))
           (\<lambda>_. tryM (WriteHeader 200) id (\<lambda>_.
                tryM (Fprintf ''File downloaded and update successfully'') id (\<lambda>_.
                tryM (in_plugin (setResultText ''Update success'')) id (\<lambda>_. persist rt)))) s
       else if hc_LoadPatchType (hu_config (fst s)) = LoadPatchTypeRequest then
         catchM (in_plugin loadHotUpdateFileByRequest) (\<lambda>e. ret ()) (\<lambda>_. persist rt) s
       else persist rt s)"

section \<open>Start\<close>

text \<open>The loop that picks the latest version.\<close>

definition latest ::
    "(string \<Rightarrow> string \<Rightarrow> int) \<Rightarrow> (string \<times> string) list \<Rightarrow> string \<times> string" where
  "latest cmp vs =
     fold (\<lambda>(v, u) (version, url). if cmp version v < 0 then (v, u) else (version, url)) vs ([], [])"

text \<open>The two branches that only record the original version.\<close>

definition recordOrigin :: "'k runtime \<Rightarrow> ('k hotUpdate, unit) act" where
  "recordOrigin rt =
     tryM (setVersion OriginVersion) id (\<lambda>_.
     tryM (setUrl OriginUrl) id (\<lambda>_.
     tryM (storeDataToConfigmap rt) (Fmtv ''failed to store data to configmap'') ret))"

definition loadAtStart :: "'k runtime \<Rightarrow> ('k hotUpdate, unit) act" where
  "loadAtStart rt =
     (\<lambda>s. if hc_LoadPatchType (hu_config s) = LoadPatchTypeSignal then
        catchM (loadHotUpdateFileBySignal rt)
          (\<lambda>e. tryM (setResultText (''Failed to load hot update file by signal: '' @ error_text e)) id
                 (\<lambda>_. failM (Errorf ''failed to load hot update file by signal'')))
          (\<lambda>_. setResultText ''Update success'') s
      else if hc_LoadPatchType (hu_config s) = LoadPatchTypeRequest then loadHotUpdateFileByRequest s
      else ret () s)"

definition reload :: "'k runtime \<Rightarrow> ('k hotUpdate, unit) act" where
  "reload rt =
     tryM (downloadFileByUrl rt) (Fmtv ''failed to download file'') (\<lambda>_.
     tryM (loadAtStart rt) id (\<lambda>_.
     tryM (storeHotData rt) (Fmtv ''failed to store data'') (\<lambda>_.
     tryM (storeDataToConfigmap rt) (Fmtv ''failed to store data to configmap'') ret)))"

definition loadPersisted :: "'k runtime \<Rightarrow> ('k hotUpdate, results) act" where
  "loadPersisted rt s =
     (case GetPersistenceInfo (rt_env rt) (rt_kube rt) (rt_yaml rt)
             (Some \<lparr>per_Type = hotUpdateName, per_Result = None\<rparr>, hu_proc s) of
        (Ret x, (p, t)) \<Rightarrow>
          (Ret (case p of None \<Rightarrow> None | Some q \<Rightarrow> per_Result q), s\<lparr>hu_proc := t\<rparr>)
      | (Fail e, (p, t)) \<Rightarrow> (Fail e, s\<lparr>hu_proc := t\<rparr>)
      | (Panic m, (p, t)) \<Rightarrow> (Panic m, s\<lparr>hu_proc := t\<rparr>))"

definition setHotUpdateConfigWhenStart :: "'k runtime \<Rightarrow> ('k hotUpdate, unit) act" where
  "setHotUpdateConfigWhenStart rt =
     tryM (loadPersisted rt) (\<lambda>e. Errorf ''failed to GetPersistenceInfo of hot_update '') (\<lambda>res.
     if glen res = 0 then recordOrigin rt
     else if glen res = 1 \<and> gindex res OriginVersion = OriginUrl then recordOrigin rt
     else let (version, url) = latest (rt_Compare rt) (rt_range rt (grange res)) in
          tryM (setVersion version) id (\<lambda>_. tryM (setUrl url) id (\<lambda>_. reload rt)))"

text \<open>\<^verbatim>\<open>Start\<close> with what it sends to the error channel.\<close>

definition in_start :: "('k hotUpdate, 'a) act \<Rightarrow> ('k hotUpdate \<times> gerr list, 'a) act" where
  "in_start = zoomM fst (\<lambda>h s. (h, snd s))"

definition send_error :: "gerr \<Rightarrow> ('s \<times> gerr list, unit) act" where
  "send_error e = modM (\<lambda>(h, ch). (h, ch @ [e]))"

definition hot_Start :: "'k runtime \<Rightarrow> ('k hotUpdate \<times> gerr list, unit) act" where
  "hot_Start rt =
     catchM (in_start (setHotUpdateConfigWhenStart rt))
       (\<lambda>e. tryM (in_start (setHotStatus ''Stopped'')) id (\<lambda>_. send_error e))
       (\<lambda>_.
     tryM (in_start (zoomM hu_proc (\<lambda>p s. s\<lparr>hu_proc := p\<rparr>) (http_Handle ''/hot-update''))) id (\<lambda>_.
     catchM (in_start (on_world (h_ListenAndServe (rt_host rt) '':5000'')))
       (\<lambda>e. tryM (in_start (setHotStatus ''Stopped'')) id (\<lambda>_. send_error e))
       (\<lambda>_. in_start (setHotStatus ''Running''))))"

text \<open>\<^verbatim>\<open>Init\<close> with the result of the type assertion on the configuration.\<close>

definition hot_Init :: "HotUpdateConfig option \<Rightarrow> ('k hotUpdate, unit) act" where
  "hot_Init config s =
     (case config of
        None \<Rightarrow> failM (Errorf ''invalid config type of hot-update'') s
      | Some c \<Rightarrow>
          tryM (liftG (validateConfig c)) (Fmtv ''invalid config of hot-update'') (\<lambda>_.
            modM (\<lambda>s. s\<lparr>hu_config := c,
              hu_status := \<lparr>hs_status = [], hs_err = None, hs_activeGoroutines = 0\<rparr>,
              hu_result := \<lparr>hr_Result = [], hr_Version = [], hr_Url = []\<rparr>,
              hu_inKube := \<lparr>ink_dynamic = False, ink_Interface = False\<rparr>,
              hu_promMetric := \<lparr>pm_registry = None, pm_metrics = None\<rparr>\<rparr>)) s)"

definition hot_Status :: "'k hotUpdate \<Rightarrow> PluginStatus go" where
  "hot_Status s =
     Ret \<lparr>pst_Name = hotUpdateName, pst_Version = [],
          pst_Running = (hs_getStatus (hu_status s) = ''Running''), pst_LastChecked = [],
          pst_Health = hs_getStatus (hu_status s), pst_Infos = []\<rparr>"

definition hot_Version :: string where "hot_Version = ''v0.0.1''"
definition hot_Name :: string where "hot_Name = hotUpdateName"

end
