(* ===== verification/KcHotUpdateProps.thy ===== *)
theory KcHotUpdateProps imports KcHotUpdate begin

text \<open>
  Properties of pkg/plugins/hot_update: which versions are accepted and which is restored, where a
  download is saved, which process is signalled, how requests are answered, and what the status
  cell can say.
\<close>

section \<open>Versions\<close>

lemma lang_Then_Byte: "lang (Then (Byte P) b) s \<longleftrightarrow> (\<exists>c t. s = c # t \<and> P c \<and> lang b t)"
  by (auto simp: lang_Then lang_Byte) (metis append_Cons append_Nil)

lemma lang_digits: "lang (Many (Byte is_digit)) w \<longleftrightarrow> list_all is_digit w"
proof
  show "lang (Many (Byte is_digit)) w \<Longrightarrow> list_all is_digit w"
    by (induction "Many (Byte is_digit)" w rule: lang.induct) (auto simp: lang_Byte)
  show "list_all is_digit w \<Longrightarrow> lang (Many (Byte is_digit)) w"
  proof (induction w)
    case (Cons c w)
    then show ?case using lang.intros(7) [OF lang.intros(2) [of is_digit c]] by simp
  qed (rule lang.intros)
qed

definition number :: "string \<Rightarrow> bool" where
  "number w \<longleftrightarrow> w \<noteq> [] \<and> list_all is_digit w"

lemma lang_number: "lang digits_re w \<longleftrightarrow> number w"
  by (cases w) (auto simp: digits_re_def lang_Then_Byte lang_digits number_def)

lemma lang_dotted:
  "lang (Many (Then (Byte (\<lambda>c. c = CHR ''.'')) digits_re)) s \<longleftrightarrow>
     (\<exists>ws. list_all number ws \<and> s = concat (map ((#) CHR ''.'') ws))"
proof
  assume "lang (Many (Then (Byte (\<lambda>c. c = CHR ''.'')) digits_re)) s"
  then show "\<exists>ws. list_all number ws \<and> s = concat (map ((#) CHR ''.'') ws)"
  proof (induction "Many (Then (Byte (\<lambda>c. c = CHR ''.'')) digits_re)" s rule: lang.induct)
    case 6
    show ?case by (rule exI [of _ "[]"]) simp
  next
    case (7 u t)
    then obtain w ws where "number w" "u = CHR ''.'' # w" "list_all number ws" "t = concat (map ((#) CHR ''.'') ws)"
      by (auto simp: lang_Then_Byte lang_number)
    then show ?case by (intro exI [of _ "w # ws"]) simp
  qed
next
  assume "\<exists>ws. list_all number ws \<and> s = concat (map ((#) CHR ''.'') ws)"
  then obtain ws where "list_all number ws" "s = concat (map ((#) CHR ''.'') ws)" by blast
  then show "lang (Many (Then (Byte (\<lambda>c. c = CHR ''.'')) digits_re)) s"
  proof (induction ws arbitrary: s)
    case Nil
    then show ?case by (simp add: lang.intros)
  next
    case (Cons w ws)
    have "lang (Then (Byte (\<lambda>c. c = CHR ''.'')) digits_re) (CHR ''.'' # w)"
      using Cons.prems(1) by (auto simp: lang_Then_Byte lang_number)
    from lang.intros(7) [OF this Cons.IH [OF _ refl]] Cons.prems show ?case by simp
  qed
qed

lemma join_with_dots: "ws \<noteq> [] \<Longrightarrow> join_with d ws = hd ws @ concat (map ((#) d) (tl ws))"
  by (induction d ws rule: join_with.induct) auto

text \<open>
  C31: the version check accepts exactly the letter \<^verbatim>\<open>v\<close> followed by numbers that are
  separated by dots, at least one, as many as one likes: \<^verbatim>\<open>v1.2.3.4\<close> too, which is no semantic
  version.
\<close>

theorem isValidVersion_iff:
  "isValidVersion v \<longleftrightarrow> (\<exists>ws. ws \<noteq> [] \<and> list_all number ws \<and> v = ''v'' @ join_with CHR ''.'' ws)"
proof
  assume "isValidVersion v"
  then obtain w ws where "number w" "list_all number ws" "v = ''v'' @ w @ concat (map ((#) CHR ''.'') ws)"
    by (auto simp: isValidVersion_def re_match_lang version_re_def lang_Then_Byte lang_Then [of digits_re] lang_number lang_dotted)
  then show "\<exists>ws. ws \<noteq> [] \<and> list_all number ws \<and> v = ''v'' @ join_with CHR ''.'' ws"
    by (intro exI [of _ "w # ws"]) (simp add: join_with_dots)
next
  assume "\<exists>ws. ws \<noteq> [] \<and> list_all number ws \<and> v = ''v'' @ join_with CHR ''.'' ws"
  then obtain w ws where "number w" "list_all number ws" "v = ''v'' @ w @ concat (map ((#) CHR ''.'') ws)"
    by (auto simp: neq_Nil_conv join_with_dots)
  then show "isValidVersion v"
    by (auto simp: isValidVersion_def re_match_lang version_re_def lang_Then_Byte lang_Then [of digits_re] lang_number lang_dotted)
qed

text \<open>
  The documented laws of \<^verbatim>\<open>semver.Compare\<close> the loop relies on: it is a total preorder, and the
  empty string, which is no version, is below everything.
\<close>

definition semver_laws :: "(string \<Rightarrow> string \<Rightarrow> int) \<Rightarrow> bool" where
  "semver_laws cmp \<longleftrightarrow>
     (\<forall>a b. cmp a b < 0 \<longleftrightarrow> 0 < cmp b a) \<and>
     (\<forall>a b c. cmp a b \<le> 0 \<longrightarrow> cmp b c \<le> 0 \<longrightarrow> cmp a c \<le> 0) \<and>
     (\<forall>a. cmp [] a \<le> 0)"

lemma latest_invariant:
  assumes "semver_laws cmp"
  shows "fold (\<lambda>(v, u) (version, url). if cmp version v < 0 then (v, u) else (version, url)) vs b = r \<Longrightarrow>
    (r = b \<or> r \<in> set vs) \<and> cmp (fst b) (fst r) \<le> 0 \<and> (\<forall>x \<in> set vs. cmp (fst x) (fst r) \<le> 0)"
proof (induction vs arbitrary: b)
  case Nil
  have "cmp a a \<le> 0" for a using assms unfolding semver_laws_def by (metis linorder_not_le order_less_asym)
  with Nil show ?case by simp
next
  case (Cons x vs)
  have tr: "cmp a c \<le> 0" if "cmp a b \<le> 0" "cmp b c \<le> 0" for a b c
    using assms that unfolding semver_laws_def by blast
  have le: "cmp x y \<le> 0" if "\<not> cmp y x < 0" for x y
    using assms that unfolding semver_laws_def by (metis linorder_not_le)
  let ?b = "if cmp (fst b) (fst x) < 0 then x else b"
  have "fold (\<lambda>(v, u) (version, url). if cmp version v < 0 then (v, u) else (version, url)) vs ?b = r"
    using Cons.prems by (cases x; cases b) (simp split: if_splits)
  from Cons.IH [OF this] have IH: "r = ?b \<or> r \<in> set vs" "cmp (fst ?b) (fst r) \<le> 0"
    "\<forall>y \<in> set vs. cmp (fst y) (fst r) \<le> 0" by simp_all
  show ?case
  proof (cases "cmp (fst b) (fst x) < 0")
    case True
    with IH tr [of "fst b" "fst x" "fst r"] show ?thesis by auto
  next
    case False
    with IH tr [OF le [OF False], of "fst r"] show ?thesis by auto
  qed
qed


definition by_length :: "string \<Rightarrow> string \<Rightarrow> int" where
  "by_length a b = int (length a) - int (length b)"


section \<open>Where a download is saved\<close>

lemma foldl_clean_nonempty: "foldl (clean_step r) acc ([] # cs) = foldl (clean_step r) acc cs"
  by (simp add: clean_step_def)

lemma split_on_join: "split_on d (a @ d # b) = split_on d a @ split_on d b"
proof (induction a)
  case (Cons c a)
  obtain w ws where "split_on d a = w # ws" by (cases "split_on d a") auto
  with Cons show ?case by auto
qed simp

lemma path_parts_append:
  assumes "dir \<noteq> []"
  shows "path_parts (dir @ ''/'' @ b) = foldl (clean_step (path_rooted dir)) (path_parts dir) (split_on CHR ''/'' b)"
proof -
  have "path_rooted (dir @ ''/'' @ b) = path_rooted dir" using assms by (simp add: path_rooted_def)
  then show ?thesis by (simp add: path_parts_def split_on_join)
qed

definition plain_name :: "string \<Rightarrow> bool" where
  "plain_name b \<longleftrightarrow> b \<notin> {[], ''.'', ''..''} \<and> CHR ''/'' \<notin> set b"

lemma path_parts_child:
  assumes "dir \<noteq> []" and "plain_name b"
  shows "path_parts (dir @ ''/'' @ b) = path_parts dir @ [b]"
  using assms(2)
  by (simp add: path_parts_append [OF assms(1), simplified] plain_name_def split_on_unsplit clean_step_def)

lemma path_parts_dot: "dir \<noteq> [] \<Longrightarrow> path_parts (dir @ ''/'' @ ''.'') = path_parts dir"
  using path_parts_append [of dir "''.''"] by (simp add: clean_step_def)

lemma Base_shape: "CHR ''/'' \<notin> set (Base p) \<or> Base p = ''/''"
  by (auto simp: Base_def Let_def dest: set_takeWhileD)

text \<open>The file a directory path and one more name denote, after cleaning.\<close>

definition child_path :: "string \<Rightarrow> string \<Rightarrow> string" where
  "child_path dir b =
     (if path_rooted dir then CHR ''/'' # join_with CHR ''/'' (path_parts dir @ [b])
      else join_with CHR ''/'' (path_parts dir @ [b]))"



section \<open>Which process is signalled\<close>

text \<open>
  C33: at most one process is signalled: the first numeric field of the first line that
  \<^verbatim>\<open>ps\<close> prints which contains the process name and has a numeric field. With an empty name, which the validation
  accepts, that is the first process of the list.
\<close>

theorem signal_process_first:
  "signal_process h name sg ls =
     (case find (\<lambda>l. Contains l name \<and> first_pid (Fields l) \<noteq> None) ls of
        None \<Rightarrow> failM (Errorf (''process not found, processName: '' @ name))
      | Some l \<Rightarrow> tryM (on_world (h_Kill h sg (the (first_pid (Fields l)))))
          (Fmtv ''failed to send signal to PID'') ret) \<and>
   signal_process h [] sg ls =
     (case find (\<lambda>l. first_pid (Fields l) \<noteq> None) ls of
        None \<Rightarrow> failM (Errorf ''process not found, processName: '')
      | Some l \<Rightarrow> tryM (on_world (h_Kill h sg (the (first_pid (Fields l)))))
          (Fmtv ''failed to send signal to PID'') ret)"
proof -
  have "signal_process h n sg ls =
     (case find (\<lambda>l. Contains l n \<and> first_pid (Fields l) \<noteq> None) ls of
        None \<Rightarrow> failM (Errorf (''process not found, processName: '' @ n))
      | Some l \<Rightarrow> tryM (on_world (h_Kill h sg (the (first_pid (Fields l)))))
          (Fmtv ''failed to send signal to PID'') ret)" for n
    by (induction ls) (auto split: option.split)
  from this [of name] this [of "[]"] show ?thesis by (simp split: option.split)
qed

section \<open>The answers of the handler\<close>

text \<open>
  A request that is no POST or has no valid version changes nothing of the plugin and is
  answered with 405 or 400.
\<close>

lemma hotUpdateHandle_rejects:
  assumes "\<not> (req_Method r = ''POST'' \<and> isValidVersion (req_FormValue r ''version''))"
  shows "hotUpdateHandle rt r (h, \<lparr>rw_code = None, rw_body = []\<rparr>) =
    (Ret (), (h, if req_Method r \<noteq> ''POST''
                 then \<lparr>rw_code = Some 405, rw_body = ''only POST requests are allowed''\<rparr>
                 else \<lparr>rw_code = Some 400, rw_body = ''please provide a valid version''\<rparr>))"
  using assms
  by (simp add: hotUpdateHandle_def downloadHotUpdateFile_def reject_def catchM_def tryM_def
      WriteHeader_def Fprintf_def)

lemma in_plugin_frame: "in_plugin m s = (q, t) \<Longrightarrow> snd t = snd s"
  by (auto simp: in_plugin_def zoomM_apply)

lemma reject_fails: "reject c x e s \<noteq> (Ret (), t)"
  by (simp add: reject_def tryM_def WriteHeader_def Fprintf_def split: prod.split)

lemma download_keeps_response:
  assumes "downloadHotUpdateFile rt r s = (Ret (), t)"
  shows "snd t = snd s"
proof -
  obtain u v where "in_plugin (setVersion (req_FormValue r ''version'')) s = (Ret (), u)"
    "in_plugin (setUrl (req_FormValue r URLKey)) u = (Ret (), v)"
    "in_plugin (downloadFileByUrl rt) v = (Ret (), t)"
    using assms by (auto simp: downloadHotUpdateFile_def Let_def go_iff reject_fails split: if_splits)
  then show ?thesis by (metis in_plugin_frame)
qed

text \<open>
  A file that was downloaded while the signal could not be sent leaves the response
  untouched, so the client is told 200 by default; only the plugin's own result text says that the
  update failed, and nothing is stored.
\<close>

lemma failed_signal_answers_ok:
  assumes "downloadHotUpdateFile rt r (h, w) = (Ret (), (h1, w1))"
    and "hc_LoadPatchType (hu_config h1) = LoadPatchTypeSignal"
    and "loadHotUpdateFileBySignal rt h1 = (Fail e, h2)"
  shows "hotUpdateHandle rt r (h, w) =
    (Ret (), (snd (setResultText (''Failed to load hot update file by signal: '' @ error_text e) h2), w))"
proof -
  have "w1 = w" using download_keeps_response [OF assms(1)] by simp
  then show ?thesis
    using assms
    by (simp add: hotUpdateHandle_def catchM_def in_plugin_def zoomM_apply setResultText_def)
qed

text \<open>A host where every call succeeds but \<^verbatim>\<open>ps\<close>, and a plugin that is configured to signal.\<close>

definition demo_host :: "apiserver host" where
  "demo_host =
     \<lparr>h_Stat = (\<lambda>_. ret ()), h_IsNotExist = (\<lambda>_. False), h_MkdirAll = (\<lambda>_. ret ()), h_Remove = (\<lambda>_. ret ()),
      h_Create = (\<lambda>_. ret ()), h_Copy = (\<lambda>_ _. ret ()), h_UrlPath = (\<lambda>u. Ret u), h_HttpGet = (\<lambda>_. ret ''body''),
      h_PsAux = failM (LibErr ''no ps''), h_Kill = (\<lambda>_ _. ret ()),
      h_ListenAndServe = (\<lambda>_. failM (LibErr ''closed''))\<rparr>"

definition demo_rt :: "apiserver runtime" where
  "demo_rt =
     \<lparr>rt_env = pod_env, rt_kube = mem_kube,
      rt_store = \<lparr>sl_ParseFloat = (\<lambda>_. Fail (LibErr ''float'')), sl_ValidMetricName = (\<lambda>_. True)\<rparr>,
      rt_yaml = mini_yaml, rt_host = demo_host, rt_Compare = by_length, rt_range = (\<lambda>xs. xs)\<rparr>"

definition demo_hot_config :: HotUpdateConfig where
  "demo_hot_config =
     \<lparr>hc_LoadPatchType = LoadPatchTypeSignal,
      hc_Signal = \<lparr>sig_SignalName = ''HUP'', sig_ProcessName = ''nginx''\<rparr>,
      hc_Request = \<lparr>rq_Address = [], rq_Port = 0\<rparr>, hc_FileDir = ''/data'',
      hc_StorageConfig = \<lparr>sg_Type = [], sg_InKube = None, sg_HTTPMetric = None\<rparr>\<rparr>"

definition demo_hot :: "apiserver hotUpdate" where
  "demo_hot =
     \<lparr>hu_config = demo_hot_config,
      hu_status = \<lparr>hs_status = [], hs_err = None, hs_activeGoroutines = 0\<rparr>,
      hu_result = \<lparr>hr_Result = [], hr_Version = [], hr_Url = []\<rparr>,
      hu_inKube = \<lparr>ink_dynamic = False, ink_Interface = False\<rparr>,
      hu_promMetric = \<lparr>pm_registry = None, pm_metrics = None\<rparr>, hu_proc = demo_proc\<rparr>"

definition demo_request :: http_request where
  "demo_request = \<lparr>req_Method = ''POST'', req_FormValue = (\<lambda>k. if k = ''version'' then ''v1'' else ''/cfg'')\<rparr>"

lemma demo_host_calls:
  "h_Stat demo_host p = ret ()" "h_UrlPath demo_host p = Ret p" "h_Remove demo_host p = ret ()"
  "h_HttpGet demo_host p = ret ''body''" "h_Create demo_host p = ret ()" "h_Copy demo_host p b = ret ()"
  "h_PsAux demo_host = failM (LibErr ''no ps'')" "rt_host demo_rt = demo_host"
  by (simp_all add: demo_host_def demo_rt_def)

lemma on_world_pure: "on_world (ret x) s = (Ret x, s)" "on_world (failM e) s = (Fail e, s)"
  by (simp_all add: on_world_def zoomM_apply)

lemma demo_download: "downloadFileByUrl demo_rt s = (Ret (), s)"
  by (simp add: downloadFileByUrl_def Let_def demo_host_calls tryM_def catchM_def on_world_pure)

lemma demo_valid: "isValidVersion ''v1''"
  by (simp add: isValidVersion_def version_re_def digits_re_def is_digit_def)

lemma hotUpdateHandle_rejects_example:
  "hotUpdateHandle demo_rt \<lparr>req_Method = ''POST'', req_FormValue = (\<lambda>_. ''1.0'')\<rparr> (demo_hot, \<lparr>rw_code = None, rw_body = []\<rparr>) =
     (Ret (), (demo_hot, \<lparr>rw_code = Some 400, rw_body = ''please provide a valid version''\<rparr>))"
proof -
  have "\<not> isValidVersion ''1.0''"
    by (simp add: isValidVersion_def version_re_def digits_re_def)
  then show ?thesis
    using hotUpdateHandle_rejects [of "\<lparr>req_Method = ''POST'', req_FormValue = (\<lambda>_. ''1.0'')\<rparr>" demo_rt demo_hot] by simp
qed

lemma failed_signal_answers_ok_example:
  "\<exists>h. hotUpdateHandle demo_rt demo_request (demo_hot, \<lparr>rw_code = None, rw_body = []\<rparr>) =
     (Ret (), (h, \<lparr>rw_code = None, rw_body = []\<rparr>))"
proof -
  let ?h = "demo_hot\<lparr>hu_result := \<lparr>hr_Result = [], hr_Version = ''v1'', hr_Url = ''/cfg''\<rparr>\<rparr>"
  have down: "downloadHotUpdateFile demo_rt demo_request (demo_hot, \<lparr>rw_code = None, rw_body = []\<rparr>) =
      (Ret (), (?h, \<lparr>rw_code = None, rw_body = []\<rparr>))"
    by (simp add: downloadHotUpdateFile_def demo_request_def Let_def demo_valid URLKey_def tryM_def catchM_def
        in_plugin_def zoomM_apply setVersion_def setUrl_def demo_download demo_hot_def)
  have load: "loadHotUpdateFileBySignal demo_rt ?h = (Fail (Fmtv ''failed to get process list'' (LibErr ''no ps'')), ?h)"
    by (simp add: loadHotUpdateFileBySignal_def demo_host_calls on_world_pure tryM_def)
  have "hc_LoadPatchType (hu_config ?h) = LoadPatchTypeSignal"
    by (simp add: demo_hot_def demo_hot_config_def)
  from failed_signal_answers_ok [OF down this load] show ?thesis by blast
qed

section \<open>The status of the plugin\<close>

text \<open>
  Downloading, signalling and storing leave the status and the version and URL of the result alone.
\<close>

definition rest_is :: "(HotUpdateStatus \<Rightarrow> string \<Rightarrow> string \<Rightarrow> bool) \<Rightarrow> 'k hotUpdate \<Rightarrow> bool" where
  "rest_is P s \<longleftrightarrow> P (hu_status s) (hr_Version (hu_result s)) (hr_Url (hu_result s))"

abbreviation status_is :: "string \<Rightarrow> 'k hotUpdate \<Rightarrow> bool" where
  "status_is x \<equiv> rest_is (\<lambda>st v u. hs_getStatus st = x)"

lemma keeps_zoomM: "(\<And>t s. I s \<Longrightarrow> I (p t s)) \<Longrightarrow> keeps I (zoomM g p m)"
  by (simp add: keeps_def zoomM_apply)

lemma keeps_at: "(\<And>s. keeps I (m s)) \<Longrightarrow> keeps I (\<lambda>s. m s s)"
  by (simp add: keeps_def)

lemma keeps_world: "keeps (rest_is P) (on_world m)"
  unfolding on_world_def by (rule keeps_zoomM) (simp add: rest_is_def)

lemma keeps_set: "keeps (status_is x) (setVersion v)" "keeps (status_is x) (setUrl v)"
  by (simp_all add: keeps_def setVersion_def setUrl_def rest_is_def)

lemma keeps_text: "keeps (rest_is P) (setResultText v)"
  by (simp add: keeps_def setResultText_def rest_is_def)

lemma keeps_download: "keeps (rest_is P) (downloadFileByUrl rt)"
  unfolding downloadFileByUrl_def [abs_def] Let_def
  by (rule keeps_at) (intro keeps_tryM keeps_catchM keeps_world keeps_If keeps_pure)

lemma keeps_signal_process: "keeps (rest_is P) (signal_process h n sg ls)"
  by (induction ls) (auto intro!: keeps_tryM keeps_world keeps_pure simp del: act_simps split: option.split)

lemma keeps_load: "keeps (rest_is P) (loadHotUpdateFileBySignal rt)" "keeps (rest_is P) loadHotUpdateFileByRequest"
  unfolding loadHotUpdateFileBySignal_def [abs_def] loadHotUpdateFileByRequest_def
  by (rule keeps_at, intro keeps_tryM keeps_world keeps_signal_process) simp

lemma keeps_store: "keeps (rest_is P) (storeHotData rt)" "keeps (rest_is P) (storeDataToConfigmap rt)"
proof -
  show "keeps (rest_is P) (storeHotData rt)"
    unfolding storeHotData_def
  proof (rule keeps_tryM)
    show "keeps (rest_is P) (parseStorageConfig rt)"
      unfolding parseStorageConfig_def by (rule keeps_zoomM) (simp add: rest_is_def split_beta)
    show "keeps (rest_is P) (\<lambda>s. zoomM to_store from_store
         (StoreData (rt_env rt) (rt_kube rt) (rt_store rt) (hr_Result (hu_result s))) s)" for y :: unit
      by (rule keeps_at, rule keeps_zoomM) (simp add: rest_is_def from_store_def)
  qed
  show "keeps (rest_is P) (storeDataToConfigmap rt)"
    unfolding storeDataToConfigmap_def [abs_def]
    by (rule keeps_at, intro keeps_tryM keeps_zoomM keeps_pure) (simp add: rest_is_def split_beta)
qed

lemma keeps_if_at: "keeps I m \<Longrightarrow> keeps I n \<Longrightarrow> keeps I (\<lambda>s. if P s then m s else n s)"
  by (simp add: keeps_def)

lemma keeps_reload: "keeps (status_is x) (reload rt)"
proof -
  have "keeps (status_is x) (loadAtStart rt)"
    unfolding loadAtStart_def
    by (intro keeps_if_at keeps_catchM keeps_tryM keeps_load keeps_set keeps_text keeps_pure)
  then show ?thesis
    unfolding reload_def by (intro keeps_tryM keeps_download keeps_store keeps_pure)
qed

lemma keeps_loadPersisted: "keeps (status_is x) (loadPersisted rt)"
  by (simp add: keeps_def loadPersisted_def rest_is_def split: prod.split go.split)

lemma keeps_whenStart: "keeps (status_is x) (setHotUpdateConfigWhenStart rt)"
  unfolding setHotUpdateConfigWhenStart_def recordOrigin_def Let_def split_beta
  by (intro keeps_tryM keeps_loadPersisted keeps_If keeps_set keeps_store keeps_pure keeps_reload)



end
