(* ===== verification/KcHotServe.thy ===== *)
theory KcHotServe imports KcHotUpdateProps begin

text \<open>
  The handler of pkg/plugins/hot_update under net/http, which runs each request in a goroutine of
  its own. All of them write the one result record of the plugin, so the handler is cut into
  stages at its accesses to that record, and the stages of several requests interleave.
\<close>

section \<open>The stages of one request\<close>

datatype hot_pc = AtVersion | AtUrl | AtDownload | AtLoad | AtStore | AtPersist | Done

text \<open>What one stage does, and which comes next.\<close>

definition rejected :: "int \<Rightarrow> string \<Rightarrow> ('k handler, hot_pc) act" where
  "rejected code x = tryM (WriteHeader code) id (\<lambda>_. tryM (Fprintf x) id (\<lambda>_. ret Done))"

definition load_stage :: "'k runtime \<Rightarrow> ('k handler, hot_pc) act" where
  "load_stage rt s =
     (if hc_LoadPatchType (hu_config (fst s)) = LoadPatchTypeSignal then
        catchM (in_plugin (loadHotUpdateFileBySignal rt))
          (\<lambda>e. tryM (in_plugin (setResultText (''Failed to load hot update file by signal: '' @ error_text e))) id
                 (\<lambda>_. ret Done))
          (\<lambda>_. tryM (WriteHeader 200) id (\<lambda>_.
               tryM (Fprintf ''File downloaded and update successfully'') id (\<lambda>_.
               tryM (in_plugin (setResultText ''Update success'')) id (\<lambda>_. ret AtStore)))) s
      else if hc_LoadPatchType (hu_config (fst s)) = LoadPatchTypeRequest then
        catchM (in_plugin loadHotUpdateFileByRequest) (\<lambda>e. ret Done) (\<lambda>_. ret AtStore) s
      else ret AtStore s)"

fun stage :: "'k runtime \<Rightarrow> http_request \<Rightarrow> hot_pc \<Rightarrow> ('k handler, hot_pc) act" where
  "stage rt r AtVersion =
     (if req_Method r \<noteq> ''POST'' then rejected 405 ''only POST requests are allowed''
      else if req_FormValue r ''version'' = [] \<or> \<not> isValidVersion (req_FormValue r ''version'')
      then rejected 400 ''please provide a valid version''
      else tryM (in_plugin (setVersion (req_FormValue r ''version''))) id (\<lambda>_. ret AtUrl))"
| "stage rt r AtUrl =
     (if req_FormValue r URLKey = [] then rejected 400 ''please provide a valid URL''
      else tryM (in_plugin (setUrl (req_FormValue r URLKey))) id (\<lambda>_. ret AtDownload))"
| "stage rt r AtDownload =
     catchM (in_plugin (downloadFileByUrl rt))
       (\<lambda>e. rejected 500 (''failed to download file: '' @ error_text e)) (\<lambda>_. ret AtLoad)"
| "stage rt r AtLoad = load_stage rt"
| "stage rt r AtStore = catchM (in_plugin (storeHotData rt)) (\<lambda>e. ret Done) (\<lambda>_. ret AtPersist)"
| "stage rt r AtPersist = catchM (in_plugin (storeDataToConfigmap rt)) (\<lambda>e. ret Done) (\<lambda>_. ret Done)"
| "stage rt r Done = ret Done"

text \<open>A request that is alone runs its stages one after the other.\<close>

fun stages :: "'k runtime \<Rightarrow> http_request \<Rightarrow> nat \<Rightarrow> hot_pc \<Rightarrow> ('k handler, hot_pc) act" where
  "stages rt r 0 pc = ret pc"
| "stages rt r (Suc n) pc = tryM (stage rt r pc) id (stages rt r n)"

section \<open>The stages are the handler\<close>

lemma stages_Done: "stages rt r n Done = ret Done"
  by (induction n) simp_all

text \<open>Laws of the two combinators; a modification of the state does not fail.\<close>

lemma act_laws:
  "tryM (catchM m h k) id f = catchM m (\<lambda>e. tryM (h e) id f) (\<lambda>x. tryM (k x) id f)"
  "tryM (tryM m g k') id f = tryM m g (\<lambda>x. tryM (k' x) id f)"
  "catchM (tryM m id k') h2 k2 = catchM m h2 (\<lambda>x. catchM (k' x) h2 k2)"
  "catchM (catchM m h' k') h2 k2 = catchM m (\<lambda>e. catchM (h' e) h2 k2) (\<lambda>x. catchM (k' x) h2 k2)"
  "catchM (ret y) h3 k3 = k3 y" "catchM (failM e) h4 k4 = h4 e"
  "catchM (modM u) h5 k5 = tryM (modM u) id k5"
  by (rule ext; simp add: tryM_def catchM_def split: prod.split go.split)+

lemma tryM_local: "m s = m' s \<Longrightarrow> tryM m h k s = tryM m' h k s"
  by (simp add: tryM_def)

lemma in_plugin_modM: "in_plugin (modM u) = modM (\<lambda>s. (u (fst s), snd s))"
  by (rule ext) (simp add: in_plugin_def zoomM_apply)

lemmas stage_mods = WriteHeader_def Fprintf_def setVersion_def setUrl_def setResultText_def in_plugin_modM

lemma persist_stages: "tryM (persist rt) id (\<lambda>_. ret Done) = stages rt r 2 AtStore"
  by (simp only: persist_def numeral_2_eq_2 stages.simps stage.simps act_laws stages_Done tryM_ret)

text \<open>The part of the handler after the download.\<close>

definition loading :: "'k runtime \<Rightarrow> ('k handler, unit) act" where
  "loading rt s =
     (if hc_LoadPatchType (hu_config (fst s)) = LoadPatchTypeSignal then
        catchM (in_plugin (loadHotUpdateFileBySignal rt))
          (\<lambda>e. in_plugin (setResultText (''Failed to load hot update file by signal: '' @ error_text e)))
          (\<lambda>_. tryM (WriteHeader 200) id (\<lambda>_.
               tryM (Fprintf ''File downloaded and update successfully'') id (\<lambda>_.
               tryM (in_plugin (setResultText ''Update success'')) id (\<lambda>_. persist rt)))) s
      else if hc_LoadPatchType (hu_config (fst s)) = LoadPatchTypeRequest then
        catchM (in_plugin loadHotUpdateFileByRequest) (\<lambda>e. ret ()) (\<lambda>_. persist rt) s
      else persist rt s)"

lemma hotUpdateHandle_loading:
  "hotUpdateHandle rt r = catchM (downloadHotUpdateFile rt r) (\<lambda>e. ret ()) (\<lambda>_. loading rt)"
  by (simp only: hotUpdateHandle_def loading_def [abs_def])

lemma loading_stages: "tryM (loading rt) id (\<lambda>_. ret Done) = stages rt r (Suc 2) AtLoad"
proof
  fix s
  let ?load = "catchM (in_plugin (loadHotUpdateFileBySignal rt))
          (\<lambda>e. in_plugin (setResultText (''Failed to load hot update file by signal: '' @ error_text e)))
          (\<lambda>_. tryM (WriteHeader 200) id (\<lambda>_.
               tryM (Fprintf ''File downloaded and update successfully'') id (\<lambda>_.
               tryM (in_plugin (setResultText ''Update success'')) id (\<lambda>_. persist rt))))"
  let ?req = "catchM (in_plugin loadHotUpdateFileByRequest) (\<lambda>e. ret ()) (\<lambda>_. persist rt)"
  have run: "stages rt r (Suc 2) AtLoad s = tryM (load_stage rt) id (stages rt r 2) s"
    by (simp only: stages.simps stage.simps)
  consider (sig) "hc_LoadPatchType (hu_config (fst s)) = LoadPatchTypeSignal"
    | (req) "hc_LoadPatchType (hu_config (fst s)) \<noteq> LoadPatchTypeSignal"
        "hc_LoadPatchType (hu_config (fst s)) = LoadPatchTypeRequest"
    | (none) "hc_LoadPatchType (hu_config (fst s)) \<noteq> LoadPatchTypeSignal"
        "hc_LoadPatchType (hu_config (fst s)) \<noteq> LoadPatchTypeRequest" by blast
  then show "tryM (loading rt) id (\<lambda>_. ret Done) s = stages rt r (Suc 2) AtLoad s"
  proof cases
    case sig
    then have "tryM (loading rt) id (\<lambda>_. ret Done) s = tryM ?load id (\<lambda>_. ret Done) s"
      by (intro tryM_local) (simp add: loading_def)
    moreover have "tryM (load_stage rt) id (stages rt r 2) s = tryM (catchM (in_plugin (loadHotUpdateFileBySignal rt))
          (\<lambda>e. tryM (in_plugin (setResultText (''Failed to load hot update file by signal: '' @ error_text e))) id
                 (\<lambda>_. ret Done))
          (\<lambda>_. tryM (WriteHeader 200) id (\<lambda>_.
               tryM (Fprintf ''File downloaded and update successfully'') id (\<lambda>_.
               tryM (in_plugin (setResultText ''Update success'')) id (\<lambda>_. ret AtStore))))) id (stages rt r 2) s"
      using sig by (intro tryM_local) (simp add: load_stage_def)
    ultimately show ?thesis unfolding run by (simp only: act_laws tryM_ret stages_Done persist_stages [of rt r])
  next
    case req
    then have "tryM (loading rt) id (\<lambda>_. ret Done) s = tryM ?req id (\<lambda>_. ret Done) s"
      by (intro tryM_local) (simp add: loading_def)
    moreover have "tryM (load_stage rt) id (stages rt r 2) s =
        tryM (catchM (in_plugin loadHotUpdateFileByRequest) (\<lambda>e. ret Done) (\<lambda>_. ret AtStore)) id (stages rt r 2) s"
      using req by (intro tryM_local) (simp add: load_stage_def)
    ultimately show ?thesis unfolding run by (simp only: act_laws tryM_ret stages_Done persist_stages [of rt r])
  next
    case none
    then have "tryM (loading rt) id (\<lambda>_. ret Done) s = tryM (persist rt) id (\<lambda>_. ret Done) s"
      by (intro tryM_local) (simp add: loading_def)
    moreover have "tryM (load_stage rt) id (stages rt r 2) s = tryM (ret AtStore) id (stages rt r 2) s"
      using none by (intro tryM_local) (simp add: load_stage_def)
    ultimately show ?thesis unfolding run by (simp only: tryM_ret persist_stages [of rt r])
  qed
qed

lemma handler_is_stages: "tryM (hotUpdateHandle rt r) id (\<lambda>_. ret Done) = stages rt r 6 AtVersion"
proof -
  have six: "(6::nat) = Suc (Suc (Suc (Suc 2)))" by simp
  note unfolded = hotUpdateHandle_loading downloadHotUpdateFile_def Let_def reject_def rejected_def stage_mods
    stages.simps(2) [of rt r "Suc (Suc (Suc 2))"] stages.simps(2) [of rt r "Suc (Suc 2)"] stages.simps(2) [of rt r "Suc 2" AtDownload]
    stage.simps(1-3) act_laws tryM_ret stages_Done
  consider "req_Method r \<noteq> ''POST''"
    | "req_Method r = ''POST''" "req_FormValue r ''version'' = [] \<or> \<not> isValidVersion (req_FormValue r ''version'')"
    | "req_Method r = ''POST''" "\<not> (req_FormValue r ''version'' = [] \<or> \<not> isValidVersion (req_FormValue r ''version''))"
        "req_FormValue r URLKey = []"
    | "req_Method r = ''POST''" "\<not> (req_FormValue r ''version'' = [] \<or> \<not> isValidVersion (req_FormValue r ''version''))"
        "req_FormValue r URLKey \<noteq> []"
    by blast
  then show ?thesis
    by cases (simp_all only: six unfolded if_True if_False not_True_eq_False simp_thms loading_stages [of rt r])
qed

section \<open>Several requests\<close>

record 'k serving =
  sv_plugin :: "'k hotUpdate"
  sv_requests :: "(http_request \<times> response \<times> hot_pc) list"

definition arrived :: "'k hotUpdate \<Rightarrow> http_request list \<Rightarrow> 'k serving" where
  "arrived h rs =
     \<lparr>sv_plugin = h, sv_requests = map (\<lambda>r. (r, \<lparr>rw_code = None, rw_body = []\<rparr>, AtVersion)) rs\<rparr>"

text \<open>
  The next stage of one of the requests; none if there is no such request, it is done, or the stage
  panics.
\<close>

definition serve :: "'k runtime \<Rightarrow> nat \<Rightarrow> 'k serving \<Rightarrow> 'k serving option" where
  "serve rt i s =
     (if length (sv_requests s) \<le> i then None
      else case sv_requests s ! i of (r, w, pc) \<Rightarrow>
        (if pc = Done then None
         else case stage rt r pc (sv_plugin s, w) of
           (Ret pc', (h, w')) \<Rightarrow> Some \<lparr>sv_plugin = h, sv_requests = (sv_requests s)[i := (r, w', pc')]\<rparr>
         | (Fail e, t) \<Rightarrow> None
         | (Panic m, t) \<Rightarrow> None))"

fun serve_all :: "'k runtime \<Rightarrow> nat list \<Rightarrow> 'k serving \<Rightarrow> 'k serving option" where
  "serve_all rt [] s = Some s"
| "serve_all rt (i # is) s = Option.bind (serve rt i s) (serve_all rt is)"

definition acceptable :: "http_request \<Rightarrow> bool" where
  "acceptable r \<longleftrightarrow>
     req_Method r = ''POST'' \<and> isValidVersion (req_FormValue r ''version'') \<and> req_FormValue r URLKey \<noteq> []"

definition named_by :: "http_request \<Rightarrow> http_request \<Rightarrow> 'k hotUpdate \<Rightarrow> bool" where
  "named_by r2 r1 = rest_is (\<lambda>st v u. v = req_FormValue r2 ''version'' \<and> u = req_FormValue r1 URLKey)"

lemma invalid_empty: "\<not> isValidVersion []"
  by (simp add: isValidVersion_def version_re_def)

lemma in_plugin_keeps: "keeps I m \<Longrightarrow> keeps (\<lambda>s. I (fst s)) (in_plugin m)"
  by (simp add: keeps_def in_plugin_def zoomM_apply)

lemma keeps_response: "keeps (\<lambda>s. I (fst s)) (WriteHeader c)" "keeps (\<lambda>s. I (fst s)) (Fprintf x)"
  by (auto simp: keeps_def WriteHeader_def Fprintf_def)

lemma keeps_rejected: "keeps (\<lambda>s. I (fst s)) (rejected c x)"
  unfolding rejected_def by (intro keeps_tryM keeps_response keeps_pure)

text \<open>From the download on, a stage leaves the version and the URL of the record alone.\<close>

lemma late_stage_keeps:
  assumes "pc \<notin> {AtVersion, AtUrl}"
  shows "keeps (\<lambda>s. rest_is P (fst s)) (stage rt r pc)"
proof (cases pc)
  case AtDownload
  show ?thesis unfolding AtDownload stage.simps
    by (intro keeps_catchM in_plugin_keeps keeps_download keeps_rejected keeps_pure)
next
  case AtLoad
  show ?thesis unfolding AtLoad stage.simps load_stage_def [abs_def]
    by (intro keeps_if_at keeps_catchM keeps_tryM in_plugin_keeps keeps_load keeps_text keeps_response keeps_pure)
next
  case AtStore
  show ?thesis unfolding AtStore stage.simps
    by (intro keeps_catchM in_plugin_keeps keeps_store keeps_pure)
next
  case AtPersist
  show ?thesis unfolding AtPersist stage.simps
    by (intro keeps_catchM in_plugin_keeps keeps_store keeps_pure)
next
  case Done
  show ?thesis unfolding Done stage.simps by (rule keeps_pure)
qed (use assms in simp_all)

lemma late_stage_next:
  assumes "pc \<notin> {AtVersion, AtUrl}" and "stage rt r pc s = (Ret pc', s')"
  shows "pc' \<notin> {AtVersion, AtUrl}"
  using assms
  by (cases pc) (auto simp: go_iff rejected_def load_stage_def split: if_splits)

definition all_late :: "'k serving \<Rightarrow> bool" where
  "all_late s \<longleftrightarrow> (\<forall>x \<in> set (sv_requests s). snd (snd x) \<notin> {AtVersion, AtUrl})"

lemma serve_late:
  assumes "serve rt i s = Some t" and "all_late s" and "rest_is P (sv_plugin s)"
  shows "all_late t \<and> rest_is P (sv_plugin t)"
proof -
  obtain r w pc where x: "sv_requests s ! i = (r, w, pc)" by (metis prod_cases3)
  then obtain pc' h w' where st: "i < length (sv_requests s)" "stage rt r pc (sv_plugin s, w) = (Ret pc', (h, w'))"
    "t = \<lparr>sv_plugin = h, sv_requests = (sv_requests s)[i := (r, w', pc')]\<rparr>"
    using assms(1) by (auto simp: serve_def split: if_splits prod.splits go.splits)
  have "(r, w, pc) \<in> set (sv_requests s)" using st(1) x by (metis nth_mem)
  then have late: "pc \<notin> {AtVersion, AtUrl}" using assms(2) by (auto simp: all_late_def)
  have "rest_is P h" using keepsD [OF late_stage_keeps [OF late] st(2)] assms(3) by simp
  moreover have "all_late t"
    using assms(2) late_stage_next [OF late st(2)] set_update_subset_insert [of "sv_requests s" i "(r, w', pc')"]
    unfolding st(3) all_late_def by auto
  ultimately show ?thesis by (simp add: st(3))
qed

lemma serve_all_late:
  "serve_all rt is s = Some t \<Longrightarrow> all_late s \<Longrightarrow> rest_is P (sv_plugin s) \<Longrightarrow> rest_is P (sv_plugin t)"
proof (induction "is" arbitrary: s)
  case (Cons i "is")
  then obtain u where "serve rt i s = Some u" "serve_all rt is u = Some t" by (auto simp: bind_eq_Some_conv)
  then show ?case using Cons.IH serve_late [OF _ Cons.prems(2,3)] by blast
qed simp

lemma mixed_schedule:
  assumes "acceptable r1" and "acceptable r2"
  shows "\<exists>s. serve_all rt [0, 1, 1, 0] (arrived h [r1, r2]) = Some s \<and> all_late s \<and> named_by r2 r1 (sv_plugin s) \<and>
    hu_proc (sv_plugin s) = hu_proc h"
proof -
  have "req_FormValue r ''version'' \<noteq> []" if "acceptable r" for r
    using that invalid_empty by (auto simp: acceptable_def)
  then show ?thesis
    using assms
    by (simp add: arrived_def serve_def acceptable_def tryM_def in_plugin_def zoomM_apply setVersion_def setUrl_def
        all_late_def named_by_def rest_is_def)
qed

lemma lone_schedule:
  assumes "acceptable r"
  shows "\<exists>s. serve_all rt [0, 0] (arrived h [r]) = Some s \<and> all_late s \<and> named_by r r (sv_plugin s)"
proof -
  have "req_FormValue r ''version'' \<noteq> []" using assms invalid_empty by (auto simp: acceptable_def)
  then show ?thesis
    using assms
    by (simp add: arrived_def serve_def acceptable_def tryM_def in_plugin_def zoomM_apply setVersion_def setUrl_def
        all_late_def named_by_def rest_is_def)
qed

lemma serve_all_append: "serve_all rt (is @ js) s = Option.bind (serve_all rt is s) (serve_all rt js)"
proof (induction "is" arbitrary: s)
  case (Cons i "is")
  show ?case by (cases "serve rt i s") (simp_all add: Cons)
qed simp

text \<open>What the record names is what is persisted.\<close>

lemma named_persisted:
  assumes "result_store (rt_kube rt) store" and "yaml_ok (rt_yaml rt)" and "named_by r2 r1 h"
    and "storeDataToConfigmap rt h = (Ret (), h')"
  shows "\<exists>cm name. store (pr_api (hu_proc h')) result_key = Some cm \<and> GetCurrentPodInfo (rt_env rt) = Ret name \<and>
    pod_results (rt_yaml rt) cm name hotUpdateName (req_FormValue r2 ''version'') = Some (req_FormValue r1 URLKey)"
proof -
  let ?p = "\<lparr>per_Type = hotUpdateName, per_Result = Some [(req_FormValue r2 ''version'', req_FormValue r1 URLKey)]\<rparr>"
  obtain o1 q u where at: "SetPersistenceInfo (rt_env rt) (rt_kube rt) (rt_yaml rt) (Some ?p, hu_proc h) = (o1, (q, u))"
    by (metis surj_pair)
  have "o1 = Ret () \<and> hu_proc h' = u"
    using assms(3,4) at
    by (cases o1) (auto simp: storeDataToConfigmap_def tryM_def zoomM_apply named_by_def rest_is_def)
  with at have run: "SetPersistenceInfo (rt_env rt) (rt_kube rt) (rt_yaml rt) (Some ?p, hu_proc h) =
      (Ret (), (q, hu_proc h'))" by simp
  obtain cm name info doc cm' where eff: "store (pr_api (hu_proc h)) result_key = Some cm"
    "GetCurrentPodInfo (rt_env rt) = Ret name" "yl_Marshal (rt_yaml rt) info = Ret doc"
    "mergeResults (rt_yaml rt) ?p (if glen (cm_Data cm) = 0 then gmake else cm_Data cm) name = Ret info"
    "store (pr_api (hu_proc h')) = (store (pr_api (hu_proc h)))(result_key \<mapsto> cm')"
    "glookup (cm_Data cm') = (glookup (cm_Data cm))(name \<mapsto> doc)"
    using Set_effect [OF assms(1) run] by blast
  obtain info' where "yl_Unmarshal (rt_yaml rt) doc gmake = Ret info'" "info_view info' = info_view info"
    using assms(2) eff(3) by (auto simp: yaml_ok_def)
  moreover have "info_view info hotUpdateName = Some (pod_results (rt_yaml rt) cm name hotUpdateName ++ glookup (per_Result ?p))"
    using mergeResults_pod_results(1) [OF eff(4)] by (simp add: gmap_ok_def)
  ultimately have "pod_results (rt_yaml rt) cm' name hotUpdateName (req_FormValue r2 ''version'') =
      Some (req_FormValue r1 URLKey)"
    using eff(6) by (simp add: pod_results_def [of _ cm'])
  with eff(2,5) show ?thesis by simp
qed

text \<open>So once no request can write the record any more, its names are saved whatever stages follow.\<close>

lemma settled_persisted:
  assumes "serve_all rt js s0 = Some s" and "all_late s" and "named_by r2 r1 (sv_plugin s)"
    and "serve_all rt (js @ is) s0 = Some t" and "storeDataToConfigmap rt (sv_plugin t) = (Ret (), h')"
    and "result_store (rt_kube rt) store" and "yaml_ok (rt_yaml rt)"
  shows "\<exists>cm name. store (pr_api (hu_proc h')) result_key = Some cm \<and> GetCurrentPodInfo (rt_env rt) = Ret name \<and>
    pod_results (rt_yaml rt) cm name hotUpdateName (req_FormValue r2 ''version'') = Some (req_FormValue r1 URLKey)"
proof -
  have "serve_all rt is s = Some t"
    using assms(4,1) unfolding serve_all_append by (simp only: Option.bind.bind_lunit)
  from serve_all_late [OF this assms(2) assms(3) [unfolded named_by_def]] have "named_by r2 r1 (sv_plugin t)"
    by (simp add: named_by_def)
  from named_persisted [OF assms(6,7) this assms(5)] show ?thesis .
qed

text \<open>A request that is alone is saved with its own version and URL.\<close>

lemma lone_request_persists:
  assumes "acceptable r" and "serve_all rt ([0, 0] @ is) (arrived h [r]) = Some t"
    and "storeDataToConfigmap rt (sv_plugin t) = (Ret (), h')"
    and "result_store (rt_kube rt) store" and "yaml_ok (rt_yaml rt)"
  shows "\<exists>cm name. store (pr_api (hu_proc h')) result_key = Some cm \<and> GetCurrentPodInfo (rt_env rt) = Ret name \<and>
    pod_results (rt_yaml rt) cm name hotUpdateName (req_FormValue r ''version'') = Some (req_FormValue r URLKey)"
  using lone_schedule [OF assms(1)] settled_persisted [OF _ _ _ assms(2-5)] by blast

section \<open>Properties\<close>

text \<open>
  C36: two acceptable requests that are served at the same time can be persisted as one that nobody
  sent: whatever stages follow, the version of the one is saved with the URL of the other.
\<close>

theorem concurrent_requests_mix:
  assumes "acceptable r1" and "acceptable r2"
    and "serve_all rt ([0, 1, 1, 0] @ is) (arrived h [r1, r2]) = Some t"
    and "storeDataToConfigmap rt (sv_plugin t) = (Ret (), h')"
    and "result_store (rt_kube rt) store" and "yaml_ok (rt_yaml rt)"
  shows "\<exists>cm name. store (pr_api (hu_proc h')) result_key = Some cm \<and> GetCurrentPodInfo (rt_env rt) = Ret name \<and>
    pod_results (rt_yaml rt) cm name hotUpdateName (req_FormValue r2 ''version'') = Some (req_FormValue r1 URLKey)"
  using mixed_schedule [OF assms(1,2)] settled_persisted [OF _ _ _ assms(3-6)] by blast

text \<open>Two updates, of which the record ends up with the version of the second and the URL of the first.\<close>

definition demo_update :: "string \<Rightarrow> string \<Rightarrow> http_request" where
  "demo_update v u =
     \<lparr>req_Method = ''POST'', req_FormValue = (\<lambda>k. if k = ''version'' then v else if k = URLKey then u else [])\<rparr>"

theorem concurrent_requests_mix_witness:
  "\<exists>t h' cm. serve_all demo_rt [0, 1, 1, 0]
       (arrived (demo_hot\<lparr>hu_proc := demo_proc_results\<rparr>) [demo_update ''v1'' ''/a'', demo_update ''v2'' ''/b'']) = Some t \<and>
     storeDataToConfigmap demo_rt (sv_plugin t) = (Ret (), h') \<and>
     mem_store (pr_api (hu_proc h')) result_key = Some cm \<and>
     pod_results mini_yaml cm ''ns-p'' hotUpdateName ''v2'' = Some ''/a''"
proof -
  let ?h = "demo_hot\<lparr>hu_proc := demo_proc_results\<rparr>" and ?r1 = "demo_update ''v1'' ''/a''" and ?r2 = "demo_update ''v2'' ''/b''"
  have ok: "acceptable ?r1" "acceptable ?r2"
    by (simp_all add: acceptable_def demo_update_def isValidVersion_def version_re_def digits_re_def is_digit_def URLKey_def)
  then obtain t where t: "serve_all demo_rt [0, 1, 1, 0] (arrived ?h [?r1, ?r2]) = Some t" "named_by ?r2 ?r1 (sv_plugin t)"
    "hu_proc (sv_plugin t) = demo_proc_results"
    using mixed_schedule [OF ok, of demo_rt ?h] by auto
  have names: "req_FormValue ?r2 ''version'' = ''v2''" "req_FormValue ?r1 URLKey = ''/a''"
    by (simp_all add: demo_update_def URLKey_def)
  have rt: "rt_env demo_rt = pod_env" "rt_kube demo_rt = mem_kube" "rt_yaml demo_rt = mini_yaml"
    by (simp_all add: demo_rt_def)
  obtain h' where save: "storeDataToConfigmap demo_rt (sv_plugin t) = (Ret (), h')"
    using demo_Set_ok [of "''v2''" "''/a''"] t(2,3) names
    by (cases "SetPersistenceInfo pod_env mem_kube mini_yaml
          (Some \<lparr>per_Type = hotUpdateName, per_Result = Some [(''v2'', ''/a'')]\<rparr>, demo_proc_results)")
      (auto simp: storeDataToConfigmap_def tryM_def zoomM_apply named_by_def rest_is_def rt hotUpdateName_def nl_def)
  from concurrent_requests_mix [OF ok _ save, of "[]" ?h mem_store, unfolded rt names] t(1) show ?thesis
    using save mem_result_store mini_yaml_ok pod_env_names by auto
qed

end
