(* ===== verification/KcStoreProps.thy ===== *)
theory KcStoreProps imports KcStore begin

text \<open>
  Properties of pkg/store: the contract of the \<^verbatim>\<open>Storage\<close> interface as a locale that both storages
  interpret, what a successful store leaves on the pod, what the JSON patch addresses, and that the
  metric storage cannot store.
\<close>

section \<open>The Storage interface\<close>

text \<open>
  A storage promises that a setup that succeeds initializes it, and that storing does not undo
  that. The factory relies on it: a storage is set up at most once.
\<close>

locale storage =
  fixes isInit :: "'s \<Rightarrow> bool"
    and configure :: "('s, unit) act"
    and put :: "string \<Rightarrow> ('s, unit) act"
  assumes setup_inits: "configure s = (Ret (), t) \<Longrightarrow> isInit t"
    and store_stays: "isInit s \<Longrightarrow> isInit (snd (put dat s))"
begin

lemma obtained_is_initialized:
  "initialized isInit configure s = (Ret (), t) \<Longrightarrow> isInit t"
  by (auto simp: initialized_def tryM_def split: if_splits prod.splits go.splits dest: setup_inits)

lemma no_second_setup: "isInit s \<Longrightarrow> initialized isInit configure s = (Ret (), s)"
  by (simp add: initialized_def)

lemma store_then_obtain:
  assumes "isInit s"
  shows "initialized isInit configure (snd (put dat s)) = (Ret (), snd (put dat s))"
  using assms by (intro no_second_setup store_stays)

end

lemma on_proc_frame:
  assumes "on_proc m s = (r, t)"
  shows "ss_inKube t = ss_inKube s" and "ss_promMetric t = ss_promMetric s"
    and "ss_config t = ss_config s" and "m (ss_proc s) = (r, ss_proc t)"
  using assms by (auto simp: on_proc_def zoomM_apply)

lemma on_client_frame:
  assumes "on_client m s = (r, t)"
  shows "ss_inKube t = ss_inKube s" and "ss_promMetric t = ss_promMetric s"
    and "ss_config t = ss_config s"
  using assms on_proc_frame [of "zoomM pr_api (\<lambda>k p. p\<lparr>pr_api := k\<rparr>) m"]
  by (auto simp: on_client_def split: if_splits)

text \<open>What no storing in Kubernetes objects touches.\<close>

definition metric_part :: "inKube \<times> promMetric \<Rightarrow> 'k store_state \<Rightarrow> bool" where
  "metric_part x s \<longleftrightarrow> (ss_inKube s, ss_promMetric s) = x"

lemma keeps_on_proc: "keeps (metric_part x) (on_proc m)"
  by (simp add: keeps_def on_proc_def zoomM_apply metric_part_def)

lemma keeps_on_client: "keeps (metric_part x) (on_client m)"
  by (simp add: keeps_def on_client_def on_proc_def zoomM_apply metric_part_def)

lemma inKube_Store_keeps:
  fixes ki :: "'k kube_iface"
  shows "keeps (metric_part x) (inKube_Store env ki dat arg)"
proof -
  have pod: "keeps (metric_part x) (storeInCurrentPod env ki dat c)" for c
    unfolding storeInCurrentPod_def
    by (intro keeps_tryM keeps_on_proc keeps_on_client keeps_pure)
  have other: "keeps (metric_part x) (storeInOtherObject ki dat c)" for c
    unfolding storeInOtherObject_def
    by (cases "ik_Target c") (auto intro!: keeps_tryM keeps_on_client)
  have conf: "keeps (metric_part x) (tryM (liftG g) h (\<lambda>_.
      tryM (modM (set_inkube c')) id (\<lambda>_. tryM (storeInCurrentPod env ki dat c') h' (\<lambda>_.
        storeInOtherObject ki dat c'))))" for g :: "unit go" and h c' h'
    by (intro keeps_tryM pod other keeps_pure keeps_modM) (simp add: metric_part_def set_inkube_def)
  show ?thesis
    unfolding keeps_def
  proof (intro allI impI)
    fix s :: "'k store_state" assume "metric_part x s"
    then show "metric_part x (snd (inKube_Store env ki dat arg s))"
      using conf by (cases "sg_InKube (ss_config s)") (auto simp: inKube_Store_def keeps_def)
  qed
qed

interpretation ik: storage inKube_IsInitialized "inKube_SetupWithManager ki"
    "\<lambda>dat. inKube_Store env ki dat InKubeArg"
  for ki :: "'k kube_iface" and env
proof unfold_locales
  fix s t :: "'k store_state" and dat
  show "inKube_SetupWithManager ki s = (Ret (), t) \<Longrightarrow> inKube_IsInitialized t"
    by (auto simp: inKube_SetupWithManager_def go_iff inKube_IsInitialized_def)
  show "inKube_IsInitialized s \<Longrightarrow> inKube_IsInitialized (snd (inKube_Store env ki dat InKubeArg s))"
    using inKube_Store_keeps [of "(ss_inKube s, ss_promMetric s)" env ki dat InKubeArg]
    by (auto simp: keeps_def metric_part_def inKube_IsInitialized_def)
qed

lemma MustRegister_cases:
  "MustRegister sl n s = (r, t) \<Longrightarrow> (pm_metrics (ss_promMetric t) = pm_metrics (ss_promMetric s)) \<and>
     ss_proc t = ss_proc s \<and> ss_config t = ss_config s \<and> (\<forall>e. r \<noteq> Fail e) \<and>
     (pm_registry (ss_promMetric s) \<noteq> None \<longrightarrow> pm_registry (ss_promMetric t) \<noteq> None)"
  by (auto simp: MustRegister_def set_registry_def split: option.splits if_splits)

lemma getOrCreateGauge_stays:
  assumes "getOrCreateGauge sl c s = (r, t)"
  shows "ss_proc t = ss_proc s"
    and "pm_registry (ss_promMetric s) \<noteq> None \<Longrightarrow> pm_registry (ss_promMetric t) \<noteq> None"
  using assms
  by (auto simp: getOrCreateGauge_def tryM_def split: option.splits prod.splits go.splits
      dest!: MustRegister_cases)

lemma promMetric_Store_stays:
  assumes "promMetric_Store sl dat arg s = (r, t)"
  shows "ss_proc t = ss_proc s"
    and "pm_registry (ss_promMetric s) \<noteq> None \<Longrightarrow> pm_registry (ss_promMetric t) \<noteq> None"
  using assms
  by (auto simp: promMetric_Store_def tryM_def gauge_Set_def split: if_splits prod.splits go.splits
      dest: getOrCreateGauge_stays)

interpretation pm: storage promMetric_IsInitialized promMetric_SetupWithManager
    "\<lambda>dat. promMetric_Store sl dat HTTPMetricArg"
  for sl :: store_lib
proof unfold_locales
  fix s t :: "'k store_state" and dat
  show "promMetric_SetupWithManager s = (Ret (), t) \<Longrightarrow> promMetric_IsInitialized t"
    by (auto simp: promMetric_SetupWithManager_def go_iff promMetric_IsInitialized_def)
  show "promMetric_IsInitialized s \<Longrightarrow>
      promMetric_IsInitialized (snd (promMetric_Store sl dat HTTPMetricArg s))"
    using promMetric_Store_stays(2) [of sl dat HTTPMetricArg s]
    by (cases "promMetric_Store sl dat HTTPMetricArg s") (simp add: promMetric_IsInitialized_def)
qed

section \<open>What the patches say\<close>

text \<open>The entries a result puts on an object: the configured key, overridden by the policy.\<close>

definition marks ::
    "string \<Rightarrow> string option \<Rightarrow> (ProbeMarkerPolicy \<Rightarrow> (string, string) gomap) \<Rightarrow> InKubeConfig \<Rightarrow>
       string \<rightharpoonup> string" where
  "marks dat key sel c =
     (case key of None \<Rightarrow> Map.empty | Some k \<Rightarrow> [k \<mapsto> dat]) ++
     (case find (\<lambda>p. pol_State p = dat) (rev (ik_MarkerPolices c)) of
        None \<Rightarrow> Map.empty | Some p \<Rightarrow> map_of (grange (sel p)))"

lemma map_of_patch_map:
  assumes "gmap_ok pol"
  shows "map_of (patch_map dat key pol) =
     (case key of None \<Rightarrow> Map.empty | Some k \<Rightarrow> [k \<mapsto> dat]) ++ map_of (grange pol)"
  using assms by (cases pol; cases key) (auto simp: patch_map_def Let_def gmap_ok_def map_of_copy_into)

definition policies_wf :: "InKubeConfig \<Rightarrow> bool" where
  "policies_wf c \<longleftrightarrow> (\<forall>p \<in> set (ik_MarkerPolices c). gmap_ok (pol_Annotations p) \<and> gmap_ok (pol_Labels p))"

lemma glookup_merge:
  assumes "distinct (map fst es)"
  shows "glookup (merge_meta (if_any es) m) = glookup m ++ map_of es"
  using assms
  by (cases es; cases m) (simp_all add: merge_meta_def if_any_def glookup_def [abs_def] map_of_copy_into
      del: copy_into_simps)

lemma distinct_patch_map: "distinct (map fst (patch_map dat key pol))"
  by (cases key) (simp_all add: patch_map_def Let_def)

lemma find_in_set: "find P xs = Some x \<Longrightarrow> x \<in> set xs"
  by (induction xs) (auto split: if_splits)

lemma marks_patch_map:
  assumes "policies_ok c" and "policies_wf c"
    and sel: "\<And>p. p \<in> set (ik_MarkerPolices c) \<Longrightarrow> gmap_ok (sel p)"
  shows "map_of (patch_map dat key
           (case GetPolicyOfState (Preprocess c) dat of None \<Rightarrow> None | Some q \<Rightarrow> sel q)) = marks dat key sel c"
proof (cases "find (\<lambda>p. pol_State p = dat) (rev (ik_MarkerPolices c))")
  case None
  then show ?thesis
    using assms(1) by (simp add: GetPolicyOfState_Preprocess marks_def map_of_patch_map gmap_ok_def)
next
  case (Some q)
  then have "gmap_ok (sel q)" using sel find_in_set by fastforce
  then show ?thesis
    using assms(1) Some by (simp add: GetPolicyOfState_Preprocess marks_def map_of_patch_map)
qed

section \<open>What the API server promises for pods\<close>

definition apply_patch :: "pod_patch \<Rightarrow> pod \<Rightarrow> pod" where
  "apply_patch u p =
     p\<lparr>pod_Annotations := merge_meta (pp_annotations u) (pod_Annotations p),
       pod_Labels := merge_meta (pp_labels u) (pod_Labels p)\<rparr>"

text \<open>A read changes nothing; a patch that succeeds merges into the stored pod, one that fails changes nothing.\<close>

definition pod_api :: "'k kube_iface \<Rightarrow> ('k \<Rightarrow> string \<times> string \<rightharpoonup> pod) \<Rightarrow> bool" where
  "pod_api ki pods \<longleftrightarrow>
     (\<forall>ns n k. pods (snd (ki_GetPod ki ns n k)) = pods k) \<and>
     (\<forall>ns n u k r k'. ki_PatchPod ki ns n u k = (r, k') \<longrightarrow>
        (if r = Ret () then \<exists>p. pods k (ns, n) = Some p \<and> pods k' = (pods k)((ns, n) \<mapsto> apply_patch u p)
         else pods k' = pods k)) \<and>
     retries IsConflict (ki_RetryOnConflict ki)"

lemma pod_apiD:
  assumes "pod_api ki pods"
  shows "pods (snd (ki_GetPod ki ns n k)) = pods k"
    and "ki_PatchPod ki ns n u k = (Fail e, k') \<Longrightarrow> pods k' = pods k"
    and "ki_PatchPod ki ns n u k = (Ret (), k') \<Longrightarrow>
       \<exists>p. pods k (ns, n) = Some p \<and> pods k' = (pods k)((ns, n) \<mapsto> apply_patch u p)"
    and "retries IsConflict (ki_RetryOnConflict ki)"
  using assms unfolding pod_api_def by (simp, fastforce, fastforce, simp)

lemma GetCurrentPod_pods:
  assumes "pod_api ki pods" and "GetCurrentPod env ki s = (r, t)"
  shows "pods (pr_api t) = pods (pr_api s)"
proof -
  have kube: "pods (pr_api v) = pods (pr_api u)" if "on_kube (ki_GetPod ki ns n) u = (q, v)" for ns n u q v
    using that pod_apiD(1) [OF assms(1)] by (auto simp: on_kube_def zoomM_apply split: if_splits)
  show ?thesis using assms(2) by (cases rule: GetCurrentPod_cases) (auto dest: kube)
qed

lemma storeInCurrentPod_patches:
  assumes api: "pod_api ki pods" and run: "storeInCurrentPod env ki dat c s = (Ret (), t)"
  shows "\<exists>p u q. GetCurrentPod env ki (ss_proc s) = (Ret p, u) \<and>
     pods (pr_api (ss_proc s)) (pod_Namespace p, pod_Name p) = Some q \<and>
     pods (pr_api (ss_proc t)) =
       (pods (pr_api (ss_proc s)))((pod_Namespace p, pod_Name p) \<mapsto> apply_patch (buildPodPatch dat c) q)"
proof -
  obtain p s1 where get: "on_proc (GetCurrentPod env ki) s = (Ret p, s1)"
    and patch: "on_client (ki_RetryOnConflict ki
      (ki_PatchPod ki (pod_Namespace p) (pod_Name p) (buildPodPatch dat c))) s1 = (Ret (), t)"
    using run by (auto simp: storeInCurrentPod_def go_iff)
  have cur: "GetCurrentPod env ki (ss_proc s) = (Ret p, ss_proc s1)"
    using on_proc_frame(4) [OF get] .
  have same: "pods (pr_api (ss_proc s1)) = pods (pr_api (ss_proc s))"
    using GetCurrentPod_pods [OF api cur] .
  have "ki_RetryOnConflict ki (ki_PatchPod ki (pod_Namespace p) (pod_Name p) (buildPodPatch dat c))
      (pr_api (ss_proc s1)) = (Ret (), pr_api (ss_proc t))"
    using patch by (auto simp: on_client_def on_proc_def zoomM_apply prod_eq_iff split: if_splits)
  then have "\<exists>v. pods v = pods (pr_api (ss_proc s1)) \<and>
      ki_PatchPod ki (pod_Namespace p) (pod_Name p) (buildPodPatch dat c) v = (Ret (), pr_api (ss_proc t))"
    by (rule retries_last [OF pod_apiD(4) [OF api]]) (rule pod_apiD(2) [OF api])
  then obtain v where v: "pods v = pods (pr_api (ss_proc s1))"
    "ki_PatchPod ki (pod_Namespace p) (pod_Name p) (buildPodPatch dat c) v = (Ret (), pr_api (ss_proc t))"
    by blast
  from pod_apiD(3) [OF api v(2)] obtain q where
    "pods v (pod_Namespace p, pod_Name p) = Some q"
    "pods (pr_api (ss_proc t)) =
       (pods v)((pod_Namespace p, pod_Name p) \<mapsto> apply_patch (buildPodPatch dat c) q)"
    by blast
  with cur show ?thesis unfolding v(1) same by blast
qed

section \<open>Properties\<close>

lemma apply_patch_buildPodPatch:
  fixes q :: pod and dat :: string
  assumes "policies_ok c" and "policies_wf c"
  defines "q' \<equiv> apply_patch (buildPodPatch dat (Preprocess c)) q"
  shows "glookup (pod_Annotations q') = glookup (pod_Annotations q) ++ marks dat (ik_AnnotationKey c) pol_Annotations c"
    and "glookup (pod_Labels q') = glookup (pod_Labels q) ++ marks dat (ik_LabelKey c) pol_Labels c"
    and "q' = q\<lparr>pod_Annotations := pod_Annotations q', pod_Labels := pod_Labels q'\<rparr>"
  using assms(2)
  by (simp_all add: q'_def apply_patch_def buildPodPatch_def Let_def glookup_merge distinct_patch_map
      marks_patch_map [OF assms(1,2)] policies_wf_def)

lemma store_leaves_marks:
  assumes "pod_api ki pods" and "policies_ok c" and "policies_wf c" and "sg_InKube (ss_config s) = Some c"
    and "ik_Target c = None \<or> ik_MarkerPolices c = []"
    and "inKube_Store env ki dat InKubeArg s = (Ret (), t)"
  shows "\<exists>p u q q'. GetCurrentPod env ki (ss_proc s) = (Ret p, u) \<and>
     pods (pr_api (ss_proc s)) (pod_Namespace p, pod_Name p) = Some q \<and>
     pods (pr_api (ss_proc t)) = (pods (pr_api (ss_proc s)))((pod_Namespace p, pod_Name p) \<mapsto> q') \<and>
     glookup (pod_Annotations q') = glookup (pod_Annotations q) ++ marks dat (ik_AnnotationKey c) pol_Annotations c \<and>
     glookup (pod_Labels q') = glookup (pod_Labels q) ++ marks dat (ik_LabelKey c) pol_Labels c \<and>
     q' = q\<lparr>pod_Annotations := pod_Annotations q', pod_Labels := pod_Labels q'\<rparr>"
proof -
  have no_other: "storeInOtherObject ki dat (Preprocess c) = ret ()"
    using assms(5) by (auto simp: storeInOtherObject_def split: option.split)
  obtain v where "storeInCurrentPod env ki dat (Preprocess c) (set_inkube (Preprocess c) s) = (Ret (), v)"
    and "t = v"
    using assms(4,6) by (auto simp: inKube_Store_def no_other go_iff)
  with storeInCurrentPod_patches [OF assms(1)] have
    "\<exists>p u q. GetCurrentPod env ki (ss_proc s) = (Ret p, u) \<and>
       pods (pr_api (ss_proc s)) (pod_Namespace p, pod_Name p) = Some q \<and>
       pods (pr_api (ss_proc t)) = (pods (pr_api (ss_proc s)))
         ((pod_Namespace p, pod_Name p) \<mapsto> apply_patch (buildPodPatch dat (Preprocess c)) q)"
    by (fastforce simp: set_inkube_def)
  then show ?thesis using apply_patch_buildPodPatch [OF assms(2,3)] by blast
qed


definition mem_pods :: "apiserver \<Rightarrow> string \<times> string \<rightharpoonup> pod" where
  "mem_pods k key = find (is_pod (fst key) (snd key)) (srv_pods k)"

lemma apply_patch_key [simp]: "is_pod x m (apply_patch u p) = is_pod x m p"
  by (simp add: apply_patch_def is_pod_def)

lemma is_pod_unique: "is_pod x m p \<Longrightarrow> is_pod y n p \<longleftrightarrow> x = y \<and> m = n"
  by (auto simp: is_pod_def)

lemma find_map_patch:
  "find (is_pod x m) (map (\<lambda>p. if is_pod ns n p then apply_patch u p else p) ps) =
    (if (x, m) = (ns, n) then map_option (apply_patch u) (find (is_pod ns n) ps) else find (is_pod x m) ps)"
proof (induction ps)
  case (Cons p ps)
  then show ?case by (cases "is_pod x m p"; cases "is_pod ns n p") (auto simp: is_pod_unique)
qed simp

lemma mem_pod_api: "pod_api mem_kube mem_pods"
proof -
  have patched: "mem_pods (snd (ki_PatchPod mem_kube ns n u k)) =
      (case mem_pods k (ns, n) of None \<Rightarrow> mem_pods k
       | Some p \<Rightarrow> (mem_pods k)((ns, n) \<mapsto> apply_patch u p))" for ns n u k
  proof
    fix key
    have "mem_pods (snd (ki_PatchPod mem_kube ns n u k)) key =
        find (is_pod (fst key) (snd key))
          (map (\<lambda>p. if is_pod ns n p then apply_patch u p else p) (srv_pods k))"
      by (simp add: mem_pods_def mem_kube_calls apply_patch_def cong: if_cong)
    also have "\<dots> = (if (fst key, snd key) = (ns, n) then map_option (apply_patch u) (find (is_pod ns n) (srv_pods k))
        else find (is_pod (fst key) (snd key)) (srv_pods k))"
      by (rule find_map_patch)
    finally show "mem_pods (snd (ki_PatchPod mem_kube ns n u k)) key =
        (case mem_pods k (ns, n) of None \<Rightarrow> mem_pods k
         | Some p \<Rightarrow> (mem_pods k)((ns, n) \<mapsto> apply_patch u p)) key"
      by (cases key; cases "find (is_pod ns n) (srv_pods k)") (simp_all add: mem_pods_def)
  qed
  show ?thesis
    unfolding pod_api_def
  proof (intro conjI allI impI)
    show "mem_pods (snd (ki_GetPod mem_kube ns n k)) = mem_pods k" for ns n k
      by (simp add: mem_kube_calls)
    show "retries IsConflict (ki_RetryOnConflict mem_kube)"
      by (simp add: mem_kube_calls retries_attempts)
    fix ns n u k r k' assume run: "ki_PatchPod mem_kube ns n u k = (r, k')"
    have "r = (if mem_pods k (ns, n) = None then Fail (ApiStatus NotFound) else Ret ())"
      using run by (simp add: mem_kube_calls mem_pods_def split: if_splits)
    then show "if r = Ret () then \<exists>p. mem_pods k (ns, n) = Some p \<and> mem_pods k' = (mem_pods k)((ns, n) \<mapsto> apply_patch u p)
         else mem_pods k' = mem_pods k"
      using patched [of ns n u k] run by (auto split: option.splits)
  qed
qed

definition demo_inkube :: InKubeConfig where
  "demo_inkube =
     \<lparr>ik_Target = None, ik_JsonPath = None, ik_AnnotationKey = Some ''probe'', ik_LabelKey = None,
      ik_MarkerPolices =
        [\<lparr>pol_State = ''ok'', pol_Labels = None, pol_Annotations = Some [(''cost'', ''1'')]\<rparr>,
         \<lparr>pol_State = ''ok'', pol_Labels = None, pol_Annotations = Some [(''cost'', ''10'')]\<rparr>],
      ik_policyMap = None, ik_preprocessd = False\<rparr>"

definition demo_storage :: StorageConfig where
  "demo_storage = \<lparr>sg_Type = ''InKube'', sg_InKube = Some demo_inkube, sg_HTTPMetric = None\<rparr>"

definition demo_store_state :: "apiserver store_state" where
  "demo_store_state =
     (NewStorageFactory demo_storage demo_proc)\<lparr>ss_inKube := \<lparr>ink_dynamic = True, ink_Interface = True\<rparr>\<rparr>"

lemma demo_inkube_ok: "policies_ok demo_inkube" "policies_wf demo_inkube"
  by (simp_all add: policies_ok_def policies_wf_def demo_inkube_def gmap_ok_def)

lemma demo_marks:
  "marks ''ok'' (ik_AnnotationKey demo_inkube) pol_Annotations demo_inkube = [''probe'' \<mapsto> ''ok'', ''cost'' \<mapsto> ''10'']"
  by (simp add: marks_def demo_inkube_def)

lemma demo_store_runs:
  "fst (inKube_Store pod_env mem_kube ''ok'' InKubeArg demo_store_state) = Ret ()"
proof -
  have valid: "InKubeConfig_IsValid demo_inkube = Ret ()"
    by (simp add: InKubeConfig_IsValid_def demo_inkube_def)
  have other: "storeInOtherObject mem_kube ''ok'' (Preprocess demo_inkube) = ret ()"
    by (simp add: storeInOtherObject_def demo_inkube_def)
  have found: "find (is_pod (pod_Namespace demo_pod) (pod_Name demo_pod)) (srv_pods (pr_api demo_proc_cached)) \<noteq> None"
    by (simp add: is_pod_def demo_proc_cached_def demo_proc_def demo_server_def)
  show ?thesis
    using found
    by (simp add: inKube_Store_def demo_store_state_def NewStorageFactory_def demo_storage_def valid other
        tryM_def storeInCurrentPod_def on_proc_def zoomM_apply set_inkube_def demo_GetCurrentPod
        on_client_def mem_kube_calls numeral_eq_Suc)
qed


text \<open>A reference token list of a JSON pointer (RFC 6901).\<close>

definition pointer_tokens :: "string \<Rightarrow> string list" where
  "pointer_tokens path = map rfc6901Decode (tl (split_on CHR ''/'' path))"

lemma pointer_tokens_replace_in:
  "pointer_tokens (op_Path (replace_in ''/metadata/annotations/'' k v)) = [''metadata'', ''annotations'', k]"
  "pointer_tokens (op_Path (replace_in ''/metadata/labels/'' k v)) = [''metadata'', ''labels'', k]"
  by (simp_all add: replace_in_def NewOperation_def pointer_tokens_def split_on_unsplit rfc6901_encode_no_slash
      rfc6901_decode_encode)

text \<open>
  C25: the JSON patch for another object addresses what it means to: read as JSON pointers,
  the paths name the configured annotation and label with the result as value, then the entries
  of the policy, each with its own key and value, slashes and tildes in the keys included.
\<close>

theorem generatePatch_pointers:
  "map (\<lambda>op. (op_Operation op, pointer_tokens (op_Path op), op_Value op)) (generatePatch dat c) =
     map (\<lambda>k. (''replace'', [''metadata'', ''annotations'', k], dat)) (case ik_AnnotationKey c of None \<Rightarrow> [] | Some k \<Rightarrow> [k]) @
     map (\<lambda>k. (''replace'', [''metadata'', ''labels'', k], dat)) (case ik_LabelKey c of None \<Rightarrow> [] | Some k \<Rightarrow> [k]) @
     (case GetPolicyOfState c dat of
        None \<Rightarrow> []
      | Some p \<Rightarrow>
          map (\<lambda>(k, v). (''replace'', [''metadata'', ''annotations'', k], v)) (grange (pol_Annotations p)) @
          map (\<lambda>(k, v). (''replace'', [''metadata'', ''labels'', k], v)) (grange (pol_Labels p)))"
proof -
  have op: "op_Operation (replace_in d k v) = ''replace''" "op_Value (replace_in d k v) = v" for d k v
    by (simp_all add: replace_in_def NewOperation_def)
  have loop: "(if glen m > 0 then map f (grange m) else []) = map f (grange m)"
    for m :: "(string, string) gomap" and f :: "string \<times> string \<Rightarrow> json_op"
    by (cases m) simp_all
  show ?thesis
    by (cases "ik_AnnotationKey c"; cases "ik_LabelKey c"; cases "GetPolicyOfState c dat")
      (simp_all add: generatePatch_def loop op pointer_tokens_replace_in split_beta comp_def del: glen_simps)
qed

text \<open>
  A configuration whose only destination is \<^verbatim>\<open>jsonPath\<close> is valid, yet both patches built
  from it are empty: the result is dropped.
\<close>

lemma JsonPath_drops_result:
  "InKubeConfig_IsValid (c\<lparr>ik_Target := None, ik_JsonPath := Some path, ik_AnnotationKey := None,
       ik_LabelKey := None, ik_MarkerPolices := [], ik_policyMap := None\<rparr>) = Ret () \<and>
   buildPodPatch dat (c\<lparr>ik_Target := None, ik_JsonPath := Some path, ik_AnnotationKey := None,
       ik_LabelKey := None, ik_MarkerPolices := [], ik_policyMap := None\<rparr>) =
     \<lparr>pp_annotations = None, pp_labels = None\<rparr> \<and>
   generatePatch dat (c\<lparr>ik_Target := None, ik_JsonPath := Some path, ik_AnnotationKey := None,
       ik_LabelKey := None, ik_MarkerPolices := [], ik_policyMap := None\<rparr>) = []"
  by (simp add: InKubeConfig_IsValid_def buildPodPatch_def patch_map_def if_any_def generatePatch_def
      GetPolicyOfState_def)

section \<open>The metric storage\<close>

lemma getOrCreateGauge_nil:
  assumes "pm_metrics (ss_promMetric s) = None"
  shows "is_Panic (fst (getOrCreateGauge sl c s)) \<and>
    pm_metrics (ss_promMetric (snd (getOrCreateGauge sl c s))) = None"
  using assms
  by (cases c; cases "pm_registry (ss_promMetric s)")
    (simp_all add: getOrCreateGauge_def tryM_def MustRegister_def set_registry_def)

lemma promMetric_Store_nil:
  assumes "pm_metrics (ss_promMetric s) = None" and "sl_ParseFloat sl dat = Ret f"
  shows "is_Panic (fst (promMetric_Store sl dat HTTPMetricArg s)) \<and>
    pm_metrics (ss_promMetric (snd (promMetric_Store sl dat HTTPMetricArg s))) = None"
proof -
  obtain g t where g: "getOrCreateGauge sl (sg_HTTPMetric (ss_config s)) s = (g, t)"
    by (cases "getOrCreateGauge sl (sg_HTTPMetric (ss_config s)) s")
  with getOrCreateGauge_nil [OF assms(1), of sl "sg_HTTPMetric (ss_config s)"]
  have "is_Panic g" "pm_metrics (ss_promMetric t) = None" by simp_all
  then show ?thesis using g assms(2) by (cases g) (simp_all add: promMetric_Store_def tryM_def)
qed

lemma metric_setup:
  "promMetric_SetupWithManager s =
     (if ''/metrics'' \<in> set (pr_mux (ss_proc s))
      then (Panic (''http: multiple registrations for /metrics''), s)
      else (Ret (), s\<lparr>ss_proc := (ss_proc s)\<lparr>pr_mux := pr_mux (ss_proc s) @ [''/metrics''],
                                             pr_servers := pr_servers (ss_proc s) @ ['':8080'']\<rparr>,
                      ss_promMetric := (ss_promMetric s)\<lparr>pm_registry := Some []\<rparr>\<rparr>))"
  by (simp add: promMetric_SetupWithManager_def on_proc_def zoomM_apply http_Handle_def go_ListenAndServe_def tryM_def)

lemma StoreData_metric:
  assumes "sg_Type (ss_config s) = StorageTypeHTTPMetric"
  shows "StoreData env ki sl dat s =
     (if promMetric_IsInitialized s then promMetric_Store sl dat HTTPMetricArg s
      else if ''/metrics'' \<in> set (pr_mux (ss_proc s))
      then (Panic (''http: multiple registrations for /metrics''), s)
      else promMetric_Store sl dat HTTPMetricArg (snd (promMetric_SetupWithManager s)))"
  using assms
  by (simp add: StoreData_def GetStorage_def initialized_def metric_setup tryM_def)

text \<open>
  C26: storing a number as a metric panics, always: the factory never allocates the map of
  the gauges, and the panic leaves it as it is, so each later store panics as well.
\<close>

theorem promMetric_panics:
  assumes "sg_Type (ss_config s) = StorageTypeHTTPMetric" and "pm_metrics (ss_promMetric s) = None"
    and "sl_ParseFloat sl dat = Ret f"
  shows "is_Panic (fst (StoreData env ki sl dat s)) \<and>
    pm_metrics (ss_promMetric (snd (StoreData env ki sl dat s))) = None"
proof -
  have "pm_metrics (ss_promMetric (snd (promMetric_SetupWithManager s))) = None"
    using assms(2) by (simp add: metric_setup)
  from promMetric_Store_nil [OF this assms(3)] promMetric_Store_nil [OF assms(2,3)]
  show ?thesis using assms(1,2) by (simp add: StoreData_metric)
qed

definition demo_store_lib :: store_lib where
  "demo_store_lib =
     \<lparr>sl_ParseFloat = (\<lambda>s. if s = ''1'' then Ret 1 else Fail (LibErr ''invalid syntax'')),
      sl_ValidMetricName = (\<lambda>n. n \<noteq> [])\<rparr>"

definition demo_metric :: StorageConfig where
  "demo_metric =
     \<lparr>sg_Type = StorageTypeHTTPMetric, sg_InKube = None, sg_HTTPMetric = Some \<lparr>hm_MetricName = ''players''\<rparr>\<rparr>"

theorem promMetric_panics_witness:
  "is_Panic (fst (StoreData pod_env mem_kube demo_store_lib ''1'' (NewStorageFactory demo_metric demo_proc)))"
  by (rule promMetric_panics [THEN conjunct1])
    (simp_all add: NewStorageFactory_def demo_metric_def demo_store_lib_def)

text \<open>
  In a process where one plugin's factory was asked for a metric storage, whatever came
  of it, the metric storage of any other factory panics: both register \<^verbatim>\<open>/metrics\<close> with the
  process-wide multiplexer.
\<close>

lemma second_metrics_factory_panics:
  assumes "sg_Type c = StorageTypeHTTPMetric" and "sg_Type c2 = StorageTypeHTTPMetric"
    and "StoreData env ki sl dat (NewStorageFactory c p) = (r, t)"
  shows "is_Panic (fst (StoreData env2 ki2 sl2 dat2 (NewStorageFactory c2 (ss_proc t))))"
proof -
  have fresh: "\<not> promMetric_IsInitialized (NewStorageFactory d q)" for d and q :: "'k proc"
    by (simp add: promMetric_IsInitialized_def NewStorageFactory_def)
  have ty: "sg_Type (ss_config (NewStorageFactory d q)) = sg_Type d" for d and q :: "'k proc"
    by (simp add: NewStorageFactory_def)
  have pr: "ss_proc (NewStorageFactory d q) = q" for d and q :: "'k proc"
    by (simp add: NewStorageFactory_def)
  have "''/metrics'' \<in> set (pr_mux (ss_proc t))"
  proof (cases "''/metrics'' \<in> set (pr_mux p)")
    case True
    then show ?thesis using assms(1,3) by (auto simp: StoreData_metric ty fresh pr)
  next
    case False
    then have "promMetric_Store sl dat HTTPMetricArg
        (snd (promMetric_SetupWithManager (NewStorageFactory c p))) = (r, t)"
      using assms(1,3) by (simp add: StoreData_metric ty fresh pr)
    from promMetric_Store_stays(1) [OF this] False show ?thesis
      by (simp add: metric_setup pr)
  qed
  then show ?thesis using assms(2) by (simp add: StoreData_metric ty fresh pr)
qed

lemma second_metrics_factory_panics_example:
  "is_Panic (fst (StoreData pod_env mem_kube demo_store_lib ''x'' (NewStorageFactory demo_metric
     (ss_proc (snd (StoreData pod_env mem_kube demo_store_lib ''x'' (NewStorageFactory demo_metric demo_proc)))))))"
  by (rule second_metrics_factory_panics [where c = demo_metric and p = demo_proc,
        OF _ _ surjective_pairing]) (simp_all add: demo_metric_def)

text \<open>
  One factory sets its metric storage up once. After that, storing registers nothing
  with the multiplexer, and the storage stays set up.
\<close>

lemma metric_endpoint_once:
  assumes "sg_Type (ss_config s) = StorageTypeHTTPMetric" and "promMetric_IsInitialized s"
    and "StoreData env ki sl dat s = (r, t)"
  shows "pr_mux (ss_proc t) = pr_mux (ss_proc s) \<and> promMetric_IsInitialized t"
proof -
  have run: "promMetric_Store sl dat HTTPMetricArg s = (r, t)"
    using assms by (simp add: StoreData_def GetStorage_def pm.no_second_setup tryM_def)
  then have "promMetric_IsInitialized t" using pm.store_stays [OF assms(2), of sl dat] by simp
  with promMetric_Store_stays(1) [OF run] show ?thesis by simp
qed

lemma metric_endpoint_once_example:
  "pr_mux (ss_proc (snd (StoreData pod_env mem_kube demo_store_lib ''1''
     ((NewStorageFactory demo_metric demo_proc)\<lparr>ss_promMetric := \<lparr>pm_registry = Some [], pm_metrics = None\<rparr>\<rparr>)))) = []"
proof -
  let ?s = "(NewStorageFactory demo_metric demo_proc)\<lparr>ss_promMetric := \<lparr>pm_registry = Some [], pm_metrics = None\<rparr>\<rparr>"
  have "sg_Type (ss_config ?s) = StorageTypeHTTPMetric" "promMetric_IsInitialized ?s"
    by (simp_all add: NewStorageFactory_def demo_metric_def promMetric_IsInitialized_def)
  from metric_endpoint_once [OF this surjective_pairing, of pod_env mem_kube demo_store_lib "''1''"]
  show ?thesis by (simp add: NewStorageFactory_def demo_proc_def)
qed

end
