(* ===== verification/KcHttpProbe.thy ===== *)
theory KcHttpProbe imports KcStoreProps KcStatus begin

text \<open>
  pkg/plugins/http_probe and pkg/extractor: the plugin that probes HTTP endpoints and stores what
  they answer. One probe is an action on the plugin's storages; starting and stopping the workers
  is a step relation.
\<close>

section \<open>Types\<close>

record EndpointConfig =
  ep_URL :: string
  ep_Method :: string
  ep_Headers :: "(string, string) gomap"
  ep_Timeout :: int
  ep_ExpectedStatusCode :: int
  ep_StorageConfig :: StorageConfig
  ep_JSONPathConfig :: "JSONPathConfig option"

record HttpProbeConfig =
  hpc_StartDelaySeconds :: int
  hpc_Endpoints :: "EndpointConfig list"
  hpc_ProbeIntervalSeconds :: int

text \<open>
  HTTP and gjson, as they are called. A request is a method, a URL and headers; a response is its
  status code and what reading its body gives. \<^verbatim>\<open>gjson.Get\<close> gives \<open>None\<close> when the path does not
  exist.
\<close>

record 'k probe_lib =
  pl_ValidRequest :: "string \<Rightarrow> string \<Rightarrow> unit go"
  pl_Do :: "int \<Rightarrow> string \<Rightarrow> string \<Rightarrow> (string \<times> string) list \<Rightarrow> ('k, int \<times> string go) act" \<comment> \<open>timeout first\<close>
  pl_JsonValid :: "string \<Rightarrow> bool"
  pl_JsonGet :: "string \<Rightarrow> string \<Rightarrow> json option"

section \<open>Extracting\<close>

definition GetDataFromJsonText :: "'k probe_lib \<Rightarrow> string \<Rightarrow> string \<Rightarrow> json go" where
  "GetDataFromJsonText pl js path =
     (if \<not> pl_JsonValid pl js then Fail (Errorf ''invalid json'')
      else case pl_JsonGet pl js path of
        None \<Rightarrow> Fail (Errorf ''path not found'')
      | Some v \<Rightarrow> Ret v)"

definition extractData :: "'k probe_lib \<Rightarrow> string \<Rightarrow> JSONPathConfig option \<Rightarrow> json go" where
  "extractData pl dat c =
     (case c of
        Some jc \<Rightarrow> GetDataFromJsonText pl dat (jp_JSONPath jc)
      | None \<Rightarrow> Ret (JString dat))"

text \<open>The type assertion \<^verbatim>\<open>data.(string)\<close>.\<close>

definition as_string :: "json \<Rightarrow> string go" where
  "as_string v = (case v of JString x \<Rightarrow> Ret x | _ \<Rightarrow> Panic ''interface conversion: not string'')"

section \<open>One probe\<close>

definition probe_storeData ::
    "environment \<Rightarrow> 'k kube_iface \<Rightarrow> store_lib \<Rightarrow> string \<Rightarrow> ('k store_state, unit) act" where
  "probe_storeData env ki sl dat =
     tryM (zoomM (\<lambda>s. (ss_config s, ss_proc s)) (\<lambda>(c, p) s. s\<lparr>ss_config := c, ss_proc := p\<rparr>)
             (ParseStorage True env ki))
       (Fmtv ''failed to parse config'') (\<lambda>_. StoreData env ki sl dat)"

text \<open>The executor's client with its timeout in seconds; its factory is that of the state.\<close>

record Executor =
  ex_timeout :: int

definition NewExecutor :: "int \<Rightarrow> Executor" where
  "NewExecutor timeout = \<lparr>ex_timeout = timeout\<rparr>"

text \<open>\<^verbatim>\<open>Executor.Probe\<close>; the endpoint's storage configuration is the one of the state.\<close>

definition Probe ::
    "environment \<Rightarrow> 'k kube_iface \<Rightarrow> store_lib \<Rightarrow> 'k probe_lib \<Rightarrow> int \<Rightarrow> EndpointConfig \<Rightarrow>
       ('k store_state, unit) act" where
  "Probe env ki sl pl timeout c =
     tryM (liftG (pl_ValidRequest pl (ep_Method c) (ep_URL c))) (Fmtv ''failed to create request'') (\<lambda>_.
     tryM (on_proc (zoomM pr_api (\<lambda>k p. p\<lparr>pr_api := k\<rparr>)
             (pl_Do pl timeout (ep_Method c) (ep_URL c) (grange (ep_Headers c)))))
       (Fmtv ''request failed'') (\<lambda>(code, rd).
     tryM (liftG rd) (Fmtv ''failed to read response body'') (\<lambda>body.
     if code \<noteq> ep_ExpectedStatusCode c then failM (Errorf ''unexpected status code'')
     else
       tryM (liftG (extractData pl body (ep_JSONPathConfig c))) (Fmtv ''failed to extract data'') (\<lambda>dat.
       tryM (liftG (as_string dat)) id (\<lambda>str.
       tryM (probe_storeData env ki sl str) (Fmtv ''failed to store data'') ret)))))"

text \<open>
  One turn of the loop of \<^verbatim>\<open>probeAndStore\<close> between two checks of the context: the probe under
  \<^verbatim>\<open>retry.OnError\<close> with every error retriable; a final error is only logged. \<open>onError\<close> is the
  retry helper.
\<close>

definition probe_round ::
    "((('k store_state, unit) act) \<Rightarrow> ('k store_state, unit) act) \<Rightarrow> environment \<Rightarrow> 'k kube_iface \<Rightarrow>
       store_lib \<Rightarrow> 'k probe_lib \<Rightarrow> EndpointConfig \<Rightarrow> ('k store_state, unit) act" where
  "probe_round onError env ki sl pl c =
     catchM (onError (Probe env ki sl pl (ex_timeout (NewExecutor 10)) c)) (\<lambda>e. ret ()) (\<lambda>_. ret ())"

text \<open>
  The type that an endpoint asks for has no effect: what is extracted is the value's own type, and
  only a string is stored.
\<close>

lemma extractData_ignores_FieldType:
  "extractData pl dat (Some (jc\<lparr>jp_FieldType := t\<rparr>)) = extractData pl dat (Some jc)"
  by (simp add: extractData_def)

text \<open>The timeout of an endpoint's configuration has no effect.\<close>

lemma probe_round_ignores_Timeout:
  "probe_round onError env ki sl pl (c\<lparr>ep_Timeout := n\<rparr>) = probe_round onError env ki sl pl c"
  by (simp add: probe_round_def Probe_def cong: if_cong)

section \<open>Init and the life of the workers\<close>

definition probe_Init :: "HttpProbeConfig option \<Rightarrow> (HttpProbeConfig \<times> HttpProbeStatus) go" where
  "probe_Init config =
     (case config of
        None \<Rightarrow> Fail (Errorf ''invalid config type'')
      | Some c \<Rightarrow>
          let c1 = (if hpc_ProbeIntervalSeconds c \<le> 0 then c\<lparr>hpc_ProbeIntervalSeconds := 5\<rparr> else c);
              c2 = (if hpc_StartDelaySeconds c1 \<le> 0 then c1\<lparr>hpc_StartDelaySeconds := 30\<rparr> else c1)
          in Ret (c2, \<lparr>ps_status = [], ps_err = None, ps_activeGoroutines = 0\<rparr>))"

definition probe_Name :: string where "probe_Name = ''http_probe''"
definition probe_Version :: string where "probe_Version = ''v0.0.1''"

definition probe_Status :: "HttpProbeStatus \<Rightarrow> PluginStatus go" where
  "probe_Status st =
     Ret \<lparr>pst_Name = probe_Name, pst_Version = [], pst_Running = (ps_getStatus st = ''Running''),
          pst_LastChecked = [], pst_Health = ps_getStatus st, pst_Infos = []\<rparr>"

text \<open>Where \<^verbatim>\<open>Start\<close> is: before the delay is over, in the select of its loop, or returned.\<close>

datatype probe_phase = Delaying | Serving | Returned

record probe_state =
  pb_phase :: probe_phase
  pb_status :: HttpProbeStatus
  pb_cancelled :: bool
  pb_workers :: "EndpointConfig list" \<comment> \<open>the goroutines that have not returned\<close>

definition probe_started :: "HttpProbeStatus \<Rightarrow> probe_state" where
  "probe_started st = \<lparr>pb_phase = Delaying, pb_status = st, pb_cancelled = False, pb_workers = []\<rparr>"

definition spawn_all :: "EndpointConfig list \<Rightarrow> probe_state \<Rightarrow> probe_state" where
  "spawn_all eps s =
     fold (\<lambda>ep t. t\<lparr>pb_status := ps_incrementGoroutines (pb_status t), pb_workers := pb_workers t @ [ep]\<rparr>)
       eps (s\<lparr>pb_phase := Serving, pb_status := ps_setStatus ''Running'' (pb_status s)\<rparr>)"

definition probe_stop :: "probe_state \<Rightarrow> probe_state" where
  "probe_stop s = s\<lparr>pb_phase := Returned, pb_status := ps_setStatus ''Stopped'' (pb_status s)\<rparr>"

text \<open>
  The steps: the delay passes or the context ends first, the context ends while serving, a worker
  sees its cancelled context and returns. The channel that would ask for a reload is local to
  \<^verbatim>\<open>Start\<close> and nothing sends to it, so that branch of the select is never taken.
\<close>

inductive probe_step :: "HttpProbeConfig \<Rightarrow> probe_state \<Rightarrow> probe_state \<Rightarrow> bool" for c where
  delay_cancelled: "pb_phase s = Delaying \<Longrightarrow> hpc_StartDelaySeconds c > 0 \<Longrightarrow> probe_step c s (probe_stop s)"
| no_endpoints: "pb_phase s = Delaying \<Longrightarrow> hpc_Endpoints c = [] \<Longrightarrow> probe_step c s (probe_stop s)"
| spawn: "pb_phase s = Delaying \<Longrightarrow> hpc_Endpoints c \<noteq> [] \<Longrightarrow> probe_step c s (spawn_all (hpc_Endpoints c) s)"
| cancel: "pb_phase s = Serving \<Longrightarrow> probe_step c s ((probe_stop s)\<lparr>pb_cancelled := True\<rparr>)"
| worker_returns: "pb_cancelled s \<Longrightarrow> ep \<in> set (pb_workers s) \<Longrightarrow>
    probe_step c s (s\<lparr>pb_workers := remove1 ep (pb_workers s),
                      pb_status := ps_decrementGoroutines (pb_status s)\<rparr>)"

inductive probe_reachable :: "HttpProbeConfig \<Rightarrow> HttpProbeStatus \<Rightarrow> probe_state \<Rightarrow> bool" for c st where
  initially: "probe_reachable c st (probe_started st)"
| onward: "probe_reachable c st s \<Longrightarrow> probe_step c s t \<Longrightarrow> probe_reachable c st t"

section \<open>Invariants\<close>

definition probe_inv :: "HttpProbeConfig \<Rightarrow> HttpProbeStatus \<Rightarrow> probe_state \<Rightarrow> bool" where
  "probe_inv c st s \<longleftrightarrow>
     ps_getActiveGoroutines (pb_status s) = ps_getActiveGoroutines st + of_nat (length (pb_workers s)) \<and>
     (case pb_phase s of
        Delaying \<Rightarrow> ps_getStatus (pb_status s) = ps_getStatus st \<and> pb_workers s = [] \<and> \<not> pb_cancelled s
      | Serving \<Rightarrow> ps_getStatus (pb_status s) = ''Running'' \<and> pb_workers s = hpc_Endpoints c \<and> \<not> pb_cancelled s
      | Returned \<Rightarrow> ps_getStatus (pb_status s) = ''Stopped'' \<and> (pb_workers s \<noteq> [] \<longrightarrow> pb_cancelled s))"

lemma spawn_all_fields:
  "pb_phase (spawn_all eps s) = Serving \<and> pb_cancelled (spawn_all eps s) = pb_cancelled s \<and>
   pb_workers (spawn_all eps s) = pb_workers s @ eps \<and>
   ps_getStatus (pb_status (spawn_all eps s)) = ''Running'' \<and>
   ps_getActiveGoroutines (pb_status (spawn_all eps s)) =
     ps_getActiveGoroutines (pb_status s) + of_nat (length eps)"
proof (induction eps rule: rev_induct)
  case Nil
  show ?case by (simp add: spawn_all_def ps.get_set ps.active_step)
next
  case (snoc ep eps)
  have "spawn_all (eps @ [ep]) s = (spawn_all eps s)
      \<lparr>pb_status := ps_incrementGoroutines (pb_status (spawn_all eps s)),
       pb_workers := pb_workers (spawn_all eps s) @ [ep]\<rparr>"
    by (simp add: spawn_all_def)
  with snoc show ?case by (simp add: ps.get_other ps.active_step)
qed

lemma probe_step_inv:
  assumes "probe_step c s t" and "probe_inv c st s"
  shows "probe_inv c st t"
  using assms
proof (cases rule: probe_step.cases)
  case spawn
  then show ?thesis using assms(2) spawn_all_fields [of "hpc_Endpoints c" s] by (simp add: probe_inv_def)
next
  case (worker_returns ep)
  then have "length (pb_workers s) = Suc (length (remove1 ep (pb_workers s)))"
    by (simp add: length_remove1) (metis Suc_pred length_pos_if_in_set)
  then show ?thesis
    using assms(2) worker_returns
    by (auto simp: probe_inv_def ps.get_other ps.active_step split: probe_phase.splits)
qed (auto simp: probe_inv_def probe_stop_def ps.get_set ps.active_step split: probe_phase.splits)

lemma probe_reachable_inv: "probe_reachable c st s \<Longrightarrow> probe_inv c st s"
proof (induction rule: probe_reachable.induct)
  case initially
  show ?case by (simp add: probe_inv_def probe_started_def)
next
  case (onward s t)
  then show ?case using probe_step_inv by blast
qed

section \<open>The life cycle ends\<close>

definition steps_left :: "HttpProbeConfig \<Rightarrow> probe_state \<Rightarrow> nat" where
  "steps_left c s =
     (case pb_phase s of
        Delaying \<Rightarrow> 2 + length (hpc_Endpoints c)
      | Serving \<Rightarrow> 1 + length (pb_workers s)
      | Returned \<Rightarrow> length (pb_workers s))"

lemma probe_step_measure:
  assumes "probe_step c s t" and "probe_inv c st s"
  shows "Suc (steps_left c t) \<le> steps_left c s"
  using assms
proof (cases rule: probe_step.cases)
  case spawn
  then show ?thesis using assms(2) spawn_all_fields [of "hpc_Endpoints c" s]
    by (simp add: steps_left_def probe_inv_def)
next
  case (worker_returns ep)
  then have "length (pb_workers s) = Suc (length (remove1 ep (pb_workers s)))"
    by (simp add: length_remove1) (metis Suc_pred length_pos_if_in_set)
  then show ?thesis
    using assms(2) worker_returns by (auto simp: steps_left_def probe_inv_def split: probe_phase.splits)
qed (simp_all add: steps_left_def probe_inv_def probe_stop_def)

lemma probe_run_measure:
  "(probe_step c ^^ n) s t \<Longrightarrow> probe_reachable c st s \<Longrightarrow> probe_reachable c st t \<and> n + steps_left c t \<le> steps_left c s"
proof (induction n arbitrary: t)
  case (Suc n)
  then obtain u where u: "(probe_step c ^^ n) s u" "probe_step c u t" by auto
  note ih = Suc.IH [OF u(1) Suc.prems(2)]
  then have "Suc (steps_left c t) \<le> steps_left c u"
    using probe_step_measure [OF u(2)] probe_reachable_inv by blast
  with ih u(2) show ?case using probe_reachable.onward by fastforce
qed simp

lemma probe_stuck:
  assumes "probe_inv c st s" and "\<And>t. \<not> probe_step c s t"
  shows "pb_phase s = Returned \<and> pb_workers s = []"
proof (cases "pb_phase s")
  case Delaying
  then show ?thesis
    using assms(2) probe_step.no_endpoints probe_step.spawn by (cases "hpc_Endpoints c = []") blast+
next
  case Serving
  then show ?thesis using assms(2) probe_step.cancel by blast
next
  case Returned
  then show ?thesis
    using assms probe_step.worker_returns [of s "hd (pb_workers s)" c]
    by (cases "pb_workers s") (auto simp: probe_inv_def)
qed

section \<open>Properties\<close>



definition demo_endpoint :: EndpointConfig where
  "demo_endpoint =
     \<lparr>ep_URL = ''http://game/players'', ep_Method = ''GET'', ep_Headers = None, ep_Timeout = 1,
      ep_ExpectedStatusCode = 200, ep_StorageConfig = demo_storage,
      ep_JSONPathConfig = Some \<lparr>jp_JSONPath = ''n'', jp_FieldType = ''int''\<rparr>\<rparr>"

definition demo_probe_config :: HttpProbeConfig where
  "demo_probe_config =
     \<lparr>hpc_StartDelaySeconds = 30, hpc_Endpoints = [demo_endpoint], hpc_ProbeIntervalSeconds = 5\<rparr>"

definition fresh_probe_status :: HttpProbeStatus where
  "fresh_probe_status = \<lparr>ps_status = [], ps_err = None, ps_activeGoroutines = 0\<rparr>"



lemma Probe_after_Do:
  assumes "pl_ValidRequest pl (ep_Method c) (ep_URL c) = Ret ()"
    and "pl_Do pl timeout (ep_Method c) (ep_URL c) (grange (ep_Headers c)) (pr_api (ss_proc s)) = (Ret (code, rd), k)"
  shows "Probe env ki sl pl timeout c s =
    tryM (liftG rd) (Fmtv ''failed to read response body'') (\<lambda>body.
      if code \<noteq> ep_ExpectedStatusCode c then failM (Errorf ''unexpected status code'')
      else tryM (liftG (extractData pl body (ep_JSONPathConfig c))) (Fmtv ''failed to extract data'') (\<lambda>dat.
           tryM (liftG (as_string dat)) id (\<lambda>str.
           tryM (probe_storeData env ki sl str) (Fmtv ''failed to store data'') ret)))
      (s\<lparr>ss_proc := (ss_proc s)\<lparr>pr_api := k\<rparr>\<rparr>)"
  using assms by (simp add: Probe_def tryM_step on_proc_def zoomM_apply del: act_simps)
    (simp add: tryM_def on_proc_def zoomM_apply)

text \<open>
  An answer with another status than the expected one is not stored: the probe fails, and
  beside what the request itself did to the world nothing changes, neither the storages nor the
  configuration nor the cache.
\<close>

lemma Probe_unexpected_status:
  assumes "pl_ValidRequest pl (ep_Method c) (ep_URL c) = Ret ()"
    and "pl_Do pl timeout (ep_Method c) (ep_URL c) (grange (ep_Headers c)) (pr_api (ss_proc s)) = (Ret (code, Ret body), k)"
    and "code \<noteq> ep_ExpectedStatusCode c"
  shows "Probe env ki sl pl timeout c s =
    (Fail (Errorf ''unexpected status code''), s\<lparr>ss_proc := (ss_proc s)\<lparr>pr_api := k\<rparr>\<rparr>)"
  using assms(3) by (simp add: Probe_after_Do [OF assms(1,2)] tryM_def)

definition demo_probe_lib :: "apiserver probe_lib" where
  "demo_probe_lib =
     \<lparr>pl_ValidRequest = (\<lambda>_ _. Ret ()), pl_Do = (\<lambda>_ _ _ _. ret (200, Ret ''5'')),
      pl_JsonValid = (\<lambda>_. True), pl_JsonGet = (\<lambda>js _. Some (JNumber js))\<rparr>"

lemma Probe_unexpected_status_example:
  "Probe pod_env mem_kube demo_store_lib demo_probe_lib 10 (demo_endpoint\<lparr>ep_ExpectedStatusCode := 204\<rparr>) demo_store_state =
    (Fail (Errorf ''unexpected status code''), demo_store_state)"
proof -
  have "pl_ValidRequest demo_probe_lib (ep_Method (demo_endpoint\<lparr>ep_ExpectedStatusCode := 204\<rparr>))
      (ep_URL (demo_endpoint\<lparr>ep_ExpectedStatusCode := 204\<rparr>)) = Ret ()"
    "pl_Do demo_probe_lib 10 (ep_Method (demo_endpoint\<lparr>ep_ExpectedStatusCode := 204\<rparr>))
      (ep_URL (demo_endpoint\<lparr>ep_ExpectedStatusCode := 204\<rparr>))
      (grange (ep_Headers (demo_endpoint\<lparr>ep_ExpectedStatusCode := 204\<rparr>))) (pr_api (ss_proc demo_store_state)) =
      (Ret (200, Ret ''5''), pr_api (ss_proc demo_store_state))"
    "(200::int) \<noteq> ep_ExpectedStatusCode (demo_endpoint\<lparr>ep_ExpectedStatusCode := 204\<rparr>)"
    by (simp_all add: demo_probe_lib_def)
  from Probe_unexpected_status [OF this] show ?thesis by simp
qed

text \<open>
  When the JSON path of an endpoint leads to anything but a string, a number say, the
  probe panics on the type assertion, and no retry helper that keeps its contract saves it.
\<close>

lemma Probe_non_string_panics:
  assumes "retries (\<lambda>_. True) onError"
    and "pl_ValidRequest pl (ep_Method c) (ep_URL c) = Ret ()"
    and "pl_Do pl 10 (ep_Method c) (ep_URL c) (grange (ep_Headers c)) (pr_api (ss_proc s)) =
      (Ret (ep_ExpectedStatusCode c, Ret body), k)"
    and "extractData pl body (ep_JSONPathConfig c) = Ret v" and "\<And>x. v \<noteq> JString x"
  shows "is_Panic (fst (probe_round onError env ki sl pl c s))"
proof -
  have "as_string v = Panic ''interface conversion: not string''"
    using assms(5) by (auto simp: as_string_def split: json.split)
  then have p: "fst (Probe env ki sl pl 10 c s) = Panic ''interface conversion: not string''"
    using assms(4) by (simp add: Probe_after_Do [OF assms(2,3)] tryM_def)
  then have "onError (Probe env ki sl pl 10 c) s = Probe env ki sl pl 10 c s"
    by (intro retries_no_error [OF assms(1)]) simp
  with p show ?thesis
    by (cases "Probe env ki sl pl 10 c s") (simp add: probe_round_def NewExecutor_def catchM_def)
qed

lemma Probe_non_string_panics_example:
  "is_Panic (fst (probe_round (attempts (\<lambda>_. True) 3) pod_env mem_kube demo_store_lib demo_probe_lib
     demo_endpoint demo_store_state))"
proof (rule Probe_non_string_panics [OF retries_attempts])
  show "pl_ValidRequest demo_probe_lib (ep_Method demo_endpoint) (ep_URL demo_endpoint) = Ret ()"
    "pl_Do demo_probe_lib 10 (ep_Method demo_endpoint) (ep_URL demo_endpoint) (grange (ep_Headers demo_endpoint))
      (pr_api (ss_proc demo_store_state)) = (Ret (ep_ExpectedStatusCode demo_endpoint, Ret ''5''), pr_api (ss_proc demo_store_state))"
    "extractData demo_probe_lib ''5'' (ep_JSONPathConfig demo_endpoint) = Ret (JNumber ''5'')"
    "JNumber ''5'' \<noteq> JString x" for x
    by (simp_all add: demo_probe_lib_def demo_endpoint_def extractData_def GetDataFromJsonText_def)
qed

end
