(* ===== verification/KcBinary.thy ===== *)
theory KcBinary imports KcHotUpdate KcHttpProbe begin

text \<open>
  pkg/plugins/binary, pkg/utils/convert.go and the \<^verbatim>\<open>Plugin\<close> interface of api/types.go: a plugin that
  runs a program, the conversion of a plugin's configuration, and the three implementations of the
  interface behind one type.
\<close>

section \<open>Conversions\<close>

text \<open>\<^verbatim>\<open>reflect\<close>: the target must be a pointer that leads to a struct. \<open>None\<close> is the nil interface.\<close>

definition isPointerToStruct :: "rvalue \<Rightarrow> bool" where
  "isPointerToStruct v = (case v of RPtr (Some w) \<Rightarrow> is_struct w | _ \<Rightarrow> False)"

text \<open>
  JSON goes out and in again: \<open>marshal\<close> encodes the map, \<open>unmarshal\<close> decodes into the target, whose
  new contents are returned.
\<close>

definition ConvertJsonObjectToStruct ::
    "((string, json) gomap \<Rightarrow> string go) \<Rightarrow> (string \<Rightarrow> 'c go) \<Rightarrow> iface \<Rightarrow> rvalue option \<Rightarrow> 'c go" where
  "ConvertJsonObjectToStruct marshal unmarshal source target =
     (case source of
        INil \<Rightarrow> Fail (Errorf ''source is nil'')
      | _ \<Rightarrow>
        (case target of
           None \<Rightarrow> Fail (Errorf ''target is nil'')
         | Some tv \<Rightarrow>
           (case source of
              IMap m \<Rightarrow>
                (if \<not> isPointerToStruct tv then Fail (Errorf ''target must be a pointer to a struct'')
                 else tryG (marshal m) (Wrapw ''failed to marshal source'') (\<lambda>bs.
                      tryG (unmarshal bs) (Wrapw ''failed to unmarshal'') Ret))
            | _ \<Rightarrow> Fail (Errorf ''source must be a map[string]interface{}''))))"

datatype any_value = AString string | ABytes string | AOther string

definition ConvertToString :: "(string \<Rightarrow> string) \<Rightarrow> any_value \<Rightarrow> string" where
  "ConvertToString sprintf_v d =
     (case d of AString s \<Rightarrow> s | ABytes bs \<Rightarrow> bs | AOther x \<Rightarrow> sprintf_v x)"

definition ConvertAnyToPtr :: "'a \<Rightarrow> 'a option" where
  "ConvertAnyToPtr d = Some d"

section \<open>The binary plugin\<close>

text \<open>\<^verbatim>\<open>exec.Cmd\<close>: the process is set once it was started.\<close>

record exec_cmd =
  cmd_Path :: string
  cmd_Args :: "string list"
  cmd_Env :: "string list"
  cmd_Process :: "string option"

record binary =
  bi_name :: string
  bi_config :: Binary
  bi_cmd :: "exec_cmd option"
  bi_status :: "PluginStatus option"

text \<open>The process table: starting gives a pid, waiting gives what the process ended with.\<close>

record 'k exec_lib =
  xl_Environ :: "string list"
  xl_Start :: "exec_cmd \<Rightarrow> ('k, string) act"
  xl_Kill :: "string \<Rightarrow> ('k, unit) act"
  xl_Wait :: "string \<Rightarrow> ('k, unit) act"
  xl_Now :: string

definition binary_NewPlugin :: "Binary \<Rightarrow> binary" where
  "binary_NewPlugin config = \<lparr>bi_name = ''binary'', bi_config = config, bi_cmd = None, bi_status = None\<rparr>"

definition binary_Init :: "Binary option \<Rightarrow> binary \<Rightarrow> binary go" where
  "binary_Init config b =
     (case config of
        Some c \<Rightarrow> Ret (b\<lparr>bi_config := c\<rparr>)
      | None \<Rightarrow> Fail (Errorf ''invalid config type''))"

text \<open>
  The state of \<^verbatim>\<open>Start\<close> is the plugin, the host and what was sent to the error channel; the
  goroutine that waits for the process is a step of its own, \<open>binary_wait\<close>.
\<close>

definition binary_Start :: "'k exec_lib \<Rightarrow> (binary \<times> 'k \<times> gerr option list, unit) act" where
  "binary_Start xl s =
     (case s of (b, k, ch) \<Rightarrow>
       (let c = \<lparr>cmd_Path = bin_Path (bi_config b), cmd_Args = bin_Args (bi_config b),
                 cmd_Env = xl_Environ xl @ bin_Env (bi_config b), cmd_Process = None\<rparr>
        in case xl_Start xl c k of
             (Ret pid, k') \<Rightarrow> (Ret (), (b\<lparr>bi_cmd := Some (c\<lparr>cmd_Process := Some pid\<rparr>)\<rparr>, k', ch))
           | (Fail e, k') \<Rightarrow> (Ret (), (b\<lparr>bi_cmd := Some c\<rparr>, k', ch @ [Some e]))
           | (Panic m, k') \<Rightarrow> (Panic m, (b\<lparr>bi_cmd := Some c\<rparr>, k', ch))))"

text \<open>\<^verbatim>\<open>errCh <- b.cmd.Wait()\<close>: nil is sent, too.\<close>

definition binary_wait :: "'k exec_lib \<Rightarrow> string \<Rightarrow> ('k \<times> gerr option list, unit) act" where
  "binary_wait xl pid s =
     (case xl_Wait xl pid (fst s) of
        (Ret _, k') \<Rightarrow> (Ret (), (k', snd s @ [None]))
      | (Fail e, k') \<Rightarrow> (Ret (), (k', snd s @ [Some e]))
      | (Panic m, k') \<Rightarrow> (Panic m, (k', snd s)))"

definition binary_Stop :: "'k exec_lib \<Rightarrow> binary \<Rightarrow> ('k, unit) act" where
  "binary_Stop xl b =
     (case bi_cmd b of
        None \<Rightarrow> ret ()
      | Some c \<Rightarrow> (case cmd_Process c of None \<Rightarrow> ret () | Some pid \<Rightarrow> xl_Kill xl pid))"

definition binary_Name :: "binary \<Rightarrow> string" where
  "binary_Name b = bi_name b"

definition binary_Version :: "binary \<Rightarrow> string" where
  "binary_Version b = bin_Version (bi_config b)"

definition binary_Status :: "binary \<Rightarrow> PluginStatus go" where
  "binary_Status b =
     (case bi_status b of None \<Rightarrow> Fail (Errorf ''status not available'') | Some st \<Rightarrow> Ret st)"

declare binary_Name_def [simp] hot_Name_def [simp]

text \<open>No code calls \<^verbatim>\<open>updateStatus\<close>.\<close>

definition binary_updateStatus :: "'k exec_lib \<Rightarrow> binary \<Rightarrow> binary" where
  "binary_updateStatus xl b =
     b\<lparr>bi_status := Some
        \<lparr>pst_Name = binary_Name b, pst_Version = bin_Version (bi_config b),
         pst_Running = (case bi_cmd b of None \<Rightarrow> False | Some c \<Rightarrow> cmd_Process c \<noteq> None),
         pst_LastChecked = xl_Now xl, pst_Health = ''Healthy'',
         pst_Infos = [''Binary path: '' @ bin_Path (bi_config b)]\<rparr>\<rparr>"

text \<open>
  \<^verbatim>\<open>GetConfigType\<close> gives an empty plugin. \<^verbatim>\<open>Init\<close> wants a configuration, so it refuses what was
  decoded into that.
\<close>

datatype binary_arg = BinaryConfig Binary | BinaryObject binary

definition binary_GetConfigType :: binary_arg where
  "binary_GetConfigType = BinaryObject
     \<lparr>bi_name = [],
      bi_config = \<lparr>bin_Path = [], bin_Version = [], bin_Checksum = [], bin_Args = [], bin_Env = [],
        bin_Dependencies = [], bin_Permissions = [], bin_Description = [], bin_DownloadURL = []\<rparr>,
      bi_cmd = None, bi_status = None\<rparr>"

definition as_Binary :: "binary_arg \<Rightarrow> Binary option" where
  "as_Binary v = (case v of BinaryConfig c \<Rightarrow> Some c | BinaryObject b \<Rightarrow> None)"

lemma as_Binary_GetConfigType [simp]: "as_Binary binary_GetConfigType = None"
  by (simp add: as_Binary_def binary_GetConfigType_def)

lemma binary_Init_refuses_its_type:
  "binary_Init (as_Binary binary_GetConfigType) b = Fail (Errorf ''invalid config type'')"
  by (simp add: binary_Init_def)

section \<open>The Plugin interface\<close>

text \<open>
  A plugin object: the two built-in ones before and after \<^verbatim>\<open>Init\<close>, with their configuration and
  status cell, and the binary one.
\<close>

datatype plugin =
    HttpProbePlugin "(HttpProbeConfig \<times> HttpProbeStatus) option"
  | HotUpdatePlugin "(HotUpdateConfig \<times> HotUpdateStatus) option"
  | BinaryPlugin binary

definition plugin_Name :: "plugin \<Rightarrow> string" where
  "plugin_Name p =
     (case p of
        HttpProbePlugin _ \<Rightarrow> probe_Name
      | HotUpdatePlugin _ \<Rightarrow> hot_Name
      | BinaryPlugin b \<Rightarrow> binary_Name b)"

definition plugin_Version :: "plugin \<Rightarrow> string" where
  "plugin_Version p =
     (case p of
        HttpProbePlugin _ \<Rightarrow> probe_Version
      | HotUpdatePlugin _ \<Rightarrow> hot_Version
      | BinaryPlugin b \<Rightarrow> binary_Version b)"

definition plugin_Status :: "plugin \<Rightarrow> PluginStatus go" where
  "plugin_Status p =
     (case p of
        HttpProbePlugin None \<Rightarrow> Panic ''nil pointer dereference: status''
      | HttpProbePlugin (Some (c, st)) \<Rightarrow> probe_Status st
      | HotUpdatePlugin None \<Rightarrow> Panic ''nil pointer dereference: status''
      | HotUpdatePlugin (Some (c, st)) \<Rightarrow>
          Ret \<lparr>pst_Name = hotUpdateName, pst_Version = [],
               pst_Running = (hs_getStatus st = ''Running''), pst_LastChecked = [],
               pst_Health = hs_getStatus st, pst_Infos = []\<rparr>
      | BinaryPlugin b \<Rightarrow> binary_Status b)"

text \<open>\<^verbatim>\<open>NewPlugin\<close> and \<^verbatim>\<open>Stop\<close> of the two built-in plugins.\<close>

definition probe_NewPlugin :: plugin where "probe_NewPlugin = HttpProbePlugin None"
definition hot_NewPlugin :: plugin where "hot_NewPlugin = HotUpdatePlugin None"

definition probe_Stop :: "('k, unit) act" where "probe_Stop = panicM ''unimplemented''"
definition hot_Stop :: "('k, unit) act" where "hot_Stop = panicM ''implement me''"

declare probe_NewPlugin_def [simp] hot_NewPlugin_def [simp] probe_Stop_def [simp] hot_Stop_def [simp]

definition plugin_Stop :: "'k exec_lib \<Rightarrow> plugin \<Rightarrow> ('k, unit) act" where
  "plugin_Stop xl p =
     (case p of
        HttpProbePlugin _ \<Rightarrow> probe_Stop
      | HotUpdatePlugin _ \<Rightarrow> hot_Stop
      | BinaryPlugin b \<Rightarrow> binary_Stop xl b)"

text \<open>JSON decoders for the plugins' configuration types.\<close>

record config_lib =
  cf_Marshal :: "(string, json) gomap \<Rightarrow> string go"
  cf_HttpProbe :: "string \<Rightarrow> HttpProbeConfig go"
  cf_HotUpdate :: "string \<Rightarrow> HotUpdateConfig go"
  cf_Binary :: "string \<Rightarrow> unit go" \<comment> \<open>into the unexported fields of a \<^verbatim>\<open>binary\<close>\<close>

text \<open>
  \<^verbatim>\<open>GetConfigType\<close>, the conversion of the configuration into it, and \<^verbatim>\<open>Init\<close>. The binary plugin's
  \<^verbatim>\<open>GetConfigType\<close> gives a plugin, not a configuration, so its \<^verbatim>\<open>Init\<close> refuses it.
\<close>

definition configured ::
    "config_lib \<Rightarrow> iface \<Rightarrow> plugin \<Rightarrow> (plugin go) go" where
  "configured cf config p =
     (case p of
        HttpProbePlugin st \<Rightarrow>
          tryG (ConvertJsonObjectToStruct (cf_Marshal cf) (cf_HttpProbe cf) config (Some (RPtr (Some (RStruct []))))) id
            (\<lambda>c. Ret (tryG (probe_Init (Some c)) id (\<lambda>x. Ret (HttpProbePlugin (Some x)))))
      | HotUpdatePlugin st \<Rightarrow>
          tryG (ConvertJsonObjectToStruct (cf_Marshal cf) (cf_HotUpdate cf) config (Some (RPtr (Some (RStruct []))))) id
            (\<lambda>c. Ret (tryG (validateConfig c) (Fmtv ''invalid config of hot-update'')
                   (\<lambda>_. Ret (HotUpdatePlugin (Some (c,
                      \<lparr>hs_status = [], hs_err = None, hs_activeGoroutines = 0\<rparr>))))))
      | BinaryPlugin b \<Rightarrow>
          tryG (ConvertJsonObjectToStruct (cf_Marshal cf) (cf_Binary cf) config (Some (RPtr (Some (RStruct []))))) id
            (\<lambda>_. Ret (tryG (binary_Init (as_Binary binary_GetConfigType) b) id (\<lambda>x. Ret (BinaryPlugin x)))))"

text \<open>
  What the assembler relies on: initializing keeps the name, and a status that is given carries the
  plugin's name.
\<close>

locale plugin_object =
  fixes nam :: "'p \<Rightarrow> string" and startup :: "'c \<Rightarrow> 'p \<Rightarrow> 'p go" and stat :: "'p \<Rightarrow> PluginStatus go"
  assumes startup_name: "startup c p = Ret q \<Longrightarrow> nam q = nam p"
    and stat_name: "startup c p = Ret q \<Longrightarrow> stat q = Ret st \<Longrightarrow> pst_Name st = nam q"
begin

lemma started_status_name: "startup c p = Ret q \<Longrightarrow> stat q = Ret st \<Longrightarrow> pst_Name st = nam p"
  using startup_name stat_name by metis

end

definition plugin_Init :: "config_lib \<Rightarrow> iface \<Rightarrow> plugin \<Rightarrow> plugin go" where
  "plugin_Init cf config p = tryG (configured cf config p) id id"

interpretation plg: plugin_object plugin_Name "plugin_Init cf" plugin_Status for cf
proof unfold_locales
  fix c p q st
  assume init: "plugin_Init cf c p = Ret q"
  then show "plugin_Name q = plugin_Name p"
    by (auto simp: plugin_Init_def configured_def plugin_Name_def binary_Init_def go_iff split: plugin.splits)
  show "plugin_Status q = Ret st \<Longrightarrow> pst_Name st = plugin_Name q"
    using init by (auto simp: plugin_Init_def configured_def plugin_Name_def plugin_Status_def binary_Init_def
        probe_Status_def go_iff split: plugin.splits)
qed

end
