(* ===== verification/KcAssembler.thy ===== *)
theory KcAssembler imports KcBinary begin

text \<open>
  pkg/assembler/mgr.go and pkg/plugins/registry.go: the sidecar process that initializes, starts and
  asks its plugins. Plugins are objects on a heap, because the registry and the sidecar share the
  built-in ones.
\<close>

section \<open>State\<close>

type_synonym plugin_ref = nat

record sidecar =
  sd_heap :: "plugin list"
  sd_registry :: "(string \<times> plugin_ref) list"
  sd_plugins :: "(string \<times> plugin_ref) list"
  sd_pluginStatuses :: "(string \<times> PluginStatus) list"
  sd_isStartWebServer :: bool
  sd_version :: string
  sd_config :: "ApiSidecarConfig option"
  sd_manager :: bool \<comment> \<open>the embedded manager is set\<close>

section \<open>The registry\<close>

definition RegisterPlugin :: "plugin_ref \<Rightarrow> (sidecar, unit) act" where
  "RegisterPlugin r s =
     (let n = plugin_Name (sd_heap s ! r)
      in if n = [] then (Panic ''plugin name is empty'', s)
         else (Ret (), s\<lparr>sd_registry := AList.update n r (sd_registry s)\<rparr>))"

text \<open>The package's \<^verbatim>\<open>init\<close>, and \<^verbatim>\<open>NewSidecar\<close>.\<close>

definition builtin_plugins :: "plugin list" where
  "builtin_plugins = [probe_NewPlugin, hot_NewPlugin]"

definition NewSidecar :: sidecar where
  "NewSidecar =
     \<lparr>sd_heap = builtin_plugins, sd_registry = [], sd_plugins = [], sd_pluginStatuses = [],
      sd_isStartWebServer = False, sd_version = [], sd_config = None, sd_manager = False\<rparr>"

definition sidecar_SetupWithManager :: "sidecar \<Rightarrow> sidecar" where
  "sidecar_SetupWithManager s = s\<lparr>sd_manager := True\<rparr>"

definition registered_sidecar :: "(sidecar, unit) act" where
  "registered_sidecar = tryM (RegisterPlugin 0) id (\<lambda>_. RegisterPlugin 1)"

section \<open>Configuration\<close>

text \<open>
  Decoding goes into a pointer to a fresh configuration, so a document that is \<^verbatim>\<open>null\<close> gives nil,
  which is stored without a check.
\<close>

definition loadConfig ::
    "(string \<Rightarrow> string go) \<Rightarrow> (string \<Rightarrow> ApiSidecarConfig option go) \<Rightarrow> string \<Rightarrow> ApiSidecarConfig option go"
  where
  "loadConfig readFile unmarshal path =
     tryG (readFile path) (Wrapw ''failed to read config file'') (\<lambda>dat.
     tryG (unmarshal dat) (Wrapw ''failed to unmarshal sidecarConfig file'') Ret)"

definition LoadConfig ::
    "(string \<Rightarrow> string go) \<Rightarrow> (string \<Rightarrow> ApiSidecarConfig option go) \<Rightarrow> string \<Rightarrow> (sidecar, unit) act" where
  "LoadConfig readFile unmarshal path =
     tryM (liftG (loadConfig readFile unmarshal path)) (Wrapw (''failed to load config from path '' @ path))
       (\<lambda>c. modM (\<lambda>s. s\<lparr>sd_config := c\<rparr>))"

fun find_option :: "string \<Rightarrow> ApiPluginConfig list \<Rightarrow> ApiPluginConfig option" where
  "find_option n [] = None"
| "find_option n (p # ps) = (if apc_Name p = n then Some p else find_option n ps)"

definition getPluginFromConfig :: "string \<Rightarrow> sidecar \<Rightarrow> ApiPluginConfig option go" where
  "getPluginFromConfig n s =
     (case sd_config s of
        None \<Rightarrow> Panic ''nil pointer dereference: SidecarConfig''
      | Some c \<Rightarrow> Ret (find_option n (asc_Plugins c)))"

definition isPluginEnabled :: "string \<Rightarrow> sidecar \<Rightarrow> bool go" where
  "isPluginEnabled n s =
     tryG (getPluginFromConfig n s) id
       (\<lambda>p. Ret (case p of None \<Rightarrow> True | Some q \<Rightarrow> apc_BootOrder q > 0))"

section \<open>Adding plugins\<close>

definition AddPlugin :: "config_lib \<Rightarrow> string \<Rightarrow> iface \<Rightarrow> (sidecar, unit) act" where
  "AddPlugin cf name config s =
     (case map_of (sd_registry s) name of
        None \<Rightarrow> (Fail (Errorf (''failed to find plugin '' @ name)), s)
      | Some r \<Rightarrow>
          (case configured cf config (sd_heap s ! r) of
             Fail e \<Rightarrow> (Fail (Wrapw ''convert plugin config failed'' e), s)
           | Panic m \<Rightarrow> (Panic m, s)
           | Ret (Fail e) \<Rightarrow> (Fail (Errorf (''init plugin '' @ plugin_Name (sd_heap s ! r) @ '' failed'')), s)
           | Ret (Panic m) \<Rightarrow> (Panic m, s)
           | Ret (Ret p) \<Rightarrow>
               (Ret (), s\<lparr>sd_heap := (sd_heap s)[r := p],
                          sd_plugins := AList.update (plugin_Name p) r (sd_plugins s)\<rparr>)))"

definition add_binary :: "string \<Rightarrow> Binary \<Rightarrow> sidecar \<Rightarrow> sidecar" where
  "add_binary name b s =
     s\<lparr>sd_heap := sd_heap s @ [BinaryPlugin (binary_NewPlugin b)],
       sd_plugins := AList.update name (length (sd_heap s)) (sd_plugins s)\<rparr>"

fun initAll :: "config_lib \<Rightarrow> ApiPluginConfig list \<Rightarrow> (sidecar, unit) act" where
  "initAll cf [] = ret ()"
| "initAll cf (p # ps) =
     (case apc_Binary p of
        Some b \<Rightarrow> tryM (modM (add_binary (apc_Name p) b)) id (\<lambda>_. initAll cf ps)
      | None \<Rightarrow>
          tryM (AddPlugin cf (apc_Name p) (apc_Config p))
            (Wrapw (''failed to add built in plugin '' @ apc_Name p)) (\<lambda>_. initAll cf ps))"

definition InitPlugins :: "config_lib \<Rightarrow> (sidecar, unit) act" where
  "InitPlugins cf s =
     (case sd_config s of
        None \<Rightarrow> (Panic ''nil pointer dereference: SidecarConfig'', s)
      | Some c \<Rightarrow> initAll cf (asc_Plugins c) s)"

section \<open>Status\<close>

definition updatePluginStatus :: "string \<Rightarrow> (sidecar, PluginStatus) act" where
  "updatePluginStatus n s =
     (case map_of (sd_plugins s) n of
        None \<Rightarrow> (Fail (Errorf (''plugin '' @ n @ '' not found'')), s)
      | Some r \<Rightarrow>
          (case plugin_Status (sd_heap s ! r) of
             Fail e \<Rightarrow> (Fail (Errorf (''get plugin '' @ n @ '' status failed'')), s)
           | Panic m \<Rightarrow> (Panic m, s)
           | Ret st \<Rightarrow> (Ret st, s\<lparr>sd_pluginStatuses := AList.update n st (sd_pluginStatuses s)\<rparr>)))"

definition PluginStatus_of :: "string \<Rightarrow> (sidecar, PluginStatus) act" where
  "PluginStatus_of n s =
     (case map_of (sd_pluginStatuses s) n of
        Some st \<Rightarrow> (Ret st, s)
      | None \<Rightarrow> updatePluginStatus n s)"

definition isPluginRunning :: "string \<Rightarrow> (sidecar, bool) act" where
  "isPluginRunning n = catchM (PluginStatus_of n) (\<lambda>e. ret False) (\<lambda>st. ret (pst_Running st))"

section \<open>Starting, stopping, removing\<close>

text \<open>The references of the plugins whose \<^verbatim>\<open>Start\<close> runs in a new goroutine, in order.\<close>

fun startEach :: "(string \<times> plugin_ref) list \<Rightarrow> (sidecar, plugin_ref list) act" where
  "startEach [] = ret []"
| "startEach ((n, r) # ps) =
     (\<lambda>s. tryM (isPluginRunning (plugin_Name (sd_heap s ! r))) id (\<lambda>running.
        tryM (startEach ps) id (\<lambda>rs. ret (if running then rs else r # rs))) s)"

definition startAllPlugins ::
    "((string \<times> plugin_ref) list \<Rightarrow> (string \<times> plugin_ref) list) \<Rightarrow> (sidecar, plugin_ref list) act" where
  "startAllPlugins ord s = startEach (ord (sd_plugins s)) s"

text \<open>The names the pollers ask for, one per entry.\<close>

definition polled_names :: "sidecar \<Rightarrow> string list" where
  "polled_names s = map (\<lambda>(n, r). plugin_Name (sd_heap s ! r)) (sd_plugins s)"

definition RemovePlugin :: "'k exec_lib \<Rightarrow> string \<Rightarrow> (sidecar \<times> 'k, unit) act" where
  "RemovePlugin xl n s =
     (case s of (sd, k) \<Rightarrow>
       (case map_of (sd_plugins sd) n of
          None \<Rightarrow> (Fail (Errorf (''plugin '' @ n @ '' not found'')), s)
        | Some r \<Rightarrow>
            (case plugin_Stop xl (sd_heap sd ! r) k of
               (Fail e, k') \<Rightarrow> (Fail (Errorf (''stop plugin '' @ n @ '' failed'')), (sd, k'))
             | (Panic m, k') \<Rightarrow> (Panic m, (sd, k'))
             | (Ret _, k') \<Rightarrow> (Ret (), (sd\<lparr>sd_plugins := AList.delete n (sd_plugins sd)\<rparr>, k')))))"

definition StopAllPlugins :: "(sidecar, unit) act" where
  "StopAllPlugins = panicM ''unimplemented''"

definition sidecar_Stop :: "(sidecar, unit) act" where
  "sidecar_Stop = tryM StopAllPlugins (\<lambda>e. Errorf ''stop all plugins failed'') (\<lambda>_. ret ())"

definition GetVersion :: "sidecar \<Rightarrow> string" where
  "GetVersion s = sd_version s"

section \<open>The sidecar's invariant\<close>

definition is_builtin :: "plugin \<Rightarrow> bool" where
  "is_builtin p = (case p of BinaryPlugin _ \<Rightarrow> False | _ \<Rightarrow> True)"

definition initialized_plugin :: "plugin \<Rightarrow> bool" where
  "initialized_plugin p =
     (case p of
        HttpProbePlugin x \<Rightarrow> x \<noteq> None
      | HotUpdatePlugin x \<Rightarrow> x \<noteq> None
      | BinaryPlugin b \<Rightarrow> bi_name b = ''binary'' \<and> bi_status b = None)"

text \<open>
  The registry holds the two built-in plugins under their names. Each plugin of the sidecar is
  initialized, and a built-in one is stored under its own name. A status that is kept is one of a
  built-in plugin, and carries the key as its name.
\<close>

definition sidecar_ok :: "sidecar \<Rightarrow> bool" where
  "sidecar_ok s \<longleftrightarrow>
     (\<forall>n r. map_of (sd_registry s) n = Some r \<longrightarrow>
        r < length (sd_heap s) \<and> is_builtin (sd_heap s ! r) \<and> plugin_Name (sd_heap s ! r) = n) \<and>
     (\<forall>n r. map_of (sd_plugins s) n = Some r \<longrightarrow>
        r < length (sd_heap s) \<and> initialized_plugin (sd_heap s ! r) \<and>
        (is_builtin (sd_heap s ! r) \<longrightarrow> plugin_Name (sd_heap s ! r) = n)) \<and>
     (\<forall>n st. map_of (sd_pluginStatuses s) n = Some st \<longrightarrow>
        pst_Name st = n \<and> n \<in> {probe_Name, hotUpdateName})"

lemma builtin_name: "is_builtin p \<Longrightarrow> plugin_Name p \<in> {probe_Name, hotUpdateName}"
  by (cases p) (simp_all add: is_builtin_def plugin_Name_def)

lemma configured_builtin:
  assumes "is_builtin p" and "configured cf config p = Ret (Ret q)"
  shows "is_builtin q \<and> initialized_plugin q \<and> plugin_Name q = plugin_Name p"
  using assms
  by (cases p) (auto simp: configured_def is_builtin_def initialized_plugin_def plugin_Name_def go_iff)

lemma AddPlugin_ok:
  assumes "sidecar_ok s" and "AddPlugin cf n config s = (q, t)"
  shows "sidecar_ok t"
proof (cases "\<exists>r p. map_of (sd_registry s) n = Some r \<and> configured cf config (sd_heap s ! r) = Ret (Ret p)")
  case True
  then obtain r p where r: "map_of (sd_registry s) n = Some r" and p: "configured cf config (sd_heap s ! r) = Ret (Ret p)"
    by blast
  have h: "r < length (sd_heap s)" "is_builtin (sd_heap s ! r)" "plugin_Name (sd_heap s ! r) = n"
    using assms(1) r by (simp_all add: sidecar_ok_def)
  note q = configured_builtin [OF h(2) p]
  have t: "t = s\<lparr>sd_heap := (sd_heap s)[r := p], sd_plugins := AList.update n r (sd_plugins s)\<rparr>"
    using assms(2) r p q h(3) by (simp add: AddPlugin_def)
  show ?thesis
    using assms(1) h q unfolding t
    by (auto simp: sidecar_ok_def update_conv' nth_list_update split: if_splits)
next
  case False
  then have "t = s" using assms(2) by (auto simp: AddPlugin_def split: option.splits go.splits)
  then show ?thesis using assms(1) by simp
qed

lemma add_binary_ok:
  assumes "sidecar_ok s"
  shows "sidecar_ok (add_binary n b s)"
  using assms
  by (auto simp: sidecar_ok_def add_binary_def update_conv' nth_append initialized_plugin_def
      is_builtin_def binary_NewPlugin_def less_Suc_eq split: if_splits)

lemma initAll_ok: "keeps sidecar_ok (initAll cf ps)"
proof (induction ps)
  case (Cons p ps)
  have "keeps sidecar_ok (AddPlugin cf n config)" for n config
    unfolding keeps_def using AddPlugin_ok by (metis surjective_pairing)
  with Cons show ?case
    by (cases "apc_Binary p") (simp_all add: keeps_tryM keeps_modM add_binary_ok)
qed (simp del: act_simps)

lemma updatePluginStatus_ok:
  assumes "sidecar_ok s" and "updatePluginStatus n s = (q, t)"
  shows "sidecar_ok t"
proof (cases "\<exists>r st. map_of (sd_plugins s) n = Some r \<and> plugin_Status (sd_heap s ! r) = Ret st")
  case True
  then obtain r st where r: "map_of (sd_plugins s) n = Some r" and st: "plugin_Status (sd_heap s ! r) = Ret st"
    by blast
  have h: "initialized_plugin (sd_heap s ! r)" "is_builtin (sd_heap s ! r) \<Longrightarrow> plugin_Name (sd_heap s ! r) = n"
    using assms(1) r by (simp_all add: sidecar_ok_def)
  have "is_builtin (sd_heap s ! r) \<and> pst_Name st = plugin_Name (sd_heap s ! r)"
    using h(1) st
    by (auto simp: is_builtin_def initialized_plugin_def plugin_Status_def binary_Status_def plugin_Name_def
        probe_Status_def split: plugin.splits option.splits)
  with h(2) have n: "pst_Name st = n" "n \<in> {probe_Name, hotUpdateName}" using builtin_name by fastforce+
  have t: "t = s\<lparr>sd_pluginStatuses := AList.update n st (sd_pluginStatuses s)\<rparr>"
    using assms(2) r st by (simp add: updatePluginStatus_def)
  show ?thesis using assms(1) n unfolding t by (simp add: sidecar_ok_def update_conv')
next
  case False
  then have "t = s" using assms(2) by (auto simp: updatePluginStatus_def split: option.splits go.splits)
  then show ?thesis using assms(1) by simp
qed

lemma PluginStatus_of_ok: "keeps sidecar_ok (PluginStatus_of n)"
  unfolding keeps_def PluginStatus_of_def
  using updatePluginStatus_ok by (auto split: option.split) (metis surjective_pairing)

lemma isPluginRunning_ok: "keeps sidecar_ok (isPluginRunning n)"
  unfolding isPluginRunning_def by (intro keeps_catchM PluginStatus_of_ok keeps_pure)

lemma startEach_ok: "keeps sidecar_ok (startEach ps)"
proof (induction ps rule: startEach.induct)
  case (2 n r ps)
  have "keeps sidecar_ok (tryM (isPluginRunning m) id (\<lambda>running.
      tryM (startEach ps) id (\<lambda>rs. ret (if running then rs else r # rs))))" for m
    by (intro keeps_tryM isPluginRunning_ok 2 keeps_pure)
  then show ?case by (simp add: keeps_def)
qed (simp del: act_simps)

lemma RemovePlugin_ok:
  assumes "sidecar_ok s" and "RemovePlugin xl n (s, k) = (q, (t, k'))"
  shows "sidecar_ok t"
proof -
  have "t = s \<or> t = s\<lparr>sd_plugins := AList.delete n (sd_plugins s)\<rparr>"
    using assms(2) by (auto simp: RemovePlugin_def split: option.splits prod.splits go.splits)
  then show ?thesis using assms(1) by (elim disjE) (simp_all add: sidecar_ok_def delete_conv')
qed

text \<open>
  What a started plugin's own goroutines may do to its object: write the status cell and resolve
  its configuration, or set the command of a binary.
\<close>

definition works :: "plugin \<Rightarrow> plugin \<Rightarrow> bool" where
  "works p q \<longleftrightarrow>
     (case p of
        HttpProbePlugin x \<Rightarrow> (if x = None then q = p else \<exists>y. q = HttpProbePlugin (Some y))
      | HotUpdatePlugin x \<Rightarrow> (if x = None then q = p else \<exists>y. q = HotUpdatePlugin (Some y))
      | BinaryPlugin b \<Rightarrow> \<exists>c. q = BinaryPlugin (b\<lparr>bi_cmd := c\<rparr>))"

lemma works_keeps:
  assumes "works p q"
  shows "is_builtin q = is_builtin p" and "plugin_Name q = plugin_Name p"
    and "initialized_plugin q = initialized_plugin p"
  using assms
  by (auto simp: works_def is_builtin_def plugin_Name_def initialized_plugin_def split: plugin.splits if_splits)

text \<open>
  The operations of the sidecar as steps, from a process that has registered its plugins: what main
  does, what the pollers and the plugins do at any time, and the calls of the \<^verbatim>\<open>Sidecar\<close> interface.
\<close>

inductive sidecar_step :: "config_lib \<Rightarrow> 'k exec_lib \<Rightarrow> sidecar \<Rightarrow> sidecar \<Rightarrow> bool" for cf xl where
  load: "LoadConfig readFile unmarshal path s = (q, t) \<Longrightarrow> sidecar_step cf xl s t"
| initialize: "InitPlugins cf s = (q, t) \<Longrightarrow> sidecar_step cf xl s t"
| add: "AddPlugin cf n config s = (q, t) \<Longrightarrow> sidecar_step cf xl s t"
| poll: "updatePluginStatus n s = (q, t) \<Longrightarrow> sidecar_step cf xl s t"
| ask: "PluginStatus_of n s = (q, t) \<Longrightarrow> sidecar_step cf xl s t"
| startall: "startAllPlugins ord s = (q, t) \<Longrightarrow> sidecar_step cf xl s t"
| remove: "RemovePlugin xl n (s, k) = (q, (t, k')) \<Longrightarrow> sidecar_step cf xl s t"
| work: "r < length (sd_heap s) \<Longrightarrow> works (sd_heap s ! r) p \<Longrightarrow>
    sidecar_step cf xl s (s\<lparr>sd_heap := (sd_heap s)[r := p]\<rparr>)"

inductive sidecar_reachable :: "config_lib \<Rightarrow> 'k exec_lib \<Rightarrow> sidecar \<Rightarrow> bool" for cf xl where
  begun: "registered_sidecar NewSidecar = (Ret (), s) \<Longrightarrow> sidecar_reachable cf xl s"
| stepped: "sidecar_reachable cf xl s \<Longrightarrow> sidecar_step cf xl s t \<Longrightarrow> sidecar_reachable cf xl t"

lemma work_ok:
  assumes "sidecar_ok s" and "r < length (sd_heap s)" and "works (sd_heap s ! r) p"
  shows "sidecar_ok (s\<lparr>sd_heap := (sd_heap s)[r := p]\<rparr>)"
proof -
  have same: "is_builtin ((sd_heap s)[r := p] ! i) = is_builtin (sd_heap s ! i)"
    "plugin_Name ((sd_heap s)[r := p] ! i) = plugin_Name (sd_heap s ! i)"
    "initialized_plugin ((sd_heap s)[r := p] ! i) = initialized_plugin (sd_heap s ! i)" for i
    using works_keeps [OF assms(3)] assms(2) by (cases "i = r"; simp)+
  show ?thesis using assms(1) by (simp add: sidecar_ok_def same)
qed

lemma registered_ok:
  assumes "registered_sidecar NewSidecar = (Ret (), s)"
  shows "sidecar_ok s"
proof -
  have "s = NewSidecar\<lparr>sd_registry := [(probe_Name, 0), (hotUpdateName, 1)]\<rparr>"
    using assms
    by (simp add: registered_sidecar_def RegisterPlugin_def tryM_def NewSidecar_def builtin_plugins_def
        plugin_Name_def probe_Name_def hotUpdateName_def)
  then show ?thesis
    by (auto simp: sidecar_ok_def NewSidecar_def builtin_plugins_def is_builtin_def plugin_Name_def
        split: if_splits)
qed

lemma sidecar_step_ok: "sidecar_step cf xl s t \<Longrightarrow> sidecar_ok s \<Longrightarrow> sidecar_ok t"
proof (induction rule: sidecar_step.induct)
  case (load readFile unmarshal path s q t)
  from load(1) have "t = s \<or> (\<exists>c. t = s\<lparr>sd_config := c\<rparr>)"
    by (auto simp: LoadConfig_def tryM_def split: go.splits)
  then show ?case using load(2) by (elim disjE exE) (simp_all add: sidecar_ok_def)
next
  case (initialize s q t)
  then show ?case
    using keepsD [OF initAll_ok] by (auto simp: InitPlugins_def split: option.splits)
next
  case (startall ord s q t)
  then show ?case using keepsD [OF startEach_ok] unfolding startAllPlugins_def by blast
next
  case (ask n s q t)
  then show ?case using keepsD [OF PluginStatus_of_ok] by blast
next
  case (add n config s q t)
  then show ?case using AddPlugin_ok by blast
next
  case (poll n s q t)
  then show ?case using updatePluginStatus_ok by blast
next
  case (remove n s k q t k')
  show ?case by (rule RemovePlugin_ok [OF remove(2) remove(1)])
next
  case (work r s p)
  then show ?case using work_ok by blast
qed

lemma sidecar_reachable_ok: "sidecar_reachable cf xl s \<Longrightarrow> sidecar_ok s"
  by (induction rule: sidecar_reachable.induct) (auto intro: registered_ok sidecar_step_ok)

section \<open>Properties\<close>


definition demo_binary :: Binary where
  "demo_binary =
     \<lparr>bin_Path = ''/bin/sync'', bin_Version = ''v1'', bin_Checksum = [], bin_Args = [], bin_Env = [],
      bin_Dependencies = [], bin_Permissions = [], bin_Description = [], bin_DownloadURL = []\<rparr>"

definition demo_sidecar :: sidecar where
  "demo_sidecar = NewSidecar\<lparr>sd_registry := [(probe_Name, 0), (hotUpdateName, 1)]\<rparr>"

definition demo_sidecar_config :: ApiSidecarConfig where
  "demo_sidecar_config =
     \<lparr>asc_Plugins =
        [\<lparr>apc_Name = ''sync'', apc_Binary = Some demo_binary, apc_Config = INil, apc_BootOrder = 1\<rparr>,
         \<lparr>apc_Name = ''http_probe'', apc_Binary = None, apc_Config = IMap (Some []), apc_BootOrder = 2\<rparr>],
      asc_RestartPolicy = [], asc_Resources = None, asc_SidecarStartOrder = []\<rparr>"

definition demo_config_lib :: config_lib where
  "demo_config_lib =
     \<lparr>cf_Marshal = (\<lambda>_. Ret ''{}''),
      cf_HttpProbe = (\<lambda>_. Ret \<lparr>hpc_StartDelaySeconds = 0, hpc_Endpoints = [], hpc_ProbeIntervalSeconds = 0\<rparr>),
      cf_HotUpdate = (\<lambda>_. Fail (LibErr ''json'')), cf_Binary = (\<lambda>_. Ret ())\<rparr>"

definition demo_running :: sidecar where
  "demo_running =
     demo_sidecar
       \<lparr>sd_config := Some demo_sidecar_config,
        sd_heap := [HttpProbePlugin (Some
           (\<lparr>hpc_StartDelaySeconds = 30, hpc_Endpoints = [], hpc_ProbeIntervalSeconds = 5\<rparr>,
            \<lparr>ps_status = [], ps_err = None, ps_activeGoroutines = 0\<rparr>)),
          HotUpdatePlugin None, BinaryPlugin (binary_NewPlugin demo_binary)],
        sd_plugins := [(''sync'', 2), (probe_Name, 0)]\<rparr>"

lemma demo_registered: "registered_sidecar NewSidecar = (Ret (), demo_sidecar)"
  by (simp add: registered_sidecar_def RegisterPlugin_def tryM_def NewSidecar_def builtin_plugins_def
      plugin_Name_def probe_Name_def hotUpdateName_def demo_sidecar_def)

lemma demo_initialized:
  "InitPlugins demo_config_lib (demo_sidecar\<lparr>sd_config := Some demo_sidecar_config\<rparr>) = (Ret (), demo_running)"
  by (simp add: InitPlugins_def demo_sidecar_config_def demo_sidecar_def NewSidecar_def builtin_plugins_def
      tryM_def add_binary_def AddPlugin_def probe_Name_def hotUpdateName_def configured_def demo_config_lib_def
      ConvertJsonObjectToStruct_def isPointerToStruct_def probe_Init_def plugin_Name_def demo_running_def
      binary_NewPlugin_def)

lemma demo_reachable: "sidecar_reachable demo_config_lib xl demo_running"
proof (rule stepped [OF stepped [OF begun [OF demo_registered]]])
  show "sidecar_step demo_config_lib xl demo_sidecar (demo_sidecar\<lparr>sd_config := Some demo_sidecar_config\<rparr>)"
    by (rule load [where readFile = "\<lambda>_. Ret ''yaml''" and unmarshal = "\<lambda>_. Ret (Some demo_sidecar_config)" and path = "[]"
        and q = "Ret ()"])
      (simp add: LoadConfig_def loadConfig_def tryM_def)
  show "sidecar_step demo_config_lib xl (demo_sidecar\<lparr>sd_config := Some demo_sidecar_config\<rparr>) demo_running"
    by (rule initialize [OF demo_initialized])
qed

definition demo_exec :: "unit exec_lib" where
  "demo_exec =
     \<lparr>xl_Environ = [], xl_Start = (\<lambda>_. ret ''7''), xl_Kill = (\<lambda>_. ret ()), xl_Wait = (\<lambda>_. ret ()), xl_Now = []\<rparr>"


text \<open>
  The status of a plugin that runs a program is never available: asking for it under the
  name it was configured with fails in every reachable state, and the poller of that plugin asks
  for a plugin named \<^verbatim>\<open>binary\<close>.
\<close>

lemma binary_status_unavailable:
  assumes "sidecar_reachable cf xl s" and "map_of (sd_plugins s) n = Some r"
    and "sd_heap s ! r = BinaryPlugin b" and "n \<notin> {probe_Name, hotUpdateName}"
  shows "PluginStatus_of n s = (Fail (Errorf (''get plugin '' @ n @ '' status failed'')), s) \<and>
    plugin_Name (sd_heap s ! r) = ''binary''"
proof -
  have ok: "sidecar_ok s" using assms(1) by (rule sidecar_reachable_ok)
  then have "initialized_plugin (sd_heap s ! r)" using assms(2) by (simp add: sidecar_ok_def)
  then have b: "bi_name b = ''binary''" "bi_status b = None"
    using assms(3) by (simp_all add: initialized_plugin_def)
  have "map_of (sd_pluginStatuses s) n = None"
    using ok assms(4) by (cases "map_of (sd_pluginStatuses s) n") (auto simp: sidecar_ok_def)
  then show ?thesis
    using assms(2,3) b
    by (simp add: PluginStatus_of_def updatePluginStatus_def plugin_Status_def binary_Status_def plugin_Name_def)
qed

lemma binary_status_unavailable_example:
  "fst (PluginStatus_of ''sync'' demo_running) = Fail (Errorf ''get plugin sync status failed'')"
proof -
  have "map_of (sd_plugins demo_running) ''sync'' = Some 2"
    "sd_heap demo_running ! 2 = BinaryPlugin (binary_NewPlugin demo_binary)"
    "''sync'' \<notin> {probe_Name, hotUpdateName}"
    by (simp_all add: demo_running_def probe_Name_def hotUpdateName_def)
  from binary_status_unavailable [OF demo_reachable [of demo_exec] this] show ?thesis by simp
qed

text \<open>Removing a built-in plugin panics in every reachable state and leaves the sidecar as it was.\<close>

lemma RemovePlugin_builtin_panics:
  assumes "sidecar_reachable cf xl s" and "map_of (sd_plugins s) n = Some r" and "is_builtin (sd_heap s ! r)"
  shows "n \<in> {probe_Name, hotUpdateName} \<and> is_Panic (fst (RemovePlugin xl2 n (s, k))) \<and>
    snd (RemovePlugin xl2 n (s, k)) = (s, k)"
proof -
  have "plugin_Name (sd_heap s ! r) = n"
    using sidecar_reachable_ok [OF assms(1)] assms(2,3) by (simp add: sidecar_ok_def)
  then have "n \<in> {probe_Name, hotUpdateName}" using builtin_name [OF assms(3)] by simp
  then show ?thesis
    using assms(2,3) by (cases "sd_heap s ! r") (simp_all add: RemovePlugin_def plugin_Stop_def is_builtin_def)
qed

lemma initAll_dom:
  "sidecar_ok s \<Longrightarrow> initAll cf ps s = (Ret (), t) \<Longrightarrow>
     dom (map_of (sd_plugins t)) = dom (map_of (sd_plugins s)) \<union> apc_Name ` set ps"
proof (induction ps arbitrary: s)
  case (Cons p ps)
  show ?case
  proof (cases "apc_Binary p")
    case (Some b)
    then have "initAll cf ps (add_binary (apc_Name p) b s) = (Ret (), t)"
      using Cons.prems(2) by (simp add: tryM_def)
    from Cons.IH [OF add_binary_ok [OF Cons.prems(1)] this] show ?thesis
      by (auto simp: add_binary_def update_conv')
  next
    case None
    then obtain u where u: "AddPlugin cf (apc_Name p) (apc_Config p) s = (Ret (), u)" "initAll cf ps u = (Ret (), t)"
      using Cons.prems(2) by (auto simp: go_iff)
    then obtain r q where r: "map_of (sd_registry s) (apc_Name p) = Some r"
      "configured cf (apc_Config p) (sd_heap s ! r) = Ret (Ret q)"
      "u = s\<lparr>sd_heap := (sd_heap s)[r := q], sd_plugins := AList.update (plugin_Name q) r (sd_plugins s)\<rparr>"
      by (auto simp: AddPlugin_def split: option.splits go.splits)
    have "is_builtin (sd_heap s ! r)" "plugin_Name (sd_heap s ! r) = apc_Name p"
      using Cons.prems(1) r(1) by (simp_all add: sidecar_ok_def)
    with configured_builtin [OF _ r(2)] have "plugin_Name q = apc_Name p" by simp
    with Cons.IH [OF AddPlugin_ok [OF Cons.prems(1) u(1)] u(2)] r(3) show ?thesis
      by (auto simp: update_conv')
  qed
qed simp

text \<open>
  When the initialization succeeds, the sidecar has a plugin under exactly the names of
  the configuration, beside those it had before.
\<close>

lemma InitPlugins_registers_all:
  assumes "sidecar_reachable cf xl s" and "sd_config s = Some c" and "InitPlugins cf s = (Ret (), t)"
  shows "dom (map_of (sd_plugins t)) = dom (map_of (sd_plugins s)) \<union> apc_Name ` set (asc_Plugins c)"
  using initAll_dom [OF sidecar_reachable_ok [OF assms(1)]] assms(2,3) by (simp add: InitPlugins_def)

lemma InitPlugins_registers_all_example:
  "dom (map_of (sd_plugins demo_running)) = {''sync'', ''http_probe''}"
proof -
  have r: "sidecar_reachable demo_config_lib demo_exec (demo_sidecar\<lparr>sd_config := Some demo_sidecar_config\<rparr>)"
  proof (rule stepped [OF begun [OF demo_registered]])
    show "sidecar_step demo_config_lib demo_exec demo_sidecar (demo_sidecar\<lparr>sd_config := Some demo_sidecar_config\<rparr>)"
      by (rule load [where readFile = "\<lambda>_. Ret ''yaml''" and unmarshal = "\<lambda>_. Ret (Some demo_sidecar_config)" and path = "[]"
          and q = "Ret ()"])
        (simp add: LoadConfig_def loadConfig_def tryM_def)
  qed
  from InitPlugins_registers_all [OF r _ demo_initialized] show ?thesis
    by (simp add: demo_sidecar_config_def demo_sidecar_def NewSidecar_def)
qed

end
