(* ===== verification/KcMain.thy ===== *)
theory KcMain imports KcAssembler begin

text \<open>
  cmd/sidecar/main.go, pkg/manager/manager.go and \<^verbatim>\<open>Start\<close> of pkg/assembler/mgr.go: how the sidecar
  process comes up, and how it ends. The plugins run in goroutines of their own; what they do until
  \<^verbatim>\<open>Start\<close> returns is a step relation.
\<close>

section \<open>The manager\<close>

text \<open>The three constructors of the client libraries, over the world outside the process.\<close>

record 'k manager_lib =
  ml_GetConfig :: "('k, string) act"
  ml_NewManager :: "string \<Rightarrow> ('k, unit) act"
  ml_NewForConfig :: "string \<Rightarrow> ('k, unit) act"

definition NewManager :: "'k manager_lib \<Rightarrow> ('k, unit) act" where
  "NewManager ml =
     tryM (ml_GetConfig ml) (Wrapw ''unable to get kubeconfig'') (\<lambda>cfg.
     tryM (ml_NewManager ml cfg) (Wrapw ''unable to create manager'') (\<lambda>_.
     tryM (ml_NewForConfig ml cfg) (Wrapw ''unable to create kubernetes client'') (\<lambda>_. ret ())))"

section \<open>Start\<close>

text \<open>
  A sidecar that waits in \<^verbatim>\<open>Start\<close>: the plugins whose goroutines were started, the names its pollers
  ask for, whether the web server was started, and, once something was received from the error
  channel, what \<^verbatim>\<open>Start\<close> returned.
\<close>

record start_state =
  rn_sidecar :: sidecar
  rn_started :: "plugin_ref list"
  rn_polled :: "string list"
  rn_web :: bool
  rn_result :: "gerr option option"

text \<open>\<^verbatim>\<open>Start\<close> up to the receive; the two loops over the map may go in different orders.\<close>

definition start_sidecar ::
    "((string \<times> plugin_ref) list \<Rightarrow> (string \<times> plugin_ref) list) \<Rightarrow>
     ((string \<times> plugin_ref) list \<Rightarrow> (string \<times> plugin_ref) list) \<Rightarrow> (sidecar, start_state) act" where
  "start_sidecar ord ord2 =
     tryM (startAllPlugins ord) id (\<lambda>rs s.
       ret \<lparr>rn_sidecar = s, rn_started = rs,
            rn_polled = polled_names (s\<lparr>sd_plugins := ord2 (sd_plugins s)\<rparr>),
            rn_web = sd_isStartWebServer s, rn_result = None\<rparr> s)"

text \<open>
  Until something is received: a poller's tick, whose error is dropped; what a started plugin does
  to its own object; and the receive, which may be of nil.
\<close>

inductive start_step :: "start_state \<Rightarrow> start_state \<Rightarrow> bool" where
  tick: "rn_result s = None \<Longrightarrow> n \<in> set (rn_polled s) \<Longrightarrow> updatePluginStatus n (rn_sidecar s) = (q, t) \<Longrightarrow>
    \<not> is_Panic q \<Longrightarrow> start_step s (s\<lparr>rn_sidecar := t\<rparr>)"
| work: "rn_result s = None \<Longrightarrow> r \<in> set (rn_started s) \<Longrightarrow> r < length (sd_heap (rn_sidecar s)) \<Longrightarrow>
    works (sd_heap (rn_sidecar s) ! r) p \<Longrightarrow>
    start_step s (s\<lparr>rn_sidecar := (rn_sidecar s)\<lparr>sd_heap := (sd_heap (rn_sidecar s))[r := p]\<rparr>\<rparr>)"
| receive: "rn_result s = None \<Longrightarrow> r \<in> set (rn_started s) \<Longrightarrow> start_step s (s\<lparr>rn_result := Some e\<rparr>)"

section \<open>The process\<close>

datatype outcome =
    Exit int
  | Crash
  | Serving start_state

text \<open>How \<^verbatim>\<open>main\<close> ends when \<^verbatim>\<open>Start\<close> has returned.\<close>

definition main_end :: "gerr option \<Rightarrow> outcome" where
  "main_end e = (case e of None \<Rightarrow> Exit 0 | Some _ \<Rightarrow> Crash)"

text \<open>
  The web server with the health check, which \<^verbatim>\<open>Start\<close> runs in a goroutine when it is asked for. It
  answers every request with OK. A server that cannot listen ends the process with \<^verbatim>\<open>log.Fatalf\<close>.
\<close>

definition healthz :: "response \<Rightarrow> response" where
  "healthz w =
     (let w1 = w\<lparr>rw_code := (case rw_code w of None \<Rightarrow> Some 200 | Some c \<Rightarrow> Some c)\<rparr>
      in w1\<lparr>rw_body := rw_body w1 @ ''OK''\<rparr>)"

definition startServer :: "(string \<Rightarrow> ('k, unit) act) \<Rightarrow> ('k proc, outcome option) act" where
  "startServer listenAndServe =
     tryM (http_Handle ''/healthz'') id (\<lambda>_.
       catchM (zoomM pr_api (\<lambda>k p. p\<lparr>pr_api := k\<rparr>) (listenAndServe '':8080''))
         (\<lambda>e. ret (Some (Exit 1))) (\<lambda>_. ret None))"

text \<open>
  Nobody else registers the health check, and a server that does not come up takes the process
  along, whatever the plugins do.
\<close>

lemma startServer_fatal:
  assumes "''/healthz'' \<notin> set (pr_mux p)" and "listen '':8080'' (pr_api p) = (Fail e, k)"
  shows "startServer listen p = (Ret (Some (Exit 1)), p\<lparr>pr_mux := pr_mux p @ [''/healthz''], pr_api := k\<rparr>)"
  using assms by (simp add: startServer_def http_Handle_def tryM_def catchM_def zoomM_apply)

lemma startServer_twice_panics:
  "''/healthz'' \<in> set (pr_mux p) \<Longrightarrow> is_Panic (fst (startServer listen p))"
  by (simp add: startServer_def http_Handle_def tryM_def)

text \<open>What the process calls outside, and the orders in which it ranges over its plugins.\<close>

record 'k main_lib =
  mn_ReadFile :: "string \<Rightarrow> string go"
  mn_Unmarshal :: "string \<Rightarrow> ApiSidecarConfig option go"
  mn_manager :: "'k manager_lib"
  mn_config :: config_lib
  mn_order1 :: "(string \<times> plugin_ref) list \<Rightarrow> (string \<times> plugin_ref) list"
  mn_order2 :: "(string \<times> plugin_ref) list \<Rightarrow> (string \<times> plugin_ref) list"

text \<open>From \<^verbatim>\<open>InitPlugins\<close> on: an error panics like a panic.\<close>

definition main_start :: "'k main_lib \<Rightarrow> sidecar \<Rightarrow> outcome" where
  "main_start lib s =
     (case InitPlugins (mn_config lib) s of
        (Ret _, t) \<Rightarrow>
          (case start_sidecar (mn_order1 lib) (mn_order2 lib) t of
             (Ret st, u) \<Rightarrow> Serving st
           | (Fail e, u) \<Rightarrow> Crash
           | (Panic m, u) \<Rightarrow> Crash)
      | (Fail e, t) \<Rightarrow> Crash
      | (Panic m, t) \<Rightarrow> Crash)"

text \<open>Where the configuration is, unless the flag \<^verbatim>\<open>config\<close> says otherwise.\<close>

definition default_configPath :: string where
  "default_configPath = ''/opt/kidecar/config.yaml''"

text \<open>\<^verbatim>\<open>main\<close>, after the package's \<^verbatim>\<open>init\<close> has registered the built-in plugins.\<close>

definition sidecar_main :: "'k main_lib \<Rightarrow> string \<Rightarrow> 'k proc \<Rightarrow> outcome \<times> 'k proc" where
  "sidecar_main lib configPath p =
     (case registered_sidecar NewSidecar of
        (Ret _, s) \<Rightarrow>
          (case LoadConfig (mn_ReadFile lib) (mn_Unmarshal lib) configPath s of
             (Fail e, t) \<Rightarrow> (Exit 1, p)
           | (Panic m, t) \<Rightarrow> (Crash, p)
           | (Ret _, t) \<Rightarrow>
               (case zoomM pr_api (\<lambda>k p. p\<lparr>pr_api := k\<rparr>) (NewManager (mn_manager lib)) p of
                  (Ret _, p1) \<Rightarrow> (main_start lib (sidecar_SetupWithManager t), SetGlobalKubeInterface p1)
                | (Fail e, p1) \<Rightarrow> (Crash, p1)
                | (Panic m, p1) \<Rightarrow> (Crash, p1)))
      | (_, s) \<Rightarrow> (Crash, p))"

section \<open>A sidecar before its plugins run\<close>

definition at_rest :: "plugin \<Rightarrow> bool" where
  "at_rest p \<longleftrightarrow> (case plugin_Status p of Ret st \<Rightarrow> \<not> pst_Running st | Fail e \<Rightarrow> True | Panic m \<Rightarrow> False)"

text \<open>No plugin runs, none is recorded as running, and no object is registered under two names.\<close>

definition quiet :: "sidecar \<Rightarrow> bool" where
  "quiet s \<longleftrightarrow>
     sidecar_ok s \<and> \<not> sd_isStartWebServer s \<and> distinct (map fst (sd_plugins s)) \<and>
     (\<forall>n n' r. map_of (sd_plugins s) n = Some r \<longrightarrow> map_of (sd_plugins s) n' = Some r \<longrightarrow> n = n') \<and>
     (\<forall>n r. map_of (sd_plugins s) n = Some r \<longrightarrow> at_rest (sd_heap s ! r)) \<and>
     (\<forall>n st. map_of (sd_pluginStatuses s) n = Some st \<longrightarrow> \<not> pst_Running st)"

lemma configured_at_rest:
  assumes "is_builtin p" and "configured cf config p = Ret (Ret q)"
  shows "at_rest q"
  using assms
  by (cases p) (auto simp: configured_def is_builtin_def at_rest_def plugin_Status_def probe_Status_def
      probe_Init_def ps_getStatus_def hs_getStatus_def Let_def go_iff split: if_splits)

lemma AddPlugin_quiet:
  assumes "quiet s" and "AddPlugin cf n config s = (q, t)"
  shows "quiet t"
proof (cases "\<exists>r p. map_of (sd_registry s) n = Some r \<and> configured cf config (sd_heap s ! r) = Ret (Ret p)")
  case True
  then obtain r p where r: "map_of (sd_registry s) n = Some r" and p: "configured cf config (sd_heap s ! r) = Ret (Ret p)"
    by blast
  have ok: "sidecar_ok s" using assms(1) by (simp add: quiet_def)
  have h: "r < length (sd_heap s)" "is_builtin (sd_heap s ! r)" "plugin_Name (sd_heap s ! r) = n"
    using ok r by (simp_all add: sidecar_ok_def)
  have own: "map_of (sd_plugins s) m = Some r \<Longrightarrow> m = n" for m
    using ok h(2,3) by (auto simp: sidecar_ok_def)
  have t: "t = s\<lparr>sd_heap := (sd_heap s)[r := p], sd_plugins := AList.update n r (sd_plugins s)\<rparr>"
    using assms(2) r p configured_builtin [OF h(2) p] h(3) by (simp add: AddPlugin_def)
  have "at_rest p" using configured_at_rest [OF h(2) p] .
  moreover have "sidecar_ok t" using AddPlugin_ok [OF ok assms(2)] .
  ultimately show ?thesis
    using assms(1) h(1) own unfolding t
    by (auto simp: quiet_def update_conv' distinct_update nth_list_update split: if_splits)
next
  case False
  then have "t = s" using assms(2) by (auto simp: AddPlugin_def split: option.splits go.splits)
  then show ?thesis using assms(1) by simp
qed

lemma add_binary_quiet:
  assumes "quiet s"
  shows "quiet (add_binary n b s)"
proof -
  have ok: "sidecar_ok s" using assms by (simp add: quiet_def)
  then have old: "map_of (sd_plugins s) m = Some r \<Longrightarrow> r < length (sd_heap s)" for m r
    by (simp add: sidecar_ok_def)
  have "at_rest (BinaryPlugin (binary_NewPlugin b))"
    by (simp add: at_rest_def plugin_Status_def binary_Status_def binary_NewPlugin_def)
  moreover have new: "map_of (sd_plugins (add_binary n b s)) = (map_of (sd_plugins s))(n \<mapsto> length (sd_heap s))"
    "sd_heap (add_binary n b s) = sd_heap s @ [BinaryPlugin (binary_NewPlugin b)]"
    "distinct (map fst (sd_plugins (add_binary n b s)))"
    "sd_pluginStatuses (add_binary n b s) = sd_pluginStatuses s" "\<not> sd_isStartWebServer (add_binary n b s)"
    using assms by (simp_all add: quiet_def add_binary_def update_conv' distinct_update)
  ultimately have "at_rest (sd_heap (add_binary n b s) ! r)" if "map_of (sd_plugins (add_binary n b s)) m = Some r" for m r
    using that assms old by (auto simp: quiet_def nth_append split: if_splits)
  moreover have "m = m'" if "map_of (sd_plugins (add_binary n b s)) m = Some r"
    "map_of (sd_plugins (add_binary n b s)) m' = Some r" for m m' r
  proof -
    have "map_of (sd_plugins s) x \<noteq> Some (length (sd_heap s))" for x using old by blast
    then show ?thesis using that assms unfolding new quiet_def fun_upd_apply by (metis option.inject)
  qed
  ultimately show ?thesis
    unfolding quiet_def using assms add_binary_ok [OF ok, of n b] new(3-5) by (auto simp: quiet_def)
qed

lemma initAll_quiet: "keeps quiet (initAll cf ps)"
proof (induction ps)
  case (Cons p ps)
  have "keeps quiet (AddPlugin cf n config)" for n config
    unfolding keeps_def using AddPlugin_quiet by (metis surjective_pairing)
  with Cons show ?case
    by (cases "apc_Binary p") (simp_all add: keeps_tryM keeps_modM add_binary_quiet)
qed (simp del: act_simps)

lemma updatePluginStatus_quiet:
  assumes "quiet s"
  shows "\<exists>q t. updatePluginStatus n s = (q, t) \<and> quiet t \<and> sd_plugins t = sd_plugins s \<and> sd_heap t = sd_heap s \<and>
    \<not> is_Panic q \<and> (\<forall>st. q = Ret st \<longrightarrow> \<not> pst_Running st)"
proof -
  obtain q t where run: "updatePluginStatus n s = (q, t)" by fastforce
  show ?thesis
  proof (cases "map_of (sd_plugins s) n")
    case None
    then show ?thesis using assms by (simp add: updatePluginStatus_def)
  next
    case (Some r)
    then have rest: "at_rest (sd_heap s ! r)" using assms by (auto simp: quiet_def)
    show ?thesis
    proof (cases "plugin_Status (sd_heap s ! r)")
      case (Ret st)
      then have t: "t = s\<lparr>sd_pluginStatuses := AList.update n st (sd_pluginStatuses s)\<rparr>" "q = Ret st"
        using run Some by (simp_all add: updatePluginStatus_def)
      have "\<not> pst_Running st" using rest Ret by (simp add: at_rest_def)
      moreover have "sidecar_ok t" using updatePluginStatus_ok [OF _ run] assms by (simp add: quiet_def)
      ultimately have "quiet t" using assms unfolding t quiet_def by (auto simp: update_conv' split: if_splits)
      with t \<open>\<not> pst_Running st\<close> run show ?thesis by simp
    next
      case (Fail e)
      then show ?thesis using Some assms by (simp add: updatePluginStatus_def)
    next
      case (Panic m)
      then show ?thesis using rest by (simp add: at_rest_def)
    qed
  qed
qed

lemma isPluginRunning_quiet:
  assumes "quiet s"
  shows "\<exists>t. isPluginRunning n s = (Ret False, t) \<and> quiet t \<and> sd_plugins t = sd_plugins s \<and> sd_heap t = sd_heap s"
proof (cases "map_of (sd_pluginStatuses s) n")
  case None
  obtain q t where "updatePluginStatus n s = (q, t) \<and> quiet t \<and> sd_plugins t = sd_plugins s \<and> sd_heap t = sd_heap s \<and>
    \<not> is_Panic q \<and> (\<forall>st. q = Ret st \<longrightarrow> \<not> pst_Running st)"
    using updatePluginStatus_quiet [OF assms] by blast
  then show ?thesis using None by (cases q) (simp_all add: isPluginRunning_def catchM_def PluginStatus_of_def)
next
  case (Some st)
  then have "\<not> pst_Running st" using assms by (auto simp: quiet_def)
  then show ?thesis using Some assms by (simp add: isPluginRunning_def catchM_def PluginStatus_of_def)
qed

lemma startEach_quiet:
  "quiet s \<Longrightarrow> \<exists>t. startEach ps s = (Ret (map snd ps), t) \<and> quiet t \<and> sd_plugins t = sd_plugins s \<and> sd_heap t = sd_heap s"
proof (induction ps arbitrary: s rule: startEach.induct)
  case (2 n r ps)
  obtain t where t: "isPluginRunning (plugin_Name (sd_heap s ! r)) s = (Ret False, t)" "quiet t"
    "sd_plugins t = sd_plugins s" "sd_heap t = sd_heap s"
    using isPluginRunning_quiet [OF 2(2)] by blast
  from "2.IH" [OF t(2)] t show ?case by (auto simp: tryM_def)
qed simp

lemma distinct_refs:
  assumes "distinct (map fst ps)" and "\<And>n n' r. map_of ps n = Some r \<Longrightarrow> map_of ps n' = Some r \<Longrightarrow> n = n'"
  shows "distinct (map snd ps)"
  unfolding distinct_map
proof
  show "distinct ps" using assms(1) by (simp add: distinct_map)
  show "inj_on snd (set ps)"
  proof (rule inj_onI)
    fix x y
    assume xy: "x \<in> set ps" "y \<in> set ps" "snd x = snd y"
    have "map_of ps (fst z) = Some (snd z)" if "z \<in> set ps" for z
      using that assms(1) by (simp add: map_of_is_SomeI)
    with xy have "map_of ps (fst x) = Some (snd x)" "map_of ps (fst y) = Some (snd y)" by blast+
    with assms(2) xy(3) show "x = y" by (metis prod_eq_iff)
  qed
qed

lemma registered_quiet:
  assumes "registered_sidecar NewSidecar = (Ret (), s)"
  shows "quiet (s\<lparr>sd_config := c\<rparr>)"
proof -
  have "s = demo_sidecar" using assms demo_registered by simp
  then show ?thesis
    using registered_ok [OF assms] by (simp add: quiet_def sidecar_ok_def demo_sidecar_def NewSidecar_def)
qed

section \<open>The table of plugins\<close>

text \<open>
  What the sidecar's plugins are: under each name nothing, a built-in plugin (\<open>Some None\<close>), or a
  program with its configuration; and the table a configuration asks for, in which the last entry of
  a name counts.
\<close>

definition program_of :: "plugin \<Rightarrow> Binary option" where
  "program_of p = (case p of BinaryPlugin b \<Rightarrow> Some (bi_config b) | _ \<Rightarrow> None)"

definition plugin_table :: "sidecar \<Rightarrow> string \<rightharpoonup> Binary option" where
  "plugin_table s n = map_option (\<lambda>r. program_of (sd_heap s ! r)) (map_of (sd_plugins s) n)"

definition table_of :: "(string \<times> Binary option) list \<Rightarrow> string \<rightharpoonup> Binary option" where
  "table_of ps = map_of (rev ps)"

abbreviation entries :: "ApiSidecarConfig \<Rightarrow> (string \<times> Binary option) list" where
  "entries c \<equiv> map (\<lambda>p. (apc_Name p, apc_Binary p)) (asc_Plugins c)"

lemma program_of_builtin: "is_builtin p \<Longrightarrow> program_of p = None"
  by (cases p) (simp_all add: is_builtin_def program_of_def)

lemma add_binary_table:
  assumes "sidecar_ok s"
  shows "plugin_table (add_binary n b s) = (plugin_table s)(n \<mapsto> Some b)"
proof
  fix m
  show "plugin_table (add_binary n b s) m = ((plugin_table s)(n \<mapsto> Some b)) m"
    using assms
    by (cases "map_of (sd_plugins s) m")
      (auto simp: plugin_table_def add_binary_def update_conv' program_of_def binary_NewPlugin_def
        nth_append sidecar_ok_def)
qed

lemma AddPlugin_table:
  assumes "sidecar_ok s" and "AddPlugin cf n config s = (Ret (), t)"
  shows "plugin_table t = (plugin_table s)(n \<mapsto> None)"
proof
  fix m
  obtain r q where r: "map_of (sd_registry s) n = Some r" "configured cf config (sd_heap s ! r) = Ret (Ret q)"
    "t = s\<lparr>sd_heap := (sd_heap s)[r := q], sd_plugins := AList.update (plugin_Name q) r (sd_plugins s)\<rparr>"
    using assms(2) by (auto simp: AddPlugin_def split: option.splits go.splits)
  have h: "r < length (sd_heap s)" "is_builtin (sd_heap s ! r)" "plugin_Name (sd_heap s ! r) = n"
    using assms(1) r(1) by (simp_all add: sidecar_ok_def)
  have q: "is_builtin q" "plugin_Name q = n" using configured_builtin [OF h(2) r(2)] h(3) by simp_all
  have other: "map_of (sd_plugins s) m = Some r' \<Longrightarrow> m \<noteq> n \<Longrightarrow> r' \<noteq> r" for r'
    using assms(1) h(2,3) by (auto simp: sidecar_ok_def)
  show "plugin_table t m = ((plugin_table s)(n \<mapsto> None)) m"
    using r(3) h(1) q other program_of_builtin [OF q(1)]
    by (cases "map_of (sd_plugins s) m") (auto simp: plugin_table_def update_conv' nth_list_update)
qed

lemma initAll_table:
  "sidecar_ok s \<Longrightarrow> initAll cf ps s = (Ret (), t) \<Longrightarrow>
     plugin_table t = plugin_table s ++ table_of (map (\<lambda>p. (apc_Name p, apc_Binary p)) ps)"
proof (induction ps arbitrary: s)
  case (Cons p ps)
  have one: "m(n \<mapsto> x) ++ table_of xs = m ++ table_of ((n, x) # xs)" for m :: "string \<rightharpoonup> Binary option" and n x xs
    by (rule ext) (auto simp: table_of_def map_add_def split: option.split)
  show ?case
  proof (cases "apc_Binary p")
    case (Some b)
    then have "initAll cf ps (add_binary (apc_Name p) b s) = (Ret (), t)"
      using Cons.prems(2) by (simp add: tryM_def)
    from Cons.IH [OF add_binary_ok [OF Cons.prems(1)] this] show ?thesis
      by (simp only: add_binary_table [OF Cons.prems(1)] one list.map Some)
  next
    case None
    then obtain u where u: "AddPlugin cf (apc_Name p) (apc_Config p) s = (Ret (), u)" "initAll cf ps u = (Ret (), t)"
      using Cons.prems(2) by (auto simp: go_iff)
    from Cons.IH [OF AddPlugin_ok [OF Cons.prems(1) u(1)] u(2)] show ?thesis
      by (simp only: AddPlugin_table [OF Cons.prems(1) u(1)] one list.map None)
  qed
qed (simp add: table_of_def)

section \<open>While the plugins run\<close>

inductive start_reachable :: "start_state \<Rightarrow> start_state \<Rightarrow> bool" for s where
  here: "start_reachable s s"
| onward: "start_reachable s t \<Longrightarrow> start_step t u \<Longrightarrow> start_reachable s u"

lemma updatePluginStatus_plugins: "sd_plugins (snd (updatePluginStatus n s)) = sd_plugins s"
  by (simp add: updatePluginStatus_def split: option.split go.split)

lemma updatePluginStatus_no_panic:
  assumes "sidecar_ok s"
  shows "\<not> is_Panic (fst (updatePluginStatus n s))"
proof (cases "map_of (sd_plugins s) n")
  case None
  then show ?thesis by (simp add: updatePluginStatus_def)
next
  case (Some r)
  then have "initialized_plugin (sd_heap s ! r)" using assms by (simp add: sidecar_ok_def)
  then have "\<not> is_Panic (plugin_Status (sd_heap s ! r))"
    by (auto simp: initialized_plugin_def plugin_Status_def probe_Status_def binary_Status_def
        split: plugin.splits option.split)
  then show ?thesis using Some by (cases "plugin_Status (sd_heap s ! r)") (simp_all add: updatePluginStatus_def)
qed

lemma start_step_keeps:
  "start_step s t \<Longrightarrow> sidecar_ok (rn_sidecar s) \<Longrightarrow>
     sidecar_ok (rn_sidecar t) \<and> sd_plugins (rn_sidecar t) = sd_plugins (rn_sidecar s) \<and>
     rn_started t = rn_started s \<and> rn_polled t = rn_polled s"
proof (induction rule: start_step.induct)
  case (tick s n q t)
  then show ?case using updatePluginStatus_ok [OF _ tick(3)] updatePluginStatus_plugins [of n "rn_sidecar s"] by simp
next
  case (work s r p)
  then show ?case using work_ok by simp
qed simp

lemma start_reachable_keeps:
  "start_reachable s t \<Longrightarrow> sidecar_ok (rn_sidecar s) \<Longrightarrow>
     sidecar_ok (rn_sidecar t) \<and> sd_plugins (rn_sidecar t) = sd_plugins (rn_sidecar s) \<and>
     rn_started t = rn_started s \<and> rn_polled t = rn_polled s"
  by (induction rule: start_reachable.induct) (use start_step_keeps in simp_all)

lemma main_start_ok:
  assumes "quiet t" and "main_start lib t = Serving st"
  shows "\<exists>u v. InitPlugins (mn_config lib) t = (Ret (), u) \<and> quiet u \<and> quiet v \<and> sd_plugins v = sd_plugins u \<and>
    sd_heap v = sd_heap u \<and> st = \<lparr>rn_sidecar = v, rn_started = map snd (mn_order1 lib (sd_plugins u)),
          rn_polled = polled_names (v\<lparr>sd_plugins := mn_order2 lib (sd_plugins v)\<rparr>),
          rn_web = sd_isStartWebServer v, rn_result = None\<rparr>"
proof -
  obtain u where u: "InitPlugins (mn_config lib) t = (Ret (), u)"
    "fst (start_sidecar (mn_order1 lib) (mn_order2 lib) u) = Ret st"
    using assms(2) by (auto simp: main_start_def split: prod.splits go.splits outcome.splits)
  then obtain c :: ApiSidecarConfig where c: "initAll (mn_config lib) (asc_Plugins c) t = (Ret (), u)"
    by (auto simp: InitPlugins_def split: option.splits)
  have q: "quiet u" using keepsD [OF initAll_quiet c assms(1)] .
  obtain v where v: "startEach (mn_order1 lib (sd_plugins u)) u = (Ret (map snd (mn_order1 lib (sd_plugins u))), v)"
    "quiet v" "sd_plugins v = sd_plugins u" "sd_heap v = sd_heap u"
    using startEach_quiet [OF q] by blast
  then show ?thesis
    using u q by (auto simp: start_sidecar_def startAllPlugins_def tryM_def)
qed

lemma sidecar_main_Serving:
  assumes "sidecar_main lib path p = (Serving st, p')"
  shows "\<exists>y t p1. mn_ReadFile lib path = Ret y \<and> mn_Unmarshal lib y = Ret (sd_config t) \<and>
    quiet t \<and> sd_plugins t = [] \<and> main_start lib t = Serving st \<and> p' = SetGlobalKubeInterface p1"
proof -
  obtain s t p1 where run: "registered_sidecar NewSidecar = (Ret (), s)"
    "LoadConfig (mn_ReadFile lib) (mn_Unmarshal lib) path s = (Ret (), t)"
    "main_start lib (sidecar_SetupWithManager t) = Serving st" "p' = SetGlobalKubeInterface p1"
    using assms by (auto simp: sidecar_main_def split: prod.splits go.splits)
  obtain y where y: "mn_ReadFile lib path = Ret y" "mn_Unmarshal lib y = Ret (sd_config t)"
    "t = s\<lparr>sd_config := sd_config t\<rparr>"
    using run(2) by (auto simp: LoadConfig_def loadConfig_def go_iff)
  have "quiet t" using registered_quiet [OF run(1)] y(3) by metis
  then have "quiet (sidecar_SetupWithManager t)" by (simp add: quiet_def sidecar_ok_def sidecar_SetupWithManager_def)
  moreover have "sd_plugins t = []"
    using run(1) demo_registered by (subst y(3)) (simp add: demo_sidecar_def NewSidecar_def)
  moreover have "sd_config (sidecar_SetupWithManager t) = sd_config t" "sd_plugins (sidecar_SetupWithManager t) = sd_plugins t"
    by (simp_all add: sidecar_SetupWithManager_def)
  ultimately show ?thesis using run(3,4) y(1,2) by (intro exI [of _ y] exI [of _ "sidecar_SetupWithManager t"] exI [of _ p1]) simp
qed

section \<open>Properties\<close>

lemma sidecar_main_table:
  assumes "sidecar_main lib path p = (Serving st, p')" and "range_order (mn_order1 lib)"
  shows "\<exists>y c. mn_ReadFile lib path = Ret y \<and> mn_Unmarshal lib y = Ret (Some c) \<and> pr_kube p' \<and>
    plugin_table (rn_sidecar st) = table_of (entries c) \<and>
    set (rn_started st) = ran (map_of (sd_plugins (rn_sidecar st))) \<and> distinct (rn_started st) \<and>
    \<not> rn_web st"
proof -
  obtain y t p1 where y: "mn_ReadFile lib path = Ret y" "mn_Unmarshal lib y = Ret (sd_config t)"
    "quiet t" "sd_plugins t = []" "main_start lib t = Serving st" "p' = SetGlobalKubeInterface p1"
    using sidecar_main_Serving [OF assms(1)] by blast
  obtain u v where u: "InitPlugins (mn_config lib) t = (Ret (), u)" "quiet u" "quiet v" "sd_plugins v = sd_plugins u"
    "sd_heap v = sd_heap u"
    "st = \<lparr>rn_sidecar = v, rn_started = map snd (mn_order1 lib (sd_plugins u)),
          rn_polled = polled_names (v\<lparr>sd_plugins := mn_order2 lib (sd_plugins v)\<rparr>),
          rn_web = sd_isStartWebServer v, rn_result = None\<rparr>"
    using main_start_ok [OF y(3,5)] by blast
  obtain c where c: "sd_config t = Some c" "initAll (mn_config lib) (asc_Plugins c) t = (Ret (), u)"
    using u(1) by (auto simp: InitPlugins_def split: option.splits)
  have "plugin_table u = plugin_table t ++ table_of (entries c)"
    using initAll_table [OF _ c(2)] y(3) by (simp add: quiet_def)
  moreover have "plugin_table t = Map.empty" using y(4) by (auto simp: plugin_table_def)
  ultimately have table: "plugin_table v = table_of (entries c)"
    using u(4,5) by (simp add: plugin_table_def fun_eq_iff)
  have keys: "distinct (map fst (sd_plugins u))" using u(2) by (simp add: quiet_def)
  have "distinct (map snd (sd_plugins u))"
    using distinct_refs [OF keys] u(2) unfolding quiet_def by blast
  moreover have "mset (map snd (mn_order1 lib (sd_plugins u))) = mset (map snd (sd_plugins u))"
    using assms(2) by (simp add: range_order_def)
  ultimately have "distinct (rn_started st)" "set (rn_started st) = set (map snd (sd_plugins u))"
    unfolding u(6) start_state.simps by (metis mset_eq_imp_distinct_iff, metis set_mset_mset)
  moreover have "ran (map_of (sd_plugins u)) = set (map snd (sd_plugins u))"
    using ran_distinct [OF keys] by simp
  moreover have "\<not> rn_web st" using u(3,6) by (simp add: quiet_def)
  moreover have "pr_kube p'" using y(6) by (simp add: SetGlobalKubeInterface_def)
  ultimately show ?thesis using y(1,2) c(1) table u(4,6) by auto
qed

text \<open>
  C4: a sidecar that gets as far as waiting for its plugins has read and decoded its
  configuration and set the process's Kubernetes interface; its plugins are those of the
  configuration, each name with the program it is configured with or the built-in plugin, and the
  goroutine of every plugin object was started exactly once, in whatever order the map was ranged
  over. The web server with the health check is never started.
\<close>

theorem sidecar_main_serves:
  assumes "sidecar_main lib path p = (Serving st, p')" and "range_order (mn_order1 lib)"
  shows "\<exists>y c. mn_ReadFile lib path = Ret y \<and> mn_Unmarshal lib y = Ret (Some c) \<and> pr_kube p' \<and>
    plugin_table (rn_sidecar st) = table_of (entries c) \<and>
    set (rn_started st) = ran (map_of (sd_plugins (rn_sidecar st))) \<and> distinct (rn_started st) \<and>
    \<not> rn_web st"
  using assms by (rule sidecar_main_table)

definition demo_main :: "apiserver main_lib" where
  "demo_main =
     \<lparr>mn_ReadFile = (\<lambda>_. Ret ''synchttp_probe''), mn_Unmarshal = (\<lambda>_. Ret (Some demo_sidecar_config)),
      mn_manager = \<lparr>ml_GetConfig = ret ''cfg'', ml_NewManager = (\<lambda>_. ret ()), ml_NewForConfig = (\<lambda>_. ret ())\<rparr>,
      mn_config = demo_config_lib, mn_order1 = rev, mn_order2 = (\<lambda>es. es)\<rparr>"

lemma sidecar_comes_up:
  assumes "mn_ReadFile lib path = Ret y" and "mn_Unmarshal lib y = Ret (Some c)"
    and "fst (InitPlugins (mn_config lib) (sidecar_SetupWithManager (demo_sidecar\<lparr>sd_config := Some c\<rparr>))) = Ret ()"
    and "fst (NewManager (mn_manager lib) (pr_api p)) = Ret ()"
  shows "\<exists>st p'. sidecar_main lib path p = (Serving st, p')"
proof -
  let ?s = "sidecar_SetupWithManager (demo_sidecar\<lparr>sd_config := Some c\<rparr>)"
  have load: "LoadConfig (mn_ReadFile lib) (mn_Unmarshal lib) path demo_sidecar = (Ret (), demo_sidecar\<lparr>sd_config := Some c\<rparr>)"
    using assms(1,2) by (simp add: LoadConfig_def loadConfig_def tryM_def)
  obtain u where u: "InitPlugins (mn_config lib) ?s = (Ret (), u)" using assms(3) by (metis prod.collapse)
  have "quiet ?s"
    using registered_quiet [OF demo_registered, of "Some c"]
    by (simp add: quiet_def sidecar_ok_def sidecar_SetupWithManager_def)
  then have q: "quiet u"
    using keepsD [OF initAll_quiet] u by (simp add: InitPlugins_def sidecar_SetupWithManager_def)
  obtain v where "startEach (mn_order1 lib (sd_plugins u)) u = (Ret (map snd (mn_order1 lib (sd_plugins u))), v)"
    using startEach_quiet [OF q] by blast
  then obtain st where "main_start lib ?s = Serving st"
    using u by (simp add: main_start_def start_sidecar_def startAllPlugins_def tryM_def)
  then show ?thesis
    using load demo_registered assms(4) by (simp add: sidecar_main_def zoomM_apply)
qed

lemma demo_main_runs: "\<exists>st p'. sidecar_main demo_main ''/opt/kidecar/config.yaml'' demo_proc = (Serving st, p')"
  by (rule sidecar_comes_up [where c = demo_sidecar_config])
    (simp_all add: demo_main_def NewManager_def tryM_def InitPlugins_def sidecar_SetupWithManager_def
      demo_sidecar_config_def demo_sidecar_def NewSidecar_def builtin_plugins_def add_binary_def AddPlugin_def
      probe_Name_def hotUpdateName_def configured_def demo_config_lib_def ConvertJsonObjectToStruct_def
      isPointerToStruct_def probe_Init_def plugin_Name_def Let_def)

theorem sidecar_main_serves_witness:
  "\<exists>st. fst (sidecar_main demo_main ''/opt/kidecar/config.yaml'' demo_proc) = Serving st \<and>
     plugin_table (rn_sidecar st) ''sync'' = Some (Some demo_binary) \<and>
     plugin_table (rn_sidecar st) ''http_probe'' = Some None \<and> distinct (rn_started st)"
proof -
  obtain st p' where run: "sidecar_main demo_main ''/opt/kidecar/config.yaml'' demo_proc = (Serving st, p')"
    using demo_main_runs by blast
  have "range_order (mn_order1 demo_main)" by (simp add: demo_main_def range_order_rev)
  from sidecar_main_serves [OF run this] run show ?thesis
    by (auto simp: demo_main_def demo_sidecar_config_def table_of_def)
qed

text \<open>
  C37: while the sidecar serves, whatever its pollers and its plugins do in whatever order, the
  table of its plugins stays as it was, every plugin in it stays initialized, and no poll of any
  name can panic, so the pollers never bring the process down.
\<close>

theorem serving_polls_safe:
  assumes "sidecar_main lib path p = (Serving st, p')" and "start_reachable st t"
  shows "sd_plugins (rn_sidecar t) = sd_plugins (rn_sidecar st) \<and> rn_started t = rn_started st \<and>
    \<not> is_Panic (fst (updatePluginStatus n (rn_sidecar t))) \<and>
    (map_of (sd_plugins (rn_sidecar t)) n = Some r \<longrightarrow> initialized_plugin (sd_heap (rn_sidecar t) ! r))"
proof -
  obtain u where "quiet u" "main_start lib u = Serving st"
    using sidecar_main_Serving [OF assms(1)] by blast
  then have "sidecar_ok (rn_sidecar st)" using main_start_ok by (fastforce simp: quiet_def)
  from start_reachable_keeps [OF assms(2) this] show ?thesis
    using updatePluginStatus_no_panic by (auto simp: sidecar_ok_def)
qed

theorem serving_polls_safe_witness:
  "\<exists>st. fst (sidecar_main demo_main ''/opt/kidecar/config.yaml'' demo_proc) = Serving st \<and>
     \<not> is_Panic (fst (updatePluginStatus ''http_probe'' (rn_sidecar st)))"
  using serving_polls_safe [OF _ start_reachable.here] demo_main_runs by (metis fst_conv)

text \<open>
  What \<^verbatim>\<open>Start\<close> receives first from the error channel, given what was sent to it in order.
\<close>

definition received :: "gerr option list \<Rightarrow> gerr option option" where
  "received ch = (case ch of [] \<Rightarrow> None | e # es \<Rightarrow> Some e)"

text \<open>
  C38: a program that a binary plugin runs and that ends normally ends the sidecar: the
  goroutine that waits for it sends nil, which \<^verbatim>\<open>Start\<close> of the sidecar receives as its result, and
  \<^verbatim>\<open>main\<close> returns with exit code 0. A program that fails, or cannot be started, makes \<^verbatim>\<open>main\<close> panic.
\<close>

theorem binary_end_ends_sidecar:
  assumes "binary_Start xl (b, k, []) = (Ret (), (b1, k1, ch1))"
    and "bi_cmd b1 = Some c" and "cmd_Process c = Some pid"
    and "binary_wait xl pid (k1, ch1) = (Ret (), (k2, ch2))"
  shows "\<exists>e. received ch2 = Some e \<and>
    main_end e = (if is_Ret (fst (xl_Wait xl pid k1)) then Exit 0 else Crash)"
proof -
  have "ch1 = []"
    using assms(1-3) by (auto simp: binary_Start_def Let_def split: prod.splits go.splits)
  then show ?thesis
    using assms(4) by (auto simp: binary_wait_def received_def main_end_def split: prod.splits go.splits)
qed

theorem binary_end_ends_sidecar_witness:
  "\<exists>e. received (snd (snd (binary_wait demo_exec ''7'' ((), [])))) = Some e \<and> main_end e = Exit 0"
proof -
  let ?c = "\<lparr>cmd_Path = ''/bin/sync'', cmd_Args = [], cmd_Env = [], cmd_Process = Some ''7''\<rparr>"
  have "binary_Start demo_exec (binary_NewPlugin demo_binary, (), []) =
      (Ret (), ((binary_NewPlugin demo_binary)\<lparr>bi_cmd := Some ?c\<rparr>, (), []))"
    by (simp add: binary_Start_def demo_exec_def binary_NewPlugin_def demo_binary_def)
  moreover have "binary_wait demo_exec ''7'' ((), []) = (Ret (), ((), [None]))"
    "is_Ret (fst (xl_Wait demo_exec ''7'' ()))"
    by (simp_all add: binary_wait_def demo_exec_def)
  ultimately show ?thesis
    using binary_end_ends_sidecar [of demo_exec "binary_NewPlugin demo_binary" "()" _ "()" "[]" ?c "''7''" "()" "[None]"]
    by simp
qed

end
