(* ===== verification/KcCollector.thy ===== *)
theory KcCollector imports KcInjectorProps begin

text \<open>
  pkg/collector/pods.go: the controller counts, every ten seconds, the pods of each SidecarConfig and
  writes the counts to the resource's status.
\<close>

section \<open>One SidecarConfig\<close>

text \<open>The loop over the pods: \<open>updatedPods\<close> counts all of them, \<open>readyPods\<close> those that run.\<close>

definition count_pods :: "pod list \<Rightarrow> int \<times> int" where
  "count_pods ps =
     fold (\<lambda>p (updatedPods, readyPods).
        (updatedPods + 1, if pod_Phase p = ''Running'' then readyPods + 1 else readyPods)) ps (0, 0)"

definition set_counts :: "int \<times> int \<Rightarrow> SidecarConfig \<Rightarrow> SidecarConfig" where
  "set_counts n sc =
     sc\<lparr>sc_Status := (sc_Status sc)\<lparr>st_UpdatedPods := word_of_int (fst n), st_ReadyPods := word_of_int (snd n)\<rparr>\<rparr>"

definition statusClosure :: "'k ctrl_client \<Rightarrow> SidecarConfig \<Rightarrow> int \<times> int \<Rightarrow> ('k, unit) act" where
  "statusClosure cl sc n =
     tryM (cl_GetSidecarConfig cl (sc_Namespace sc) (sc_Name sc)) id (\<lambda>sc'. cl_UpdateStatus cl (set_counts n sc'))"

text \<open>
  The namespace option is set if the resource names a namespace. \<^verbatim>\<open>LabelSelectorAsSelector\<close> never
  gives nil without an error, so the selector option always is.
\<close>

definition collectPodAndUpdateStatus :: "ctrl_lib \<Rightarrow> 'k ctrl_client \<Rightarrow> SidecarConfig \<Rightarrow> ('k, unit) act" where
  "collectPodAndUpdateStatus lib cl sc =
     (let ic = spec_Injection (sc_Spec sc) in
      tryM (liftG (lib_LabelSelectorAsSelector lib (inj_Selector ic)))
        (Fmtv ''failed to convert label selector'') (\<lambda>s.
      tryM (cl_ListPods cl (if inj_Namespace ic \<noteq> [] then Some (inj_Namespace ic) else None) (Some s))
        (Fmtv ''failed to list pods'') (\<lambda>ps.
      tryM (cl_RetryOnConflict cl (statusClosure cl sc (count_pods ps)))
        (Wrapw ''failed to update SidecarConfig status'') ret)))"

section \<open>The sweep\<close>

text \<open>
  The deferred recover belongs to the function, not to the round: a panic ends the sweep, and only
  the panic is swallowed.
\<close>

fun sweep :: "ctrl_lib \<Rightarrow> 'k ctrl_client \<Rightarrow> SidecarConfig list \<Rightarrow> ('k, unit) act" where
  "sweep lib cl [] = ret ()"
| "sweep lib cl (sc # scs) =
     (\<lambda>k. case collectPodAndUpdateStatus lib cl sc k of
        (Ret _, k') \<Rightarrow> sweep lib cl scs k'
      | (Fail e, k') \<Rightarrow> sweep lib cl scs k'
      | (Panic m, k') \<Rightarrow> (Ret (), k'))"

definition syncPodInfoToSidecarSet :: "ctrl_lib \<Rightarrow> 'k ctrl_client \<Rightarrow> ('k, unit) act" where
  "syncPodInfoToSidecarSet lib cl =
     catchM (cl_ListSidecarConfigs cl) (\<lambda>e. ret ()) (sweep lib cl)"

text \<open>\<^verbatim>\<open>Start\<close>: one sweep for each tick until the context ends, which is what it returns.\<close>

primrec collector_Start :: "ctrl_lib \<Rightarrow> 'k ctrl_client \<Rightarrow> nat \<Rightarrow> ('k, unit) act" where
  "collector_Start lib cl 0 = failM (LibErr ''context canceled'')"
| "collector_Start lib cl (Suc ticks) =
     tryM (syncPodInfoToSidecarSet lib cl) id (\<lambda>_. collector_Start lib cl ticks)"

section \<open>Properties\<close>

lemma int32_small: "n < 2 ^ 31 \<Longrightarrow> sint (word_of_int (int n) :: int32) = int n"
  by (simp only: sint_uint uint_word_of_int) (simp add: take_bit_int_eq_self signed_take_bit_int_eq_self)

lemma count_pods_acc:
  "fold (\<lambda>p (u, r). (u + 1, if pod_Phase p = ''Running'' then r + 1 else r)) ps (u, r) =
     (u + int (length ps), r + int (length (filter (\<lambda>p. pod_Phase p = ''Running'') ps)))"
  by (induction ps arbitrary: u r) auto

lemma count_pods_eq:
  "count_pods ps = (int (length ps), int (length (filter (\<lambda>p. pod_Phase p = ''Running'') ps)))"
  by (simp add: count_pods_def count_pods_acc)

lemma sweep_never_fails: "is_Ret (fst (sweep lib cl scs k))"
  by (induction scs arbitrary: k) (auto split: prod.split go.split)

lemma collect_writes:
  assumes "retries IsConflict (cl_RetryOnConflict cl)"
    and "collectPodAndUpdateStatus lib cl sc k = (Ret (), t)"
  shows "\<exists>s ps k1 sc' k2 k3.
    lib_LabelSelectorAsSelector lib (inj_Selector (spec_Injection (sc_Spec sc))) = Ret s \<and>
    cl_ListPods cl (if inj_Namespace (spec_Injection (sc_Spec sc)) \<noteq> []
                    then Some (inj_Namespace (spec_Injection (sc_Spec sc))) else None) (Some s) k = (Ret ps, k1) \<and>
    cl_GetSidecarConfig cl (sc_Namespace sc) (sc_Name sc) k2 = (Ret sc', k3) \<and>
    cl_UpdateStatus cl (set_counts (count_pods ps) sc') k3 = (Ret (), t)"
proof -
  obtain s ps k1 where s: "lib_LabelSelectorAsSelector lib (inj_Selector (spec_Injection (sc_Spec sc))) = Ret s"
    and ps: "cl_ListPods cl (if inj_Namespace (spec_Injection (sc_Spec sc)) \<noteq> []
                    then Some (inj_Namespace (spec_Injection (sc_Spec sc))) else None) (Some s) k = (Ret ps, k1)"
    and up: "cl_RetryOnConflict cl (statusClosure cl sc (count_pods ps)) k1 = (Ret (), t)"
    using assms(2) by (auto simp: collectPodAndUpdateStatus_def Let_def go_iff)
  have "\<exists>sc' k2 k3. cl_GetSidecarConfig cl (sc_Namespace sc) (sc_Name sc) k2 = (Ret sc', k3) \<and>
      cl_UpdateStatus cl (set_counts (count_pods ps) sc') k3 = (Ret (), t)"
    by (rule retries_Ret [OF assms(1) up]) (auto simp: statusClosure_def go_iff)
  with s ps show ?thesis by blast
qed


lemma demo_collect: "fst (collectPodAndUpdateStatus mem_lib mem_client demo_config demo_server) = Ret ()"
  by (simp add: collectPodAndUpdateStatus_def Let_def statusClosure_def demo_eval demo_config_def demo_server_def
      demo_inject_def)


text \<open>
  A SidecarConfig without any selector matches every pod for the webhook, while the
  collector, for which a missing selector selects nothing, writes that it has no pods.
\<close>

lemma missing_selector_counts_nothing:
  assumes "inj_Selector (spec_Injection (sc_Spec sc)) = None"
    and "inj_NamespaceSelector (spec_Injection (sc_Spec sc)) = None"
    and "lib_LabelSelectorAsSelector lib None = Ret (\<lambda>_. False)"
    and "\<And>ns s ps k k'. cl_ListPods cl ns (Some s) k = (Ret ps, k') \<Longrightarrow> list_all (\<lambda>p. s (pod_Labels p)) ps"
    and "retries IsConflict (cl_RetryOnConflict cl)"
    and "collectPodAndUpdateStatus lib cl sc k = (Ret (), t)"
  shows "Match lib cl p (sc_Spec sc) k0 = (Ret True, k0) \<and>
    (\<exists>sc' k1. cl_UpdateStatus cl
       (sc'\<lparr>sc_Status := (sc_Status sc')\<lparr>st_UpdatedPods := 0, st_ReadyPods := 0\<rparr>\<rparr>) k1 = (Ret (), t))"
proof
  show "Match lib cl p (sc_Spec sc) k0 = (Ret True, k0)"
    using assms(1,2) by (simp add: Match_def)
  obtain s ps k1 sc' k3 where w: "lib_LabelSelectorAsSelector lib (inj_Selector (spec_Injection (sc_Spec sc))) = Ret s"
    "cl_ListPods cl (if inj_Namespace (spec_Injection (sc_Spec sc)) \<noteq> []
                    then Some (inj_Namespace (spec_Injection (sc_Spec sc))) else None) (Some s) k = (Ret ps, k1)"
    "cl_UpdateStatus cl (set_counts (count_pods ps) sc') k3 = (Ret (), t)"
    using collect_writes [OF assms(5,6)] by blast
  have "ps = []" using assms(4) [OF w(2)] w(1) assms(1,3) by (cases ps) auto
  then show "\<exists>sc' k1. cl_UpdateStatus cl
       (sc'\<lparr>sc_Status := (sc_Status sc')\<lparr>st_UpdatedPods := 0, st_ReadyPods := 0\<rparr>\<rparr>) k1 = (Ret (), t)"
    using w(3) by (auto simp: set_counts_def count_pods_eq)
qed

definition demo_unselective :: SidecarConfig where
  "demo_unselective =
     demo_config\<lparr>sc_Spec := (sc_Spec demo_config)\<lparr>spec_Injection := demo_inject\<lparr>inj_Selector := None\<rparr>\<rparr>\<rparr>"

lemma demo_collect_unselective:
  "fst (collectPodAndUpdateStatus mem_lib mem_client demo_unselective demo_server) = Ret ()"
  by (simp add: collectPodAndUpdateStatus_def Let_def statusClosure_def demo_eval demo_unselective_def
      demo_config_def demo_server_def demo_inject_def)

lemma missing_selector_counts_nothing_example:
  "fst (Match mem_lib mem_client demo_pod (sc_Spec demo_unselective) demo_server) = Ret True"
proof -
  have run: "collectPodAndUpdateStatus mem_lib mem_client demo_unselective demo_server =
      (Ret (), snd (collectPodAndUpdateStatus mem_lib mem_client demo_unselective demo_server))"
    using demo_collect_unselective by (simp add: prod_eq_iff)
  have "inj_Selector (spec_Injection (sc_Spec demo_unselective)) = None"
    "inj_NamespaceSelector (spec_Injection (sc_Spec demo_unselective)) = None"
    by (simp_all add: demo_unselective_def demo_inject_def)
  moreover have "lib_LabelSelectorAsSelector mem_lib None = Ret (\<lambda>_. False)"
    by (simp add: mem_lib_functions)
  moreover have "list_all (\<lambda>p. s (pod_Labels p)) ps"
    if "cl_ListPods mem_client ns (Some s) k = (Ret ps, k')" for ns s ps k k'
    using that by (auto simp: mem_client_calls list_all_iff)
  ultimately show ?thesis
    using missing_selector_counts_nothing [OF _ _ _ _ mem_client_retries run, of demo_pod demo_server] by simp
qed

end
