(* ===== verification/KcController.thy ===== *)
theory KcController imports KcInjectorProps KcCollector begin

text \<open>
  cmd/main.go with what it registers and sets up: the types of the resource, the reconciler
  (internal/controller), the webhook of the SidecarConfig resource (api/v1alpha1), the pod webhook
  and the pod collector. Flags, options and
  the order of the steps are modelled; controller-runtime is a parameter (reading the cluster's
  configuration, which exits with code 1 by itself, is part of creating the manager).
\<close>

section \<open>Flags and options\<close>

record controller_flags =
  fl_metricsAddr :: string
  fl_probeAddr :: string
  fl_enableLeaderElection :: bool
  fl_secureMetrics :: bool
  fl_enableHTTP2 :: bool

definition default_flags :: controller_flags where
  "default_flags =
     \<lparr>fl_metricsAddr = ''0'', fl_probeAddr = '':8081'', fl_enableLeaderElection = False,
      fl_secureMetrics = True, fl_enableHTTP2 = False\<rparr>"

record tls_config =
  tls_NextProtos :: "string list"

definition disableHTTP2 :: "tls_config \<Rightarrow> tls_config" where
  "disableHTTP2 c = c\<lparr>tls_NextProtos := [''http/1.1'']\<rparr>"

definition tlsOpts :: "controller_flags \<Rightarrow> (tls_config \<Rightarrow> tls_config) list" where
  "tlsOpts fl = (if \<not> fl_enableHTTP2 fl then [disableHTTP2] else [])"

record metrics_options =
  mo_BindAddress :: string
  mo_SecureServing :: bool
  mo_TLSOpts :: "(tls_config \<Rightarrow> tls_config) list"
  mo_FilterProvider :: bool \<comment> \<open>with authentication and authorization\<close>

definition metricsServerOptions :: "controller_flags \<Rightarrow> metrics_options" where
  "metricsServerOptions fl =
     (let o' = \<lparr>mo_BindAddress = fl_metricsAddr fl, mo_SecureServing = fl_secureMetrics fl,
                mo_TLSOpts = tlsOpts fl, mo_FilterProvider = False\<rparr>
      in if fl_secureMetrics fl then o'\<lparr>mo_FilterProvider := True\<rparr> else o')"

record manager_options =
  op_Metrics :: metrics_options
  op_WebhookTLSOpts :: "(tls_config \<Rightarrow> tls_config) list"
  op_HealthProbeBindAddress :: string
  op_LeaderElection :: bool
  op_LeaderElectionID :: string

definition managerOptions :: "controller_flags \<Rightarrow> manager_options" where
  "managerOptions fl =
     \<lparr>op_Metrics = metricsServerOptions fl, op_WebhookTLSOpts = tlsOpts fl,
      op_HealthProbeBindAddress = fl_probeAddr fl, op_LeaderElection = fl_enableLeaderElection fl,
      op_LeaderElectionID = ''4023f0b0.vke.volcengine.com''\<rparr>"

section \<open>Registration\<close>

text \<open>
  api/v1alpha1/groupversion_info.go and the \<^verbatim>\<open>init\<close> of sidecarconfig_types.go. The builder and the
  scheme are of controller-runtime and apimachinery, parameters over the type \<open>'b\<close> of a builder; an
  object is registered by the name of its type, which is its kind.
\<close>

record group_version =
  gv_Group :: string
  gv_Version :: string

definition GroupVersion :: group_version where
  "GroupVersion = \<lparr>gv_Group = ''serverless.vke.volcengine.com'', gv_Version = ''v1alpha1''\<rparr>"

record ('b, 'k) scheme_lib =
  sm_Builder :: "group_version \<Rightarrow> 'b"
  sm_Register :: "string list \<Rightarrow> 'b \<Rightarrow> 'b"
  sm_AddToScheme :: "'b \<Rightarrow> ('k, unit) act"
  sm_ClientGo :: "('k, unit) act" \<comment> \<open>\<^verbatim>\<open>clientgoscheme.AddToScheme\<close>\<close>

text \<open>The package variable, and what the \<^verbatim>\<open>init\<close> of the package makes of it.\<close>

definition SchemeBuilder :: "('b, 'k) scheme_lib \<Rightarrow> 'b" where
  "SchemeBuilder sm = sm_Builder sm GroupVersion"

definition register_types :: "('b, 'k) scheme_lib \<Rightarrow> 'b \<Rightarrow> 'b" where
  "register_types sm = sm_Register sm [''SidecarConfig'', ''SidecarConfigList'']"

definition AddToScheme :: "('b, 'k) scheme_lib \<Rightarrow> ('k, unit) act" where
  "AddToScheme sm = sm_AddToScheme sm (register_types sm (SchemeBuilder sm))"

section \<open>What is set up\<close>

text \<open>
  controller-runtime over the world: a controller is completed for a kind with its reconciler, a
  webhook with a defaulter of its own or without; checks and runnables are added to the manager.
\<close>

record 'k SidecarConfigReconciler =
  rc_Client :: "'k ctrl_client"
  rc_Scheme :: "(group_version \<times> string) list" \<comment> \<open>the kinds it knows\<close>

record 'k podInfoCollector =
  pic_client :: "'k ctrl_client"

record 'k setup_lib =
  su_NewManager :: "manager_options \<Rightarrow> ('k, unit) act"
  su_GetClient :: "'k ctrl_client"
  su_GetScheme :: "(group_version \<times> string) list"
  su_CompleteController :: "string \<Rightarrow> 'k SidecarConfigReconciler \<Rightarrow> ('k, unit) act"
  su_CompleteWebhook :: "string \<Rightarrow> 'k PodInjector option \<Rightarrow> ('k, unit) act"
  su_AddHealthzCheck :: "string \<Rightarrow> ('k, unit) act"
  su_AddReadyzCheck :: "string \<Rightarrow> ('k, unit) act"
  su_AddRunnable :: "'k podInfoCollector \<Rightarrow> ('k, unit) act"
  su_Start :: "('k, unit) act"

text \<open>\<^verbatim>\<open>Reconcile\<close> gives an empty result and no error, whatever is asked for.\<close>

definition Reconcile :: "string \<times> string \<Rightarrow> ('k, unit) act" where
  "Reconcile req = ret ()"

definition Reconciler_SetupWithManager :: "'k setup_lib \<Rightarrow> 'k SidecarConfigReconciler \<Rightarrow> ('k, unit) act" where
  "Reconciler_SetupWithManager su rc = su_CompleteController su ''SidecarConfig'' rc"

text \<open>The webhook of the resource: the defaults change nothing and every object is valid.\<close>

definition SidecarConfig_Default :: "SidecarConfig \<Rightarrow> SidecarConfig" where
  "SidecarConfig_Default r = r"

definition ValidateCreate :: "SidecarConfig \<Rightarrow> string list go" where
  "ValidateCreate r = Ret []"

definition ValidateUpdate :: "SidecarConfig \<Rightarrow> SidecarConfig \<Rightarrow> string list go" where
  "ValidateUpdate r old = Ret []"

definition ValidateDelete :: "SidecarConfig \<Rightarrow> string list go" where
  "ValidateDelete r = Ret []"

definition SidecarConfig_SetupWebhook :: "'k setup_lib \<Rightarrow> ('k, unit) act" where
  "SidecarConfig_SetupWebhook su = su_CompleteWebhook su ''SidecarConfig'' None"

text \<open>The pod webhook takes the manager's client before it is registered as the defaulter.\<close>

definition PodInjector_SetupWebhook :: "'k setup_lib \<Rightarrow> 'k PodInjector \<Rightarrow> ('k, unit) act" where
  "PodInjector_SetupWebhook su p =
     (let p' = p\<lparr>pi_Client := Some (su_GetClient su)\<rparr> in su_CompleteWebhook su ''Pod'' (Some p'))"

definition StartPodInfoCollector :: "'k setup_lib \<Rightarrow> ('k, unit) act" where
  "StartPodInfoCollector su = su_AddRunnable su \<lparr>pic_client = su_GetClient su\<rparr>"

section \<open>main\<close>

text \<open>\<^verbatim>\<open>utilruntime.Must\<close> panics on an error.\<close>

definition Must :: "('k, unit) act \<Rightarrow> ('k, unit) act" where
  "Must m = catchM m (\<lambda>e. panicM ''Must'') ret"

definition controller_init :: "('b, 'k) scheme_lib \<Rightarrow> ('k, unit) act" where
  "controller_init sm = tryM (Must (sm_ClientGo sm)) id (\<lambda>_. Must (AddToScheme sm))"

text \<open>
  \<^verbatim>\<open>if err := ...; err != nil { log; os.Exit(1) }\<close>. The result of the whole is the exit code, or
  \<open>None\<close> when \<^verbatim>\<open>main\<close> returns.
\<close>

definition or_exit :: "('k, unit) act \<Rightarrow> ('k, int option) act \<Rightarrow> ('k, int option) act" where
  "or_exit m k = catchM m (\<lambda>e. ret (Some 1)) (\<lambda>_. k)"

definition controller_main ::
    "environment \<Rightarrow> 'k setup_lib \<Rightarrow> controller_flags \<Rightarrow> ('k, int option) act" where
  "controller_main env su fl =
     or_exit (su_NewManager su (managerOptions fl)) (
     or_exit (Reconciler_SetupWithManager su \<lparr>rc_Client = su_GetClient su, rc_Scheme = su_GetScheme su\<rparr>) (
     (if Getenv env ''ENABLE_WEBHOOKS'' \<noteq> ''false''
      then (\<lambda>k. or_exit (SidecarConfig_SetupWebhook su) (or_exit (PodInjector_SetupWebhook su \<lparr>pi_Client = None\<rparr>) k))
      else (\<lambda>k. k)) (
     or_exit (su_AddHealthzCheck su ''healthz'') (
     or_exit (su_AddReadyzCheck su ''readyz'') (
     or_exit (StartPodInfoCollector su) (
     or_exit (su_Start su) (ret None)))))))"

section \<open>The steps in order\<close>

definition setup_steps :: "environment \<Rightarrow> 'k setup_lib \<Rightarrow> controller_flags \<Rightarrow> ('k, unit) act list" where
  "setup_steps env su fl =
     [su_NewManager su (managerOptions fl),
      su_CompleteController su ''SidecarConfig'' \<lparr>rc_Client = su_GetClient su, rc_Scheme = su_GetScheme su\<rparr>] @
     (if Getenv env ''ENABLE_WEBHOOKS'' = ''false'' then []
      else [su_CompleteWebhook su ''SidecarConfig'' None,
            su_CompleteWebhook su ''Pod'' (Some \<lparr>pi_Client = Some (su_GetClient su)\<rparr>)]) @
     [su_AddHealthzCheck su ''healthz'', su_AddReadyzCheck su ''readyz'',
      su_AddRunnable su \<lparr>pic_client = su_GetClient su\<rparr>, su_Start su]"

lemma controller_main_steps: "controller_main env su fl = foldr or_exit (setup_steps env su fl) (ret None)"
  by (simp add: controller_main_def setup_steps_def Let_def Reconciler_SetupWithManager_def
      SidecarConfig_SetupWebhook_def PodInjector_SetupWebhook_def StartPodInfoCollector_def)

text \<open>All steps before this one succeed from \<open>s\<close>, and lead to \<open>t\<close>.\<close>

fun all_succeed :: "('k, unit) act list \<Rightarrow> 'k \<Rightarrow> 'k \<Rightarrow> bool" where
  "all_succeed [] s t \<longleftrightarrow> t = s"
| "all_succeed (m # ms) s t \<longleftrightarrow> fst (m s) = Ret () \<and> all_succeed ms (snd (m s)) t"

lemma foldr_or_exit_None:
  "foldr or_exit ms (ret None) s = (Ret None, t) \<longleftrightarrow> all_succeed ms s t"
proof (induction ms arbitrary: s)
  case (Cons m ms)
  obtain r u where m: "m s = (r, u)" by fastforce
  with Cons show ?case by (cases r) (simp_all add: or_exit_def catchM_step)
qed auto

lemma foldr_or_exit_Some:
  "foldr or_exit ms (ret None) s = (Ret (Some c), t) \<longleftrightarrow>
     c = 1 \<and> (\<exists>pre m post e u. ms = pre @ m # post \<and> all_succeed pre s u \<and> m u = (Fail e, t))"
proof (induction ms arbitrary: s)
  case (Cons m ms)
  obtain r u where m: "m s = (r, u)" by fastforce
  show ?case
  proof (cases r)
    case (Ret x)
    then have "foldr or_exit (m # ms) (ret None) s = foldr or_exit ms (ret None) u"
      using m by (simp add: or_exit_def catchM_step)
    moreover have "(\<exists>pre m' post e v. m # ms = pre @ m' # post \<and> all_succeed pre s v \<and> m' v = (Fail e, t)) \<longleftrightarrow>
        (\<exists>pre m' post e v. ms = pre @ m' # post \<and> all_succeed pre u v \<and> m' v = (Fail e, t))" (is "?l \<longleftrightarrow> ?r")
    proof
      assume ?l
      then obtain pre m' post e v where d: "m # ms = pre @ m' # post" "all_succeed pre s v" "m' v = (Fail e, t)"
        by blast
      then obtain pre' where "pre = m # pre'" using m Ret by (cases pre) auto
      with d m have "ms = pre' @ m' # post \<and> all_succeed pre' u v" by simp
      with d(3) show ?r by blast
    next
      assume ?r
      then obtain pre m' post e v where "ms = pre @ m' # post" "all_succeed pre u v" "m' v = (Fail e, t)" by blast
      then have "m # ms = (m # pre) @ m' # post \<and> all_succeed (m # pre) s v \<and> m' v = (Fail e, t)"
        using m Ret by simp
      then show ?l by blast
    qed
    ultimately show ?thesis using Cons.IH [of u] by (simp only:)
  next
    case (Fail e)
    then have run: "foldr or_exit (m # ms) (ret None) s = (Ret (Some 1), u)"
      using m by (simp add: or_exit_def catchM_step)
    have "(\<exists>pre m' post e v. m # ms = pre @ m' # post \<and> all_succeed pre s v \<and> m' v = (Fail e, t)) \<longleftrightarrow> u = t"
      (is "?l \<longleftrightarrow> ?r")
    proof
      assume ?l
      then obtain pre m' post e v where d: "m # ms = pre @ m' # post" "all_succeed pre s v" "m' v = (Fail e, t)"
        by blast
      moreover have "pre = []" using d(1,2) m Fail by (cases pre) auto
      ultimately show ?r using m by simp
    next
      assume ?r
      then have "m # ms = [] @ m # ms \<and> all_succeed [] s s \<and> m s = (Fail e, t)" using m Fail by simp
      then show ?l by blast
    qed
    then show ?thesis unfolding run by auto
  next
    case (Panic p)
    then have run: "foldr or_exit (m # ms) (ret None) s = (Panic p, u)"
      using m by (simp add: or_exit_def catchM_step)
    have "False" if d: "m # ms = pre @ m' # post" "all_succeed pre s v" "m' v = (Fail e, t)" for pre m' post e v
    proof -
      have "pre = []" using d(1,2) m Panic by (cases pre) auto
      then show ?thesis using d m Panic by simp
    qed
    then show ?thesis unfolding run by blast
  qed
qed simp

text \<open>
  The controller's \<^verbatim>\<open>main\<close> exits with code 1 exactly when one of its steps fails, right after that
  step, and returns exactly when all have succeeded, the last being the run of the manager. The two
  webhooks are among the steps unless \<^verbatim>\<open>ENABLE_WEBHOOKS\<close> is \<^verbatim>\<open>false\<close>.
\<close>

lemma controller_main_ends:
  "controller_main env su fl s = (Ret (Some c), t) \<longleftrightarrow>
     c = 1 \<and> (\<exists>pre m post e u. setup_steps env su fl = pre @ m # post \<and> all_succeed pre s u \<and> m u = (Fail e, t))"
  "controller_main env su fl s = (Ret None, t) \<longleftrightarrow> all_succeed (setup_steps env su fl) s t"
  unfolding controller_main_steps by (rule foldr_or_exit_Some, rule foldr_or_exit_None)

text \<open>The handler that is registered for pods has a client, so it injects.\<close>

lemma registered_webhook_injects:
  "PodInjector_SetupWebhook su a = su_CompleteWebhook su ''Pod'' (Some \<lparr>pi_Client = Some (su_GetClient su)\<rparr>)"
  by (cases a) (simp add: PodInjector_SetupWebhook_def)

text \<open>
  What the libraries say of a scheme, as far as \<^verbatim>\<open>init\<close> needs it. \<open>knows\<close> are the kinds a scheme in
  the world \<open>k\<close> knows, \<open>holds\<close> those a builder has: adding a builder to a scheme adds them, and
  client-go adds the core types, among them pods.
\<close>

definition scheme_laws ::
    "('b, 'k) scheme_lib \<Rightarrow> ('b \<Rightarrow> (group_version \<times> string) set) \<Rightarrow> ('k \<Rightarrow> (group_version \<times> string) set) \<Rightarrow> bool" where
  "scheme_laws sm holds knows \<longleftrightarrow>
     (\<forall>gv ks. holds (sm_Register sm ks (sm_Builder sm gv)) = {gv} \<times> set ks) \<and>
     (\<forall>b k k'. sm_AddToScheme sm b k = (Ret (), k') \<longrightarrow> knows k' = knows k \<union> holds b) \<and>
     (\<forall>k k'. sm_ClientGo sm k = (Ret (), k') \<longrightarrow>
        knows k \<subseteq> knows k' \<and> (\<lparr>gv_Group = [], gv_Version = ''v1''\<rparr>, ''Pod'') \<in> knows k')"

lemma Must_Ret [go_iff]: "Must m k = (Ret (), k') \<longleftrightarrow> m k = (Ret (), k')"
  by (auto simp: Must_def catchM_def split: prod.splits go.splits)

text \<open>
  When \<^verbatim>\<open>init\<close> returns, the scheme of the manager knows every kind that \<^verbatim>\<open>main\<close> then completes a
  controller or a webhook for, and the list type that the webhook reads. \<^verbatim>\<open>init\<close> never returns an
  error: one of its steps that fails panics.
\<close>

lemma controller_init_registers:
  assumes "scheme_laws sm holds knows" and "controller_init sm k = (Ret (), k')"
  shows "(GroupVersion, ''SidecarConfig'') \<in> knows k'" and "(GroupVersion, ''SidecarConfigList'') \<in> knows k'"
    and "(\<lparr>gv_Group = [], gv_Version = ''v1''\<rparr>, ''Pod'') \<in> knows k'"
proof -
  obtain u where "sm_ClientGo sm k = (Ret (), u)" and add: "AddToScheme sm u = (Ret (), k')"
    using assms(2) by (auto simp: controller_init_def go_iff)
  then have "(\<lparr>gv_Group = [], gv_Version = ''v1''\<rparr>, ''Pod'') \<in> knows u"
    using assms(1) by (simp add: scheme_laws_def)
  moreover have "knows k' = knows u \<union> {GroupVersion} \<times> {''SidecarConfig'', ''SidecarConfigList''}"
    using assms(1) add by (simp add: scheme_laws_def AddToScheme_def register_types_def SchemeBuilder_def)
  ultimately show "(GroupVersion, ''SidecarConfig'') \<in> knows k'" "(GroupVersion, ''SidecarConfigList'') \<in> knows k'"
    "(\<lparr>gv_Group = [], gv_Version = ''v1''\<rparr>, ''Pod'') \<in> knows k'" by simp_all
qed

lemma controller_init_no_error: "fst (controller_init sm k) \<noteq> Fail e"
  by (simp add: controller_init_def tryM_def Must_def catchM_def split: prod.split go.split)

text \<open>A scheme that is a list of kinds, and a builder that is a group version with its kinds.\<close>

definition demo_scheme :: "(group_version \<times> string list, (group_version \<times> string) list) scheme_lib" where
  "demo_scheme =
     \<lparr>sm_Builder = (\<lambda>gv. (gv, [])), sm_Register = (\<lambda>ks (gv, ls). (gv, ls @ ks)),
      sm_AddToScheme = (\<lambda>(gv, ks). modM (\<lambda>k. k @ map (Pair gv) ks)),
      sm_ClientGo = modM (\<lambda>k. k @ [(\<lparr>gv_Group = [], gv_Version = ''v1''\<rparr>, ''Pod'')])\<rparr>"

lemma demo_scheme_laws: "scheme_laws demo_scheme (\<lambda>(gv, ks). {gv} \<times> set ks) set"
  by (auto simp: scheme_laws_def demo_scheme_def)

lemma controller_init_registers_example:
  "set (snd (controller_init demo_scheme [])) \<supseteq> {GroupVersion} \<times> {''SidecarConfig'', ''SidecarConfigList''}"
proof -
  have "controller_init demo_scheme [] = (Ret (), snd (controller_init demo_scheme []))"
    by (simp add: controller_init_def Must_def catchM_def tryM_def AddToScheme_def demo_scheme_def SchemeBuilder_def
        register_types_def)
  from controller_init_registers [OF demo_scheme_laws this] show ?thesis by auto
qed

text \<open>Unless HTTP/2 is asked for, every server that is configured offers HTTP/1.1 only.\<close>

lemma http2_disabled:
  "\<not> fl_enableHTTP2 fl \<Longrightarrow>
     tls_NextProtos (fold id (op_WebhookTLSOpts (managerOptions fl)) c) = [''http/1.1''] \<and>
     tls_NextProtos (fold id (mo_TLSOpts (op_Metrics (managerOptions fl))) c) = [''http/1.1'']"
  by (simp add: managerOptions_def metricsServerOptions_def tlsOpts_def disableHTTP2_def Let_def)

end
