(* ===== verification/KcHeap.thy ===== *)
theory KcHeap imports KcPrelude begin

text \<open>
  Structures on a heap, and copies of them. Where the development treats a resource as a value, the
  Go program has structs whose pointers, slices and maps lead to cells that several structs can
  share. This theory says, for any heap, when a copy is deep, and how deep copies of structs,
  pointers, slices and maps come from deep copies of their parts.
\<close>

section \<open>Cells, and what a structure reaches\<close>

type_synonym ref = nat

definition hget :: "'c list \<Rightarrow> ref \<Rightarrow> 'c option" where
  "hget h a = (if a < length h then Some (h ! a) else None)"

definition same_on :: "ref set \<Rightarrow> 'c list \<Rightarrow> 'c list \<Rightarrow> bool" where
  "same_on S h g \<longleftrightarrow> (\<forall>i \<in> S. hget g i = hget h i)"

text \<open>
  A structure is known by the cells it reaches and by its value. Neither depends on other cells.
\<close>

definition local_to_cells :: "('c list \<Rightarrow> 'a \<Rightarrow> ref set) \<Rightarrow> ('c list \<Rightarrow> 'a \<Rightarrow> 'v) \<Rightarrow> bool" where
  "local_to_cells cells val \<longleftrightarrow>
     (\<forall>h g x. same_on (cells h x) h g \<longrightarrow> cells g x = cells h x \<and> val g x = val h x)"

text \<open>
  A deep copy only adds cells to the heap. The copy has the value of the original and reaches new
  cells only. The original must not dangle.
\<close>

definition copies :: "('c list \<Rightarrow> 'a \<Rightarrow> ref set) \<Rightarrow> ('c list \<Rightarrow> 'a \<Rightarrow> 'v) \<Rightarrow> ('a \<Rightarrow> 'c list \<Rightarrow> 'a \<times> 'c list) \<Rightarrow> bool"
  where
  "copies cells val copy \<longleftrightarrow> local_to_cells cells val \<and>
     (\<forall>h x y h'. cells h x \<subseteq> {..<length h} \<longrightarrow> copy x h = (y, h') \<longrightarrow>
        (\<exists>new. h' = h @ new) \<and> val h' y = val h x \<and> cells h' y \<subseteq> {length h..<length h'})"

lemma hget_append: "a < length h \<Longrightarrow> hget (h @ new) a = hget h a"
  by (simp add: hget_def nth_append)

lemma same_on_append: "S \<subseteq> {..<length h} \<Longrightarrow> same_on S h (h @ new)"
  by (auto simp: same_on_def hget_append)

lemma local_to_cellsD:
  "local_to_cells cells val \<Longrightarrow> same_on (cells h x) h g \<Longrightarrow> cells g x = cells h x \<and> val g x = val h x"
  by (auto simp: local_to_cells_def)

lemma local_grows:
  "local_to_cells cells val \<Longrightarrow> cells h x \<subseteq> {..<length h} \<Longrightarrow>
     cells (h @ new) x = cells h x \<and> val (h @ new) x = val h x"
  by (intro local_to_cellsD same_on_append)

lemma copiesI:
  assumes "local_to_cells cells val"
    and "\<And>h x y h'. cells h x \<subseteq> {..<length h} \<Longrightarrow> copy x h = (y, h') \<Longrightarrow>
      (\<exists>new. h' = h @ new) \<and> val h' y = val h x \<and> cells h' y \<subseteq> {length h..<length h'}"
  shows "copies cells val copy"
  using assms by (simp add: copies_def)

lemma copies_local: "copies cells val copy \<Longrightarrow> local_to_cells cells val"
  by (simp add: copies_def)

lemma copiesE:
  assumes "copies cells val copy" and "cells h x \<subseteq> {..<length h}" and "copy x h = (y, h')"
  obtains new where "h' = h @ new" "val h' y = val h x" "cells h' y \<subseteq> {length h..<length h'}"
  using assms unfolding copies_def by blast

text \<open>What a deep copy is for: neither structure sees a write through the other.\<close>

lemma copies_isolate:
  assumes "copies cells val copy" and "cells h x \<subseteq> {..<length h}" and "copy x h = (y, h')"
  shows "val h' y = val h x" and "take (length h) h' = h"
    and "same_on (- cells h' y) h' g \<Longrightarrow> val g x = val h x"
    and "same_on (- cells h' x) h' g \<Longrightarrow> val g y = val h x"
proof -
  obtain new where new: "h' = h @ new" "val h' y = val h x" "cells h' y \<subseteq> {length h..<length h'}"
    using copiesE [OF assms] by blast
  note loc = copies_local [OF assms(1)]
  have old: "cells h' x = cells h x" "val h' x = val h x"
    using local_grows [OF loc assms(2)] new(1) by simp_all
  have apart: "cells h' x \<inter> cells h' y = {}" using new(3) assms(2) old(1) by fastforce
  show "val h' y = val h x" "take (length h) h' = h" using new by simp_all
  show "val g x = val h x" if "same_on (- cells h' y) h' g"
  proof -
    have "same_on (cells h' x) h' g" using that apart by (auto simp: same_on_def)
    then show ?thesis using local_to_cellsD [OF loc] old by metis
  qed
  show "val g y = val h x" if "same_on (- cells h' x) h' g"
  proof -
    have "same_on (cells h' y) h' g" using that apart by (auto simp: same_on_def)
    then show ?thesis using local_to_cellsD [OF loc] new(2) by metis
  qed
qed

section \<open>Copies are put together\<close>

text \<open>Plain data, two parts one after the other, and a field that may be nil.\<close>

definition no_cells :: "'c list \<Rightarrow> 'a \<Rightarrow> ref set" where
  "no_cells h x = {}"

lemma copies_plain: "(\<And>x. f (c x) = f x) \<Longrightarrow> copies no_cells (\<lambda>h. f) (\<lambda>x h. (c x, h))"
  by (rule copiesI) (auto simp: local_to_cells_def no_cells_def)

definition then_copy ::
    "('a \<Rightarrow> 'c list \<Rightarrow> 'a \<times> 'c list) \<Rightarrow> ('b \<Rightarrow> 'c list \<Rightarrow> 'b \<times> 'c list) \<Rightarrow> 'a \<times> 'b \<Rightarrow> 'c list \<Rightarrow> ('a \<times> 'b) \<times> 'c list"
  where
  "then_copy c d p h = (let (x, h1) = c (fst p) h; (y, h2) = d (snd p) h1 in ((x, y), h2))"

lemma copies_pair:
  assumes "copies cells val c" and "copies cells' val' d"
  shows "copies (\<lambda>h p. cells h (fst p) \<union> cells' h (snd p)) (\<lambda>h p. (val h (fst p), val' h (snd p))) (then_copy c d)"
    (is "copies ?cells ?val _")
proof (rule copiesI)
  note loc = copies_local [OF assms(1)] copies_local [OF assms(2)]
  show "local_to_cells ?cells ?val"
    unfolding local_to_cells_def
  proof (intro allI impI)
    fix h g p
    assume "same_on (?cells h p) h g"
    then have "same_on (cells h (fst p)) h g" "same_on (cells' h (snd p)) h g" by (simp_all add: same_on_def)
    then show "?cells g p = ?cells h p \<and> ?val g p = ?val h p"
      using loc [THEN local_to_cellsD] by blast
  qed
  fix h p y h' assume wf: "?cells h p \<subseteq> {..<length h}" and run: "then_copy c d p h = (y, h')"
  obtain x1 h1 x2 where steps: "c (fst p) h = (x1, h1)" "d (snd p) h1 = (x2, h')" "y = (x1, x2)"
    using run by (auto simp: then_copy_def Let_def split: prod.splits)
  obtain n1 where one: "h1 = h @ n1" "val h1 x1 = val h (fst p)" "cells h1 x1 \<subseteq> {length h..<length h1}"
    using copiesE [OF assms(1) _ steps(1)] wf by blast
  have snd_p: "cells' h1 (snd p) = cells' h (snd p)" "val' h1 (snd p) = val' h (snd p)"
    using local_grows [OF loc(2)] wf one(1) by auto
  then have "cells' h1 (snd p) \<subseteq> {..<length h1}" using wf one(1) by auto
  from copiesE [OF assms(2) this steps(2)] obtain n2 where two: "h' = h1 @ n2" "val' h' x2 = val' h1 (snd p)"
    "cells' h' x2 \<subseteq> {length h1..<length h'}" by blast
  have "cells h' x1 = cells h1 x1 \<and> val h' x1 = val h1 x1"
    unfolding two(1) by (rule local_grows [OF loc(1)]) (use one(3) in auto)
  then show "(\<exists>new. h' = h @ new) \<and> ?val h' y = ?val h p \<and> ?cells h' y \<subseteq> {length h..<length h'}"
    using one two snd_p steps(3) by fastforce
qed

definition nilable :: "('a \<Rightarrow> 'c list \<Rightarrow> 'a \<times> 'c list) \<Rightarrow> 'a option \<Rightarrow> 'c list \<Rightarrow> 'a option \<times> 'c list" where
  "nilable c p h = (case p of None \<Rightarrow> (None, h) | Some x \<Rightarrow> (let (y, h') = c x h in (Some y, h')))"

definition cells_opt :: "('c list \<Rightarrow> 'a \<Rightarrow> ref set) \<Rightarrow> 'c list \<Rightarrow> 'a option \<Rightarrow> ref set" where
  "cells_opt cells h p = (case p of None \<Rightarrow> {} | Some x \<Rightarrow> cells h x)"

lemma copies_nilable:
  assumes "copies cells val c"
  shows "copies (cells_opt cells) (\<lambda>h. map_option (val h)) (nilable c)"
proof (rule copiesI)
  show "local_to_cells (cells_opt cells) (\<lambda>h. map_option (val h))"
    unfolding local_to_cells_def cells_opt_def
    by (auto split: option.splits dest: local_to_cellsD [OF copies_local [OF assms]])
  fix h p y h' assume "cells_opt cells h p \<subseteq> {..<length h}" and "nilable c p h = (y, h')"
  then show "(\<exists>new. h' = h @ new) \<and> map_option (val h') y = map_option (val h) p \<and>
      cells_opt cells h' y \<subseteq> {length h..<length h'}"
    by (auto simp: nilable_def cells_opt_def split: option.splits prod.splits elim: copiesE [OF assms])
qed

text \<open>The elements of a list, in order.\<close>

fun each :: "('a \<Rightarrow> 'c list \<Rightarrow> 'a \<times> 'c list) \<Rightarrow> 'a list \<Rightarrow> 'c list \<Rightarrow> 'a list \<times> 'c list" where
  "each c [] h = ([], h)"
| "each c (x # xs) h = (let (y, h1) = c x h; (ys, h2) = each c xs h1 in (y # ys, h2))"

definition cells_list :: "('c list \<Rightarrow> 'a \<Rightarrow> ref set) \<Rightarrow> 'c list \<Rightarrow> 'a list \<Rightarrow> ref set" where
  "cells_list cells h xs = (\<Union>x \<in> set xs. cells h x)"

lemma copies_each:
  assumes "copies cells val c"
  shows "copies (cells_list cells) (\<lambda>h. map (val h)) (each c)"
proof (rule copiesI)
  note loc = copies_local [OF assms]
  show "local_to_cells (cells_list cells) (\<lambda>h. map (val h))"
    unfolding local_to_cells_def
  proof (intro allI impI)
    fix h g xs assume same: "same_on (cells_list cells h xs) h g"
    have "cells g x = cells h x \<and> val g x = val h x" if "x \<in> set xs" for x
      by (rule local_to_cellsD [OF loc]) (use same that in \<open>auto simp: cells_list_def same_on_def\<close>)
    then show "cells_list cells g xs = cells_list cells h xs \<and> map (val g) xs = map (val h) xs"
      by (simp add: cells_list_def)
  qed
  fix h xs ys h' assume "cells_list cells h xs \<subseteq> {..<length h}" and "each c xs h = (ys, h')"
  then show "(\<exists>new. h' = h @ new) \<and> map (val h') ys = map (val h) xs \<and>
      cells_list cells h' ys \<subseteq> {length h..<length h'}"
  proof (induction xs arbitrary: h ys)
    case Nil
    then show ?case by (simp add: cells_list_def)
  next
    case (Cons x xs)
    have wf: "cells h x \<subseteq> {..<length h}" "\<forall>z \<in> set xs. cells h z \<subseteq> {..<length h}"
      using Cons.prems(1) by (auto simp: cells_list_def)
    obtain y h1 zs where run: "c x h = (y, h1)" "each c xs h1 = (zs, h')" "ys = y # zs"
      using Cons.prems(2) by (auto simp: Let_def split: prod.splits)
    obtain n1 where one: "h1 = h @ n1" "val h1 y = val h x" "cells h1 y \<subseteq> {length h..<length h1}"
      using copiesE [OF assms wf(1) run(1)] by blast
    have rest: "\<forall>z \<in> set xs. cells h1 z = cells h z \<and> val h1 z = val h z"
      using local_grows [OF loc] wf(2) one(1) by blast
    have "cells_list cells h1 xs \<subseteq> {..<length h1}"
      using rest wf(2) one(1) by (fastforce simp: cells_list_def)
    from Cons.IH [OF this run(2)] obtain n2 where two: "h' = h1 @ n2" "map (val h') zs = map (val h1) xs"
      "cells_list cells h' zs \<subseteq> {length h1..<length h'}" by blast
    have "cells h' y = cells h1 y \<and> val h' y = val h1 y"
      unfolding two(1) by (rule local_grows [OF loc]) (use one(3) in auto)
    moreover have "map (val h1) xs = map (val h) xs" using rest by simp
    ultimately show ?case
      using one two run(3) by (fastforce simp: cells_list_def)
  qed
qed

text \<open>
  One indirection: a handle \<open>p\<close> with an address, and what it shows of the cell there. The copy
  makes a cell, fills it and stores it; nothing reads it before. Pointers, slices and maps are
  indirections.
\<close>

definition through ::
    "('p \<Rightarrow> ref) \<Rightarrow> ('p \<Rightarrow> 'c option \<Rightarrow> 'a) \<Rightarrow> (ref \<Rightarrow> 'a \<Rightarrow> 'p) \<Rightarrow> ('a \<Rightarrow> 'c) \<Rightarrow> ('a \<Rightarrow> 'c) \<Rightarrow>
       ('a \<Rightarrow> 'c list \<Rightarrow> 'a \<times> 'c list) \<Rightarrow> 'p \<Rightarrow> 'c list \<Rightarrow> 'p \<times> 'c list" where
  "through addr view handle blank cell copy p h =
     (let x = view p (hget h (addr p));
          b = length h;
          (y, h') = copy x (h @ [blank x])
      in (handle b y, h'[b := cell y]))"

definition cells_at ::
    "('p \<Rightarrow> ref) \<Rightarrow> ('p \<Rightarrow> 'c option \<Rightarrow> 'a) \<Rightarrow> ('c list \<Rightarrow> 'a \<Rightarrow> ref set) \<Rightarrow> 'c list \<Rightarrow> 'p \<Rightarrow> ref set" where
  "cells_at addr view cells h p = insert (addr p) (cells h (view p (hget h (addr p))))"

lemma copies_through:
  assumes "copies cells val copy"
    and "\<And>b y. addr (handle b y) = b" and "\<And>b y. view (handle b y) (Some (cell y)) = y"
  shows "copies (cells_at addr view cells) (\<lambda>h p. val h (view p (hget h (addr p))))
    (through addr view handle blank cell copy)"
proof (rule copiesI)
  note loc = copies_local [OF assms(1)]
  show "local_to_cells (cells_at addr view cells) (\<lambda>h p. val h (view p (hget h (addr p))))"
    unfolding local_to_cells_def
  proof (intro allI impI)
    fix h g p assume "same_on (cells_at addr view cells h p) h g"
    then have "hget g (addr p) = hget h (addr p)" "same_on (cells h (view p (hget h (addr p)))) h g"
      by (simp_all add: cells_at_def same_on_def)
    then show "cells_at addr view cells g p = cells_at addr view cells h p \<and>
        val g (view p (hget g (addr p))) = val h (view p (hget h (addr p)))"
      using local_to_cellsD [OF loc] by (simp add: cells_at_def)
  qed
  fix h p q h' assume wf: "cells_at addr view cells h p \<subseteq> {..<length h}"
    and run: "through addr view handle blank cell copy p h = (q, h')"
  let ?x = "view p (hget h (addr p))" and ?h0 = "h @ [blank (view p (hget h (addr p)))]"
  obtain y h1 where c: "copy ?x ?h0 = (y, h1)" "q = handle (length h) y" "h' = h1[length h := cell y]"
    using run by (auto simp: through_def Let_def split: prod.splits)
  have grown: "cells ?h0 ?x = cells h ?x" "val ?h0 ?x = val h ?x"
    using local_grows [OF loc, of h ?x] wf by (auto simp: cells_at_def)
  have "cells ?h0 ?x \<subseteq> {..<length ?h0}" using wf grown(1) by (auto simp: cells_at_def)
  from copiesE [OF assms(1) this c(1)] obtain new where new: "h1 = ?h0 @ new" "val h1 y = val h ?x"
    "cells h1 y \<subseteq> {length ?h0..<length h1}" using grown(2) by metis
  have h': "h' = h @ cell y # new" by (simp add: c(3) new(1) list_update_append)
  have "same_on (cells h1 y) h1 h'"
    using new(3) by (auto simp: same_on_def h' new(1) hget_def nth_append nth_Cons split: nat.split)
  then have y: "cells h' y = cells h1 y" "val h' y = val h ?x"
    using local_to_cellsD [OF loc] new(2) by auto
  have "hget h' (length h) = Some (cell y)" by (simp add: h' hget_def nth_append)
  then have q: "view q (hget h' (addr q)) = y" "addr q = length h" by (simp_all add: c(2) assms(2,3))
  have "cells_at addr view cells h' q = insert (length h) (cells h1 y)"
    by (simp add: cells_at_def q(1) y(1)) (simp add: q(2))
  then have "cells_at addr view cells h' q \<subseteq> {length h..<length h'}"
    using new(1,3) by (auto simp: c(3))
  moreover have "val h' (view q (hget h' (addr q))) = val h ?x" by (simp add: q(1) y(2))
  moreover have "\<exists>n. h' = h @ n" using h' by blast
  ultimately show "(\<exists>new. h' = h @ new) \<and> val h' (view q (hget h' (addr q))) = val h ?x \<and>
      cells_at addr view cells h' q \<subseteq> {length h..<length h'}" by blast
qed

text \<open>A structure with pointers in some fields, which are copied one after the other.\<close>

lemma copies_struct:
  assumes "copies cells val c"
    and "\<And>x h. copy x h = (let (p, h') = c (parts x) h in (put p x, h'))"
    and "\<And>h x. cells' h x = cells h (parts x)" and "\<And>h x. val' h x = build x (val h (parts x))"
    and "\<And>p x. parts (put p x) = p" and "\<And>p x v. build (put p x) v = build x v"
  shows "copies cells' val' copy"
proof (rule copiesI)
  show "local_to_cells cells' val'"
    using copies_local [OF assms(1)] by (simp add: local_to_cells_def assms(3,4))
  fix h x y h' assume wf: "cells' h x \<subseteq> {..<length h}" and run: "copy x h = (y, h')"
  obtain p where p: "c (parts x) h = (p, h')" "y = put p x"
    using run by (auto simp: assms(2) Let_def split: prod.splits)
  from copiesE [OF assms(1) _ p(1)] wf obtain new where
    "h' = h @ new" "val h' p = val h (parts x)" "cells h' p \<subseteq> {length h..<length h'}"
    by (metis assms(3))
  then show "(\<exists>new. h' = h @ new) \<and> val' h' y = val' h x \<and> cells' h' y \<subseteq> {length h..<length h'}"
    by (simp add: assms(3-6) p(2))
qed

section \<open>Pointers, slices and maps\<close>

text \<open>\<open>cell_at\<close> reads a cell as the struct it holds; Go's types exclude the other cells.\<close>

definition copy_ptr ::
    "('c option \<Rightarrow> 'a) \<Rightarrow> ('a \<Rightarrow> 'c) \<Rightarrow> 'a \<Rightarrow> ('a \<Rightarrow> 'c list \<Rightarrow> 'a \<times> 'c list) \<Rightarrow> ref \<Rightarrow> 'c list \<Rightarrow> ref \<times> 'c list" where
  "copy_ptr cell_at cell zero = through id (\<lambda>a. cell_at) (\<lambda>b x. b) (\<lambda>x. cell zero) cell"

definition ptr_cells :: "('c option \<Rightarrow> 'a) \<Rightarrow> ('c list \<Rightarrow> 'a \<Rightarrow> ref set) \<Rightarrow> 'c list \<Rightarrow> ref \<Rightarrow> ref set" where
  "ptr_cells cell_at = cells_at id (\<lambda>a. cell_at)"

definition ptr_value :: "('c option \<Rightarrow> 'a) \<Rightarrow> ('c list \<Rightarrow> 'a \<Rightarrow> 'v) \<Rightarrow> 'c list \<Rightarrow> ref \<Rightarrow> 'v" where
  "ptr_value cell_at val h a = val h (cell_at (hget h a))"

lemma copies_ptr:
  assumes "copies cells val c" and "\<And>x. cell_at (Some (cell x)) = x"
  shows "copies (ptr_cells cell_at cells) (ptr_value cell_at val) (copy_ptr cell_at cell zero c)"
  using copies_through [OF assms(1), of id "\<lambda>b x. b" "\<lambda>a. cell_at" cell "\<lambda>x. cell zero"] assms(2)
  by (simp add: ptr_cells_def ptr_value_def [abs_def] copy_ptr_def)

text \<open>A slice is a window of an array. A copy has an array of its own, of the length of the window.\<close>

record slice =
  sl_array :: ref
  sl_off :: nat
  sl_len :: nat

definition window :: "slice \<Rightarrow> 'a list \<Rightarrow> 'a list" where
  "window s xs = take (sl_len s) (drop (sl_off s) xs)"

definition whole :: "ref \<Rightarrow> 'a list \<Rightarrow> slice" where
  "whole b xs = \<lparr>sl_array = b, sl_off = 0, sl_len = length xs\<rparr>"

definition copy_slice ::
    "('c option \<Rightarrow> 'a list) \<Rightarrow> ('a list \<Rightarrow> 'c) \<Rightarrow> 'a \<Rightarrow> ('a \<Rightarrow> 'c list \<Rightarrow> 'a \<times> 'c list) \<Rightarrow> slice \<Rightarrow> 'c list \<Rightarrow>
       slice \<times> 'c list" where
  "copy_slice arr cell zero c =
     through sl_array (\<lambda>s k. window s (arr k)) whole (\<lambda>xs. cell (replicate (length xs) zero)) cell (each c)"

definition slice_cells :: "('c option \<Rightarrow> 'a list) \<Rightarrow> ('c list \<Rightarrow> 'a \<Rightarrow> ref set) \<Rightarrow> 'c list \<Rightarrow> slice \<Rightarrow> ref set" where
  "slice_cells arr cells = cells_at sl_array (\<lambda>s k. window s (arr k)) (cells_list cells)"

definition slice_value :: "('c option \<Rightarrow> 'a list) \<Rightarrow> ('c list \<Rightarrow> 'a \<Rightarrow> 'v) \<Rightarrow> 'c list \<Rightarrow> slice \<Rightarrow> 'v list" where
  "slice_value arr val h s = map (val h) (window s (arr (hget h (sl_array s))))"

lemma copies_slice:
  assumes "copies cells val c" and "\<And>xs. arr (Some (cell xs)) = xs"
  shows "copies (slice_cells arr cells) (slice_value arr val) (copy_slice arr cell zero c)"
  using copies_through [OF copies_each [OF assms(1)], of sl_array whole "\<lambda>s k. window s (arr k)" cell
      "\<lambda>xs. cell (replicate (length xs) zero)"] assms(2)
  by (simp add: slice_cells_def slice_value_def [abs_def] copy_slice_def whole_def window_def)

text \<open>Plain data, such as strings, is copied as it is.\<close>

definition plain :: "'a \<Rightarrow> 'c list \<Rightarrow> 'a \<times> 'c list" where
  "plain x h = (x, h)"

lemma copies_strings: "copies no_cells (\<lambda>h x. x) plain"
  using copies_plain [of "\<lambda>x. x" "\<lambda>x. x"] by (simp add: plain_def [abs_def])

text \<open>
  A map is made anew, entry by entry. Its value is what it maps, which is the list of its entries
  when no key comes twice.
\<close>

definition copy_map :: "('k \<times> 'v) list \<Rightarrow> 'c list \<Rightarrow> ('k \<times> 'v) list \<times> 'c list" where
  "copy_map es h = (copy_into es [], h)"

definition map_value :: "'c list \<Rightarrow> ('k \<times> 'v) list \<Rightarrow> ('k \<times> 'v) list" where
  "map_value h es = copy_into es []"

lemma copies_map: "copies no_cells map_value copy_map"
  unfolding copy_map_def [abs_def] map_value_def [abs_def] by (rule copies_plain) (rule copy_into_again)

end
