(* ===== verification/KcDeepCopy.thy ===== *)
theory KcDeepCopy imports KcHeap KcTypes begin

text \<open>
  api/v1alpha1/zz_generated.deepcopy.go: the deep copies of the resource. Each \<^verbatim>\<open>DeepCopyInto\<close> is a
  function of its own from the struct in memory and the heap. The properties say that they are
  deep, so a resource can be treated as a value.
\<close>

section \<open>The structs in memory\<close>

text \<open>
  A pointer or a map is the address of a cell, \<open>None\<close> when nil. Objects of the Kubernetes packages,
  the elements of \<open>'x\<close>, may themselves reach cells; their layout is not the program's.
\<close>

record mBinary =
  mb_Path :: string
  mb_Version :: string
  mb_Checksum :: string
  mb_Args :: "slice option"
  mb_Env :: "slice option"
  mb_Dependencies :: "slice option"
  mb_Permissions :: string
  mb_Description :: string
  mb_DownloadURL :: string

record mPluginConfig =
  mp_Name :: string
  mp_Config :: "ref option"
  mp_Binary :: "ref option"
  mp_BootOrder :: int

record mKidecarConfig =
  mk_Plugins :: "slice option"
  mk_RestartPolicy :: string
  mk_Resources :: "ref option"
  mk_SidecarStartOrder :: string

record mInjectConfig =
  mi_Selector :: "ref option"
  mi_InjectKidecar :: bool
  mi_UseKubeNativeSidecar :: bool
  mi_Namespace :: string
  mi_NamespaceSelector :: "ref option"
  mi_InitContainers :: "slice option"
  mi_Containers :: "slice option"
  mi_Volumes :: "slice option"
  mi_VolumeMounts :: "slice option"
  mi_ForceInjectServiceAccount :: "ref option"
  mi_ServiceAccountName :: string
  mi_ShareProcessNamespace :: "ref option"

record mSidecarConfigSpec =
  ms_Injection :: mInjectConfig
  ms_Kidecar :: mKidecarConfig

record 'x mSidecarConfig =
  mc_TypeMeta :: "string \<times> string"
  mc_ObjectMeta :: 'x
  mc_Spec :: mSidecarConfigSpec
  mc_Status :: SidecarConfigStatus

record 'x mSidecarConfigList =
  ml_TypeMeta :: "string \<times> string"
  ml_ListMeta :: 'x
  ml_Items :: "slice option"

datatype 'x cell =
    Strings "string list"
  | StringMap "(string \<times> string) list"
  | BoolCell bool
  | Object 'x
  | Objects "'x list"
  | BinaryCell mBinary
  | PluginCell mPluginConfig
  | Plugins "mPluginConfig list"
  | KidecarCell mKidecarConfig
  | InjectCell mInjectConfig
  | SpecCell mSidecarConfigSpec
  | StatusCell SidecarConfigStatus
  | ConfigCell "'x mSidecarConfig"
  | Configs "'x mSidecarConfig list"
  | ListCell "'x mSidecarConfigList"

type_synonym 'x heap = "'x cell list"

text \<open>The same structs read from a cell; Go's types make the last case impossible.\<close>

definition strings_in :: "'x cell option \<Rightarrow> string list" where
  "strings_in k = (case k of Some (Strings xs) \<Rightarrow> xs | _ \<Rightarrow> [])"

definition map_in :: "'x cell option \<Rightarrow> (string \<times> string) list" where
  "map_in k = (case k of Some (StringMap es) \<Rightarrow> es | _ \<Rightarrow> [])"

definition bool_in :: "'x cell option \<Rightarrow> bool" where
  "bool_in k = (case k of Some (BoolCell b) \<Rightarrow> b | _ \<Rightarrow> False)"

definition object_in :: "'x \<Rightarrow> 'x cell option \<Rightarrow> 'x" where
  "object_in z k = (case k of Some (Object x) \<Rightarrow> x | _ \<Rightarrow> z)"

definition objects_in :: "'x cell option \<Rightarrow> 'x list" where
  "objects_in k = (case k of Some (Objects xs) \<Rightarrow> xs | _ \<Rightarrow> [])"

definition zeroBinary :: mBinary where
  "zeroBinary =
     \<lparr>mb_Path = [], mb_Version = [], mb_Checksum = [], mb_Args = None, mb_Env = None, mb_Dependencies = None,
      mb_Permissions = [], mb_Description = [], mb_DownloadURL = []\<rparr>"

definition zeroPluginConfig :: mPluginConfig where
  "zeroPluginConfig = \<lparr>mp_Name = [], mp_Config = None, mp_Binary = None, mp_BootOrder = 0\<rparr>"

definition zeroKidecarConfig :: mKidecarConfig where
  "zeroKidecarConfig =
     \<lparr>mk_Plugins = None, mk_RestartPolicy = [], mk_Resources = None, mk_SidecarStartOrder = []\<rparr>"

definition zeroInjectConfig :: mInjectConfig where
  "zeroInjectConfig =
     \<lparr>mi_Selector = None, mi_InjectKidecar = False, mi_UseKubeNativeSidecar = False, mi_Namespace = [],
      mi_NamespaceSelector = None, mi_InitContainers = None, mi_Containers = None, mi_Volumes = None,
      mi_VolumeMounts = None, mi_ForceInjectServiceAccount = None, mi_ServiceAccountName = [],
      mi_ShareProcessNamespace = None\<rparr>"

definition zeroSpec :: mSidecarConfigSpec where
  "zeroSpec = \<lparr>ms_Injection = zeroInjectConfig, ms_Kidecar = zeroKidecarConfig\<rparr>"

definition zeroStatus :: SidecarConfigStatus where
  "zeroStatus = \<lparr>st_MatchedPods = 0, st_UpdatedPods = 0, st_ReadyPods = 0, st_UpdatedReadyPods = 0\<rparr>"

definition zeroSidecarConfig :: "'x \<Rightarrow> 'x mSidecarConfig" where
  "zeroSidecarConfig z =
     \<lparr>mc_TypeMeta = ([], []), mc_ObjectMeta = z, mc_Spec = zeroSpec, mc_Status = zeroStatus\<rparr>"

definition zeroSidecarConfigList :: "'x \<Rightarrow> 'x mSidecarConfigList" where
  "zeroSidecarConfigList z = \<lparr>ml_TypeMeta = ([], []), ml_ListMeta = z, ml_Items = None\<rparr>"

definition binary_in :: "'x cell option \<Rightarrow> mBinary" where
  "binary_in k = (case k of Some (BinaryCell b) \<Rightarrow> b | _ \<Rightarrow> zeroBinary)"

definition plugin_in :: "'x cell option \<Rightarrow> mPluginConfig" where
  "plugin_in k = (case k of Some (PluginCell p) \<Rightarrow> p | _ \<Rightarrow> zeroPluginConfig)"

definition plugins_in :: "'x cell option \<Rightarrow> mPluginConfig list" where
  "plugins_in k = (case k of Some (Plugins ps) \<Rightarrow> ps | _ \<Rightarrow> [])"

definition kidecar_in :: "'x cell option \<Rightarrow> mKidecarConfig" where
  "kidecar_in k = (case k of Some (KidecarCell c) \<Rightarrow> c | _ \<Rightarrow> zeroKidecarConfig)"

definition inject_in :: "'x cell option \<Rightarrow> mInjectConfig" where
  "inject_in k = (case k of Some (InjectCell c) \<Rightarrow> c | _ \<Rightarrow> zeroInjectConfig)"

definition spec_in :: "'x cell option \<Rightarrow> mSidecarConfigSpec" where
  "spec_in k = (case k of Some (SpecCell c) \<Rightarrow> c | _ \<Rightarrow> zeroSpec)"

definition status_in :: "'x cell option \<Rightarrow> SidecarConfigStatus" where
  "status_in k = (case k of Some (StatusCell c) \<Rightarrow> c | _ \<Rightarrow> zeroStatus)"

definition config_in :: "'x \<Rightarrow> 'x cell option \<Rightarrow> 'x mSidecarConfig" where
  "config_in z k = (case k of Some (ConfigCell c) \<Rightarrow> c | _ \<Rightarrow> zeroSidecarConfig z)"

definition configs_in :: "'x cell option \<Rightarrow> 'x mSidecarConfig list" where
  "configs_in k = (case k of Some (Configs cs) \<Rightarrow> cs | _ \<Rightarrow> [])"

definition list_in :: "'x \<Rightarrow> 'x cell option \<Rightarrow> 'x mSidecarConfigList" where
  "list_in z k = (case k of Some (ListCell c) \<Rightarrow> c | _ \<Rightarrow> zeroSidecarConfigList z)"

lemma reads [simp]:
  "strings_in (Some (Strings xs)) = xs" "map_in (Some (StringMap es)) = es" "bool_in (Some (BoolCell b)) = b"
  "object_in z (Some (Object x)) = x" "objects_in (Some (Objects os)) = os"
  "binary_in (Some (BinaryCell mb)) = mb" "plugin_in (Some (PluginCell mp)) = mp"
  "plugins_in (Some (Plugins mps)) = mps" "kidecar_in (Some (KidecarCell mk)) = mk"
  "inject_in (Some (InjectCell mi)) = mi" "spec_in (Some (SpecCell ms)) = ms"
  "status_in (Some (StatusCell st)) = st" "config_in z (Some (ConfigCell mc)) = mc"
  "configs_in (Some (Configs mcs)) = mcs" "list_in z (Some (ListCell ml)) = ml"
  by (simp_all add: strings_in_def map_in_def bool_in_def object_in_def objects_in_def binary_in_def plugin_in_def
      plugins_in_def kidecar_in_def inject_in_def spec_in_def status_in_def config_in_def configs_in_def list_in_def)

section \<open>The Kubernetes packages\<close>

text \<open>
  What a type of another package offers: its zero value, its own \<^verbatim>\<open>DeepCopyInto\<close>, and for the
  specification the cells and the value. That their copies are deep copies is their documented
  contract.
\<close>

record ('x, 'v) external =
  ex_zero :: 'x
  ex_DeepCopyInto :: "'x \<Rightarrow> 'x heap \<Rightarrow> 'x \<times> 'x heap"
  ex_cells :: "'x heap \<Rightarrow> 'x \<Rightarrow> ref set"
  ex_value :: "'x heap \<Rightarrow> 'x \<Rightarrow> 'v"

definition external_copies :: "('x, 'v) external \<Rightarrow> bool" where
  "external_copies e \<longleftrightarrow> copies (ex_cells e) (ex_value e) (ex_DeepCopyInto e)"

record 'x k8s =
  k8s_LabelSelector :: "('x, label_selector) external"
  k8s_Container :: "('x, container) external"
  k8s_Volume :: "('x, volume) external"
  k8s_VolumeMount :: "('x, volume_mount) external"
  k8s_RawExtension :: "('x, string) external"
  k8s_ObjectMeta :: "('x, string \<times> string \<times> (string, string) gomap) external"
  k8s_ListMeta :: "('x, string) external"

definition k8s_copies :: "'x k8s \<Rightarrow> bool" where
  "k8s_copies k \<longleftrightarrow> external_copies (k8s_LabelSelector k) \<and> external_copies (k8s_Container k) \<and>
     external_copies (k8s_Volume k) \<and> external_copies (k8s_VolumeMount k) \<and>
     external_copies (k8s_RawExtension k) \<and> external_copies (k8s_ObjectMeta k) \<and> external_copies (k8s_ListMeta k)"

definition copy_object :: "('x, 'v) external \<Rightarrow> ref \<Rightarrow> 'x heap \<Rightarrow> ref \<times> 'x heap" where
  "copy_object e = copy_ptr (object_in (ex_zero e)) Object (ex_zero e) (ex_DeepCopyInto e)"

definition object_cells :: "('x, 'v) external \<Rightarrow> 'x heap \<Rightarrow> ref \<Rightarrow> ref set" where
  "object_cells e = ptr_cells (object_in (ex_zero e)) (ex_cells e)"

definition object_value :: "('x, 'v) external \<Rightarrow> 'x heap \<Rightarrow> ref \<Rightarrow> 'v" where
  "object_value e = ptr_value (object_in (ex_zero e)) (ex_value e)"

definition copy_objects :: "('x, 'v) external \<Rightarrow> slice \<Rightarrow> 'x heap \<Rightarrow> slice \<times> 'x heap" where
  "copy_objects e = copy_slice objects_in Objects (ex_zero e) (ex_DeepCopyInto e)"

definition objects_cells :: "('x, 'v) external \<Rightarrow> 'x heap \<Rightarrow> slice \<Rightarrow> ref set" where
  "objects_cells e = slice_cells objects_in (ex_cells e)"

definition objects_value :: "('x, 'v) external \<Rightarrow> 'x heap \<Rightarrow> slice \<Rightarrow> 'v list" where
  "objects_value e = slice_value objects_in (ex_value e)"

lemma copies_object: "external_copies e \<Longrightarrow> copies (object_cells e) (object_value e) (copy_object e)"
  unfolding object_cells_def object_value_def copy_object_def external_copies_def by (rule copies_ptr) simp_all

lemma copies_objects: "external_copies e \<Longrightarrow> copies (objects_cells e) (objects_value e) (copy_objects e)"
  unfolding objects_cells_def objects_value_def copy_objects_def external_copies_def by (rule copies_slice) simp_all

section \<open>Binary\<close>

text \<open>A nil slice and an empty one have the same value.\<close>

definition listed :: "'a list option \<Rightarrow> 'a list" where
  "listed xs = (case xs of None \<Rightarrow> [] | Some ys \<Rightarrow> ys)"

definition copy_strings :: "slice \<Rightarrow> 'x heap \<Rightarrow> slice \<times> 'x heap" where
  "copy_strings = copy_slice strings_in Strings [] plain"

definition strings_cells :: "'x heap \<Rightarrow> slice \<Rightarrow> ref set" where
  "strings_cells = slice_cells strings_in no_cells"

definition strings_value :: "'x heap \<Rightarrow> slice \<Rightarrow> string list" where
  "strings_value = slice_value strings_in (\<lambda>h x. x)"

lemma copies_string_slice: "copies strings_cells strings_value copy_strings"
  unfolding strings_cells_def strings_value_def copy_strings_def
  by (rule copies_slice [OF copies_strings]) simp

definition Binary_DeepCopyInto :: "mBinary \<Rightarrow> 'x heap \<Rightarrow> mBinary \<times> 'x heap" where
  "Binary_DeepCopyInto b h =
     (let (args, h1) = nilable copy_strings (mb_Args b) h;
          (env, h2) = nilable copy_strings (mb_Env b) h1;
          (deps, h3) = nilable copy_strings (mb_Dependencies b) h2
      in (b\<lparr>mb_Args := args, mb_Env := env, mb_Dependencies := deps\<rparr>, h3))"

definition Binary_cells :: "'x heap \<Rightarrow> mBinary \<Rightarrow> ref set" where
  "Binary_cells h b =
     cells_opt strings_cells h (mb_Args b) \<union> (cells_opt strings_cells h (mb_Env b) \<union>
     cells_opt strings_cells h (mb_Dependencies b))"

definition Binary_value :: "'x heap \<Rightarrow> mBinary \<Rightarrow> Binary" where
  "Binary_value h b =
     (let strs = (\<lambda>s. listed (map_option (strings_value h) s))
      in \<lparr>bin_Path = mb_Path b, bin_Version = mb_Version b, bin_Checksum = mb_Checksum b,
          bin_Args = strs (mb_Args b), bin_Env = strs (mb_Env b), bin_Dependencies = strs (mb_Dependencies b),
          bin_Permissions = mb_Permissions b, bin_Description = mb_Description b, bin_DownloadURL = mb_DownloadURL b\<rparr>)"

lemma copies_Binary: "copies Binary_cells Binary_value (Binary_DeepCopyInto :: mBinary \<Rightarrow> 'x heap \<Rightarrow> mBinary \<times> 'x heap)"
proof -
  note s = copies_nilable [OF copies_string_slice]
  show ?thesis
    by (rule copies_struct [OF copies_pair [OF s copies_pair [OF s s]],
          where parts = "\<lambda>b. (mb_Args b, mb_Env b, mb_Dependencies b)"
            and put = "\<lambda>(a, e, d) b. b\<lparr>mb_Args := a, mb_Env := e, mb_Dependencies := d\<rparr>"
            and build = "\<lambda>b (a, e, d).
              \<lparr>bin_Path = mb_Path b, bin_Version = mb_Version b, bin_Checksum = mb_Checksum b,
               bin_Args = listed a, bin_Env = listed e, bin_Dependencies = listed d,
               bin_Permissions = mb_Permissions b, bin_Description = mb_Description b, bin_DownloadURL = mb_DownloadURL b\<rparr>"])
      (auto simp: Binary_DeepCopyInto_def Binary_cells_def Binary_value_def then_copy_def Let_def split: prod.splits)
qed

definition Binary_DeepCopy :: "ref option \<Rightarrow> 'x heap \<Rightarrow> ref option \<times> 'x heap" where
  "Binary_DeepCopy = nilable (copy_ptr binary_in BinaryCell zeroBinary Binary_DeepCopyInto)"

section \<open>PluginConfig and KidecarConfig\<close>

definition PluginConfig_DeepCopyInto :: "'x k8s \<Rightarrow> mPluginConfig \<Rightarrow> 'x heap \<Rightarrow> mPluginConfig \<times> 'x heap" where
  "PluginConfig_DeepCopyInto k p h =
     (let (config, h1) = nilable (copy_object (k8s_RawExtension k)) (mp_Config p) h;
          (bin, h2) = nilable (copy_ptr binary_in BinaryCell zeroBinary Binary_DeepCopyInto) (mp_Binary p) h1
      in (p\<lparr>mp_Config := config, mp_Binary := bin\<rparr>, h2))"

definition PluginConfig_cells :: "'x k8s \<Rightarrow> 'x heap \<Rightarrow> mPluginConfig \<Rightarrow> ref set" where
  "PluginConfig_cells k h p =
     cells_opt (object_cells (k8s_RawExtension k)) h (mp_Config p) \<union>
     cells_opt (ptr_cells binary_in Binary_cells) h (mp_Binary p)"

definition PluginConfig_value :: "'x k8s \<Rightarrow> 'x heap \<Rightarrow> mPluginConfig \<Rightarrow> PluginConfig" where
  "PluginConfig_value k h p =
     \<lparr>pc_Name = mp_Name p, pc_Config = map_option (object_value (k8s_RawExtension k) h) (mp_Config p),
      pc_Binary = map_option (ptr_value binary_in Binary_value h) (mp_Binary p), pc_BootOrder = mp_BootOrder p\<rparr>"

lemma copies_PluginConfig:
  assumes "external_copies (k8s_RawExtension k)"
  shows "copies (PluginConfig_cells k) (PluginConfig_value k) (PluginConfig_DeepCopyInto k)"
proof -
  have b: "copies (ptr_cells binary_in Binary_cells) (ptr_value binary_in Binary_value)
      (copy_ptr binary_in BinaryCell zeroBinary Binary_DeepCopyInto)"
    by (rule copies_ptr [OF copies_Binary]) simp
  show ?thesis
    by (rule copies_struct [OF copies_pair [OF copies_nilable [OF copies_object [OF assms]] copies_nilable [OF b]],
          where parts = "\<lambda>p. (mp_Config p, mp_Binary p)"
            and put = "\<lambda>(c, b) p. p\<lparr>mp_Config := c, mp_Binary := b\<rparr>"
            and build = "\<lambda>p (c, b). \<lparr>pc_Name = mp_Name p, pc_Config = c, pc_Binary = b, pc_BootOrder = mp_BootOrder p\<rparr>"])
      (auto simp: PluginConfig_DeepCopyInto_def PluginConfig_cells_def PluginConfig_value_def then_copy_def Let_def
        split: prod.splits)
qed

definition PluginConfig_DeepCopy :: "'x k8s \<Rightarrow> ref option \<Rightarrow> 'x heap \<Rightarrow> ref option \<times> 'x heap" where
  "PluginConfig_DeepCopy k = nilable (copy_ptr plugin_in PluginCell zeroPluginConfig (PluginConfig_DeepCopyInto k))"

definition copy_plugins :: "'x k8s \<Rightarrow> slice \<Rightarrow> 'x heap \<Rightarrow> slice \<times> 'x heap" where
  "copy_plugins k = copy_slice plugins_in Plugins zeroPluginConfig (PluginConfig_DeepCopyInto k)"

definition copy_resources :: "ref \<Rightarrow> 'x heap \<Rightarrow> ref \<times> 'x heap" where
  "copy_resources = copy_ptr map_in StringMap [] copy_map"

definition KidecarConfig_DeepCopyInto :: "'x k8s \<Rightarrow> mKidecarConfig \<Rightarrow> 'x heap \<Rightarrow> mKidecarConfig \<times> 'x heap" where
  "KidecarConfig_DeepCopyInto k c h =
     (let (ps, h1) = nilable (copy_plugins k) (mk_Plugins c) h;
          (res, h2) = nilable copy_resources (mk_Resources c) h1
      in (c\<lparr>mk_Plugins := ps, mk_Resources := res\<rparr>, h2))"

definition KidecarConfig_cells :: "'x k8s \<Rightarrow> 'x heap \<Rightarrow> mKidecarConfig \<Rightarrow> ref set" where
  "KidecarConfig_cells k h c =
     cells_opt (slice_cells plugins_in (PluginConfig_cells k)) h (mk_Plugins c) \<union>
     cells_opt (ptr_cells map_in no_cells) h (mk_Resources c)"

definition KidecarConfig_value :: "'x k8s \<Rightarrow> 'x heap \<Rightarrow> mKidecarConfig \<Rightarrow> KidecarConfig" where
  "KidecarConfig_value k h c =
     \<lparr>kc_Plugins = listed (map_option (slice_value plugins_in (PluginConfig_value k) h) (mk_Plugins c)),
      kc_RestartPolicy = mk_RestartPolicy c,
      kc_Resources = map_option (ptr_value map_in map_value h) (mk_Resources c),
      kc_SidecarStartOrder = mk_SidecarStartOrder c\<rparr>"

lemma copies_KidecarConfig:
  assumes "external_copies (k8s_RawExtension k)"
  shows "copies (KidecarConfig_cells k) (KidecarConfig_value k) (KidecarConfig_DeepCopyInto k)"
proof -
  have ps: "copies (slice_cells plugins_in (PluginConfig_cells k)) (slice_value plugins_in (PluginConfig_value k)) (copy_plugins k)"
    unfolding copy_plugins_def by (rule copies_slice [OF copies_PluginConfig [OF assms]]) simp
  have res: "copies (ptr_cells map_in no_cells) (ptr_value map_in map_value) copy_resources"
    unfolding copy_resources_def by (rule copies_ptr [OF copies_map]) simp
  show ?thesis
    by (rule copies_struct [OF copies_pair [OF copies_nilable [OF ps] copies_nilable [OF res]],
          where parts = "\<lambda>c. (mk_Plugins c, mk_Resources c)"
            and put = "\<lambda>(p, r) c. c\<lparr>mk_Plugins := p, mk_Resources := r\<rparr>"
            and build = "\<lambda>c (p, r). \<lparr>kc_Plugins = listed p, kc_RestartPolicy = mk_RestartPolicy c,
              kc_Resources = r, kc_SidecarStartOrder = mk_SidecarStartOrder c\<rparr>"])
      (auto simp: KidecarConfig_DeepCopyInto_def KidecarConfig_cells_def KidecarConfig_value_def then_copy_def Let_def
        split: prod.splits)
qed

definition KidecarConfig_DeepCopy :: "'x k8s \<Rightarrow> ref option \<Rightarrow> 'x heap \<Rightarrow> ref option \<times> 'x heap" where
  "KidecarConfig_DeepCopy k = nilable (copy_ptr kidecar_in KidecarCell zeroKidecarConfig (KidecarConfig_DeepCopyInto k))"

section \<open>InjectConfig\<close>

definition copy_bool :: "ref \<Rightarrow> 'x heap \<Rightarrow> ref \<times> 'x heap" where
  "copy_bool = copy_ptr bool_in BoolCell False plain"

definition InjectConfig_DeepCopyInto :: "'x k8s \<Rightarrow> mInjectConfig \<Rightarrow> 'x heap \<Rightarrow> mInjectConfig \<times> 'x heap" where
  "InjectConfig_DeepCopyInto k c h =
     (let (sel, h1) = nilable (copy_object (k8s_LabelSelector k)) (mi_Selector c) h;
          (nssel, h2) = nilable (copy_object (k8s_LabelSelector k)) (mi_NamespaceSelector c) h1;
          (inits, h3) = nilable (copy_objects (k8s_Container k)) (mi_InitContainers c) h2;
          (cs, h4) = nilable (copy_objects (k8s_Container k)) (mi_Containers c) h3;
          (vs, h5) = nilable (copy_objects (k8s_Volume k)) (mi_Volumes c) h4;
          (ms, h6) = nilable (copy_objects (k8s_VolumeMount k)) (mi_VolumeMounts c) h5;
          (frc, h7) = nilable copy_bool (mi_ForceInjectServiceAccount c) h6;
          (share, h8) = nilable copy_bool (mi_ShareProcessNamespace c) h7
      in (c\<lparr>mi_Selector := sel, mi_NamespaceSelector := nssel, mi_InitContainers := inits, mi_Containers := cs,
            mi_Volumes := vs, mi_VolumeMounts := ms, mi_ForceInjectServiceAccount := frc,
            mi_ShareProcessNamespace := share\<rparr>, h8))"

definition InjectConfig_cells :: "'x k8s \<Rightarrow> 'x heap \<Rightarrow> mInjectConfig \<Rightarrow> ref set" where
  "InjectConfig_cells k h c =
     cells_opt (object_cells (k8s_LabelSelector k)) h (mi_Selector c) \<union>
     (cells_opt (object_cells (k8s_LabelSelector k)) h (mi_NamespaceSelector c) \<union>
     (cells_opt (objects_cells (k8s_Container k)) h (mi_InitContainers c) \<union>
     (cells_opt (objects_cells (k8s_Container k)) h (mi_Containers c) \<union>
     (cells_opt (objects_cells (k8s_Volume k)) h (mi_Volumes c) \<union>
     (cells_opt (objects_cells (k8s_VolumeMount k)) h (mi_VolumeMounts c) \<union>
     (cells_opt (ptr_cells bool_in no_cells) h (mi_ForceInjectServiceAccount c) \<union>
      cells_opt (ptr_cells bool_in no_cells) h (mi_ShareProcessNamespace c)))))))"

definition InjectConfig_value :: "'x k8s \<Rightarrow> 'x heap \<Rightarrow> mInjectConfig \<Rightarrow> InjectConfig" where
  "InjectConfig_value k h c =
     \<lparr>inj_Selector = map_option (object_value (k8s_LabelSelector k) h) (mi_Selector c),
      inj_InjectKidecar = mi_InjectKidecar c, inj_UseKubeNativeSidecar = mi_UseKubeNativeSidecar c,
      inj_Namespace = mi_Namespace c,
      inj_NamespaceSelector = map_option (object_value (k8s_LabelSelector k) h) (mi_NamespaceSelector c),
      inj_InitContainers = listed (map_option (objects_value (k8s_Container k) h) (mi_InitContainers c)),
      inj_Containers = listed (map_option (objects_value (k8s_Container k) h) (mi_Containers c)),
      inj_Volumes = listed (map_option (objects_value (k8s_Volume k) h) (mi_Volumes c)),
      inj_VolumeMounts = listed (map_option (objects_value (k8s_VolumeMount k) h) (mi_VolumeMounts c)),
      inj_ForceInjectServiceAccount = map_option (ptr_value bool_in (\<lambda>h x. x) h) (mi_ForceInjectServiceAccount c),
      inj_ServiceAccountName = mi_ServiceAccountName c,
      inj_ShareProcessNamespace = map_option (ptr_value bool_in (\<lambda>h x. x) h) (mi_ShareProcessNamespace c)\<rparr>"

lemma copies_InjectConfig:
  assumes "k8s_copies k"
  shows "copies (InjectConfig_cells k) (InjectConfig_value k) (InjectConfig_DeepCopyInto k)"
proof -
  have "external_copies (k8s_LabelSelector k)" "external_copies (k8s_Container k)" "external_copies (k8s_Volume k)"
    "external_copies (k8s_VolumeMount k)" using assms by (simp_all add: k8s_copies_def)
  note ext = this(1) [THEN copies_object, THEN copies_nilable] this(2-4) [THEN copies_objects, THEN copies_nilable]
  have "copies (ptr_cells bool_in no_cells) (ptr_value bool_in (\<lambda>h x. x)) copy_bool"
    unfolding copy_bool_def by (rule copies_ptr [OF copies_strings]) simp
  note bool = copies_nilable [OF this]
  note all = copies_pair [OF ext(1) copies_pair [OF ext(1) copies_pair [OF ext(2) copies_pair [OF ext(2)
      copies_pair [OF ext(3) copies_pair [OF ext(4) copies_pair [OF bool bool]]]]]]]
  show ?thesis
    by (rule copies_struct [OF all,
          where parts = "\<lambda>c. (mi_Selector c, mi_NamespaceSelector c, mi_InitContainers c, mi_Containers c, mi_Volumes c,
              mi_VolumeMounts c, mi_ForceInjectServiceAccount c, mi_ShareProcessNamespace c)"
            and put = "\<lambda>(a, b, i, cs, v, m, f, s) c. c\<lparr>mi_Selector := a, mi_NamespaceSelector := b, mi_InitContainers := i,
              mi_Containers := cs, mi_Volumes := v, mi_VolumeMounts := m, mi_ForceInjectServiceAccount := f,
              mi_ShareProcessNamespace := s\<rparr>"
            and build = "\<lambda>c (a, b, i, cs, v, m, f, s).
              \<lparr>inj_Selector = a, inj_InjectKidecar = mi_InjectKidecar c,
               inj_UseKubeNativeSidecar = mi_UseKubeNativeSidecar c, inj_Namespace = mi_Namespace c,
               inj_NamespaceSelector = b, inj_InitContainers = listed i, inj_Containers = listed cs,
               inj_Volumes = listed v, inj_VolumeMounts = listed m, inj_ForceInjectServiceAccount = f,
               inj_ServiceAccountName = mi_ServiceAccountName c, inj_ShareProcessNamespace = s\<rparr>"])
      (simp_all add: InjectConfig_DeepCopyInto_def InjectConfig_cells_def InjectConfig_value_def then_copy_def Let_def
        split: prod.splits)
qed

definition InjectConfig_DeepCopy :: "'x k8s \<Rightarrow> ref option \<Rightarrow> 'x heap \<Rightarrow> ref option \<times> 'x heap" where
  "InjectConfig_DeepCopy k = nilable (copy_ptr inject_in InjectCell zeroInjectConfig (InjectConfig_DeepCopyInto k))"

section \<open>The resource and its list\<close>

definition Spec_DeepCopyInto :: "'x k8s \<Rightarrow> mSidecarConfigSpec \<Rightarrow> 'x heap \<Rightarrow> mSidecarConfigSpec \<times> 'x heap" where
  "Spec_DeepCopyInto k s h =
     (let (inj, h1) = InjectConfig_DeepCopyInto k (ms_Injection s) h;
          (kc, h2) = KidecarConfig_DeepCopyInto k (ms_Kidecar s) h1
      in (s\<lparr>ms_Injection := inj, ms_Kidecar := kc\<rparr>, h2))"

definition Spec_cells :: "'x k8s \<Rightarrow> 'x heap \<Rightarrow> mSidecarConfigSpec \<Rightarrow> ref set" where
  "Spec_cells k h s = InjectConfig_cells k h (ms_Injection s) \<union> KidecarConfig_cells k h (ms_Kidecar s)"

definition Spec_value :: "'x k8s \<Rightarrow> 'x heap \<Rightarrow> mSidecarConfigSpec \<Rightarrow> SidecarConfigSpec" where
  "Spec_value k h s =
     \<lparr>spec_Injection = InjectConfig_value k h (ms_Injection s), spec_Kidecar = KidecarConfig_value k h (ms_Kidecar s)\<rparr>"

lemma k8s_RawExtension_copies: "k8s_copies k \<Longrightarrow> external_copies (k8s_RawExtension k)"
  by (simp add: k8s_copies_def)

lemma copies_Spec:
  assumes "k8s_copies k"
  shows "copies (Spec_cells k) (Spec_value k) (Spec_DeepCopyInto k)"
  by (rule copies_struct [OF copies_pair [OF copies_InjectConfig [OF assms] copies_KidecarConfig [OF k8s_RawExtension_copies [OF assms]]],
        where parts = "\<lambda>s. (ms_Injection s, ms_Kidecar s)"
          and put = "\<lambda>(i, c) s. s\<lparr>ms_Injection := i, ms_Kidecar := c\<rparr>"
          and build = "\<lambda>s (i, c). \<lparr>spec_Injection = i, spec_Kidecar = c\<rparr>"])
    (auto simp: Spec_DeepCopyInto_def Spec_cells_def Spec_value_def then_copy_def Let_def split: prod.splits)

definition Spec_DeepCopy :: "'x k8s \<Rightarrow> ref option \<Rightarrow> 'x heap \<Rightarrow> ref option \<times> 'x heap" where
  "Spec_DeepCopy k = nilable (copy_ptr spec_in SpecCell zeroSpec (Spec_DeepCopyInto k))"

definition Status_DeepCopyInto :: "SidecarConfigStatus \<Rightarrow> 'x heap \<Rightarrow> SidecarConfigStatus \<times> 'x heap" where
  "Status_DeepCopyInto s h = (s, h)"

definition Status_DeepCopy :: "ref option \<Rightarrow> 'x heap \<Rightarrow> ref option \<times> 'x heap" where
  "Status_DeepCopy = nilable (copy_ptr status_in StatusCell zeroStatus Status_DeepCopyInto)"

definition SidecarConfig_DeepCopyInto :: "'x k8s \<Rightarrow> 'x mSidecarConfig \<Rightarrow> 'x heap \<Rightarrow> 'x mSidecarConfig \<times> 'x heap"
  where
  "SidecarConfig_DeepCopyInto k c h =
     (let (meta, h1) = ex_DeepCopyInto (k8s_ObjectMeta k) (mc_ObjectMeta c) h;
          (spec, h2) = Spec_DeepCopyInto k (mc_Spec c) h1
      in (c\<lparr>mc_ObjectMeta := meta, mc_Spec := spec\<rparr>, h2))"

definition SidecarConfig_cells :: "'x k8s \<Rightarrow> 'x heap \<Rightarrow> 'x mSidecarConfig \<Rightarrow> ref set" where
  "SidecarConfig_cells k h c = ex_cells (k8s_ObjectMeta k) h (mc_ObjectMeta c) \<union> Spec_cells k h (mc_Spec c)"

text \<open>The value keeps the type's name and version beside the resource.\<close>

definition SidecarConfig_value :: "'x k8s \<Rightarrow> 'x heap \<Rightarrow> 'x mSidecarConfig \<Rightarrow> (string \<times> string) \<times> SidecarConfig" where
  "SidecarConfig_value k h c =
     (case ex_value (k8s_ObjectMeta k) h (mc_ObjectMeta c) of (name, ns, annotations) \<Rightarrow>
       (mc_TypeMeta c,
        \<lparr>sc_Name = name, sc_Namespace = ns, sc_Annotations = annotations,
         sc_Spec = Spec_value k h (mc_Spec c), sc_Status = mc_Status c\<rparr>))"

lemma copies_SidecarConfig:
  assumes "k8s_copies k"
  shows "copies (SidecarConfig_cells k) (SidecarConfig_value k) (SidecarConfig_DeepCopyInto k)"
proof -
  have meta: "copies (ex_cells (k8s_ObjectMeta k)) (ex_value (k8s_ObjectMeta k)) (ex_DeepCopyInto (k8s_ObjectMeta k))"
    using assms by (simp add: k8s_copies_def external_copies_def)
  show ?thesis
    by (rule copies_struct [OF copies_pair [OF meta copies_Spec [OF assms]],
          where parts = "\<lambda>c. (mc_ObjectMeta c, mc_Spec c)"
            and put = "\<lambda>(m, s) c. c\<lparr>mc_ObjectMeta := m, mc_Spec := s\<rparr>"
            and build = "\<lambda>c ((name, ns, annotations), s).
              (mc_TypeMeta c,
               \<lparr>sc_Name = name, sc_Namespace = ns, sc_Annotations = annotations, sc_Spec = s, sc_Status = mc_Status c\<rparr>)"])
      (auto simp: SidecarConfig_DeepCopyInto_def SidecarConfig_cells_def SidecarConfig_value_def then_copy_def Let_def
        split: prod.splits)
qed

definition copy_config :: "'x k8s \<Rightarrow> ref \<Rightarrow> 'x heap \<Rightarrow> ref \<times> 'x heap" where
  "copy_config k =
     (let z = ex_zero (k8s_ObjectMeta k)
      in copy_ptr (config_in z) ConfigCell (zeroSidecarConfig z) (SidecarConfig_DeepCopyInto k))"

definition SidecarConfig_DeepCopy :: "'x k8s \<Rightarrow> ref option \<Rightarrow> 'x heap \<Rightarrow> ref option \<times> 'x heap" where
  "SidecarConfig_DeepCopy k = nilable (copy_config k)"

text \<open>A nil pointer becomes a nil interface, not an interface that holds a nil pointer.\<close>

definition SidecarConfig_DeepCopyObject :: "'x k8s \<Rightarrow> ref option \<Rightarrow> 'x heap \<Rightarrow> ref option \<times> 'x heap" where
  "SidecarConfig_DeepCopyObject k p h =
     (case SidecarConfig_DeepCopy k p h of (Some c, h') \<Rightarrow> (Some c, h') | (None, h') \<Rightarrow> (None, h'))"

text \<open>What a pointer to a resource reaches and shows.\<close>

definition config_cells :: "'x k8s \<Rightarrow> 'x heap \<Rightarrow> ref \<Rightarrow> ref set" where
  "config_cells k = ptr_cells (config_in (ex_zero (k8s_ObjectMeta k))) (SidecarConfig_cells k)"

definition config_value :: "'x k8s \<Rightarrow> 'x heap \<Rightarrow> ref \<Rightarrow> (string \<times> string) \<times> SidecarConfig" where
  "config_value k = ptr_value (config_in (ex_zero (k8s_ObjectMeta k))) (SidecarConfig_value k)"

lemma copies_config: "k8s_copies k \<Longrightarrow> copies (config_cells k) (config_value k) (copy_config k)"
  unfolding config_cells_def config_value_def copy_config_def Let_def
  by (rule copies_ptr [OF copies_SidecarConfig]) simp_all

record SidecarConfigList =
  scl_TypeMeta :: "string \<times> string"
  scl_ListMeta :: string
  scl_Items :: "((string \<times> string) \<times> SidecarConfig) list"

definition copy_configs :: "'x k8s \<Rightarrow> slice \<Rightarrow> 'x heap \<Rightarrow> slice \<times> 'x heap" where
  "copy_configs k =
     copy_slice configs_in Configs (zeroSidecarConfig (ex_zero (k8s_ObjectMeta k))) (SidecarConfig_DeepCopyInto k)"

definition SidecarConfigList_DeepCopyInto ::
    "'x k8s \<Rightarrow> 'x mSidecarConfigList \<Rightarrow> 'x heap \<Rightarrow> 'x mSidecarConfigList \<times> 'x heap" where
  "SidecarConfigList_DeepCopyInto k l h =
     (let (meta, h1) = ex_DeepCopyInto (k8s_ListMeta k) (ml_ListMeta l) h;
          (items, h2) = nilable (copy_configs k) (ml_Items l) h1
      in (l\<lparr>ml_ListMeta := meta, ml_Items := items\<rparr>, h2))"

definition List_cells :: "'x k8s \<Rightarrow> 'x heap \<Rightarrow> 'x mSidecarConfigList \<Rightarrow> ref set" where
  "List_cells k h l =
     ex_cells (k8s_ListMeta k) h (ml_ListMeta l) \<union>
     cells_opt (slice_cells configs_in (SidecarConfig_cells k)) h (ml_Items l)"

definition List_value :: "'x k8s \<Rightarrow> 'x heap \<Rightarrow> 'x mSidecarConfigList \<Rightarrow> SidecarConfigList" where
  "List_value k h l =
     \<lparr>scl_TypeMeta = ml_TypeMeta l, scl_ListMeta = ex_value (k8s_ListMeta k) h (ml_ListMeta l),
      scl_Items = listed (map_option (slice_value configs_in (SidecarConfig_value k) h) (ml_Items l))\<rparr>"

lemma copies_List:
  assumes "k8s_copies k"
  shows "copies (List_cells k) (List_value k) (SidecarConfigList_DeepCopyInto k)"
proof -
  have meta: "copies (ex_cells (k8s_ListMeta k)) (ex_value (k8s_ListMeta k)) (ex_DeepCopyInto (k8s_ListMeta k))"
    using assms by (simp add: k8s_copies_def external_copies_def)
  have "copies (slice_cells configs_in (SidecarConfig_cells k)) (slice_value configs_in (SidecarConfig_value k)) (copy_configs k)"
    unfolding copy_configs_def by (rule copies_slice [OF copies_SidecarConfig [OF assms]]) simp
  note items = copies_nilable [OF this]
  show ?thesis
    by (rule copies_struct [OF copies_pair [OF meta items],
          where parts = "\<lambda>l. (ml_ListMeta l, ml_Items l)"
            and put = "\<lambda>(m, i) l. l\<lparr>ml_ListMeta := m, ml_Items := i\<rparr>"
            and build = "\<lambda>l (m, i). \<lparr>scl_TypeMeta = ml_TypeMeta l, scl_ListMeta = m, scl_Items = listed i\<rparr>"])
      (auto simp: SidecarConfigList_DeepCopyInto_def List_cells_def List_value_def then_copy_def Let_def split: prod.splits)
qed

definition copy_list :: "'x k8s \<Rightarrow> ref \<Rightarrow> 'x heap \<Rightarrow> ref \<times> 'x heap" where
  "copy_list k =
     (let z = ex_zero (k8s_ListMeta k)
      in copy_ptr (list_in z) ListCell (zeroSidecarConfigList z) (SidecarConfigList_DeepCopyInto k))"

definition SidecarConfigList_DeepCopy :: "'x k8s \<Rightarrow> ref option \<Rightarrow> 'x heap \<Rightarrow> ref option \<times> 'x heap" where
  "SidecarConfigList_DeepCopy k = nilable (copy_list k)"

definition SidecarConfigList_DeepCopyObject :: "'x k8s \<Rightarrow> ref option \<Rightarrow> 'x heap \<Rightarrow> ref option \<times> 'x heap" where
  "SidecarConfigList_DeepCopyObject k p h =
     (case SidecarConfigList_DeepCopy k p h of (Some c, h') \<Rightarrow> (Some c, h') | (None, h') \<Rightarrow> (None, h'))"

definition list_cells :: "'x k8s \<Rightarrow> 'x heap \<Rightarrow> ref \<Rightarrow> ref set" where
  "list_cells k = ptr_cells (list_in (ex_zero (k8s_ListMeta k))) (List_cells k)"

definition list_value :: "'x k8s \<Rightarrow> 'x heap \<Rightarrow> ref \<Rightarrow> SidecarConfigList" where
  "list_value k = ptr_value (list_in (ex_zero (k8s_ListMeta k))) (List_value k)"

lemma copies_list: "k8s_copies k \<Longrightarrow> copies (list_cells k) (list_value k) (copy_list k)"
  unfolding list_cells_def list_value_def copy_list_def Let_def
  by (rule copies_ptr [OF copies_List]) simp_all

section \<open>Properties\<close>

text \<open>
  C6: the deep copy of a resource that does not dangle is a new resource with the same value. The
  cells of the old heap stay as they are, and whatever is written later through one of the two
  leaves the value of the other.
\<close>

theorem DeepCopyObject_isolates:
  assumes "k8s_copies k" and "config_cells k h a \<subseteq> {..<length h}"
    and "SidecarConfig_DeepCopyObject k (Some a) h = (p, h')"
  shows "\<exists>b. p = Some b \<and> config_value k h' b = config_value k h a \<and> take (length h) h' = h \<and>
    (\<forall>g. same_on (- config_cells k h' b) h' g \<longrightarrow> config_value k g a = config_value k h a) \<and>
    (\<forall>g. same_on (- config_cells k h' a) h' g \<longrightarrow> config_value k g b = config_value k h a)"
proof -
  obtain b where b: "copy_config k a h = (b, h')" "p = Some b"
    using assms(3)
    by (auto simp: SidecarConfig_DeepCopyObject_def SidecarConfig_DeepCopy_def nilable_def Let_def split: prod.splits)
  from copies_isolate [OF copies_config [OF assms(1)] assms(2) b(1)] b(2) show ?thesis by blast
qed

lemma list_DeepCopyObject_isolates:
  assumes "k8s_copies k" and "list_cells k h a \<subseteq> {..<length h}"
    and "SidecarConfigList_DeepCopyObject k (Some a) h = (p, h')"
  shows "\<exists>b. p = Some b \<and> list_value k h' b = list_value k h a \<and> take (length h) h' = h \<and>
    (\<forall>g. same_on (- list_cells k h' b) h' g \<longrightarrow> list_value k g a = list_value k h a) \<and>
    (\<forall>g. same_on (- list_cells k h' a) h' g \<longrightarrow> list_value k g b = list_value k h a)"
proof -
  obtain b where b: "copy_list k a h = (b, h')" "p = Some b"
    using assms(3)
    by (auto simp: SidecarConfigList_DeepCopyObject_def SidecarConfigList_DeepCopy_def nilable_def Let_def split: prod.splits)
  from copies_isolate [OF copies_list [OF assms(1)] assms(2) b(1)] b(2) show ?thesis by blast
qed

text \<open>
  A heap with a resource whose one plugin is a program with an argument. Every object of the
  Kubernetes packages is a slice of strings here.
\<close>

definition demo_external :: "(string list \<Rightarrow> 'v) \<Rightarrow> (slice, 'v) external" where
  "demo_external f =
     \<lparr>ex_zero = \<lparr>sl_array = 0, sl_off = 0, sl_len = 0\<rparr>, ex_DeepCopyInto = copy_strings, ex_cells = strings_cells,
      ex_value = (\<lambda>h s. f (strings_value h s))\<rparr>"

definition demo_k8s :: "slice k8s" where
  "demo_k8s =
     \<lparr>k8s_LabelSelector = demo_external (\<lambda>ws. \<lparr>ls_MatchLabels = map (\<lambda>w. (w, w)) ws, ls_MatchExpressions = []\<rparr>),
      k8s_Container = demo_external (\<lambda>ws. \<lparr>c_Name = concat ws, c_Image = [], c_Env = [], c_Ports = [],
        c_VolumeMounts = [], c_RestartPolicy = None, c_rest = []\<rparr>),
      k8s_Volume = demo_external (\<lambda>ws. \<lparr>v_Name = concat ws, v_ConfigMap = None, v_rest = []\<rparr>),
      k8s_VolumeMount = demo_external (\<lambda>ws. \<lparr>vm_Name = concat ws, vm_MountPath = [], vm_rest = []\<rparr>),
      k8s_RawExtension = demo_external concat,
      k8s_ObjectMeta = demo_external (\<lambda>ws. (concat ws, [], None)),
      k8s_ListMeta = demo_external concat\<rparr>"

definition demo_heap :: "slice heap" where
  "demo_heap =
     [Strings [''cfg''], Strings [''--fast'', ''--verbose''],
      BinaryCell (zeroBinary\<lparr>mb_Args := Some \<lparr>sl_array = 1, sl_off = 1, sl_len = 1\<rparr>\<rparr>),
      Plugins [zeroPluginConfig\<lparr>mp_Name := ''sync'', mp_Binary := Some 2\<rparr>],
      ConfigCell
        \<lparr>mc_TypeMeta = (''SidecarConfig'', ''v1alpha1''), mc_ObjectMeta = \<lparr>sl_array = 0, sl_off = 0, sl_len = 1\<rparr>,
         mc_Spec = zeroSpec\<lparr>ms_Kidecar := zeroKidecarConfig\<lparr>mk_Plugins := Some \<lparr>sl_array = 3, sl_off = 0, sl_len = 1\<rparr>\<rparr>\<rparr>,
         mc_Status = zeroStatus\<rparr>]"

lemma demo_external_copies: "external_copies (demo_external f)"
  unfolding external_copies_def
  by (rule copies_struct [OF copies_string_slice, where parts = "\<lambda>x. x" and put = "\<lambda>p x. p" and build = "\<lambda>x. f"])
    (simp_all add: demo_external_def)

lemma demo_k8s_copies: "k8s_copies demo_k8s"
  by (simp add: k8s_copies_def demo_k8s_def demo_external_copies)

lemma demo_cells: "config_cells demo_k8s demo_heap 4 = {0, 1, 2, 3, 4}"
  by (auto simp: config_cells_def ptr_cells_def cells_at_def SidecarConfig_cells_def Spec_cells_def InjectConfig_cells_def
      KidecarConfig_cells_def PluginConfig_cells_def Binary_cells_def strings_cells_def slice_cells_def cells_list_def
      cells_opt_def no_cells_def window_def hget_def demo_heap_def demo_k8s_def demo_external_def zeroSpec_def
      zeroInjectConfig_def zeroKidecarConfig_def zeroPluginConfig_def zeroBinary_def)

theorem DeepCopyObject_isolates_witness:
  "\<exists>b h'. SidecarConfig_DeepCopyObject demo_k8s (Some 4) demo_heap = (Some b, h') \<and>
     config_value demo_k8s h' b = config_value demo_k8s demo_heap 4 \<and> take 5 h' = demo_heap"
proof -
  obtain p h' where run: "SidecarConfig_DeepCopyObject demo_k8s (Some 4) demo_heap = (p, h')" by (metis surj_pair)
  have five: "length demo_heap = 5" by (simp add: demo_heap_def)
  have "config_cells demo_k8s demo_heap 4 \<subseteq> {..<length demo_heap}" unfolding demo_cells five by auto
  from DeepCopyObject_isolates [OF demo_k8s_copies this run] run five show ?thesis by auto
qed

end
