(* ===== verification/KcJson.thy ===== *)
theory KcJson imports KcStrings KcTypes "HOL-Library.Char_ord" "HOL-Library.List_Lexorder" begin

text \<open>
  \<^verbatim>\<open>encoding/json\<close>, as far as the sidecar uses it: decoding a JSON value into a Go value whose struct
  fields carry \<^verbatim>\<open>json\<close> tags. A decoder takes the JSON value and what the Go variable holds, because
  decoding merges: \<^verbatim>\<open>null\<close>, unknown keys and missing keys leave it alone.
\<close>

section \<open>Decoders\<close>

type_synonym 'a dec = "json \<Rightarrow> 'a \<Rightarrow> 'a go"

text \<open>
  A value of the wrong type. The Go decoder goes on to the end of the document and then reports the
  first such error; the caller drops the variable in either case.
\<close>

definition mismatch :: "'a go" where
  "mismatch = Fail (LibErr ''json: cannot unmarshal value into Go value'')"

definition dec_string :: "string dec" where
  "dec_string j cur = (case j of JNull \<Rightarrow> Ret cur | JString s \<Rightarrow> Ret s | _ \<Rightarrow> mismatch)"

definition dec_bool :: "bool dec" where
  "dec_bool j cur = (case j of JNull \<Rightarrow> Ret cur | JBool b \<Rightarrow> Ret b | _ \<Rightarrow> mismatch)"

text \<open>An \<^verbatim>\<open>int\<close> takes a number whose literal is an integer of 64 bits: no fraction, no exponent.\<close>

definition dec_int :: "int dec" where
  "dec_int j cur =
     (case j of
        JNull \<Rightarrow> Ret cur
      | JNumber lit \<Rightarrow> (case Atoi lit of Ret n \<Rightarrow> Ret n | _ \<Rightarrow> mismatch)
      | _ \<Rightarrow> mismatch)"

definition dec_ptr :: "'a \<Rightarrow> 'a dec \<Rightarrow> 'a option dec" where
  "dec_ptr zero d j cur =
     (case j of
        JNull \<Rightarrow> Ret None
      | _ \<Rightarrow> tryG (d j (case cur of None \<Rightarrow> zero | Some x \<Rightarrow> x)) id (\<lambda>x. Ret (Some x)))"

text \<open>The elements a slice has already are decoded into; further ones start from the zero value.\<close>

fun dec_elems :: "'a \<Rightarrow> 'a dec \<Rightarrow> json list \<Rightarrow> 'a list \<Rightarrow> 'a list go" where
  "dec_elems zero d [] cur = Ret []"
| "dec_elems zero d (j # js) cur =
     tryG (d j (case cur of [] \<Rightarrow> zero | x # xs \<Rightarrow> x)) id (\<lambda>y.
     tryG (dec_elems zero d js (case cur of [] \<Rightarrow> [] | x # xs \<Rightarrow> xs)) id (\<lambda>ys. Ret (y # ys)))"

definition dec_slice :: "'a \<Rightarrow> 'a dec \<Rightarrow> 'a list dec" where
  "dec_slice zero d j cur =
     (case j of JNull \<Rightarrow> Ret [] | JArray js \<Rightarrow> dec_elems zero d js cur | _ \<Rightarrow> mismatch)"

text \<open>A map of strings: made when nil, an entry for each key.\<close>

fun dec_entries :: "(string \<times> json) list \<Rightarrow> (string \<times> string) list \<Rightarrow> (string \<times> string) list go" where
  "dec_entries [] m = Ret m"
| "dec_entries ((k, j) # es) m = tryG (dec_string j []) id (\<lambda>v. dec_entries es (AList.update k v m))"

definition dec_map :: "(string, string) gomap dec" where
  "dec_map j cur =
     (case j of
        JNull \<Rightarrow> Ret None
      | JObject es \<Rightarrow> tryG (dec_entries es (grange cur)) id (\<lambda>m. Ret (Some m))
      | _ \<Rightarrow> mismatch)"

section \<open>Structs\<close>

text \<open>
  Keys are compared after folding: ASCII letters to upper case, and the two other letters that fold
  to ASCII ones, the long s and the Kelvin sign, here as their UTF-8 bytes.
\<close>

definition upper :: "char \<Rightarrow> char" where
  "upper c = (if 97 \<le> (of_char c :: nat) \<and> (of_char c :: nat) \<le> 122 then char_of (of_char c - 32 :: nat) else c)"

fun fold_name :: "string \<Rightarrow> string" where
  "fold_name [] = []"
| "fold_name (c # s) =
     (if c = CHR 0xC5 \<and> (case s of d # t \<Rightarrow> d = CHR 0xBF | [] \<Rightarrow> False) then CHR ''S'' # fold_name (tl s)
      else if c = CHR 0xE2 \<and> (case s of d # e # t \<Rightarrow> d = CHR 0x84 \<and> e = CHR 0xAA | _ \<Rightarrow> False)
      then CHR ''K'' # fold_name (tl (tl s))
      else upper c # fold_name s)"

text \<open>The field of a key: the one with exactly that name, or else the first that folds to the same.\<close>

definition field_for :: "(string \<times> 'a dec) list \<Rightarrow> string \<Rightarrow> 'a dec option" where
  "field_for fds k =
     (case map_of fds k of
        Some d \<Rightarrow> Some d
      | None \<Rightarrow> map_of (map (\<lambda>(n, d). (fold_name n, d)) fds) (fold_name k))"

fun dec_members :: "(string \<times> 'a dec) list \<Rightarrow> (string \<times> json) list \<Rightarrow> 'a \<Rightarrow> 'a go" where
  "dec_members fds [] cur = Ret cur"
| "dec_members fds ((k, j) # es) cur =
     (case field_for fds k of
        None \<Rightarrow> dec_members fds es cur
      | Some d \<Rightarrow> tryG (d j cur) id (dec_members fds es))"

definition dec_struct :: "(string \<times> 'a dec) list \<Rightarrow> 'a dec" where
  "dec_struct fds j cur =
     (case j of JNull \<Rightarrow> Ret cur | JObject es \<Rightarrow> dec_members fds es cur | _ \<Rightarrow> mismatch)"

text \<open>The decoder of one field of a struct.\<close>

definition fld :: "('r \<Rightarrow> 'a) \<Rightarrow> (('a \<Rightarrow> 'a) \<Rightarrow> 'r \<Rightarrow> 'r) \<Rightarrow> 'a dec \<Rightarrow> 'r dec" where
  "fld get put d j r = tryG (d j (get r)) id (\<lambda>x. Ret (put (\<lambda>_. x) r))"

section \<open>Unknown keys\<close>

text \<open>A key no field answers to has no effect, wherever it stands and whatever its value.\<close>

lemma dec_members_append:
  "dec_members fds (es @ fs) cur = tryG (dec_members fds es cur) id (dec_members fds fs)"
proof (induction fds es cur rule: dec_members.induct)
  case (2 fds k j es cur)
  then show ?case by (cases "field_for fds k"; cases "the (field_for fds k) j cur") simp_all
qed simp

lemma unknown_key_ignored:
  assumes "field_for fds k = None"
  shows "dec_struct fds (JObject (es @ (k, j) # fs)) cur = dec_struct fds (JObject (es @ fs)) cur"
  using assms by (cases "dec_members fds es cur") (simp_all add: dec_struct_def dec_members_append)

section \<open>What comes back after encoding\<close>

text \<open>\<^verbatim>\<open>json.Marshal\<close> of a map sorts its keys, on every level.\<close>

fun canonical :: "json \<Rightarrow> json" where
  "canonical (JArray js) = JArray (map canonical js)"
| "canonical (JObject es) = JObject (sort_key fst (map (\<lambda>(k, j). (k, canonical j)) es))"
| "canonical j = j"

record json_text =
  jt_Marshal :: "(string, json) gomap \<Rightarrow> string go"
  jt_Parse :: "string \<Rightarrow> json go"

text \<open>The text in between is read as what was written.\<close>

definition json_text_ok :: "json_text \<Rightarrow> bool" where
  "json_text_ok jt \<longleftrightarrow>
     (\<forall>m s. jt_Marshal jt m = Ret s \<longrightarrow>
        jt_Parse jt s = Ret (case m of None \<Rightarrow> JNull | Some es \<Rightarrow> canonical (JObject es)))"

section \<open>Encoders, for the round trips\<close>

fun digits :: "nat \<Rightarrow> string" where
  "digits n = (if n < 10 then [char_of (48 + n)] else digits (n div 10) @ [char_of (48 + n mod 10)])"

declare digits.simps [simp del]

definition enc_int :: "int \<Rightarrow> json" where
  "enc_int n = JNumber (if n < 0 then CHR ''-'' # digits (nat (- n)) else digits (nat n))"

definition is_int64 :: "int \<Rightarrow> bool" where
  "is_int64 n \<longleftrightarrow> - (2 ^ 63) \<le> n \<and> n < 2 ^ 63"

lemma digit_char:
  assumes "n < 10"
  shows "is_digit (char_of (48 + n)) \<and> (of_char (char_of (48 + n :: nat)) :: int) - 48 = int n"
proof -
  have "(of_char (char_of (48 + n :: nat)) :: nat) = 48 + n" using assms by simp
  then have "(of_char (char_of (48 + n :: nat)) :: int) = int (48 + n)" by (metis of_nat_of_char)
  then show ?thesis using assms by (simp add: is_digit_def)
qed

lemma digits_ok: "digits n \<noteq> [] \<and> list_all is_digit (digits n) \<and> digits_value (digits n) = int n"
proof (induction n rule: digits.induct)
  case (1 n)
  show ?case
  proof (cases "n < 10")
    case True
    then show ?thesis using digit_char [OF True] by (subst (1 2 3) digits.simps) (simp add: digits_value_def)
  next
    case False
    have "n mod 10 < 10" by simp
    moreover have "10 * int (n div 10) + int (n mod 10) = int n" by presburger
    ultimately show ?thesis
      using False 1 [OF False] digit_char [of "n mod 10"]
      by (subst (1 2 3) digits.simps) (simp add: digits_value_def)
  qed
qed

lemma dec_enc_int: "is_int64 n \<Longrightarrow> dec_int (enc_int n) cur = Ret n"
proof -
  assume n: "is_int64 n"
  have sign: "\<not> is_digit CHR ''-''" "\<not> is_digit CHR ''+''" by (simp_all add: is_digit_def)
  have atoi: "atoi_digits (digits m) = Some (int m)" for m using digits_ok [of m] by (simp add: atoi_digits_def)
  show ?thesis
  proof (cases "n < 0")
    case True
    with n atoi [of "nat (- n)"] show ?thesis
      by (simp add: dec_int_def enc_int_def Atoi_def is_int64_def)
  next
    case False
    obtain c ds where ds: "digits (nat n) = c # ds" using digits_ok [of "nat n"] by (cases "digits (nat n)") auto
    then have "is_digit c" using digits_ok [of "nat n"] by simp
    with sign have "c \<noteq> CHR ''-''" "c \<noteq> CHR ''+''" by auto
    with False n ds atoi [of "nat n"] show ?thesis
      by (simp add: dec_int_def enc_int_def Atoi_def is_int64_def)
  qed
qed

text \<open>What an \<^verbatim>\<open>int\<close> takes has 64 bits.\<close>

lemma dec_int_bounded: "dec_int j cur = Ret n \<Longrightarrow> is_int64 cur \<Longrightarrow> is_int64 n"
  by (auto simp: dec_int_def mismatch_def Atoi_def is_int64_def Let_def split: json.splits go.splits option.splits if_splits)

lemma dec_enc_string: "dec_string (JString s) cur = Ret s"
  by (simp add: dec_string_def)

lemma dec_enc_elems:
  "(\<And>x. x \<in> set xs \<Longrightarrow> d (e x) zero = Ret x) \<Longrightarrow> dec_elems zero d (map e xs) [] = Ret xs"
  by (induction xs) simp_all

definition enc_map :: "(string, string) gomap \<Rightarrow> json" where
  "enc_map m = (case m of None \<Rightarrow> JNull | Some es \<Rightarrow> JObject (map (\<lambda>(k, v). (k, JString v)) es))"

lemma dec_enc_entries: "dec_entries (map (\<lambda>(k, v). (k, JString v)) es) m = Ret (copy_into es m)"
  by (induction es arbitrary: m) (auto simp: dec_string_def)

lemma dec_enc_map: "gmap_ok m \<Longrightarrow> dec_map (enc_map m) None = Ret m"
  by (cases m) (simp_all add: dec_map_def enc_map_def dec_enc_entries copy_into_fresh gmap_ok_def)

definition enc_ptr :: "('a \<Rightarrow> json) \<Rightarrow> 'a option \<Rightarrow> json" where
  "enc_ptr e p = (case p of None \<Rightarrow> JNull | Some x \<Rightarrow> e x)"

text \<open>
  A type that can be written: what is written is no \<^verbatim>\<open>null\<close>, and reading it into the zero value gives
  back the values that are \<open>ok\<close>. Pointers to the type and slices of it can be written too.
\<close>

locale codec =
  fixes dec :: "'a dec" and enc :: "'a \<Rightarrow> json" and zero :: 'a and ok :: "'a \<Rightarrow> bool"
  assumes reads: "ok x \<Longrightarrow> dec (enc x) zero = Ret x" and not_null: "enc x \<noteq> JNull"
begin

lemma ptr: "pred_option ok p \<Longrightarrow> dec_ptr zero dec (enc_ptr enc p) None = Ret p"
proof (cases p)
  case (Some x)
  moreover assume "pred_option ok p"
  ultimately show ?thesis using reads [of x] not_null [of x]
    by (cases "enc x") (auto simp: dec_ptr_def enc_ptr_def)
qed (simp add: dec_ptr_def enc_ptr_def)

lemma slice: "list_all ok xs \<Longrightarrow> dec_slice zero dec (JArray (map enc xs)) [] = Ret xs"
  by (simp add: dec_slice_def dec_enc_elems reads list_all_iff)

end

interpretation str: codec dec_string JString "[]" "\<lambda>_. True"
  by unfold_locales (simp_all add: dec_enc_string)

lemma dec_struct_members: "dec_struct fds (JObject es) cur = dec_members fds es cur"
  by (simp add: dec_struct_def)

end
