(* ===== verification/KcDecode.thy ===== *)
theory KcDecode imports KcJson KcMain begin

text \<open>
  The configuration types of the two built-in plugins as \<^verbatim>\<open>encoding/json\<close> sees them: the \<^verbatim>\<open>json\<close> tags of
  pkg/plugins/http_probe/config.go, pkg/plugins/hot_update/plugin.go and pkg/store/config.go. With
  them the conversion in \<^verbatim>\<open>AddPlugin\<close> is defined all the way from the resource's JSON object to the
  configuration the plugin runs with.
\<close>

section \<open>Zero values\<close>

definition zeroTarget :: TargetKubeObject where
  "zeroTarget =
     \<lparr>tg_Group = [], tg_Version = [], tg_Resource = [], tg_Namespace = [], tg_Name = [], tg_PodOwner = False\<rparr>"

definition zeroPolicy :: ProbeMarkerPolicy where
  "zeroPolicy = \<lparr>pol_State = [], pol_Labels = None, pol_Annotations = None\<rparr>"

definition zeroInKube :: InKubeConfig where
  "zeroInKube =
     \<lparr>ik_Target = None, ik_JsonPath = None, ik_AnnotationKey = None, ik_LabelKey = None, ik_MarkerPolices = [],
      ik_policyMap = None, ik_preprocessd = False\<rparr>"

definition zeroMetric :: HTTPMetricConfig where
  "zeroMetric = \<lparr>hm_MetricName = []\<rparr>"

definition zeroStorage :: StorageConfig where
  "zeroStorage = \<lparr>sg_Type = [], sg_InKube = None, sg_HTTPMetric = None\<rparr>"

definition zeroJSONPath :: JSONPathConfig where
  "zeroJSONPath = \<lparr>jp_JSONPath = [], jp_FieldType = []\<rparr>"

definition zeroEndpoint :: EndpointConfig where
  "zeroEndpoint =
     \<lparr>ep_URL = [], ep_Method = [], ep_Headers = None, ep_Timeout = 0, ep_ExpectedStatusCode = 0,
      ep_StorageConfig = zeroStorage, ep_JSONPathConfig = None\<rparr>"

definition zeroHttpProbe :: HttpProbeConfig where
  "zeroHttpProbe = \<lparr>hpc_StartDelaySeconds = 0, hpc_Endpoints = [], hpc_ProbeIntervalSeconds = 0\<rparr>"

definition zeroHotUpdate :: HotUpdateConfig where
  "zeroHotUpdate =
     \<lparr>hc_LoadPatchType = [], hc_Signal = \<lparr>sig_SignalName = [], sig_ProcessName = []\<rparr>,
      hc_Request = \<lparr>rq_Address = [], rq_Port = 0\<rparr>, hc_FileDir = [], hc_StorageConfig = zeroStorage\<rparr>"

section \<open>The storage configuration\<close>

definition dec_Target :: "TargetKubeObject dec" where
  "dec_Target = dec_struct
     [(''group'', fld tg_Group tg_Group_update dec_string),
      (''version'', fld tg_Version tg_Version_update dec_string),
      (''resource'', fld tg_Resource tg_Resource_update dec_string),
      (''namespace'', fld tg_Namespace tg_Namespace_update dec_string),
      (''name'', fld tg_Name tg_Name_update dec_string),
      (''podOwner'', fld tg_PodOwner tg_PodOwner_update dec_bool)]"

definition dec_Policy :: "ProbeMarkerPolicy dec" where
  "dec_Policy = dec_struct
     [(''state'', fld pol_State pol_State_update dec_string),
      (''labels'', fld pol_Labels pol_Labels_update dec_map),
      (''annotations'', fld pol_Annotations pol_Annotations_update dec_map)]"

text \<open>The two inner fields are not exported, so JSON does not see them.\<close>

definition dec_InKube :: "InKubeConfig dec" where
  "dec_InKube = dec_struct
     [(''target'', fld ik_Target ik_Target_update (dec_ptr zeroTarget dec_Target)),
      (''jsonPath'', fld ik_JsonPath ik_JsonPath_update (dec_ptr [] dec_string)),
      (''annotationKey'', fld ik_AnnotationKey ik_AnnotationKey_update (dec_ptr [] dec_string)),
      (''labelKey'', fld ik_LabelKey ik_LabelKey_update (dec_ptr [] dec_string)),
      (''markerPolices'', fld ik_MarkerPolices ik_MarkerPolices_update (dec_slice zeroPolicy dec_Policy))]"

definition dec_Metric :: "HTTPMetricConfig dec" where
  "dec_Metric = dec_struct [(''metricName'', fld hm_MetricName hm_MetricName_update dec_string)]"

definition dec_Storage :: "StorageConfig dec" where
  "dec_Storage = dec_struct
     [(''type'', fld sg_Type sg_Type_update dec_string),
      (''inKube'', fld sg_InKube sg_InKube_update (dec_ptr zeroInKube dec_InKube)),
      (''httpMetric'', fld sg_HTTPMetric sg_HTTPMetric_update (dec_ptr zeroMetric dec_Metric))]"

definition dec_JSONPath :: "JSONPathConfig dec" where
  "dec_JSONPath = dec_struct
     [(''jsonPath'', fld jp_JSONPath jp_JSONPath_update dec_string),
      (''fieldType'', fld jp_FieldType jp_FieldType_update dec_string)]"

section \<open>The plugins' configurations\<close>

definition dec_Endpoint :: "EndpointConfig dec" where
  "dec_Endpoint = dec_struct
     [(''url'', fld ep_URL ep_URL_update dec_string),
      (''method'', fld ep_Method ep_Method_update dec_string),
      (''headers'', fld ep_Headers ep_Headers_update dec_map),
      (''timeout'', fld ep_Timeout ep_Timeout_update dec_int),
      (''expectedStatusCode'', fld ep_ExpectedStatusCode ep_ExpectedStatusCode_update dec_int),
      (''storageConfig'', fld ep_StorageConfig ep_StorageConfig_update dec_Storage),
      (''jsonPathConfig'', fld ep_JSONPathConfig ep_JSONPathConfig_update (dec_ptr zeroJSONPath dec_JSONPath))]"

definition dec_HttpProbe :: "HttpProbeConfig dec" where
  "dec_HttpProbe = dec_struct
     [(''startDelaySeconds'', fld hpc_StartDelaySeconds hpc_StartDelaySeconds_update dec_int),
      (''endpoints'', fld hpc_Endpoints hpc_Endpoints_update (dec_slice zeroEndpoint dec_Endpoint)),
      (''probeIntervalSeconds'', fld hpc_ProbeIntervalSeconds hpc_ProbeIntervalSeconds_update dec_int)]"

definition dec_Signal :: "Signal dec" where
  "dec_Signal = dec_struct
     [(''signalName'', fld sig_SignalName sig_SignalName_update dec_string),
      (''processName'', fld sig_ProcessName sig_ProcessName_update dec_string)]"

definition dec_Request :: "Request dec" where
  "dec_Request = dec_struct
     [(''address'', fld rq_Address rq_Address_update dec_string),
      (''port'', fld rq_Port rq_Port_update dec_int)]"

definition dec_HotUpdate :: "HotUpdateConfig dec" where
  "dec_HotUpdate = dec_struct
     [(''loadPatchType'', fld hc_LoadPatchType hc_LoadPatchType_update dec_string),
      (''signal'', fld hc_Signal hc_Signal_update dec_Signal),
      (''request'', fld hc_Request hc_Request_update dec_Request),
      (''fileDir'', fld hc_FileDir hc_FileDir_update dec_string),
      (''storageConfig'', fld hc_StorageConfig hc_StorageConfig_update dec_Storage)]"

text \<open>
  The decoders \<^verbatim>\<open>AddPlugin\<close> runs, each into a fresh value from \<^verbatim>\<open>GetConfigType\<close>. That of a binary plugin
  has no exported field.
\<close>

definition built_in :: "json_text \<Rightarrow> config_lib" where
  "built_in jt =
     \<lparr>cf_Marshal = jt_Marshal jt,
      cf_HttpProbe = (\<lambda>s. tryG (jt_Parse jt s) id (\<lambda>j. dec_HttpProbe j zeroHttpProbe)),
      cf_HotUpdate = (\<lambda>s. tryG (jt_Parse jt s) id (\<lambda>j. dec_HotUpdate j zeroHotUpdate)),
      cf_Binary = (\<lambda>s. tryG (jt_Parse jt s) id (\<lambda>j. dec_struct [] j ()))\<rparr>"

section \<open>Configurations written out\<close>

text \<open>The JSON an author writes for a configuration, with every field present.\<close>

definition enc_Target :: "TargetKubeObject \<Rightarrow> json" where
  "enc_Target t = JObject
     [(''group'', JString (tg_Group t)), (''version'', JString (tg_Version t)), (''resource'', JString (tg_Resource t)),
      (''namespace'', JString (tg_Namespace t)), (''name'', JString (tg_Name t)), (''podOwner'', JBool (tg_PodOwner t))]"

definition enc_Policy :: "ProbeMarkerPolicy \<Rightarrow> json" where
  "enc_Policy p = JObject
     [(''state'', JString (pol_State p)), (''labels'', enc_map (pol_Labels p)),
      (''annotations'', enc_map (pol_Annotations p))]"

definition enc_InKube :: "InKubeConfig \<Rightarrow> json" where
  "enc_InKube c = JObject
     [(''target'', enc_ptr enc_Target (ik_Target c)), (''jsonPath'', enc_ptr JString (ik_JsonPath c)),
      (''annotationKey'', enc_ptr JString (ik_AnnotationKey c)), (''labelKey'', enc_ptr JString (ik_LabelKey c)),
      (''markerPolices'', JArray (map enc_Policy (ik_MarkerPolices c)))]"

definition enc_Metric :: "HTTPMetricConfig \<Rightarrow> json" where
  "enc_Metric c = JObject [(''metricName'', JString (hm_MetricName c))]"

definition enc_Storage :: "StorageConfig \<Rightarrow> json" where
  "enc_Storage c = JObject
     [(''type'', JString (sg_Type c)), (''inKube'', enc_ptr enc_InKube (sg_InKube c)),
      (''httpMetric'', enc_ptr enc_Metric (sg_HTTPMetric c))]"

definition enc_JSONPath :: "JSONPathConfig \<Rightarrow> json" where
  "enc_JSONPath c = JObject [(''jsonPath'', JString (jp_JSONPath c)), (''fieldType'', JString (jp_FieldType c))]"

definition enc_Endpoint :: "EndpointConfig \<Rightarrow> json" where
  "enc_Endpoint e = JObject
     [(''url'', JString (ep_URL e)), (''method'', JString (ep_Method e)), (''headers'', enc_map (ep_Headers e)),
      (''timeout'', enc_int (ep_Timeout e)), (''expectedStatusCode'', enc_int (ep_ExpectedStatusCode e)),
      (''storageConfig'', enc_Storage (ep_StorageConfig e)),
      (''jsonPathConfig'', enc_ptr enc_JSONPath (ep_JSONPathConfig e))]"

definition enc_HttpProbe :: "HttpProbeConfig \<Rightarrow> json" where
  "enc_HttpProbe c = JObject
     [(''startDelaySeconds'', enc_int (hpc_StartDelaySeconds c)),
      (''endpoints'', JArray (map enc_Endpoint (hpc_Endpoints c))),
      (''probeIntervalSeconds'', enc_int (hpc_ProbeIntervalSeconds c))]"

definition enc_HotUpdate :: "HotUpdateConfig \<Rightarrow> json" where
  "enc_HotUpdate c = JObject
     [(''loadPatchType'', JString (hc_LoadPatchType c)),
      (''signal'', JObject [(''signalName'', JString (sig_SignalName (hc_Signal c))),
         (''processName'', JString (sig_ProcessName (hc_Signal c)))]),
      (''request'', JObject [(''address'', JString (rq_Address (hc_Request c))),
         (''port'', enc_int (rq_Port (hc_Request c)))]),
      (''fileDir'', JString (hc_FileDir c)), (''storageConfig'', enc_Storage (hc_StorageConfig c))]"

text \<open>
  The configurations that can be written: maps with distinct keys, numbers of 64 bits, and the inner
  fields of a storage configuration as they are before its first use.
\<close>

definition writable_policy :: "ProbeMarkerPolicy \<Rightarrow> bool" where
  "writable_policy p \<longleftrightarrow> gmap_ok (pol_Labels p) \<and> gmap_ok (pol_Annotations p)"

definition writable_inkube :: "InKubeConfig \<Rightarrow> bool" where
  "writable_inkube k \<longleftrightarrow>
     ik_policyMap k = None \<and> \<not> ik_preprocessd k \<and> list_all writable_policy (ik_MarkerPolices k)"

definition writable_storage :: "StorageConfig \<Rightarrow> bool" where
  "writable_storage c \<longleftrightarrow> pred_option writable_inkube (sg_InKube c)"

definition writable_endpoint :: "EndpointConfig \<Rightarrow> bool" where
  "writable_endpoint e \<longleftrightarrow> gmap_ok (ep_Headers e) \<and> is_int64 (ep_Timeout e) \<and>
     is_int64 (ep_ExpectedStatusCode e) \<and> writable_storage (ep_StorageConfig e)"

definition writable_probe :: "HttpProbeConfig \<Rightarrow> bool" where
  "writable_probe c \<longleftrightarrow> is_int64 (hpc_StartDelaySeconds c) \<and> is_int64 (hpc_ProbeIntervalSeconds c) \<and>
     list_all writable_endpoint (hpc_Endpoints c)"

definition writable_hot :: "HotUpdateConfig \<Rightarrow> bool" where
  "writable_hot c \<longleftrightarrow> is_int64 (rq_Port (hc_Request c)) \<and> writable_storage (hc_StorageConfig c)"

lemmas members = dec_struct_members field_for_def fld_def dec_enc_string

interpretation target: codec dec_Target enc_Target zeroTarget "\<lambda>_. True"
  by unfold_locales (simp_all add: dec_Target_def enc_Target_def zeroTarget_def members dec_bool_def)

interpretation policy: codec dec_Policy enc_Policy zeroPolicy writable_policy
  by unfold_locales (simp_all add: dec_Policy_def enc_Policy_def zeroPolicy_def members dec_enc_map writable_policy_def)

interpretation inkube: codec dec_InKube enc_InKube zeroInKube writable_inkube
  by unfold_locales
    (simp_all add: dec_InKube_def enc_InKube_def zeroInKube_def members writable_inkube_def target.ptr str.ptr policy.slice
      option.pred_True)

interpretation metric: codec dec_Metric enc_Metric zeroMetric "\<lambda>_. True"
  by unfold_locales (simp_all add: dec_Metric_def enc_Metric_def zeroMetric_def members)

interpretation stored: codec dec_Storage enc_Storage zeroStorage writable_storage
  by unfold_locales
    (simp_all add: dec_Storage_def enc_Storage_def zeroStorage_def members writable_storage_def inkube.ptr metric.ptr
      option.pred_True)

interpretation json_path: codec dec_JSONPath enc_JSONPath zeroJSONPath "\<lambda>_. True"
  by unfold_locales (simp_all add: dec_JSONPath_def enc_JSONPath_def zeroJSONPath_def members)

interpretation endpoint: codec dec_Endpoint enc_Endpoint zeroEndpoint writable_endpoint
  by unfold_locales
    (simp_all add: dec_Endpoint_def enc_Endpoint_def zeroEndpoint_def members dec_enc_map dec_enc_int writable_endpoint_def
      stored.reads json_path.ptr option.pred_True)

interpretation probe: codec dec_HttpProbe enc_HttpProbe zeroHttpProbe writable_probe
  by unfold_locales
    (simp_all add: dec_HttpProbe_def enc_HttpProbe_def zeroHttpProbe_def members dec_enc_int writable_probe_def endpoint.slice)

interpretation hot: codec dec_HotUpdate enc_HotUpdate zeroHotUpdate writable_hot
  by unfold_locales
    (simp_all add: dec_HotUpdate_def enc_HotUpdate_def zeroHotUpdate_def dec_Signal_def dec_Request_def members dec_enc_int
      writable_hot_def stored.reads)

text \<open>
  The boot order in demo/sidecarConfig.yaml stands inside the plugin's configuration, where no field
  answers to it.
\<close>

lemma misplaced_bootOrder_ignored:
  "dec_HotUpdate (JObject (es @ (''bootOrder'', j) # fs)) c = dec_HotUpdate (JObject (es @ fs)) c"
  unfolding dec_HotUpdate_def
  by (rule unknown_key_ignored) (simp add: field_for_def upper_def)

section \<open>From the configuration to the plugin\<close>

text \<open>The JSON value that reaches the decoder.\<close>

definition document :: "(string, json) gomap \<Rightarrow> json" where
  "document m = (case m of None \<Rightarrow> JNull | Some es \<Rightarrow> canonical (JObject es))"

definition with_defaults :: "HttpProbeConfig \<Rightarrow> HttpProbeConfig" where
  "with_defaults c =
     \<lparr>hpc_StartDelaySeconds = (if hpc_StartDelaySeconds c \<le> 0 then 30 else hpc_StartDelaySeconds c),
      hpc_Endpoints = hpc_Endpoints c,
      hpc_ProbeIntervalSeconds = (if hpc_ProbeIntervalSeconds c \<le> 0 then 5 else hpc_ProbeIntervalSeconds c)\<rparr>"

text \<open>A built-in plugin that was initialized with a document and has done nothing yet.\<close>

fun runs_with :: "json \<Rightarrow> plugin \<Rightarrow> bool" where
  "runs_with j (HttpProbePlugin x) \<longleftrightarrow>
     (case dec_HttpProbe j zeroHttpProbe of
        Ret c \<Rightarrow> x = Some (with_defaults c, \<lparr>ps_status = [], ps_err = None, ps_activeGoroutines = 0\<rparr>)
      | _ \<Rightarrow> False)"
| "runs_with j (HotUpdatePlugin x) \<longleftrightarrow>
     (case dec_HotUpdate j zeroHotUpdate of
        Ret c \<Rightarrow> validateConfig c = Ret () \<and>
          x = Some (c, \<lparr>hs_status = [], hs_err = None, hs_activeGoroutines = 0\<rparr>)
      | _ \<Rightarrow> False)"
| "runs_with j (BinaryPlugin b) \<longleftrightarrow> False"

lemma converted:
  "ConvertJsonObjectToStruct mar unmar config target = Ret c \<Longrightarrow>
     \<exists>m s. config = IMap m \<and> mar m = Ret s \<and> unmar s = Ret c"
  by (auto simp: ConvertJsonObjectToStruct_def go_iff split: iface.splits option.splits if_splits)

lemma configured_runs_with:
  assumes "json_text_ok jt" and "is_builtin p" and "configured (built_in jt) config p = Ret (Ret q)"
  shows "\<exists>m. config = IMap m \<and> runs_with (document m) q"
proof (cases p)
  case (HttpProbePlugin st)
  then obtain c x where c: "ConvertJsonObjectToStruct (cf_Marshal (built_in jt)) (cf_HttpProbe (built_in jt)) config
      (Some (RPtr (Some (RStruct [])))) = Ret c" "probe_Init (Some c) = Ret x" "q = HttpProbePlugin (Some x)"
    using assms(3) by (auto simp: configured_def go_iff)
  obtain m s where m: "config = IMap m" "jt_Marshal jt m = Ret s" "jt_Parse jt s = Ret (document m)"
    "dec_HttpProbe (document m) zeroHttpProbe = Ret c"
    using converted [OF c(1)] assms(1) by (auto simp: built_in_def go_iff json_text_ok_def document_def)
  then show ?thesis using c(2,3) by (auto simp: probe_Init_def with_defaults_def Let_def split: if_splits)
next
  case (HotUpdatePlugin st)
  then obtain c where c: "ConvertJsonObjectToStruct (cf_Marshal (built_in jt)) (cf_HotUpdate (built_in jt)) config
      (Some (RPtr (Some (RStruct [])))) = Ret c" "validateConfig c = Ret ()"
      "q = HotUpdatePlugin (Some (c, \<lparr>hs_status = [], hs_err = None, hs_activeGoroutines = 0\<rparr>))"
    using assms(3) by (auto simp: configured_def go_iff)
  obtain m s where m: "config = IMap m" "jt_Marshal jt m = Ret s" "jt_Parse jt s = Ret (document m)"
    "dec_HotUpdate (document m) zeroHotUpdate = Ret c"
    using converted [OF c(1)] assms(1) by (auto simp: built_in_def go_iff json_text_ok_def document_def)
  then show ?thesis using c(2,3) by auto
next
  case (BinaryPlugin b)
  then show ?thesis using assms(2) by (simp add: is_builtin_def)
qed

lemma AddPlugin_Ret:
  assumes "sidecar_ok s" and "AddPlugin cf n config s = (Ret (), t)"
  shows "\<exists>r q. map_of (sd_registry s) n = Some r \<and> r < length (sd_heap s) \<and> is_builtin (sd_heap s ! r) \<and>
    plugin_Name (sd_heap s ! r) = n \<and> configured cf config (sd_heap s ! r) = Ret (Ret q) \<and>
    t = s\<lparr>sd_heap := (sd_heap s)[r := q], sd_plugins := AList.update n r (sd_plugins s)\<rparr>"
proof -
  obtain r q where r: "map_of (sd_registry s) n = Some r" "configured cf config (sd_heap s ! r) = Ret (Ret q)"
    "t = s\<lparr>sd_heap := (sd_heap s)[r := q], sd_plugins := AList.update (plugin_Name q) r (sd_plugins s)\<rparr>"
    using assms(2) by (auto simp: AddPlugin_def split: option.splits go.splits)
  have h: "r < length (sd_heap s)" "is_builtin (sd_heap s ! r)" "plugin_Name (sd_heap s ! r) = n"
    using assms(1) r(1) by (simp_all add: sidecar_ok_def)
  with r configured_builtin [OF h(2) r(2)] show ?thesis by auto
qed

lemma initAll_append:
  "initAll cf (ps @ qs) s = (Ret (), t) \<longleftrightarrow> (\<exists>u. initAll cf ps s = (Ret (), u) \<and> initAll cf qs u = (Ret (), t))"
  by (induction ps arbitrary: s) (auto simp: go_iff split: option.splits)

text \<open>An entry leaves the plugins of other names alone.\<close>

lemma initAll_frame:
  assumes "sidecar_ok s" and "initAll cf [p] s = (Ret (), t)" and "apc_Name p \<noteq> n"
    and "map_of (sd_plugins s) n = Some r"
  shows "map_of (sd_plugins t) n = Some r \<and> sd_heap t ! r = sd_heap s ! r"
proof -
  have r: "r < length (sd_heap s)" "is_builtin (sd_heap s ! r) \<Longrightarrow> plugin_Name (sd_heap s ! r) = n"
    using assms(1,4) by (simp_all add: sidecar_ok_def)
  show ?thesis
  proof (cases "apc_Binary p")
    case None
    then have "AddPlugin cf (apc_Name p) (apc_Config p) s = (Ret (), t)"
      using assms(2) by (auto simp: go_iff)
    from AddPlugin_Ret [OF assms(1) this] r assms(3,4) show ?thesis
      by (auto simp: update_conv' nth_list_update)
  next
    case (Some b)
    then have "t = add_binary (apc_Name p) b s" using assms(2) by (auto simp: go_iff)
    then show ?thesis using r(1) assms(3,4) by (simp add: add_binary_def update_conv' nth_append)
  qed
qed

lemma initAll_last_entry:
  assumes "sidecar_ok s" and "initAll cf ps s = (Ret (), t)"
    and "find (\<lambda>p. apc_Name p = n) (rev ps) = Some e" and "apc_Binary e = None"
  shows "\<exists>r p. map_of (sd_plugins t) n = Some r \<and> is_builtin p \<and> configured cf (apc_Config e) p = Ret (Ret (sd_heap t ! r))"
  using assms(2,3)
proof (induction ps arbitrary: t rule: rev_induct)
  case (snoc p ps)
  obtain u where u: "initAll cf ps s = (Ret (), u)" "initAll cf [p] u = (Ret (), t)"
    using snoc.prems(1) unfolding initAll_append by blast
  have ok: "sidecar_ok u" using keepsD [OF initAll_ok u(1) assms(1)] .
  show ?case
  proof (cases "apc_Name p = n")
    case True
    then have "e = p" using snoc.prems(2) by simp
    then have "AddPlugin cf n (apc_Config e) u = (Ret (), t)"
      using u(2) assms(4) True by (auto simp: go_iff)
    from AddPlugin_Ret [OF ok this] obtain r q where "r < length (sd_heap u)" "is_builtin (sd_heap u ! r)"
      "configured cf (apc_Config e) (sd_heap u ! r) = Ret (Ret q)"
      "t = u\<lparr>sd_heap := (sd_heap u)[r := q], sd_plugins := AList.update n r (sd_plugins u)\<rparr>" by blast
    then show ?thesis by (auto simp: update_conv' intro!: exI [of _ "sd_heap u ! r"])
  next
    case False
    then have "find (\<lambda>p. apc_Name p = n) (rev ps) = Some e" using snoc.prems(2) by simp
    from snoc.IH [OF u(1) this] initAll_frame [OF ok u(2) False] show ?thesis by metis
  qed
qed simp

section \<open>Properties\<close>

text \<open>
  In a sidecar that comes up, a built-in plugin has exactly the configuration that the
  last entry of its name decodes to, with the defaults filled in, and a hot-update configuration is a
  valid one.
\<close>

lemma plugin_runs_with_configuration:
  assumes "sidecar_main lib path p = (Serving st, p')" and "mn_config lib = built_in jt" and "json_text_ok jt"
    and "mn_ReadFile lib path = Ret y" and "mn_Unmarshal lib y = Ret (Some c)"
    and "find (\<lambda>e. apc_Name e = n) (rev (asc_Plugins c)) = Some e" and "apc_Binary e = None"
  shows "\<exists>r m. map_of (sd_plugins (rn_sidecar st)) n = Some r \<and> apc_Config e = IMap m \<and>
    runs_with (document m) (sd_heap (rn_sidecar st) ! r)"
proof -
  obtain t where t: "sd_config t = Some c" "quiet t" "main_start lib t = Serving st"
    using sidecar_main_Serving [OF assms(1)] assms(4,5) by auto
  obtain u where u: "InitPlugins (built_in jt) t = (Ret (), u)"
    "sd_plugins (rn_sidecar st) = sd_plugins u" "sd_heap (rn_sidecar st) = sd_heap u"
    using main_start_ok [OF t(2,3)] assms(2) by auto
  have ok: "sidecar_ok t" using t(2) by (simp add: quiet_def)
  have "initAll (built_in jt) (asc_Plugins c) t = (Ret (), u)" using u(1) t(1) by (simp add: InitPlugins_def)
  from initAll_last_entry [OF ok this assms(6,7)] configured_runs_with [OF assms(3)] u(2,3) show ?thesis by metis
qed

text \<open>The probe of the repository's demo/probe.yaml, with two of its policies.\<close>

definition demo_document :: "(string \<times> json) list" where
  "demo_document =
     [(''startDelaySeconds'', JNumber ''60''),
      (''endpoints'', JArray [JObject
         [(''url'', JString ''http://localhost:8080''), (''method'', JString ''GET''), (''timeout'', JNumber ''30''),
          (''expectedStatusCode'', JNumber ''200''),
          (''storageConfig'', JObject
             [(''type'', JString ''InKube''),
              (''inKube'', JObject
                 [(''markerPolices'', JArray
                    [JObject [(''state'', JString ''idle''), (''labels'', JObject [(''gameserver-idle'', JString ''true'')])],
                     JObject [(''state'', JString ''allocated''),
                       (''labels'', JObject [(''gameserver-idle'', JString ''false'')])]])])])]])]"

definition demo_probe :: HttpProbeConfig where
  "demo_probe =
     \<lparr>hpc_StartDelaySeconds = 60,
      hpc_Endpoints = [zeroEndpoint\<lparr>ep_URL := ''http://localhost:8080'', ep_Method := ''GET'', ep_Timeout := 30,
        ep_ExpectedStatusCode := 200,
        ep_StorageConfig := zeroStorage\<lparr>sg_Type := ''InKube'', sg_InKube := Some (zeroInKube\<lparr>ik_MarkerPolices :=
          [\<lparr>pol_State = ''idle'', pol_Labels = Some [(''gameserver-idle'', ''true'')], pol_Annotations = None\<rparr>,
           \<lparr>pol_State = ''allocated'', pol_Labels = Some [(''gameserver-idle'', ''false'')], pol_Annotations = None\<rparr>]\<rparr>)\<rparr>\<rparr>],
      hpc_ProbeIntervalSeconds = 0\<rparr>"

lemma demo_decodes: "dec_HttpProbe (document (Some demo_document)) zeroHttpProbe = Ret demo_probe"
  by code_simp

definition demo_json :: json_text where
  "demo_json =
     \<lparr>jt_Marshal = (\<lambda>m. if m = Some demo_document then Ret ''doc'' else Fail (LibErr ''json'')),
      jt_Parse = (\<lambda>s. if s = ''doc'' then Ret (document (Some demo_document)) else Fail (LibErr ''json''))\<rparr>"

definition demo_entry :: ApiPluginConfig where
  "demo_entry =
     \<lparr>apc_Name = ''http_probe'', apc_Binary = None, apc_Config = IMap (Some demo_document), apc_BootOrder = 1\<rparr>"

definition demo_probe_config :: ApiSidecarConfig where
  "demo_probe_config =
     \<lparr>asc_Plugins =
        [\<lparr>apc_Name = ''kubectl-proxy'', apc_Binary = Some demo_binary, apc_Config = INil, apc_BootOrder = 0\<rparr>, demo_entry],
      asc_RestartPolicy = ''Always'', asc_Resources = None, asc_SidecarStartOrder = ''Before''\<rparr>"

definition demo_probe_main :: "apiserver main_lib" where
  "demo_probe_main = demo_main\<lparr>mn_Unmarshal := (\<lambda>_. Ret (Some demo_probe_config)), mn_config := built_in demo_json\<rparr>"

lemma demo_json_ok: "json_text_ok demo_json"
  by (simp add: json_text_ok_def demo_json_def document_def)

lemma demo_probe_runs: "\<exists>st p'. sidecar_main demo_probe_main ''/opt/kidecar/config.yaml'' demo_proc = (Serving st, p')"
proof (rule sidecar_comes_up)
  show "fst (InitPlugins (mn_config demo_probe_main) (sidecar_SetupWithManager (demo_sidecar\<lparr>sd_config := Some demo_probe_config\<rparr>))) = Ret ()"
    by (simp add: InitPlugins_def demo_probe_config_def demo_entry_def demo_sidecar_def NewSidecar_def builtin_plugins_def
        tryM_def add_binary_def AddPlugin_def probe_Name_def hotUpdateName_def configured_def built_in_def demo_json_def
        ConvertJsonObjectToStruct_def isPointerToStruct_def probe_Init_def demo_decodes Let_def demo_probe_main_def
        sidecar_SetupWithManager_def)
qed (simp_all add: demo_probe_main_def demo_main_def NewManager_def tryM_def)

lemma plugin_runs_with_configuration_example:
  "\<exists>st r. fst (sidecar_main demo_probe_main ''/opt/kidecar/config.yaml'' demo_proc) = Serving st \<and>
     map_of (sd_plugins (rn_sidecar st)) ''http_probe'' = Some r \<and>
     runs_with (document (Some demo_document)) (sd_heap (rn_sidecar st) ! r) \<and>
     dec_HttpProbe (document (Some demo_document)) zeroHttpProbe = Ret demo_probe"
proof -
  obtain st p' where run: "sidecar_main demo_probe_main ''/opt/kidecar/config.yaml'' demo_proc = (Serving st, p')"
    using demo_probe_runs by blast
  have "mn_config demo_probe_main = built_in demo_json"
    "mn_ReadFile demo_probe_main ''/opt/kidecar/config.yaml'' = Ret ''synchttp_probe''"
    "mn_Unmarshal demo_probe_main ''synchttp_probe'' = Ret (Some demo_probe_config)"
    "find (\<lambda>e. apc_Name e = ''http_probe'') (rev (asc_Plugins demo_probe_config)) = Some demo_entry"
    "apc_Binary demo_entry = None" "apc_Config demo_entry = IMap (Some demo_document)"
    by (simp_all add: demo_probe_main_def demo_main_def demo_probe_config_def demo_entry_def)
  from plugin_runs_with_configuration [OF run this(1) demo_json_ok this(2-5)] this(6) run demo_decodes
  show ?thesis by auto
qed

text \<open>
  C39: every configuration of the two plugins can be written as JSON, and is read back as it
  was: no field is lost, misnamed or read into another.
\<close>

theorem configurations_round_trip:
  assumes "writable_probe c" and "writable_hot d"
  shows "dec_HttpProbe (enc_HttpProbe c) zeroHttpProbe = Ret c \<and> dec_HotUpdate (enc_HotUpdate d) zeroHotUpdate = Ret d"
  using probe.reads [OF assms(1)] hot.reads [OF assms(2)] by simp

text \<open>The update of the repository's demo/sidecarConfig.yaml.\<close>

definition demo_update_config :: HotUpdateConfig where
  "demo_update_config =
     \<lparr>hc_LoadPatchType = ''signal'',
      hc_Signal = \<lparr>sig_SignalName = ''SIGHUP'', sig_ProcessName = ''nginx: master process nginx''\<rparr>,
      hc_Request = \<lparr>rq_Address = [], rq_Port = 0\<rparr>, hc_FileDir = ''/app/downloads'',
      hc_StorageConfig = zeroStorage\<lparr>sg_Type := ''InKube'', sg_InKube := Some (zeroInKube\<lparr>ik_AnnotationKey :=
        Some ''sidecar.vke.volcengine.com/hot-update-result''\<rparr>)\<rparr>\<rparr>"

theorem configurations_round_trip_witness:
  "dec_HttpProbe (enc_HttpProbe demo_probe) zeroHttpProbe = Ret demo_probe \<and>
   dec_HotUpdate (enc_HotUpdate demo_update_config) zeroHotUpdate = Ret demo_update_config"
  by (rule configurations_round_trip)
    (simp_all add: writable_probe_def writable_hot_def writable_endpoint_def writable_storage_def writable_inkube_def writable_policy_def
      demo_probe_def zeroEndpoint_def zeroStorage_def zeroInKube_def demo_update_config_def is_int64_def gmap_ok_def)

end
