(* ===== verification/KcPod.thy ===== *)
theory KcPod imports KcInjectorProps KcInfo begin

text \<open>
  The pod that the webhook leaves and the process that the node starts in its sidecar container:
  what the container finds in its files and in its environment. The API server admits a pod only
  with unique names; the node mounts ConfigMap volumes as files and resolves field references.
  Both are documented behaviour of Kubernetes, stated here as predicates.
\<close>

section \<open>The server admits\<close>

definition containers_of :: "pod \<Rightarrow> container list" where
  "containers_of p = ps_InitContainers p @ ps_Containers p"

definition valid_names :: "pod \<Rightarrow> bool" where
  "valid_names p \<longleftrightarrow> distinct (map v_Name (ps_Volumes p)) \<and> distinct (map c_Name (containers_of p))"

text \<open>
  Other admission plugins, such as the one that mounts service account tokens, may add variables and
  mounts to a container. They set none of its variables again and mount nothing above or below its
  mounts.
\<close>

definition carried :: "container \<Rightarrow> container \<Rightarrow> bool" where
  "carried c d \<longleftrightarrow>
     c_Name d = c_Name c \<and>
     (\<forall>e \<in> set (c_Env c). filter (\<lambda>x. ev_Name x = ev_Name e) (c_Env d) = [e]) \<and>
     set (c_VolumeMounts c) \<subseteq> set (c_VolumeMounts d) \<and>
     (\<forall>m \<in> set (c_VolumeMounts c). \<forall>m' \<in> set (c_VolumeMounts d) - set (c_VolumeMounts c).
        \<not> prefix (vm_MountPath m') (vm_MountPath m) \<and> \<not> prefix (vm_MountPath m) (vm_MountPath m'))"

text \<open>The pod \<open>p\<close> that the webhook answered runs as \<open>q\<close>, under the name \<open>n\<close>.\<close>

definition admits :: "pod \<Rightarrow> string \<Rightarrow> pod \<Rightarrow> bool" where
  "admits p n q \<longleftrightarrow>
     valid_names q \<and> pod_Name q = n \<and> pod_Namespace q = pod_Namespace p \<and>
     set (ps_Volumes p) \<subseteq> set (ps_Volumes q) \<and>
     (\<forall>c \<in> set (containers_of p). \<exists>d \<in> set (containers_of q). carried c d)"

section \<open>The node starts\<close>

text \<open>
  A mount of a whole ConfigMap volume shows each key of the ConfigMap as a file, unless another
  mount of the container covers it.
\<close>

definition shows_file ::
    "(string \<times> string \<rightharpoonup> configmap) \<Rightarrow> pod \<Rightarrow> container \<Rightarrow> string \<Rightarrow> string \<Rightarrow> bool" where
  "shows_file cms p c path text \<longleftrightarrow>
     (\<exists>m \<in> set (c_VolumeMounts c). \<exists>v \<in> set (ps_Volumes p). \<exists>n cm key.
        v_Name v = vm_Name m \<and> vm_rest m = [] \<and> v_rest v = [] \<and> v_ConfigMap v = Some n \<and>
        cms (pod_Namespace p, n) = Some cm \<and> glookup (cm_Data cm) key = Some text \<and>
        path = vm_MountPath m @ ''/'' @ key \<and>
        (\<forall>m' \<in> set (c_VolumeMounts c) - {m}. \<not> prefix (vm_MountPath m') path))"

text \<open>
  The value of a variable that is set once: a field of the pod, or a text without references to
  other variables. Nothing is said of the others.
\<close>

definition field_value :: "pod \<Rightarrow> env_var \<Rightarrow> string option" where
  "field_value p e =
     (case ev_FieldPath e of
        None \<Rightarrow> if CHR ''$'' \<in> set (ev_Value e) then None else Some (ev_Value e)
      | Some f \<Rightarrow>
          if f = ''metadata.name'' then Some (pod_Name p)
          else if f = ''metadata.namespace'' then Some (pod_Namespace p) else None)"

definition resolved :: "pod \<Rightarrow> container \<Rightarrow> environment" where
  "resolved p c n = (case filter (\<lambda>e. ev_Name e = n) (c_Env c) of [e] \<Rightarrow> field_value p e | _ \<Rightarrow> None)"

definition node_starts ::
    "(string \<times> string \<rightharpoonup> configmap) \<Rightarrow> pod \<Rightarrow> container \<Rightarrow> (string \<Rightarrow> string go) \<Rightarrow> environment \<Rightarrow> bool" where
  "node_starts cms p c read env \<longleftrightarrow>
     (\<forall>path text. shows_file cms p c path text \<longrightarrow> read path = Ret text) \<and> resolved p c \<subseteq>\<^sub>m env"

section \<open>The sidecar of an injected pod\<close>

definition sidecar_container :: "pod \<Rightarrow> container \<Rightarrow> bool" where
  "sidecar_container p c \<longleftrightarrow> c \<in> set (containers_of p) \<and> c_Name c = ''kidecar''"

text \<open>Names are unique, so the container of that name is the one the webhook added.\<close>

lemma admitted_sidecar:
  assumes "inj_InjectKidecar (spec_Injection (sc_Spec sc))" and "admits (injected_pod wenv sc p) n q"
    and "sidecar_container q d"
  shows "carried (kidecarContainer wenv (inj_UseKubeNativeSidecar (spec_Injection (sc_Spec sc)))) d"
    and "kidecarVolume \<in> set (ps_Volumes q)" and "pod_Namespace q = pod_Namespace p" and "pod_Name q = n"
proof -
  let ?k = "kidecarContainer wenv (inj_UseKubeNativeSidecar (spec_Injection (sc_Spec sc)))"
  have "?k \<in> set (containers_of (injected_pod wenv sc p))"
    using assms(1) by (simp add: containers_of_def injected_pod_def Let_def)
  then obtain d' where d': "d' \<in> set (containers_of q)" "carried ?k d'" using assms(2) unfolding admits_def by blast
  have "c_Name d' = ''kidecar''" using d'(2) by (simp add: carried_def kidecarContainer_def)
  moreover have "distinct (map c_Name (containers_of q))" using assms(2) by (simp add: admits_def valid_names_def)
  ultimately have "d' = d" using d'(1) assms(3) unfolding sidecar_container_def by (metis distinct_map inj_onD)
  with d'(2) show "carried ?k d" by simp
  have "kidecarVolume \<in> set (ps_Volumes (injected_pod wenv sc p))" using assms(1) by (simp add: injected_pod_def Let_def)
  then show "kidecarVolume \<in> set (ps_Volumes q)" using assms(2) by (auto simp: admits_def)
  show "pod_Namespace q = pod_Namespace p" "pod_Name q = n"
    using assms(2) by (simp_all add: admits_def injected_pod_def Let_def)
qed

lemma not_prefix_append: "\<not> prefix a b \<Longrightarrow> \<not> prefix b a \<Longrightarrow> \<not> prefix a (b @ x)"
  by (auto dest: prefix_same_cases simp: prefix_append)

lemma kidecar_shows_config:
  assumes "carried (kidecarContainer wenv native) d" and "kidecarVolume \<in> set (ps_Volumes p)"
    and "cms (pod_Namespace p, KidecarConfigmapName) = Some cm" and "glookup (cm_Data cm) ''config.yaml'' = Some y"
  shows "shows_file cms p d ''/opt/kidecar/config.yaml'' y"
proof -
  let ?m = "\<lparr>vm_Name = KidecarConfigmapName, vm_MountPath = ''/opt/kidecar'', vm_rest = []\<rparr>"
  have own: "c_VolumeMounts (kidecarContainer wenv native) = [?m]" by (simp add: kidecarContainer_def)
  then have "?m \<in> set (c_VolumeMounts d)" using assms(1) by (simp add: carried_def)
  moreover have "v_Name kidecarVolume = vm_Name ?m" "v_ConfigMap kidecarVolume = Some KidecarConfigmapName"
    "v_rest kidecarVolume = []" "vm_rest ?m = []" by (simp_all add: kidecarVolume_def)
  moreover have path: "''/opt/kidecar/config.yaml'' = vm_MountPath ?m @ ''/'' @ ''config.yaml''" by simp
  moreover have "\<not> prefix (vm_MountPath m') ''/opt/kidecar/config.yaml''" if "m' \<in> set (c_VolumeMounts d) - {?m}" for m'
  proof -
    have "\<not> prefix (vm_MountPath m') (vm_MountPath ?m)" "\<not> prefix (vm_MountPath ?m) (vm_MountPath m')"
      using assms(1) that own unfolding carried_def by auto
    from not_prefix_append [OF this, of "''/config.yaml''"] show ?thesis by simp
  qed
  ultimately show ?thesis unfolding shows_file_def using assms(2-4) by blast
qed

text \<open>The variables that pkg/info reads name the pod itself.\<close>

lemma carried_resolved:
  assumes "carried c d" and "e \<in> set (c_Env c)"
  shows "resolved p d (ev_Name e) = field_value p e"
  using assms by (simp add: carried_def resolved_def)

lemma kidecar_knows_pod:
  assumes "carried (kidecarContainer wenv native) d" and "node_starts cms p d read env"
    and "pod_Name p \<noteq> []" and "pod_Namespace p \<noteq> []"
  shows "GetCurrentPodNamespaceAndName env = Ret (pod_Namespace p, pod_Name p)"
proof -
  let ?name = "\<lparr>ev_Name = ''POD_NAME'', ev_Value = [], ev_FieldPath = Some ''metadata.name''\<rparr>"
  let ?space = "\<lparr>ev_Name = ''POD_NAMESPACE'', ev_Value = [], ev_FieldPath = Some ''metadata.namespace''\<rparr>"
  have "?name \<in> set (c_Env (kidecarContainer wenv native))" "?space \<in> set (c_Env (kidecarContainer wenv native))"
    by (simp_all add: kidecarContainer_def)
  from this [THEN carried_resolved [OF assms(1), of _ p]]
  have "resolved p d ''POD_NAME'' = Some (pod_Name p)" "resolved p d ''POD_NAMESPACE'' = Some (pod_Namespace p)"
    by (simp_all add: field_value_def)
  then have "env ''POD_NAME'' = Some (pod_Name p)" "env ''POD_NAMESPACE'' = Some (pod_Namespace p)"
    using assms(2) by (auto simp: node_starts_def map_le_def dom_def)
  then show ?thesis using assms(3,4) by (simp add: GetCurrentPodNamespaceAndName_def)
qed

section \<open>An injection and the ConfigMap\<close>

text \<open>The calls of the webhook that are not about ConfigMaps change none.\<close>

definition keeps_configmaps :: "'k ctrl_client \<Rightarrow> ('k \<Rightarrow> string \<times> string \<rightharpoonup> configmap) \<Rightarrow> bool" where
  "keeps_configmaps cl store \<longleftrightarrow>
     (\<forall>k. store (snd (cl_ListSidecarConfigs cl k)) = store k) \<and>
     (\<forall>n k. store (snd (cl_GetNamespace cl n k)) = store k) \<and>
     (\<forall>ns n k. store (snd (cl_GetServiceAccount cl ns n k)) = store k) \<and>
     (\<forall>ns n k. store (snd (cl_GetSidecarConfig cl ns n k)) = store k) \<and>
     (\<forall>c k. store (snd (cl_UpdateStatus cl c k)) = store k)"

lemma keeps_configmaps_calls:
  assumes "keeps_configmaps cl store"
  shows "keeps (\<lambda>k. store k = x) (cl_ListSidecarConfigs cl)" and "keeps (\<lambda>k. store k = x) (cl_GetNamespace cl n)"
    and "keeps (\<lambda>k. store k = x) (cl_GetServiceAccount cl ns n)"
    and "keeps (\<lambda>k. store k = x) (cl_GetSidecarConfig cl ns n)" and "keeps (\<lambda>k. store k = x) (cl_UpdateStatus cl c)"
  using assms by (simp_all add: keeps_configmaps_def keeps_def)

lemma keeps_search:
  assumes "keeps_configmaps cl store"
  shows "keeps (\<lambda>k. store k = x) (GetSidecarConfigOfPod lib cl p)"
proof -
  have match: "keeps (\<lambda>k. store k = x) (Match lib cl p spec)" for spec
    unfolding Match_def MatchNamespace_def
    using keeps_configmaps_calls [OF assms]
    by (auto intro!: keeps_intro split: option.split simp del: act_simps)
  have "keeps (\<lambda>k. store k = x) (firstMatch lib cl p cs)" for cs
    by (induction cs) (auto intro!: keeps_intro match simp del: act_simps)
  then show ?thesis
    unfolding GetSidecarConfigOfPod_def using keeps_configmaps_calls [OF assms] by (auto intro!: keeps_intro simp del: act_simps)
qed

lemma keeps_bump:
  assumes "keeps_configmaps cl store" and "retries IsConflict (cl_RetryOnConflict cl)"
  shows "keeps (\<lambda>k. store k = x) (cl_RetryOnConflict cl (bumpMatchedPods cl c))"
  using assms(2)
proof (rule keeps_retries)
  show "keeps (\<lambda>k. store k = x) (bumpMatchedPods cl c)"
    unfolding bumpMatchedPods_def using keeps_configmaps_calls [OF assms(1)] by (intro keeps_intro) auto
qed

text \<open>
  An injection of the sidecar has ensured the ConfigMap in the pod's namespace, and the ConfigMaps
  are as that call left them.
\<close>

lemma injection_ensures:
  assumes "keeps_configmaps cl store" and "retries IsConflict (cl_RetryOnConflict cl)"
    and "InjectPod lib wenv cl (p, k) = (Ret (), (p', k'))"
    and "GetSidecarConfigOfPod lib cl p k = (Ret (Some sc), k1)" and "\<not> annotated p"
    and "inj_InjectKidecar (spec_Injection (sc_Spec sc))"
  shows "\<exists>u v. store u = store k \<and> EnsureConfigmap lib cl (pod_Namespace p) sc u = (Ret (), v) \<and> store k' = store v \<and>
    p' = injected_pod wenv sc p"
proof -
  let ?ic = "spec_Injection (sc_Spec sc)"
  have run: "injectConfigured lib wenv cl sc (p, k1) = (Ret (), (p', k'))"
    using assms(3-5) by (simp add: InjectPod_run)
  then obtain s1 s2 where
    1: "injectServiceAccount cl (inj_ServiceAccountName ?ic) (deref_bool (inj_ForceInjectServiceAccount ?ic)) (p, k1) = (Ret (), s1)"
    and 2: "add_sidecar lib wenv cl sc s1 = (Ret (), s2)" and 3: "finish_injection cl sc s2 = (Ret (), (p', k'))"
    by (auto simp: injectConfigured_split go_iff)
  have "store k1 = store k" using keepsD [OF keeps_search [OF assms(1), of "store k"] assms(4)] by simp
  moreover have "store (snd s1) = store k1"
    using 1 keeps_configmaps_calls(3) [OF assms(1), of "store k1", unfolded keeps_def]
    by (auto simp: injectServiceAccount_def on_pod_def go_iff split: if_splits) (metis snd_conv)
  moreover have "pod_Namespace (fst s1) = pod_Namespace p"
    using injectServiceAccount_Ret [OF 1] by (simp add: setServiceAccount_eq)
  then have "EnsureConfigmap lib cl (pod_Namespace p) sc (snd s1) = (Ret (), snd s2)"
    using 2 assms(6) by (simp add: add_sidecar_def go_iff addKidecarContainer_eq Let_def)
  moreover have "k' = snd (cl_RetryOnConflict cl (bumpMatchedPods cl sc) (snd s2))"
    using 3 by (auto simp: finish_injection_def catchM_def on_api_def split: prod.splits go.splits)
  then have "store k' = store (snd s2)"
    using keeps_bump [OF assms(1,2), of "store (snd s2)", unfolded keeps_def] by simp
  ultimately show ?thesis using injectConfigured_Ret [OF run] by auto
qed

lemma mem_client_keeps_configmaps: "keeps_configmaps mem_client mem_store"
  by (auto simp: keeps_configmaps_def mem_client_calls mem_store_def)

end
