(* ===== verification/KcServe.thy ===== *)
theory KcServe imports KcHotUpdate KcStoreProps begin

text \<open>
  The HTTP servers of a sidecar process that pkg/store/prom_metrics.go and
  pkg/plugins/hot_update/plugin.go start. Both pass nil as their handler, so both serve the
  process-wide multiplexer, each on its own address. When a goroutine gets to listen is a step of
  its own; requests are answered by the multiplexer as it is when they come.
\<close>

section \<open>Addresses and handlers\<close>

record 'k serving =
  sv_proc :: "'k proc"
  sv_open :: "string list" \<comment> \<open>the addresses the process listens on\<close>

text \<open>
  The part of \<^verbatim>\<open>http.ListenAndServe\<close> that binds the address: it fails when this process or, in the
  pod's network, another one listens there. After that the call serves as long as the process runs.
\<close>

definition Listen :: "(string \<Rightarrow> bool) \<Rightarrow> string \<Rightarrow> ('k serving, unit) act" where
  "Listen free addr s =
     (if addr \<in> set (sv_open s) \<or> \<not> free addr then (Fail (LibErr ''address already in use''), s)
      else (Ret (), s\<lparr>sv_open := sv_open s @ [addr]\<rparr>))"

text \<open>\<^verbatim>\<open>http.DefaultServeMux\<close> on patterns without a final slash, which match one path.\<close>

definition mux_pattern :: "'k proc \<Rightarrow> string \<Rightarrow> string option" where
  "mux_pattern p path = find (\<lambda>pattern. pattern = path) (pr_mux p)"

text \<open>The pattern whose handler answers a request; \<open>None\<close> inside is 404, outside no connection.\<close>

definition answers :: "'k serving \<Rightarrow> string \<Rightarrow> string \<Rightarrow> string option option" where
  "answers s addr path = (if addr \<in> set (sv_open s) then Some (mux_pattern (sv_proc s) path) else None)"

section \<open>Steps\<close>

text \<open>
  A factory sets its metric storage up; a goroutine of such a set-up gets to listen, and drops the
  error; the hot-update plugin registers its handler and then listens.
\<close>

inductive serve_step :: "(string \<Rightarrow> bool) \<Rightarrow> 'k serving \<Rightarrow> 'k serving \<Rightarrow> bool" for free where
  sets_up: "ss_proc st = sv_proc s \<Longrightarrow> promMetric_SetupWithManager st = (Ret (), t) \<Longrightarrow>
    serve_step free s (s\<lparr>sv_proc := ss_proc t\<rparr>)"
| listens: "addr \<in> set (pr_servers (sv_proc s)) \<Longrightarrow> Listen free addr s = (r, t) \<Longrightarrow>
    serve_step free s (t\<lparr>sv_proc := (sv_proc t)\<lparr>pr_servers := remove1 addr (pr_servers (sv_proc t))\<rparr>\<rparr>)"
| handles_updates: "http_Handle ''/hot-update'' (sv_proc s) = (Ret (), p) \<Longrightarrow> serve_step free s (s\<lparr>sv_proc := p\<rparr>)"
| listens_for_updates: "''/hot-update'' \<in> set (pr_mux (sv_proc s)) \<Longrightarrow> Listen free '':5000'' s = (Ret (), t) \<Longrightarrow>
    serve_step free s t"

inductive serve_reachable :: "(string \<Rightarrow> bool) \<Rightarrow> 'k serving \<Rightarrow> 'k serving \<Rightarrow> bool" for free s where
  begins: "serve_reachable free s s"
| proceeds: "serve_reachable free s t \<Longrightarrow> serve_step free t u \<Longrightarrow> serve_reachable free s u"

section \<open>What holds in every order\<close>

text \<open>
  No address is bound twice; a server that listens or is about to has its own handler registered,
  so none of them ever answers 404 for it; and no address that is taken is ever bound.
\<close>

definition well_served :: "(string \<Rightarrow> bool) \<Rightarrow> 'k serving \<Rightarrow> bool" where
  "well_served free s \<longleftrightarrow>
     distinct (sv_open s) \<and> distinct (pr_mux (sv_proc s)) \<and> (\<forall>a \<in> set (sv_open s). free a) \<and>
     set (pr_servers (sv_proc s)) \<subseteq> {'':8080''} \<and> set (sv_open s) \<subseteq> {'':8080'', '':5000''} \<and>
     ('':8080'' \<in> set (sv_open s) \<union> set (pr_servers (sv_proc s)) \<longrightarrow> ''/metrics'' \<in> set (pr_mux (sv_proc s))) \<and>
     ('':5000'' \<in> set (sv_open s) \<longrightarrow> ''/hot-update'' \<in> set (pr_mux (sv_proc s)))"

lemma http_Handle_Ret [go_iff]:
  "http_Handle pattern p = (Ret (), q) \<longleftrightarrow> pattern \<notin> set (pr_mux p) \<and> q = p\<lparr>pr_mux := pr_mux p @ [pattern]\<rparr>"
  by (auto simp: http_Handle_def)

lemma metric_setup_Ret:
  assumes "promMetric_SetupWithManager st = (Ret (), t)"
  shows "''/metrics'' \<notin> set (pr_mux (ss_proc st)) \<and> ss_proc t = (ss_proc st)\<lparr>pr_mux := pr_mux (ss_proc st) @ [''/metrics''],
                                  pr_servers := pr_servers (ss_proc st) @ ['':8080'']\<rparr>"
proof (cases "''/metrics'' \<in> set (pr_mux (ss_proc st))")
  case False
  moreover have "t = snd (promMetric_SetupWithManager st)" using assms by simp
  ultimately show ?thesis by (simp add: metric_setup)
qed (use assms in \<open>simp add: metric_setup\<close>)

lemma Listen_cases:
  assumes "Listen free addr s = (r, t)"
  obtains "r = Fail (LibErr ''address already in use'')" "t = s"
  | "r = Ret ()" "addr \<notin> set (sv_open s)" "free addr" "t = s\<lparr>sv_open := sv_open s @ [addr]\<rparr>"
proof (cases "addr \<in> set (sv_open s) \<or> \<not> free addr")
  case True
  then show ?thesis using assms that(1) by (simp add: Listen_def)
next
  case False
  then show ?thesis using assms that(2) by (simp add: Listen_def)
qed

lemma serve_step_ok: "serve_step free s t \<Longrightarrow> well_served free s \<Longrightarrow> well_served free t"
proof (induction rule: serve_step.induct)
  case (sets_up st s t)
  then show ?case using metric_setup_Ret [OF sets_up(2)] by (auto simp: well_served_def)
next
  case (listens addr s r t)
  have "set (remove1 addr (pr_servers (sv_proc s))) \<subseteq> set (pr_servers (sv_proc s))" by (rule set_remove1_subset)
  with listens show ?case by (elim Listen_cases) (auto simp: well_served_def)
next
  case (handles_updates s p)
  then show ?case by (auto simp: well_served_def go_iff)
next
  case (listens_for_updates s t)
  then show ?case by (elim Listen_cases) (auto simp: well_served_def)
qed

lemma serve_reachable_ok: "serve_reachable free s t \<Longrightarrow> well_served free s \<Longrightarrow> well_served free t"
  by (induction rule: serve_reachable.induct) (auto intro: serve_step_ok)

lemma find_own: "find (\<lambda>y. y = x) xs = (if x \<in> set xs then Some x else None)"
  by (induction xs) auto

lemma mux_pattern_own: "path \<in> set (pr_mux p) \<Longrightarrow> mux_pattern p path = Some path"
  by (simp add: mux_pattern_def find_own)

text \<open>In every state that is reached, a connection to the metrics' address finds the metrics.\<close>

lemma metrics_always_found:
  assumes "serve_reachable free s t" and "well_served free s" and "'':8080'' \<in> set (sv_open t)"
  shows "answers t '':8080'' ''/metrics'' = Some (Some ''/metrics'')"
  using serve_reachable_ok [OF assms(1,2)] assms(3) by (simp add: answers_def well_served_def mux_pattern_own)

text \<open>
  The two servers share the multiplexer: once the hot-update plugin has registered its handler, the
  address of the metrics takes update requests like its own address.
\<close>

lemma metrics_port_takes_updates:
  assumes "serve_reachable free s t" and "well_served free s"
    and "'':8080'' \<in> set (sv_open t)" and "'':5000'' \<in> set (sv_open t)"
  shows "answers t '':8080'' ''/hot-update'' = Some (Some ''/hot-update'')"
  using serve_reachable_ok [OF assms(1,2)] assms(3,4) by (simp add: answers_def well_served_def mux_pattern_own)

text \<open>
  When the metrics' address is taken, the set-up of the storage succeeds all the same, and no step
  afterwards makes the process listen there: the metrics are lost without an error.
\<close>

lemma taken_address_is_silent:
  assumes "\<not> free '':8080''" and "well_served free s" and "serve_reachable free s t"
  shows "answers t '':8080'' path = None" and "''/metrics'' \<notin> set (pr_mux (ss_proc st)) \<Longrightarrow>
    fst (promMetric_SetupWithManager st) = Ret () \<and> promMetric_IsInitialized (snd (promMetric_SetupWithManager st))"
  using serve_reachable_ok [OF assms(3,2)] assms(1)
  by (auto simp: answers_def well_served_def metric_setup promMetric_IsInitialized_def)

text \<open>A fresh process starts out well, and reaches a state where both servers listen.\<close>

definition fresh_serving :: "'k proc \<Rightarrow> 'k serving" where
  "fresh_serving p = \<lparr>sv_proc = p, sv_open = []\<rparr>"

lemma fresh_well_served: "pr_mux p = [] \<Longrightarrow> pr_servers p = [] \<Longrightarrow> well_served free (fresh_serving p)"
  by (simp add: well_served_def fresh_serving_def)

lemma metrics_port_takes_updates_example:
  "\<exists>t. serve_reachable (\<lambda>_. True) (fresh_serving demo_proc) t \<and> sv_open t = ['':8080'', '':5000''] \<and>
     answers t '':8080'' ''/hot-update'' = Some (Some ''/hot-update'')"
proof -
  let ?st = "NewStorageFactory demo_metric demo_proc"
  let ?p1 = "demo_proc\<lparr>pr_mux := [''/metrics''], pr_servers := ['':8080'']\<rparr>"
  let ?p2 = "demo_proc\<lparr>pr_mux := [''/metrics'']\<rparr>"
  let ?p3 = "demo_proc\<lparr>pr_mux := [''/metrics'', ''/hot-update'']\<rparr>"
  let ?run = "serve_reachable (\<lambda>_. True) (fresh_serving demo_proc)"
  have p: "pr_mux demo_proc = []" "pr_servers demo_proc = []" by (simp_all add: demo_proc_def)
  have "?run (fresh_serving demo_proc\<lparr>sv_proc := ss_proc (snd (promMetric_SetupWithManager ?st))\<rparr>)"
    by (rule proceeds [OF begins sets_up [where st = ?st]]) (simp_all add: NewStorageFactory_def fresh_serving_def metric_setup p)
  then have "?run \<lparr>sv_proc = ?p1, sv_open = []\<rparr>"
    by (simp add: NewStorageFactory_def fresh_serving_def metric_setup p)
  from proceeds [OF this listens [where addr = "'':8080''"]]
  have "?run \<lparr>sv_proc = ?p2, sv_open = ['':8080'']\<rparr>" by (simp add: Listen_def demo_proc_def)
  from proceeds [OF this handles_updates [where p = ?p3]]
  have "?run \<lparr>sv_proc = ?p3, sv_open = ['':8080'']\<rparr>" by (simp add: go_iff)
  from proceeds [OF this listens_for_updates [where t = "\<lparr>sv_proc = ?p3, sv_open = ['':8080'', '':5000'']\<rparr>"]]
  have "?run \<lparr>sv_proc = ?p3, sv_open = ['':8080'', '':5000'']\<rparr>" by (simp add: Listen_def)
  with metrics_port_takes_updates [OF this fresh_well_served] p show ?thesis by fastforce
qed

end
