(* ===== verification/KcPoll.thy ===== *)
theory KcPoll imports KcMain begin

text \<open>
  The pollers of pkg/assembler/mgr.go in small steps. \<^verbatim>\<open>updatePluginStatus\<close> reads the plugin map and the
  plugin's status without the lock, and takes it only to write the status map. KcMain treats a poll
  as one step; here each poller is at one point of the function, and the steps of all pollers
  interleave with what the plugins do.
\<close>

section \<open>A poll in small steps\<close>

datatype poll_pc =
    Waiting
  | Found plugin_ref \<comment> \<open>the entry of the plugin map\<close>
  | Asked PluginStatus
  | Locked PluginStatus
  | Assigning PluginStatus \<comment> \<open>in the assignment to the status map\<close>
  | Assigned

record fine_state =
  fs_run :: start_state
  fs_polls :: "(string \<times> poll_pc) list"
  fs_lock :: "nat option"

definition fine_start :: "start_state \<Rightarrow> fine_state" where
  "fine_start st = \<lparr>fs_run = st, fs_polls = map (\<lambda>n. (n, Waiting)) (rn_polled st), fs_lock = None\<rparr>"

definition poll_at :: "fine_state \<Rightarrow> nat \<Rightarrow> string \<Rightarrow> poll_pc \<Rightarrow> bool" where
  "poll_at s i n pc \<longleftrightarrow> i < length (fs_polls s) \<and> fs_polls s ! i = (n, pc)"

definition move :: "nat \<Rightarrow> string \<Rightarrow> poll_pc \<Rightarrow> fine_state \<Rightarrow> fine_state" where
  "move i n pc s = s\<lparr>fs_polls := (fs_polls s)[i := (n, pc)]\<rparr>"

definition set_status :: "string \<Rightarrow> PluginStatus \<Rightarrow> start_state \<Rightarrow> start_state" where
  "set_status n st r =
     r\<lparr>rn_sidecar := (rn_sidecar r)\<lparr>sd_pluginStatuses := AList.update n st (sd_pluginStatuses (rn_sidecar r))\<rparr>\<rparr>"

text \<open>
  A tick finds the plugin or not; \<^verbatim>\<open>Status\<close> answers or fails; then lock, assignment, unlock. The last
  two rules are those of \<open>start_step\<close>. Nothing happens once \<^verbatim>\<open>Start\<close> has returned.
\<close>

inductive fine_step :: "fine_state \<Rightarrow> fine_state \<Rightarrow> bool" where
  found: "rn_result (fs_run s) = None \<Longrightarrow> poll_at s i n Waiting \<Longrightarrow>
    map_of (sd_plugins (rn_sidecar (fs_run s))) n = Some r \<Longrightarrow> fine_step s (move i n (Found r) s)"
| missing: "rn_result (fs_run s) = None \<Longrightarrow> poll_at s i n Waiting \<Longrightarrow>
    map_of (sd_plugins (rn_sidecar (fs_run s))) n = None \<Longrightarrow> fine_step s s"
| asked: "rn_result (fs_run s) = None \<Longrightarrow> poll_at s i n (Found r) \<Longrightarrow>
    plugin_Status (sd_heap (rn_sidecar (fs_run s)) ! r) = Ret st \<Longrightarrow> fine_step s (move i n (Asked st) s)"
| refused: "rn_result (fs_run s) = None \<Longrightarrow> poll_at s i n (Found r) \<Longrightarrow>
    plugin_Status (sd_heap (rn_sidecar (fs_run s)) ! r) = Fail e \<Longrightarrow> fine_step s (move i n Waiting s)"
| lock: "rn_result (fs_run s) = None \<Longrightarrow> poll_at s i n (Asked st) \<Longrightarrow> fs_lock s = None \<Longrightarrow>
    fine_step s ((move i n (Locked st) s)\<lparr>fs_lock := Some i\<rparr>)"
| assign: "rn_result (fs_run s) = None \<Longrightarrow> poll_at s i n (Locked st) \<Longrightarrow>
    fine_step s (move i n (Assigning st) s)"
| assigned: "rn_result (fs_run s) = None \<Longrightarrow> poll_at s i n (Assigning st) \<Longrightarrow>
    fine_step s ((move i n Assigned s)\<lparr>fs_run := set_status n st (fs_run s)\<rparr>)"
| unlock: "rn_result (fs_run s) = None \<Longrightarrow> poll_at s i n Assigned \<Longrightarrow>
    fine_step s ((move i n Waiting s)\<lparr>fs_lock := None\<rparr>)"
| work: "rn_result (fs_run s) = None \<Longrightarrow> r \<in> set (rn_started (fs_run s)) \<Longrightarrow>
    r < length (sd_heap (rn_sidecar (fs_run s))) \<Longrightarrow> works (sd_heap (rn_sidecar (fs_run s)) ! r) p \<Longrightarrow>
    fine_step s (s\<lparr>fs_run := (fs_run s)\<lparr>rn_sidecar := (rn_sidecar (fs_run s))
      \<lparr>sd_heap := (sd_heap (rn_sidecar (fs_run s)))[r := p]\<rparr>\<rparr>\<rparr>)"
| receive: "rn_result (fs_run s) = None \<Longrightarrow> r \<in> set (rn_started (fs_run s)) \<Longrightarrow>
    fine_step s (s\<lparr>fs_run := (fs_run s)\<lparr>rn_result := Some e\<rparr>\<rparr>)"

inductive fine_reachable :: "fine_state \<Rightarrow> fine_state \<Rightarrow> bool" for s where
  here: "fine_reachable s s"
| onward: "fine_reachable s t \<Longrightarrow> fine_step t u \<Longrightarrow> fine_reachable s u"

lemma move_fields [simp]:
  "fs_run (move i n pc s) = fs_run s" "fs_lock (move i n pc s) = fs_lock s"
  "length (fs_polls (move i n pc s)) = length (fs_polls s)"
  by (simp_all add: move_def)

lemma poll_at_fields [simp]:
  "poll_at (s\<lparr>fs_run := x\<rparr>) i n pc = poll_at s i n pc" "poll_at (s\<lparr>fs_lock := l\<rparr>) i n pc = poll_at s i n pc"
  by (simp_all add: poll_at_def)

lemma poll_at_move:
  "poll_at (move i n pc s) j m q \<longleftrightarrow> j < length (fs_polls s) \<and> (if j = i then (m, q) = (n, pc) else poll_at s j m q)"
  by (auto simp: poll_at_def move_def nth_list_update)

lemma poll_at_unique: "poll_at s i n pc \<Longrightarrow> poll_at s i m q \<Longrightarrow> m = n \<and> q = pc"
  by (simp add: poll_at_def)

section \<open>Mutual exclusion\<close>

definition holds_lock :: "poll_pc \<Rightarrow> bool" where
  "holds_lock pc \<longleftrightarrow> (case pc of Locked st \<Rightarrow> True | Assigning st \<Rightarrow> True | Assigned \<Rightarrow> True | _ \<Rightarrow> False)"

definition exclusive :: "fine_state \<Rightarrow> bool" where
  "exclusive s \<longleftrightarrow> (\<forall>i n pc. poll_at s i n pc \<longrightarrow> holds_lock pc \<longrightarrow> fs_lock s = Some i)"

lemma exclusiveD: "exclusive s \<Longrightarrow> poll_at s i n pc \<Longrightarrow> holds_lock pc \<Longrightarrow> fs_lock s = Some i"
  by (auto simp: exclusive_def)

lemma fine_step_exclusive:
  assumes "fine_step s t" and "exclusive s"
  shows "exclusive t"
  using assms
proof (induction rule: fine_step.induct)
  case (lock s i n st)
  then have "\<not> holds_lock pc" if "poll_at s j m pc" for j m pc
    using that by (auto simp: exclusive_def)
  then show ?case by (auto simp: exclusive_def poll_at_move split: if_splits)
next
  case (unlock s i n)
  then have "fs_lock s = Some i" using exclusiveD [OF unlock(3,2)] by (simp add: holds_lock_def)
  with unlock have "\<not> holds_lock pc" if "poll_at s j m pc" "j \<noteq> i" for j m pc
    using that by (auto simp: exclusive_def)
  then show ?case by (auto simp: exclusive_def poll_at_move holds_lock_def split: if_splits)
next
  case (assign s i n st)
  then have "fs_lock s = Some i" using exclusiveD [OF assign(3,2)] by (simp add: holds_lock_def)
  with assign show ?case by (auto simp: exclusive_def poll_at_move split: if_splits)
next
  case (assigned s i n st)
  then have "fs_lock s = Some i" using exclusiveD [OF assigned(3,2)] by (simp add: holds_lock_def)
  with assigned show ?case by (auto simp: exclusive_def poll_at_move split: if_splits)
qed (auto simp: exclusive_def poll_at_move holds_lock_def split: if_splits)

lemma fine_start_exclusive: "exclusive (fine_start st)"
  by (auto simp: exclusive_def poll_at_def fine_start_def holds_lock_def)

section \<open>The atomic polls do the same\<close>

text \<open>A status that was read and is not written yet. The atomic poll has written it already.\<close>

fun pending :: "poll_pc \<Rightarrow> PluginStatus option" where
  "pending (Asked st) = Some st"
| "pending (Locked st) = Some st"
| "pending (Assigning st) = Some st"
| "pending _ = None"

definition with_statuses :: "(string \<times> PluginStatus) list \<Rightarrow> start_state \<Rightarrow> start_state" where
  "with_statuses x r = r\<lparr>rn_sidecar := (rn_sidecar r)\<lparr>sd_pluginStatuses := x\<rparr>\<rparr>"

definition matches :: "fine_state \<Rightarrow> (string \<times> PluginStatus) list \<Rightarrow> bool" where
  "matches s x \<longleftrightarrow>
     (\<forall>i n pc st. poll_at s i n pc \<longrightarrow> pending pc = Some st \<longrightarrow> map_of x n = Some st) \<and>
     (\<forall>n. (\<forall>i pc. poll_at s i n pc \<longrightarrow> pending pc = None) \<longrightarrow>
        map_of x n = map_of (sd_pluginStatuses (rn_sidecar (fs_run s))) n)"

text \<open>What is looked up stays valid, and only a built-in plugin has a status, which one poller asks for.\<close>

definition well_polled :: "fine_state \<Rightarrow> bool" where
  "well_polled s \<longleftrightarrow>
     map fst (fs_polls s) = rn_polled (fs_run s) \<and> sidecar_ok (rn_sidecar (fs_run s)) \<and>
     (\<forall>i n r. poll_at s i n (Found r) \<longrightarrow> map_of (sd_plugins (rn_sidecar (fs_run s))) n = Some r) \<and>
     (\<forall>i n pc st. poll_at s i n pc \<longrightarrow> pending pc = Some st \<longrightarrow> n \<in> {probe_Name, hotUpdateName} \<and> pst_Name st = n) \<and>
     (\<forall>i j n pc q. poll_at s i n pc \<longrightarrow> poll_at s j n q \<longrightarrow> n \<in> {probe_Name, hotUpdateName} \<longrightarrow> i = j)"

lemma well_polledD:
  assumes "well_polled s"
  shows "map fst (fs_polls s) = rn_polled (fs_run s)" and "sidecar_ok (rn_sidecar (fs_run s))"
    and "poll_at s i n (Found r) \<Longrightarrow> map_of (sd_plugins (rn_sidecar (fs_run s))) n = Some r"
    and "poll_at s i n pc \<Longrightarrow> pending pc = Some st \<Longrightarrow> n \<in> {probe_Name, hotUpdateName} \<and> pst_Name st = n"
    and "poll_at s i n pc \<Longrightarrow> poll_at s j n q \<Longrightarrow> n \<in> {probe_Name, hotUpdateName} \<Longrightarrow> i = j"
  using assms unfolding well_polled_def by blast+

lemma status_is_builtin:
  assumes "sidecar_ok s" and "map_of (sd_plugins s) n = Some r" and "plugin_Status (sd_heap s ! r) = Ret st"
  shows "n \<in> {probe_Name, hotUpdateName} \<and> pst_Name st = n"
proof -
  let ?t = "s\<lparr>sd_pluginStatuses := AList.update n st (sd_pluginStatuses s)\<rparr>"
  have "updatePluginStatus n s = (Ret st, ?t)" using assms(2,3) by (simp add: updatePluginStatus_def)
  from updatePluginStatus_ok [OF assms(1) this] have "sidecar_ok ?t" .
  moreover have "map_of (sd_pluginStatuses ?t) n = Some st" by (simp add: update_conv')
  ultimately show ?thesis unfolding sidecar_ok_def by blast
qed

lemma with_statuses_fields [simp]:
  "sd_plugins (rn_sidecar (with_statuses x r)) = sd_plugins (rn_sidecar r)"
  "sd_heap (rn_sidecar (with_statuses x r)) = sd_heap (rn_sidecar r)"
  "sd_pluginStatuses (rn_sidecar (with_statuses x r)) = x"
  "rn_result (with_statuses x r) = rn_result r" "rn_polled (with_statuses x r) = rn_polled r"
  "rn_started (with_statuses x r) = rn_started r"
  by (simp_all add: with_statuses_def)

lemma with_statuses_set [simp]: "with_statuses x (set_status n st r) = with_statuses x r"
  by (simp add: with_statuses_def set_status_def)

lemma atomic_tick:
  assumes "rn_result r = None" and "n \<in> set (rn_polled r)" and "map_of (sd_plugins (rn_sidecar r)) n = Some p"
    and "plugin_Status (sd_heap (rn_sidecar r) ! p) = Ret st"
  shows "start_step (with_statuses x r) (with_statuses (AList.update n st x) r)"
proof -
  have "updatePluginStatus n (rn_sidecar (with_statuses x r)) =
      (Ret st, (rn_sidecar r)\<lparr>sd_pluginStatuses := AList.update n st x\<rparr>)"
    using assms(3,4) by (simp add: updatePluginStatus_def) (simp add: with_statuses_def)
  from start_step.tick [OF _ _ this] assms(1,2)
  have "start_step (with_statuses x r)
      ((with_statuses x r)\<lparr>rn_sidecar := (rn_sidecar r)\<lparr>sd_pluginStatuses := AList.update n st x\<rparr>\<rparr>)"
    by simp
  then show ?thesis by (simp add: with_statuses_def)
qed

text \<open>Moving to a point with the same pending status keeps the match.\<close>

lemma poll_at_moved: "poll_at s i n pc \<Longrightarrow> poll_at (move i n q s) i n q"
  by (simp add: poll_at_move) (simp add: poll_at_def)

lemma poll_at_kept: "poll_at s j m p \<Longrightarrow> j \<noteq> i \<Longrightarrow> poll_at (move i n q s) j m p"
  by (simp add: poll_at_move) (simp add: poll_at_def)

lemma matches_move:
  assumes "matches s x" and "poll_at s i n pc" and "pending q = pending pc"
  shows "matches (move i n q s) x"
  unfolding matches_def
proof (intro conjI allI impI)
  fix j m p st assume "poll_at (move i n q s) j m p" "pending p = Some st"
  then have "\<exists>p'. poll_at s j m p' \<and> pending p' = Some st"
    using assms(2,3) by (auto simp: poll_at_move split: if_splits)
  then show "map_of x m = Some st" using assms(1) by (auto simp: matches_def)
next
  fix m assume none: "\<forall>j p. poll_at (move i n q s) j m p \<longrightarrow> pending p = None"
  have "pending p = None" if at: "poll_at s j m p" for j p
  proof (cases "j = i")
    case True
    then have "m = n" "p = pc" using at poll_at_unique [OF assms(2)] by blast+
    then show ?thesis using none poll_at_moved [OF assms(2), of q] assms(3) by auto
  next
    case False
    then show ?thesis using none poll_at_kept [OF at False] by blast
  qed
  then show "map_of x m = map_of (sd_pluginStatuses (rn_sidecar (fs_run (move i n q s)))) m"
    using assms(1) by (simp add: matches_def)
qed

lemma well_polled_move:
  assumes "well_polled s" and "poll_at s i n pc"
    and "\<And>r. q = Found r \<Longrightarrow> map_of (sd_plugins (rn_sidecar (fs_run s))) n = Some r"
    and "\<And>st. pending q = Some st \<Longrightarrow> n \<in> {probe_Name, hotUpdateName} \<and> pst_Name st = n"
  shows "well_polled (move i n q s)"
proof -
  have names: "map fst (fs_polls (move i n q s)) = map fst (fs_polls s)"
    using assms(2) by (simp add: move_def map_update poll_at_def) (metis fst_conv list_update_id nth_map)
  have "\<exists>p'. poll_at s j m p'" if "poll_at (move i n q s) j m p" for j m p
    using that assms(2) by (auto simp: poll_at_move split: if_splits)
  note old = this
  have cases: "(j = i \<and> m = n \<and> p = q) \<or> poll_at s j m p" if "poll_at (move i n q s) j m p" for j m p
    using that by (auto simp: poll_at_move split: if_splits)
  show ?thesis
    unfolding well_polled_def move_fields
  proof (intro conjI allI impI)
    fix j m r assume "poll_at (move i n q s) j m (Found r)"
    then show "map_of (sd_plugins (rn_sidecar (fs_run s))) m = Some r"
      using cases assms(3) well_polledD(3) [OF assms(1)] by blast
  next
    fix j m p st assume "poll_at (move i n q s) j m p" "pending p = Some st"
    then have "m \<in> {probe_Name, hotUpdateName} \<and> pst_Name st = m"
      using cases assms(4) well_polledD(4) [OF assms(1)] by blast
    then show "m \<in> {probe_Name, hotUpdateName}" "pst_Name st = m" by simp_all
  next
    fix j j' m p p' assume "poll_at (move i n q s) j m p" "poll_at (move i n q s) j' m p'" "m \<in> {probe_Name, hotUpdateName}"
    then show "j = j'" using old well_polledD(5) [OF assms(1)] by blast
  qed (use names well_polledD(1,2) [OF assms(1)] in simp_all)
qed

text \<open>One small step is one atomic step or none.\<close>

definition follows :: "fine_state \<Rightarrow> fine_state \<Rightarrow> (string \<times> PluginStatus) list \<Rightarrow> bool" where
  "follows s u x \<longleftrightarrow> (\<exists>y. matches u y \<and>
    (with_statuses y (fs_run u) = with_statuses x (fs_run s) \<or>
     start_step (with_statuses x (fs_run s)) (with_statuses y (fs_run u))))"

lemma silent_step: "matches u x \<Longrightarrow> fs_run u = fs_run s \<Longrightarrow> follows s u x"
  unfolding follows_def by (intro exI [of _ x]) simp

lemma well_polled_lock [simp]: "well_polled (s\<lparr>fs_lock := l\<rparr>) = well_polled s"
  by (simp add: well_polled_def)

lemma matches_lock [simp]: "matches (s\<lparr>fs_lock := l\<rparr>) x = matches s x"
  by (simp add: matches_def)

lemma well_polled_run:
  assumes "well_polled s" and "rn_polled r = rn_polled (fs_run s)" and "sidecar_ok (rn_sidecar r)"
    and "sd_plugins (rn_sidecar r) = sd_plugins (rn_sidecar (fs_run s))"
  shows "well_polled (s\<lparr>fs_run := r\<rparr>)"
proof -
  have [simp]: "fs_polls (s\<lparr>fs_run := r\<rparr>) = fs_polls s" "fs_run (s\<lparr>fs_run := r\<rparr>) = r" by simp_all
  note d = well_polledD [OF assms(1)]
  show ?thesis
    unfolding well_polled_def poll_at_fields
  proof (intro conjI allI impI)
    fix i n q st assume "poll_at s i n q" "pending q = Some st"
    from d(4) [OF this] show "n \<in> {probe_Name, hotUpdateName}" "pst_Name st = n" by simp_all
  next
    fix i j n q q' assume "poll_at s i n q" "poll_at s j n q'" "n \<in> {probe_Name, hotUpdateName}"
    then show "i = j" by (rule d(5))
  qed (use d(1,3) assms(2-4) in simp_all)
qed

lemma silent_move:
  assumes "well_polled s" and "matches s x" and "poll_at s i n pc" and "pending q = pending pc"
    and "\<And>r. q = Found r \<Longrightarrow> map_of (sd_plugins (rn_sidecar (fs_run s))) n = Some r"
  shows "well_polled (move i n q s) \<and> follows s ((move i n q s)\<lparr>fs_lock := l\<rparr>) x"
proof
  show "well_polled (move i n q s)"
    by (rule well_polled_move [OF assms(1,3,5)]) (use assms(4) well_polledD(4) [OF assms(1,3)] in simp_all)
  show "follows s ((move i n q s)\<lparr>fs_lock := l\<rparr>) x"
    by (rule silent_step) (use matches_move [OF assms(2,3,4)] in simp_all)
qed

lemma move_lock: "(move i n q s)\<lparr>fs_lock := fs_lock s\<rparr> = move i n q s"
  by (simp add: move_def)

text \<open>Reading a status is where the atomic poll happens.\<close>

lemma asked_follows:
  assumes "well_polled s" and "matches s x" and "rn_result (fs_run s) = None" and "poll_at s i n (Found r)"
    and "plugin_Status (sd_heap (rn_sidecar (fs_run s)) ! r) = Ret st"
  shows "well_polled (move i n (Asked st) s) \<and> follows s (move i n (Asked st) s) x"
proof -
  let ?y = "AList.update n st x"
  note at = well_polledD(3) [OF assms(1,4)]
  have n: "n \<in> {probe_Name, hotUpdateName} \<and> pst_Name st = n"
    using status_is_builtin [OF well_polledD(2) [OF assms(1)] at assms(5)] .
  have "well_polled (move i n (Asked st) s)"
    by (rule well_polled_move [OF assms(1,4)]) (use n in simp_all)
  moreover have "matches (move i n (Asked st) s) ?y"
    unfolding matches_def
  proof (intro conjI allI impI)
    fix j m p st' assume p: "poll_at (move i n (Asked st) s) j m p" "pending p = Some st'"
    show "map_of ?y m = Some st'"
    proof (cases "j = i")
      case True
      then show ?thesis using p by (auto simp: poll_at_move update_conv')
    next
      case False
      then have old: "poll_at s j m p" using p(1) by (simp add: poll_at_move)
      then have "m \<noteq> n" using well_polledD(5) [OF assms(1) assms(4), of j p] n False by blast
      then show ?thesis using assms(2) old p(2) by (simp add: matches_def update_conv')
    qed
  next
    fix m assume none: "\<forall>j p. poll_at (move i n (Asked st) s) j m p \<longrightarrow> pending p = None"
    then have "m \<noteq> n" using poll_at_moved [OF assms(4), of "Asked st"] by force
    moreover have "pending p = None" if "poll_at s j m p" for j p
    proof (cases "j = i")
      case True
      then show ?thesis using that poll_at_unique [OF assms(4)] \<open>m \<noteq> n\<close> by blast
    next
      case False
      then show ?thesis using none poll_at_kept [OF that False] by blast
    qed
    ultimately show "map_of ?y m = map_of (sd_pluginStatuses (rn_sidecar (fs_run (move i n (Asked st) s)))) m"
      using assms(2) by (simp add: matches_def update_conv')
  qed
  moreover have "n \<in> set (rn_polled (fs_run s))"
    using assms(4) unfolding well_polledD(1) [OF assms(1), symmetric] poll_at_def
    by (metis fst_conv length_map nth_map nth_mem)
  ultimately show ?thesis
    using atomic_tick [OF assms(3) _ at assms(5), of x] unfolding follows_def by auto
qed

text \<open>Writing it makes the status map catch up.\<close>

lemma assigned_follows:
  assumes "well_polled s" and "matches s x" and "poll_at s i n (Assigning st)"
  shows "well_polled ((move i n Assigned s)\<lparr>fs_run := set_status n st (fs_run s)\<rparr>) \<and>
    follows s ((move i n Assigned s)\<lparr>fs_run := set_status n st (fs_run s)\<rparr>) x" (is "well_polled ?u \<and> _")
proof -
  have n: "n \<in> {probe_Name, hotUpdateName} \<and> pst_Name st = n" using well_polledD(4) [OF assms(1,3)] by simp
  have moved: "well_polled (move i n Assigned s)"
    by (rule well_polled_move [OF assms(1,3)]) simp_all
  have "sidecar_ok (rn_sidecar (set_status n st (fs_run s)))"
    using well_polledD(2) [OF assms(1)] n unfolding sidecar_ok_def set_status_def by (auto simp: update_conv')
  then have "well_polled ?u" by (intro well_polled_run [OF moved]) (simp_all add: set_status_def)
  moreover have "matches ?u x"
    unfolding matches_def
  proof (intro conjI allI impI)
    fix j m p st' assume p: "poll_at ?u j m p" "pending p = Some st'"
    then have "poll_at s j m p" by (auto simp: poll_at_move split: if_splits)
    then show "map_of x m = Some st'" using p(2) assms(2) unfolding matches_def by blast
  next
    fix m assume none: "\<forall>j p. poll_at ?u j m p \<longrightarrow> pending p = None"
    show "map_of x m = map_of (sd_pluginStatuses (rn_sidecar (fs_run ?u))) m"
    proof (cases "m = n")
      case True
      have "map_of x n = Some st" using assms(2,3) by (auto simp: matches_def)
      then show ?thesis using True by (simp add: set_status_def update_conv')
    next
      case False
      have "pending p = None" if "poll_at s j m p" for j p
      proof -
        have "j \<noteq> i" using that poll_at_unique [OF assms(3)] False by blast
        with none poll_at_kept [OF that this] show ?thesis unfolding poll_at_fields by blast
      qed
      then show ?thesis using assms(2) False by (simp add: matches_def set_status_def update_conv')
    qed
  qed
  ultimately show ?thesis unfolding follows_def by (intro conjI exI [of _ x]) simp_all
qed

lemma heap_statuses_swap:
  "(s :: sidecar)\<lparr>sd_heap := h, sd_pluginStatuses := x\<rparr> = s\<lparr>sd_pluginStatuses := x, sd_heap := h\<rparr>"
  by (cases s) simp

lemma result_sidecar_swap:
  "(r :: start_state)\<lparr>rn_result := e, rn_sidecar := s\<rparr> = r\<lparr>rn_sidecar := s, rn_result := e\<rparr>"
  by (cases r) simp

lemma fine_step_follows:
  assumes "fine_step s u" and "well_polled s" and "matches s x"
  shows "well_polled u \<and> follows s u x"
  using assms
proof (induction rule: fine_step.induct)
  case (found s i n r)
  then show ?case using silent_move [OF found(4,5,2), of "Found r" "fs_lock s"] by (simp add: move_lock)
next
  case (missing s i n)
  then show ?case using silent_step by blast
next
  case (asked s i n r st)
  show ?case by (rule asked_follows [OF asked(4,5,1,2,3)])
next
  case (refused s i n r e)
  then show ?case using silent_move [OF refused(4,5,2), of Waiting "fs_lock s"] by (simp add: move_lock)
next
  case (lock s i n st)
  then show ?case using silent_move [OF lock(4,5,2), of "Locked st" "Some i"] by simp
next
  case (assign s i n st)
  then show ?case using silent_move [OF assign(3,4,2), of "Assigning st" "fs_lock s"] by (simp add: move_lock)
next
  case (assigned s i n st)
  show ?case by (rule assigned_follows [OF assigned(3,4,2)])
next
  case (unlock s i n)
  then show ?case using silent_move [OF unlock(3,4,2), of Waiting None] by simp
next
  case (work s r p)
  let ?run = "(fs_run s)\<lparr>rn_sidecar := (rn_sidecar (fs_run s))\<lparr>sd_heap := (sd_heap (rn_sidecar (fs_run s)))[r := p]\<rparr>\<rparr>"
  have "well_polled (s\<lparr>fs_run := ?run\<rparr>)"
    by (intro well_polled_run [OF work(5)]) (use work_ok [OF well_polledD(2) [OF work(5)] work(3,4)] in simp_all)
  moreover have "matches (s\<lparr>fs_run := ?run\<rparr>) x" using work(6) by (simp add: matches_def)
  moreover have "start_step (with_statuses x (fs_run s)) (with_statuses x ?run)"
    using start_step.work [of "with_statuses x (fs_run s)" r p] work(1-4)
    by (simp add: with_statuses_def heap_statuses_swap)
  ultimately show ?case unfolding follows_def by auto
next
  case (receive s r e)
  have "start_step (with_statuses x (fs_run s)) (with_statuses x ((fs_run s)\<lparr>rn_result := Some e\<rparr>))"
    using start_step.receive [of "with_statuses x (fs_run s)" r e] receive(1,2)
    by (simp add: with_statuses_def result_sidecar_swap)
  moreover have "well_polled (s\<lparr>fs_run := (fs_run s)\<lparr>rn_result := Some e\<rparr>\<rparr>)"
    by (intro well_polled_run [OF receive(3)]) (use well_polledD(2) [OF receive(3)] in simp_all)
  moreover have "matches (s\<lparr>fs_run := (fs_run s)\<lparr>rn_result := Some e\<rparr>\<rparr>) x"
    using receive(4) by (simp add: matches_def)
  ultimately show ?case unfolding follows_def by auto
qed

section \<open>From the start of the process\<close>

lemma fine_reachable_follows:
  assumes "fine_reachable s u" and "well_polled s" and "matches s x"
  shows "well_polled u \<and> (\<exists>y. matches u y \<and> start_reachable (with_statuses x (fs_run s)) (with_statuses y (fs_run u)))"
  using assms(1)
proof (induction rule: fine_reachable.induct)
  case here
  then show ?case using assms(2,3) start_reachable.here by blast
next
  case (onward t u)
  then obtain y where y: "well_polled t" "matches t y"
    "start_reachable (with_statuses x (fs_run s)) (with_statuses y (fs_run t))" by blast
  with fine_step_follows [OF onward(2) y(1,2)] start_reachable.onward show ?case
    unfolding follows_def by metis
qed

lemma fine_reachable_exclusive: "fine_reachable s u \<Longrightarrow> exclusive s \<Longrightarrow> exclusive u"
  by (induction rule: fine_reachable.induct) (auto intro: fine_step_exclusive)

text \<open>No two pollers ask for the same built-in plugin.\<close>

lemma builtin_polled_once:
  assumes "sidecar_ok s" and "distinct (map fst (sd_plugins s))"
    and "i < length (polled_names s)" and "j < length (polled_names s)"
    and "polled_names s ! i = n" and "polled_names s ! j = n" and "n \<in> {probe_Name, hotUpdateName}"
  shows "i = j"
proof -
  have key: "fst (sd_plugins s ! k) = n" if "k < length (polled_names s)" "polled_names s ! k = n" for k
  proof -
    have k: "k < length (sd_plugins s)" using that(1) by (simp add: polled_names_def)
    obtain m r where e: "sd_plugins s ! k = (m, r)" by fastforce
    then have "map_of (sd_plugins s) m = Some r" using k assms(2) by (metis map_of_is_SomeI nth_mem)
    then have ok: "initialized_plugin (sd_heap s ! r)" "is_builtin (sd_heap s ! r) \<Longrightarrow> plugin_Name (sd_heap s ! r) = m"
      using assms(1) unfolding sidecar_ok_def by blast+
    have "plugin_Name (sd_heap s ! r) = n" using that(2) k e by (simp add: polled_names_def)
    moreover from this have "is_builtin (sd_heap s ! r)"
      using ok(1) assms(7)
      by (auto simp: is_builtin_def initialized_plugin_def plugin_Name_def probe_Name_def hotUpdateName_def split: plugin.splits)
    ultimately show ?thesis using ok(2) e by simp
  qed
  have "i < length (map fst (sd_plugins s))" "j < length (map fst (sd_plugins s))"
    using assms(3,4) by (simp_all add: polled_names_def)
  moreover from this have "map fst (sd_plugins s) ! i = map fst (sd_plugins s) ! j"
    using key [OF assms(3,5)] key [OF assms(4,6)] by simp
  ultimately show ?thesis using nth_eq_iff_index_eq [OF assms(2)] by blast
qed

lemma fine_start_ok:
  assumes "sidecar_main lib path p = (Serving st, p')" and "range_order (mn_order2 lib)"
  shows "well_polled (fine_start st) \<and> matches (fine_start st) (sd_pluginStatuses (rn_sidecar st))"
proof -
  obtain t where "quiet t" "main_start lib t = Serving st" using sidecar_main_Serving [OF assms(1)] by blast
  then obtain v where v: "quiet v" "rn_sidecar st = v"
    "rn_polled st = polled_names (v\<lparr>sd_plugins := mn_order2 lib (sd_plugins v)\<rparr>)"
    using main_start_ok by (metis start_state.select_convs(1,3))
  let ?v = "v\<lparr>sd_plugins := mn_order2 lib (sd_plugins v)\<rparr>"
  have perm: "mset (mn_order2 lib (sd_plugins v)) = mset (sd_plugins v)" using assms(2) by (simp add: range_order_def)
  have keys: "distinct (map fst (sd_plugins v))" using v(1) by (simp add: quiet_def)
  then have keys': "distinct (map fst (sd_plugins ?v))"
    using perm by (simp, metis mset_eq_imp_distinct_iff mset_map)
  have "map_of (sd_plugins ?v) = map_of (sd_plugins v)"
    using perm keys keys' by (simp, metis map_of_inject_set set_mset_mset)
  then have ok: "sidecar_ok ?v" "sidecar_ok v" using v(1) by (simp_all add: quiet_def sidecar_ok_def)
  have at: "poll_at (fine_start st) i n pc \<longleftrightarrow> pc = Waiting \<and> i < length (rn_polled st) \<and> rn_polled st ! i = n" for i n pc
    by (auto simp: poll_at_def fine_start_def)
  have "well_polled (fine_start st)"
    unfolding well_polled_def at
    using builtin_polled_once [OF ok(1) keys'] ok(2) v by (auto simp: fine_start_def o_def)
  moreover have "matches (fine_start st) (sd_pluginStatuses (rn_sidecar st))"
    unfolding matches_def at by (auto simp: fine_start_def)
  ultimately show ?thesis by blast
qed

section \<open>Properties\<close>

text \<open>
  C9: the pollers exclude each other where they write the status map, so the runtime never
  finds two writes at once; and whenever all of them are between two polls, the sidecar is as if
  every poll had been one step: some run in which polls are atomic has the same plugins, the same
  objects and the same statuses.
\<close>

theorem polls_are_atomic:
  assumes "sidecar_main lib path p = (Serving st, p')" and "range_order (mn_order2 lib)"
    and "fine_reachable (fine_start st) u"
  shows "(\<forall>i j n m x y. poll_at u i n (Assigning x) \<longrightarrow> poll_at u j m (Assigning y) \<longrightarrow> i = j) \<and>
    ((\<forall>i n pc. poll_at u i n pc \<longrightarrow> pc = Waiting) \<longrightarrow>
      (\<exists>t. start_reachable st t \<and> sd_plugins (rn_sidecar t) = sd_plugins (rn_sidecar (fs_run u)) \<and>
        sd_heap (rn_sidecar t) = sd_heap (rn_sidecar (fs_run u)) \<and>
        map_of (sd_pluginStatuses (rn_sidecar t)) = map_of (sd_pluginStatuses (rn_sidecar (fs_run u)))))"
proof -
  have ex: "exclusive u" using fine_reachable_exclusive [OF assms(3) fine_start_exclusive] .
  have same: "with_statuses (sd_pluginStatuses (rn_sidecar st)) (fs_run (fine_start st)) = st"
    by (simp add: with_statuses_def fine_start_def)
  obtain y where y: "matches u y" "start_reachable st (with_statuses y (fs_run u))"
    using fine_reachable_follows [OF assms(3)] fine_start_ok [OF assms(1,2)] same by metis
  have "map_of y = map_of (sd_pluginStatuses (rn_sidecar (fs_run u)))" if "\<forall>i n pc. poll_at u i n pc \<longrightarrow> pc = Waiting"
  proof
    fix n
    have "pending pc = None" if at: "poll_at u i n pc" for i pc
    proof -
      have "pc = Waiting" using that \<open>\<forall>i n pc. poll_at u i n pc \<longrightarrow> pc = Waiting\<close> by blast
      then show ?thesis by simp
    qed
    then show "map_of y n = map_of (sd_pluginStatuses (rn_sidecar (fs_run u))) n"
      using y(1) unfolding matches_def by blast
  qed
  then have "\<exists>t. start_reachable st t \<and> sd_plugins (rn_sidecar t) = sd_plugins (rn_sidecar (fs_run u)) \<and>
        sd_heap (rn_sidecar t) = sd_heap (rn_sidecar (fs_run u)) \<and>
        map_of (sd_pluginStatuses (rn_sidecar t)) = map_of (sd_pluginStatuses (rn_sidecar (fs_run u)))"
    if "\<forall>i n pc. poll_at u i n pc \<longrightarrow> pc = Waiting"
    using that y(2) by (intro exI [of _ "with_statuses y (fs_run u)"]) simp
  moreover have "i = j" if "poll_at u i n (Assigning a)" "poll_at u j m (Assigning b)" for i j n m a b
    using exclusiveD [OF ex that(1)] exclusiveD [OF ex that(2)] by (simp add: holds_lock_def)
  ultimately show ?thesis by blast
qed

text \<open>
  The demonstration's sidecar, where the probe plugin starts to run and then one poll asks it,
  waits for the lock and writes what it said.
\<close>

definition demo_serving :: start_state where
  "demo_serving =
     \<lparr>rn_sidecar = demo_running\<lparr>sd_manager := True, sd_pluginStatuses := [(probe_Name,
        \<lparr>pst_Name = probe_Name, pst_Version = [], pst_Running = False, pst_LastChecked = [],
         pst_Health = [], pst_Infos = []\<rparr>)]\<rparr>,
      rn_started = [0, 2], rn_polled = [''binary'', probe_Name], rn_web = False, rn_result = None\<rparr>"

lemma demo_serves:
  "sidecar_main demo_main x demo_proc = (Serving demo_serving, demo_proc\<lparr>pr_kube := True\<rparr>)"
  by (simp add: sidecar_main_def main_start_def start_sidecar_def startAllPlugins_def LoadConfig_def loadConfig_def
      registered_sidecar_def RegisterPlugin_def SetGlobalKubeInterface_def polled_names_def demo_main_def NewManager_def
      tryM_def catchM_def InitPlugins_def sidecar_SetupWithManager_def zoomM_apply demo_sidecar_config_def
      demo_sidecar_def NewSidecar_def builtin_plugins_def add_binary_def AddPlugin_def probe_Name_def hotUpdateName_def
      configured_def demo_config_lib_def ConvertJsonObjectToStruct_def isPointerToStruct_def probe_Init_def
      plugin_Name_def Let_def isPluginRunning_def PluginStatus_of_def updatePluginStatus_def plugin_Status_def
      binary_NewPlugin_def binary_Status_def probe_Status_def ps_getStatus_def demo_serving_def demo_running_def)

definition demo_probing :: plugin where
  "demo_probing = HttpProbePlugin (Some
     (\<lparr>hpc_StartDelaySeconds = 30, hpc_Endpoints = [], hpc_ProbeIntervalSeconds = 5\<rparr>,
      \<lparr>ps_status = ''Running'', ps_err = None, ps_activeGoroutines = 0\<rparr>))"

definition demo_answer :: PluginStatus where
  "demo_answer =
     \<lparr>pst_Name = probe_Name, pst_Version = [], pst_Running = True, pst_LastChecked = [],
      pst_Health = ''Running'', pst_Infos = []\<rparr>"

definition demo_working :: start_state where
  "demo_working = demo_serving\<lparr>rn_sidecar := (rn_sidecar demo_serving)
     \<lparr>sd_heap := (sd_heap (rn_sidecar demo_serving))[0 := demo_probing]\<rparr>\<rparr>"

definition demo_polled :: fine_state where
  "demo_polled = \<lparr>fs_run = set_status probe_Name demo_answer demo_working,
     fs_polls = [(''binary'', Waiting), (probe_Name, Waiting)], fs_lock = None\<rparr>"

lemma demo_poll_reached: "fine_reachable (fine_start demo_serving) demo_polled"
proof -
  let ?run = "fine_reachable (fine_start demo_serving)"
  let ?at = "\<lambda>pc l. \<lparr>fs_run = demo_working, fs_polls = [(''binary'', Waiting), (probe_Name, pc)], fs_lock = l\<rparr>"
  have w: "rn_result demo_working = None" "map_of (sd_plugins (rn_sidecar demo_working)) probe_Name = Some 0"
    "plugin_Status (sd_heap (rn_sidecar demo_working) ! 0) = Ret demo_answer"
    by (simp_all add: demo_working_def demo_serving_def demo_running_def demo_probing_def probe_Name_def plugin_Status_def
        probe_Status_def ps_getStatus_def demo_answer_def)
  have at: "poll_at (?at pc l) (Suc 0) probe_Name pc" and mv: "move (Suc 0) probe_Name pc' (?at pc l) = ?at pc' l" for pc pc' l
    by (simp_all add: poll_at_def move_def)
  have "?run (?at Waiting None)"
    using onward [OF here work [where s = "fine_start demo_serving" and r = 0 and p = demo_probing]]
    by (simp add: fine_start_def demo_serving_def demo_running_def demo_working_def works_def demo_probing_def
        is_builtin_def plugin_Name_def initialized_plugin_def)
  from onward [OF this found [OF _ at]] w have "?run (?at (Found 0) None)" by (simp add: mv)
  from onward [OF this asked [OF _ at]] w have "?run (?at (Asked demo_answer) None)" by (simp add: mv)
  from onward [OF this lock [OF _ at]] w have "?run (?at (Locked demo_answer) (Some (Suc 0)))" by (simp add: mv)
  from onward [OF this assign [OF _ at]] w have "?run (?at (Assigning demo_answer) (Some (Suc 0)))" by (simp add: mv)
  from onward [OF this assigned [OF _ at]] w
  have run: "?run ((?at Assigned (Some (Suc 0)))\<lparr>fs_run := set_status probe_Name demo_answer demo_working\<rparr>)" by (simp add: mv)
  have "rn_result (set_status probe_Name demo_answer demo_working) = None" by (simp add: set_status_def w)
  with onward [OF run unlock [where i = "Suc 0" and n = probe_Name]] show ?thesis
    by (simp add: poll_at_def move_def demo_polled_def)
qed

theorem polls_are_atomic_witness:
  "\<exists>t. fine_reachable (fine_start demo_serving) demo_polled \<and> start_reachable demo_serving t \<and>
     map_of (sd_pluginStatuses (rn_sidecar t)) ''http_probe'' = Some demo_answer"
proof -
  have "range_order (mn_order2 demo_main)" by (simp add: demo_main_def range_order_id)
  note atomic = polls_are_atomic [OF demo_serves this demo_poll_reached, THEN conjunct2]
  have "poll_at demo_polled i n pc \<Longrightarrow> pc = Waiting" for i n pc
    by (auto simp: poll_at_def demo_polled_def less_Suc_eq nth_Cons')
  with atomic obtain t where t: "start_reachable demo_serving t"
    "map_of (sd_pluginStatuses (rn_sidecar t)) = map_of (sd_pluginStatuses (rn_sidecar (fs_run demo_polled)))" by blast
  have "map_of (sd_pluginStatuses (rn_sidecar (fs_run demo_polled))) ''http_probe'' = Some demo_answer"
    by (simp add: demo_polled_def set_status_def update_conv' probe_Name_def)
  with t demo_poll_reached show ?thesis by auto
qed

end
