(* ===== verification/KcRestart.thy ===== *)
theory KcRestart imports KcHotUpdateProps begin

text \<open>
  An update and a later start of the hot-update plugin together: what the handler saved is what
  \<^verbatim>\<open>setHotUpdateConfigWhenStart\<close> finds, picks and loads.
\<close>

section \<open>What an update leaves behind\<close>

text \<open>Documents decode to maps, in which no key occurs twice.\<close>

definition yaml_maps :: "yaml_lib \<Rightarrow> bool" where
  "yaml_maps yl \<longleftrightarrow>
     (\<forall>doc info ty m. yl_Unmarshal yl doc gmake = Ret info \<longrightarrow> glookup info ty = Some m \<longrightarrow> gmap_ok m)"

lemma storeDataToConfigmap_saves:
  assumes "storeDataToConfigmap rt h = (Ret (), h')"
  shows "\<exists>q. SetPersistenceInfo (rt_env rt) (rt_kube rt) (rt_yaml rt)
    (Some \<lparr>per_Type = hotUpdateName, per_Result = Some [(hr_Version (hu_result h), hr_Url (hu_result h))]\<rparr>, hu_proc h) =
    (Ret (), (q, hu_proc h'))"
proof -
  obtain x q t where "SetPersistenceInfo (rt_env rt) (rt_kube rt) (rt_yaml rt)
      (Some \<lparr>per_Type = hotUpdateName, per_Result = Some [(hr_Version (hu_result h), hr_Url (hu_result h))]\<rparr>, hu_proc h) =
      (x, (q, t))" by (metis prod_cases3)
  then show ?thesis using assms by (auto simp: storeDataToConfigmap_def zoomM_apply tryM_def split: go.splits)
qed

lemma loadPersisted_saved:
  assumes "result_store (rt_kube rt) store" and "yaml_ok (rt_yaml rt)" and "yaml_maps (rt_yaml rt)"
    and "storeDataToConfigmap rt h = (Ret (), h')"
    and "store (pr_api (hu_proc s)) result_key = store (pr_api (hu_proc h')) result_key" and "pr_kube (hu_proc s)"
  shows "\<exists>r. loadPersisted rt s = (Ret r, s) \<and> gmap_ok r \<and>
    glookup r (hr_Version (hu_result h)) = Some (hr_Url (hu_result h))"
proof -
  let ?p = "\<lparr>per_Type = hotUpdateName, per_Result = Some [(hr_Version (hu_result h), hr_Url (hu_result h))]\<rparr>"
  let ?p2 = "\<lparr>per_Type = hotUpdateName, per_Result = None\<rparr>"
  obtain q where set: "SetPersistenceInfo (rt_env rt) (rt_kube rt) (rt_yaml rt) (Some ?p, hu_proc h) = (Ret (), (q, hu_proc h'))"
    using storeDataToConfigmap_saves [OF assms(4)] by blast
  have "gmap_ok (per_Result ?p)" by (simp add: gmap_ok_def)
  from saved_results_load [OF assms(1,2) this set assms(5,6), of ?p2] obtain cm name r doc info where
    "GetPersistenceInfo (rt_env rt) (rt_kube rt) (rt_yaml rt) (Some ?p2, hu_proc s) =
       (Ret (), (Some (?p2\<lparr>per_Result := r\<rparr>), hu_proc s))"
    "glookup r = pod_results (rt_yaml rt) cm name hotUpdateName ++ glookup (per_Result ?p)"
    "yl_Unmarshal (rt_yaml rt) doc gmake = Ret info" "glookup info hotUpdateName = Some r" by auto
  moreover from this have "gmap_ok r" using assms(3) unfolding yaml_maps_def by blast
  moreover have "glookup (per_Result ?p) (hr_Version (hu_result h)) = Some (hr_Url (hu_result h))"
    by (simp add: glookup_def)
  ultimately show ?thesis by (auto simp: loadPersisted_def)
qed

section \<open>From the request to the saved version\<close>

text \<open>A request that was downloaded has a valid version, which the result record now names with its URL.\<close>

definition names_request :: "http_request \<Rightarrow> 'k hotUpdate \<Rightarrow> bool" where
  "names_request r s \<longleftrightarrow>
     hr_Version (hu_result s) = req_FormValue r ''version'' \<and> hr_Url (hu_result s) = req_FormValue r URLKey"

lemma names_request_rest:
  "names_request r = rest_is (\<lambda>st v u. v = req_FormValue r ''version'' \<and> u = req_FormValue r URLKey)"
  by (rule ext) (simp add: names_request_def rest_is_def)

lemma keeps_names:
  "keeps (names_request r) (downloadFileByUrl rt)" "keeps (names_request r) (loadHotUpdateFileBySignal rt)"
  "keeps (names_request r) (storeHotData rt)"
  by (simp_all add: names_request_rest keeps_download keeps_load keeps_store)

lemma downloaded_names:
  assumes "downloadHotUpdateFile rt r (h, w) = (Ret (), (h1, w1))"
  shows "isValidVersion (req_FormValue r ''version'') \<and> names_request r h1"
proof -
  let ?a = "h\<lparr>hu_result := (hu_result h)\<lparr>hr_Version := req_FormValue r ''version'', hr_Url := req_FormValue r URLKey\<rparr>\<rparr>"
  obtain u v where uv: "isValidVersion (req_FormValue r ''version'')"
    "in_plugin (setVersion (req_FormValue r ''version'')) (h, w) = (Ret (), u)"
    "in_plugin (setUrl (req_FormValue r URLKey)) u = (Ret (), v)"
    "in_plugin (downloadFileByUrl rt) v = (Ret (), (h1, w1))"
    using assms by (auto simp: downloadHotUpdateFile_def Let_def go_iff reject_fails split: if_splits)
  then have "v = (?a, w)" by (auto simp: in_plugin_def zoomM_apply setVersion_def setUrl_def)
  with uv have "isValidVersion (req_FormValue r ''version'')" "downloadFileByUrl rt ?a = (Ret (), h1)"
    by (auto simp: in_plugin_def zoomM_apply prod_eq_iff)
  moreover have "names_request r ?a" by (simp add: names_request_def)
  ultimately show ?thesis using keepsD [OF keeps_names(1)] by blast
qed

text \<open>When every stage of a request succeeds, the handler ends with the save that the property below is about.\<close>

lemma handler_saves_request:
  assumes "downloadHotUpdateFile rt r (h, w) = (Ret (), (h1, w1))"
    and "hc_LoadPatchType (hu_config h1) = LoadPatchTypeSignal"
    and "loadHotUpdateFileBySignal rt h1 = (Ret (), h2)"
    and "storeHotData rt (snd (setResultText ''Update success'' h2)) = (Ret (), h3)"
    and "storeDataToConfigmap rt h3 = (y, h4)" and "\<not> is_Panic y"
  shows "fst (hotUpdateHandle rt r (h, w)) = Ret () \<and> fst (snd (hotUpdateHandle rt r (h, w))) = h4 \<and>
    isValidVersion (hr_Version (hu_result h3)) \<and> names_request r h3"
proof -
  have d: "isValidVersion (req_FormValue r ''version'')" "names_request r h1" using downloaded_names [OF assms(1)] by simp_all
  have "names_request r h2" by (rule keepsD [OF keeps_names(2) assms(3) d(2)])
  then have "names_request r (snd (setResultText ''Update success'' h2))" by (simp add: names_request_def setResultText_def)
  then have n: "names_request r h3" by (rule keepsD [OF keeps_names(3) assms(4)])
  have "fst (hotUpdateHandle rt r (h, w)) = Ret () \<and> fst (snd (hotUpdateHandle rt r (h, w))) = h4"
    using assms
    by (cases y) (simp_all add: hotUpdateHandle_def catchM_def tryM_def in_plugin_def zoomM_apply WriteHeader_def
        Fprintf_def setResultText_def persist_def)
  with d(1) n show ?thesis by (simp add: names_request_def)
qed

text \<open>
  The client is told of the success before anything is stored. When the result cannot be stored, the
  error is logged and the version is not saved, so a restart goes back to an older one.
\<close>

lemma unsaved_update_answers_ok:
  assumes "downloadHotUpdateFile rt r (h, w) = (Ret (), (h1, w))"
    and "hc_LoadPatchType (hu_config h1) = LoadPatchTypeSignal"
    and "loadHotUpdateFileBySignal rt h1 = (Ret (), h2)"
    and "storeHotData rt (snd (setResultText ''Update success'' h2)) = (Fail e, h3)" and "rw_code w = None"
  shows "hotUpdateHandle rt r (h, w) =
    (Ret (), (h3, \<lparr>rw_code = Some 200, rw_body = rw_body w @ ''File downloaded and update successfully''\<rparr>))"
  using assms
  by (simp add: hotUpdateHandle_def catchM_def tryM_def in_plugin_def zoomM_apply WriteHeader_def Fprintf_def
      setResultText_def persist_def)

section \<open>What a start picks\<close>

lemma two_keys: "map_of es a = Some x \<Longrightarrow> map_of es b = Some y \<Longrightarrow> a \<noteq> b \<Longrightarrow> length es \<noteq> 1"
  by (cases es) (auto split: if_splits)

lemma latest_saved:
  assumes "semver_laws cmp" and "range_order ord" and "gmap_ok r" and "glookup r v0 = Some u0" and "cmp [] v0 < 0"
    and "latest cmp (ord (grange r)) = (v, u)"
  shows "glookup r v = Some u" and "cmp v0 v \<le> 0"
proof -
  have mem: "(v0, u0) \<in> set (grange r)" using assms(4) by (simp add: glookup_def map_of_SomeD)
  have "((v, u) = ([], []) \<or> (v, u) \<in> set (ord (grange r))) \<and> (\<forall>x \<in> set (ord (grange r)). cmp (fst x) v \<le> 0)"
    using latest_invariant [OF assms(1) assms(6) [unfolded latest_def]] by simp
  then have r: "(v, u) = ([], []) \<or> (v, u) \<in> set (grange r)" "\<forall>x \<in> set (grange r). cmp (fst x) v \<le> 0"
    by (simp_all add: range_order_set [OF assms(2)])
  show le: "cmp v0 v \<le> 0" using r(2) mem by force
  then have "v \<noteq> []" using assms(1,5) unfolding semver_laws_def by (metis linorder_not_le)
  with r(1) assms(3) show "glookup r v = Some u" by (simp add: glookup_def gmap_ok_def)
qed

lemma keeps_reload_result:
  "keeps (\<lambda>s. hr_Version (hu_result s) = v \<and> hr_Url (hu_result s) = u) (reload rt)"
proof -
  let ?P = "\<lambda>st v' u'. v' = v \<and> u' = u"
  have "keeps (rest_is ?P) (loadAtStart rt)"
    unfolding loadAtStart_def
    by (intro keeps_if_at keeps_catchM keeps_tryM keeps_load keeps_text keeps_pure)
  then have "keeps (rest_is ?P) (reload rt)"
    unfolding reload_def by (intro keeps_tryM keeps_download keeps_store keeps_pure)
  then show ?thesis by (simp add: rest_is_def [abs_def])
qed

text \<open>A start that finds a version leaves the latest one, and has downloaded its URL if it succeeds.\<close>

lemma start_picks_latest:
  assumes "loadPersisted rt s = (Ret r, s)" and "glookup r v0 = Some u0" and "v0 \<noteq> OriginVersion"
    and "latest (rt_Compare rt) (rt_range rt (grange r)) = (v, u)"
    and "setHotUpdateConfigWhenStart rt s = (x, t)"
  shows "hr_Version (hu_result t) = v" and "hr_Url (hu_result t) = u"
    and "x = Ret () \<Longrightarrow>
      \<exists>a. fst (downloadFileByUrl rt a) = Ret () \<and> hr_Url (hu_result a) = u \<and> hu_config a = hu_config s"
proof -
  let ?a = "s\<lparr>hu_result := (hu_result s)\<lparr>hr_Version := v, hr_Url := u\<rparr>\<rparr>"
  have "glen r \<noteq> 0" using assms(2) by (auto simp: glen_def glookup_def)
  moreover have "\<not> (glen r = 1 \<and> gindex r OriginVersion = OriginUrl)"
  proof
    assume one: "glen r = 1 \<and> gindex r OriginVersion = OriginUrl"
    then have "glookup r OriginVersion = Some OriginUrl"
      by (auto simp: gindex_def OriginUrl_def split: option.splits)
    with one two_keys [of "grange r" v0 u0 OriginVersion OriginUrl] show False
      using assms(2,3) by (simp add: glen_def glookup_def)
  qed
  ultimately have run: "reload rt ?a = (x, t)"
    using assms(1,4,5) by (auto simp: setHotUpdateConfigWhenStart_def tryM_def setVersion_def setUrl_def Let_def)
  from keepsD [OF keeps_reload_result this, of v u]
  show "hr_Version (hu_result t) = v" "hr_Url (hu_result t) = u" by simp_all
  show "\<exists>a. fst (downloadFileByUrl rt a) = Ret () \<and> hr_Url (hu_result a) = u \<and> hu_config a = hu_config s" if "x = Ret ()"
    using run that by (intro exI [of _ ?a]) (auto simp: reload_def go_iff)
qed

lemma valid_not_origin: "isValidVersion v \<Longrightarrow> v \<noteq> OriginVersion"
  by (auto simp: isValidVersion_def re_match_lang version_re_def lang_Then_Byte OriginVersion_def)

section \<open>Properties\<close>

text \<open>
  C7: an update survives a restart. When the version of an update was saved, and is a version
  that can be compared at all, then a later start in the same pod that sees the same ConfigMap picks
  a version that is not older, with the URL it was saved with; for the updated version itself that
  is the URL of the update. A start that reports success has downloaded that URL.
\<close>

theorem update_survives_restart:
  assumes "result_store (rt_kube rt) store" and "yaml_ok (rt_yaml rt)" and "yaml_maps (rt_yaml rt)"
    and "semver_laws (rt_Compare rt)" and "range_order (rt_range rt)"
    and "isValidVersion (hr_Version (hu_result h))" and "rt_Compare rt [] (hr_Version (hu_result h)) < 0"
    and "storeDataToConfigmap rt h = (Ret (), h')"
    and "store (pr_api (hu_proc s)) result_key = store (pr_api (hu_proc h')) result_key" and "pr_kube (hu_proc s)"
    and "setHotUpdateConfigWhenStart rt s = (x, t)"
  shows "rt_Compare rt (hr_Version (hu_result h)) (hr_Version (hu_result t)) \<le> 0 \<and>
    (hr_Version (hu_result t) = hr_Version (hu_result h) \<longrightarrow> hr_Url (hu_result t) = hr_Url (hu_result h)) \<and>
    (\<exists>r. loadPersisted rt s = (Ret r, s) \<and> glookup r (hr_Version (hu_result t)) = Some (hr_Url (hu_result t))) \<and>
    (x = Ret () \<longrightarrow> (\<exists>a. fst (downloadFileByUrl rt a) = Ret () \<and> hr_Url (hu_result a) = hr_Url (hu_result t) \<and>
       hu_config a = hu_config s))"
proof -
  obtain r where r: "loadPersisted rt s = (Ret r, s)" "gmap_ok r"
    "glookup r (hr_Version (hu_result h)) = Some (hr_Url (hu_result h))"
    using loadPersisted_saved [OF assms(1-3,8-10)] by blast
  obtain v u where l: "latest (rt_Compare rt) (rt_range rt (grange r)) = (v, u)" by force
  note picked = start_picks_latest [OF r(1,3) valid_not_origin [OF assms(6)] l assms(11)]
  note best = latest_saved [OF assms(4,5) r(2,3) assms(7) l]
  show ?thesis using picked best r by auto
qed

lemma mini_yaml_maps: "yaml_maps mini_yaml"
  by (auto simp: yaml_maps_def mini_yaml_def gmap_ok_def glookup_def split: list.splits if_splits)

text \<open>The plugin after the request of a client, in a cluster where the result ConfigMap exists.\<close>

definition demo_updated :: "apiserver hotUpdate" where
  "demo_updated =
     demo_hot\<lparr>hu_result := \<lparr>hr_Result = ''v1: Update success'', hr_Version = ''v1'', hr_Url = ''/cfg''\<rparr>,
       hu_proc := demo_proc_results\<rparr>"

lemma demo_saves: "\<exists>h'. storeDataToConfigmap demo_rt demo_updated = (Ret (), h') \<and> pr_kube (hu_proc h')"
proof -
  let ?p = "\<lparr>per_Type = ''hot_update'', per_Result = Some [(''v1'', ''/cfg'')]\<rparr>"
  obtain q t where set: "SetPersistenceInfo pod_env mem_kube mini_yaml (Some ?p, demo_proc_results) = (Ret (), (q, t))"
    using demo_Set_ok [of "''v1''" "''/cfg''"] by (auto simp: nl_def prod_eq_iff)
  then have "storeDataToConfigmap demo_rt demo_updated = (Ret (), demo_updated\<lparr>hu_proc := t\<rparr>)"
    by (simp add: storeDataToConfigmap_def zoomM_apply tryM_def demo_rt_def demo_updated_def hotUpdateName_def)
  moreover have "pr_kube t" using Set_effect [OF mem_result_store set] by blast
  ultimately show ?thesis by simp
qed

theorem update_survives_restart_witness:
  "\<exists>h'. storeDataToConfigmap demo_rt demo_updated = (Ret (), h') \<and>
     by_length ''v1'' (hr_Version (hu_result (snd (setHotUpdateConfigWhenStart demo_rt (demo_hot\<lparr>hu_proc := hu_proc h'\<rparr>))))) \<le> 0"
proof -
  obtain h' where h': "storeDataToConfigmap demo_rt demo_updated = (Ret (), h')" "pr_kube (hu_proc h')"
    using demo_saves by blast
  let ?s = "demo_hot\<lparr>hu_proc := hu_proc h'\<rparr>"
  have rt: "rt_kube demo_rt = mem_kube" "rt_yaml demo_rt = mini_yaml" "rt_Compare demo_rt = by_length"
    "rt_range demo_rt = (\<lambda>xs. xs)" "hr_Version (hu_result demo_updated) = ''v1''"
    by (simp_all add: demo_rt_def demo_updated_def)
  have laws: "semver_laws by_length" "by_length [] ''v1'' < 0" by (simp_all add: semver_laws_def by_length_def)
  obtain x t where run: "setHotUpdateConfigWhenStart demo_rt ?s = (x, t)" by force
  from update_survives_restart [of demo_rt mem_store demo_updated h' ?s x t, unfolded rt,
      OF mem_result_store mini_yaml_ok mini_yaml_maps laws(1) range_order_id demo_valid laws(2) h'(1) _ _ run] h'
  show ?thesis using run by simp
qed

end
