(* ===== verification/KcProbeMarks.thy ===== *)
theory KcProbeMarks imports KcHttpProbe begin

text \<open>
  One probe from the request to the pod: what the endpoint answers decides which marks its own pod
  carries.
\<close>

section \<open>The two lookups of the pod\<close>

lemma GetCurrentPod_same_cache:
  assumes "GetCurrentPod env ki s = (Ret p, t)" and "pr_cache v = pr_cache t"
  shows "GetCurrentPod env ki v = (Ret p, v)"
  using assms(1)
proof (cases rule: GetCurrentPod_cases)
  case (2 n q)
  then show ?thesis using assms(2) by (simp add: GetCurrentPod_def tryM_def)
next
  case (4 n q u)
  then show ?thesis using assms(2) by (simp add: GetCurrentPod_def tryM_def update_conv')
qed auto

section \<open>Storing what was extracted\<close>

text \<open>Creating the dynamic client does nothing to pods.\<close>

definition quiet_client :: "'k kube_iface \<Rightarrow> ('k \<Rightarrow> string \<times> string \<rightharpoonup> pod) \<Rightarrow> bool" where
  "quiet_client ki pods \<longleftrightarrow> (\<forall>k. pods (snd (ki_NewDynamic ki k)) = pods k)"

lemma initialized_inKube_frame:
  assumes "quiet_client ki pods" and "initialized inKube_IsInitialized (inKube_SetupWithManager ki) s = (Ret (), t)"
  shows "ss_config t = ss_config s" and "pr_cache (ss_proc t) = pr_cache (ss_proc s)"
    and "pods (pr_api (ss_proc t)) = pods (pr_api (ss_proc s))"
  using assms
  by (auto simp: initialized_def inKube_SetupWithManager_def tryM_def on_proc_def zoomM_apply quiet_client_def
      split: if_splits go.splits)

lemma probe_storeData_marks:
  assumes "pod_api ki pods" and "quiet_client ki pods" and "policies_ok c" and "policies_wf c"
    and "sg_Type (ss_config s) = StorageTypeInKube" and "sg_InKube (ss_config s) = Some c" and "ik_Target c = None"
    and "probe_storeData env ki sl dat s = (Ret (), t)"
  shows "\<exists>p u q q'. GetCurrentPod env ki (ss_proc s) = (Ret p, u) \<and>
     pods (pr_api (ss_proc s)) (pod_Namespace p, pod_Name p) = Some q \<and>
     pods (pr_api (ss_proc t)) = (pods (pr_api (ss_proc s)))((pod_Namespace p, pod_Name p) \<mapsto> q') \<and>
     glookup (pod_Annotations q') = glookup (pod_Annotations q) ++ marks dat (ik_AnnotationKey c) pol_Annotations c \<and>
     glookup (pod_Labels q') = glookup (pod_Labels q) ++ marks dat (ik_LabelKey c) pol_Labels c \<and>
     q' = q\<lparr>pod_Annotations := pod_Annotations q', pod_Labels := pod_Labels q'\<rparr>"
proof -
  have no: "storage_target (ss_config s) = None" using assms(6,7) by (simp add: storage_target_def)
  obtain p u where p: "GetCurrentPod env ki (ss_proc s) = (Ret p, u)"
    and st: "StoreData env ki sl dat (s\<lparr>ss_proc := u\<rparr>) = (Ret (), t)"
    using assms(8)
    by (cases "GetCurrentPod env ki (ss_proc s)")
      (auto simp: probe_storeData_def zoomM_apply tryM_def ParseStorage_result no split: go.splits)
  obtain v where v: "initialized inKube_IsInitialized (inKube_SetupWithManager ki) (s\<lparr>ss_proc := u\<rparr>) = (Ret (), v)"
    and run: "inKube_Store env ki dat InKubeArg v = (Ret (), t)"
    using st assms(5) by (auto simp: StoreData_def GetStorage_def go_iff)
  note fr = initialized_inKube_frame [OF assms(2) v]
  have pods: "pods (pr_api (ss_proc v)) = pods (pr_api (ss_proc s))"
    using fr(3) GetCurrentPod_pods [OF assms(1) p] by simp
  have "GetCurrentPod env ki (ss_proc v) = (Ret p, ss_proc v)"
    using GetCurrentPod_same_cache [OF p] fr(2) by simp
  with store_leaves_marks [OF assms(1,3,4) _ _ run] fr(1) assms(6,7) p pods show ?thesis by auto
qed

lemma as_string_Ret_iff: "as_string v = Ret x \<longleftrightarrow> v = JString x"
  by (cases v) (auto simp: as_string_def)

section \<open>Properties\<close>


text \<open>An endpoint that answers ``ok'', stored as it is.\<close>

definition demo_ok_lib :: "apiserver probe_lib" where
  "demo_ok_lib = demo_probe_lib\<lparr>pl_Do := (\<lambda>_ _ _ _. ret (200, Ret ''ok''))\<rparr>"

definition demo_text_endpoint :: EndpointConfig where
  "demo_text_endpoint = demo_endpoint\<lparr>ep_JSONPathConfig := None\<rparr>"

lemma demo_probe_succeeds:
  "fst (Probe pod_env mem_kube demo_store_lib demo_ok_lib 10 demo_text_endpoint demo_store_state) = Ret ()"
proof -
  let ?s = "demo_store_state\<lparr>ss_proc := demo_proc_cached\<rparr>"
  have valid: "InKubeConfig_IsValid demo_inkube = Ret ()"
    by (simp add: InKubeConfig_IsValid_def demo_inkube_def)
  have other: "storeInOtherObject mem_kube ''ok'' (Preprocess demo_inkube) = ret ()"
    by (simp add: storeInOtherObject_def demo_inkube_def)
  have cached: "GetCurrentPod pod_env mem_kube demo_proc_cached = (Ret demo_pod, demo_proc_cached)"
    using GetCurrentPod_again [OF demo_GetCurrentPod] .
  have found: "find (is_pod (pod_Namespace demo_pod) (pod_Name demo_pod)) (srv_pods (pr_api demo_proc_cached)) \<noteq> None"
    by (simp add: is_pod_def demo_proc_cached_def demo_proc_def demo_server_def)
  have store: "fst (inKube_Store pod_env mem_kube ''ok'' InKubeArg ?s) = Ret ()"
    using found
    by (simp add: inKube_Store_def demo_store_state_def NewStorageFactory_def demo_storage_def valid other
        tryM_def storeInCurrentPod_def on_proc_def zoomM_apply set_inkube_def cached
        on_client_def mem_kube_calls numeral_eq_Suc)
  have "storage_target (ss_config demo_store_state) = None"
    by (simp add: storage_target_def demo_store_state_def NewStorageFactory_def demo_storage_def demo_inkube_def)
  then have parse: "ParseStorage True pod_env mem_kube (ss_config demo_store_state, demo_proc) =
      (Ret (), (ss_config demo_store_state, demo_proc_cached))"
    by (simp add: ParseStorage_result demo_GetCurrentPod)
  have same: "demo_store_state\<lparr>ss_config := ss_config demo_store_state, ss_proc := demo_proc_cached\<rparr> = ?s"
    "ss_proc demo_store_state = demo_proc" "sg_Type (ss_config demo_store_state) = StorageTypeInKube"
    "inKube_IsInitialized ?s"
    by (simp_all add: demo_store_state_def NewStorageFactory_def demo_storage_def StorageTypeInKube_def
        inKube_IsInitialized_def)
  have data: "fst (probe_storeData pod_env mem_kube demo_store_lib ''ok'' demo_store_state) = Ret ()"
    using store same
    by (simp add: probe_storeData_def zoomM_apply parse tryM_def StoreData_def GetStorage_def initialized_def)
  have "demo_store_state\<lparr>ss_proc := (ss_proc demo_store_state)\<lparr>pr_api := pr_api (ss_proc demo_store_state)\<rparr>\<rparr> =
      demo_store_state" by simp
  then show ?thesis
    using data
    by (cases "probe_storeData pod_env mem_kube demo_store_lib ''ok'' demo_store_state")
      (simp add: Probe_def demo_ok_lib_def demo_probe_lib_def demo_text_endpoint_def demo_endpoint_def tryM_def
        on_proc_def zoomM_apply extractData_def as_string_def)
qed


end
