(* ===== verification/KcWorkers.thy ===== *)
theory KcWorkers imports KcHttpProbe begin

text \<open>
  The workers of one probe plugin on its one storage factory. \<^verbatim>\<open>GetStorage\<close> asks \<^verbatim>\<open>IsInitialized\<close> and
  then calls \<^verbatim>\<open>SetupWithManager\<close> without a lock, and every worker runs it in its own goroutine; here
  it is cut at each access to the shared storage. A worker carries its endpoint's storage
  configuration, as \<^verbatim>\<open>ParseConfig\<close> left it.
\<close>

section \<open>Fetching a storage in small steps\<close>

datatype fetch_pc =
    Resting \<comment> \<open>before the call of \<open>GetStorage\<close>\<close>
  | SettingUp \<comment> \<open>\<open>IsInitialized\<close> was false\<close>
  | Connected \<comment> \<open>the client was created, or the handler registered\<close>
  | Halfway \<comment> \<open>the first of the two fields was assigned\<close>
  | Handed \<comment> \<open>\<open>GetStorage\<close> returned the storage\<close>
  | Crashed string

definition outcome_pc :: "fetch_pc \<Rightarrow> unit go \<Rightarrow> fetch_pc" where
  "outcome_pc pc r = (case r of Ret _ \<Rightarrow> pc | Fail e \<Rightarrow> Resting | Panic m \<Rightarrow> Crashed m)"

definition setDynamic :: "'k store_state \<Rightarrow> 'k store_state" where
  "setDynamic s = s\<lparr>ss_inKube := (ss_inKube s)\<lparr>ink_dynamic := True\<rparr>\<rparr>"

definition setInterface :: "'k store_state \<Rightarrow> 'k store_state" where
  "setInterface s = s\<lparr>ss_inKube := (ss_inKube s)\<lparr>ink_Interface := True\<rparr>\<rparr>"

fun fetch_inKube :: "'k kube_iface \<Rightarrow> fetch_pc \<Rightarrow> 'k store_state \<Rightarrow> fetch_pc \<times> 'k store_state" where
  "fetch_inKube ki Resting s = (if inKube_IsInitialized s then Handed else SettingUp, s)"
| "fetch_inKube ki SettingUp s =
     (case on_proc (zoomM pr_api (\<lambda>k p. p\<lparr>pr_api := k\<rparr>) (ki_NewDynamic ki)) s of (r, t) \<Rightarrow> (outcome_pc Connected r, t))"
| "fetch_inKube ki Connected s = (Halfway, setDynamic s)"
| "fetch_inKube ki Halfway s = (Handed, setInterface s)"
| "fetch_inKube ki pc s = (pc, s)"

fun fetch_metric :: "fetch_pc \<Rightarrow> 'k store_state \<Rightarrow> fetch_pc \<times> 'k store_state" where
  "fetch_metric Resting s = (if promMetric_IsInitialized s then Handed else SettingUp, s)"
| "fetch_metric SettingUp s =
     (case on_proc (http_Handle ''/metrics'') s of (r, t) \<Rightarrow> (outcome_pc Connected r, t))"
| "fetch_metric Connected s =
     (Handed, snd (on_proc (go_ListenAndServe '':8080'') (s\<lparr>ss_promMetric := (ss_promMetric s)\<lparr>pm_registry := Some []\<rparr>\<rparr>)))"
| "fetch_metric pc s = (pc, s)"

text \<open>An unknown type is an error of \<^verbatim>\<open>GetStorage\<close>: the worker logs it and starts over.\<close>

definition fetch :: "'k kube_iface \<Rightarrow> string \<Rightarrow> fetch_pc \<Rightarrow> 'k store_state \<Rightarrow> fetch_pc \<times> 'k store_state" where
  "fetch ki ty pc s =
     (if ty = StorageTypeInKube then fetch_inKube ki pc s
      else if ty = StorageTypeHTTPMetric then fetch_metric pc s
      else (pc, s))"

text \<open>A worker that is alone does in these steps what \<^verbatim>\<open>GetStorage\<close> does.\<close>

definition fetch_alone :: "'k kube_iface \<Rightarrow> string \<Rightarrow> 'k store_state \<Rightarrow> fetch_pc \<times> 'k store_state" where
  "fetch_alone ki ty s =
     (((\<lambda>(pc, u). if pc = Resting then (pc, u) else fetch ki ty pc u) ^^ 3) (fetch ki ty Resting s))"

lemma fetch_alone_inKube:
  "fetch_alone ki StorageTypeInKube s =
     (case initialized inKube_IsInitialized (inKube_SetupWithManager ki) s of (r, t) \<Rightarrow> (outcome_pc Handed r, t))"
proof -
  obtain r t where c: "on_proc (zoomM pr_api (\<lambda>k p. p\<lparr>pr_api := k\<rparr>) (ki_NewDynamic ki)) s = (r, t)" by force
  show ?thesis
    using c
    by (cases r)
      (auto simp: fetch_alone_def fetch_def numeral_3_eq_3 initialized_def inKube_SetupWithManager_def tryM_def
        outcome_pc_def setDynamic_def setInterface_def inKube_IsInitialized_def)
qed

lemma fetch_alone_metric:
  "fetch_alone ki StorageTypeHTTPMetric s =
     (case initialized promMetric_IsInitialized promMetric_SetupWithManager s of (r, t) \<Rightarrow> (outcome_pc Handed r, t))"
proof -
  obtain r t where c: "on_proc (http_Handle ''/metrics'') s = (r, t)" by force
  show ?thesis
    using c
    by (cases r)
      (auto simp: fetch_alone_def fetch_def numeral_3_eq_3 initialized_def promMetric_SetupWithManager_def tryM_def
        outcome_pc_def promMetric_IsInitialized_def StorageTypeInKube_def StorageTypeHTTPMetric_def)
qed

section \<open>Workers that interleave\<close>

record 'k shared =
  sh_store :: "'k store_state" \<comment> \<open>its \<open>ss_config\<close> is only used inside a store\<close>
  sh_workers :: "(StorageConfig \<times> fetch_pc) list"

definition worker_start :: "EndpointConfig list \<Rightarrow> StorageConfig \<Rightarrow> 'k proc \<Rightarrow> 'k shared" where
  "worker_start eps c p =
     \<lparr>sh_store = NewStorageFactory c p, sh_workers = map (\<lambda>ep. (ep_StorageConfig ep, Resting)) eps\<rparr>"

text \<open>The rest of \<^verbatim>\<open>StoreData\<close>, once the storage is there.\<close>

definition store_own ::
    "environment \<Rightarrow> 'k kube_iface \<Rightarrow> store_lib \<Rightarrow> string \<Rightarrow> StorageConfig \<Rightarrow> ('k store_state, unit) act" where
  "store_own env ki sl dat c s =
     (if sg_Type c = StorageTypeInKube then inKube_Store env ki dat InKubeArg (s\<lparr>ss_config := c\<rparr>)
      else promMetric_Store sl dat HTTPMetricArg (s\<lparr>ss_config := c\<rparr>))"

text \<open>
  A panic in one goroutine ends the process. The error of a fetch or a store is logged, and the
  worker probes again.
\<close>

definition running :: "'k shared \<Rightarrow> bool" where
  "running s \<longleftrightarrow> (\<forall>(c, pc) \<in> set (sh_workers s). \<forall>m. pc \<noteq> Crashed m)"

inductive worker_step :: "environment \<Rightarrow> 'k kube_iface \<Rightarrow> store_lib \<Rightarrow> 'k shared \<Rightarrow> 'k shared \<Rightarrow> bool"
  for env ki sl where
  fetches: "running s \<Longrightarrow> i < length (sh_workers s) \<Longrightarrow> sh_workers s ! i = (c, pc) \<Longrightarrow> pc \<noteq> Handed \<Longrightarrow>
    fetch ki (sg_Type c) pc (sh_store s) = (q, t) \<Longrightarrow>
    worker_step env ki sl s \<lparr>sh_store = t, sh_workers = (sh_workers s)[i := (c, q)]\<rparr>"
| stores: "running s \<Longrightarrow> i < length (sh_workers s) \<Longrightarrow> sh_workers s ! i = (c, Handed) \<Longrightarrow>
    store_own env ki sl dat c (sh_store s) = (r, t) \<Longrightarrow>
    worker_step env ki sl s \<lparr>sh_store = t, sh_workers = (sh_workers s)[i := (ss_config t, outcome_pc Resting r)]\<rparr>"

inductive worker_reachable ::
    "environment \<Rightarrow> 'k kube_iface \<Rightarrow> store_lib \<Rightarrow> 'k shared \<Rightarrow> 'k shared \<Rightarrow> bool" for env ki sl s where
  starts: "worker_reachable env ki sl s s"
| continues: "worker_reachable env ki sl s t \<Longrightarrow> worker_step env ki sl t u \<Longrightarrow> worker_reachable env ki sl s u"

section \<open>A storage that was handed out is complete\<close>

text \<open>The storages only ever gain parts.\<close>

definition grows :: "'k store_state \<Rightarrow> 'k store_state \<Rightarrow> bool" where
  "grows s t \<longleftrightarrow>
     (ink_dynamic (ss_inKube s) \<longrightarrow> ink_dynamic (ss_inKube t)) \<and>
     (ink_Interface (ss_inKube s) \<longrightarrow> ink_Interface (ss_inKube t)) \<and>
     (promMetric_IsInitialized s \<longrightarrow> promMetric_IsInitialized t)"

definition ordered :: "'k store_state \<Rightarrow> bool" where
  "ordered s \<longleftrightarrow> (ink_Interface (ss_inKube s) \<longrightarrow> ink_dynamic (ss_inKube s))"

definition complete :: "'k store_state \<Rightarrow> StorageConfig \<times> fetch_pc \<Rightarrow> bool" where
  "complete s w \<longleftrightarrow>
     (snd w = Handed \<longrightarrow>
        (sg_Type (fst w) = StorageTypeInKube \<longrightarrow> ink_dynamic (ss_inKube s) \<and> ink_Interface (ss_inKube s)) \<and>
        (sg_Type (fst w) = StorageTypeHTTPMetric \<longrightarrow> promMetric_IsInitialized s)) \<and>
     (snd w = Halfway \<longrightarrow> ink_dynamic (ss_inKube s))"

lemma complete_grows: "complete s w \<Longrightarrow> grows s t \<Longrightarrow> complete t w"
  by (auto simp: complete_def grows_def)

lemma outcome_pc_simps [simp]: "pc \<noteq> Halfway \<Longrightarrow> outcome_pc pc r \<noteq> Halfway" "pc \<noteq> Handed \<Longrightarrow> outcome_pc pc r \<noteq> Handed"
  by (cases r; simp add: outcome_pc_def)+

lemma on_proc_parts:
  assumes "on_proc m s = (r, t)"
  shows "ss_inKube t = ss_inKube s" and "promMetric_IsInitialized t = promMetric_IsInitialized s"
  using on_proc_frame [OF assms] by (simp_all add: promMetric_IsInitialized_def)

lemma fetch_inKube_ok:
  assumes "fetch_inKube ki pc s = (q, t)" and "pc \<noteq> Handed" and "ordered s" and "complete s (c, pc)"
    and "sg_Type c = StorageTypeInKube"
  shows "grows s t \<and> ordered t \<and> complete t (c, q)"
  using assms
  by (cases pc)
    (auto simp: grows_def ordered_def complete_def inKube_IsInitialized_def setDynamic_def setInterface_def
      promMetric_IsInitialized_def dest: on_proc_frame split: prod.splits if_splits)

lemma fetch_metric_ok:
  assumes "fetch_metric pc s = (q, t)" and "pc \<noteq> Handed" and "ordered s" and "complete s (c, pc)"
    and "sg_Type c = StorageTypeHTTPMetric"
  shows "grows s t \<and> ordered t \<and> complete t (c, q)"
  using assms
  by (cases pc)
    (auto simp: grows_def ordered_def complete_def promMetric_IsInitialized_def dest: on_proc_frame
      split: prod.splits if_splits)

lemma fetch_ok:
  assumes "fetch ki (sg_Type c) pc s = (q, t)" and "pc \<noteq> Handed" and "ordered s" and "complete s (c, pc)"
  shows "grows s t \<and> ordered t \<and> complete t (c, q)"
proof -
  consider (kube) "sg_Type c = StorageTypeInKube" | (metric) "sg_Type c = StorageTypeHTTPMetric"
    | (unknown) "sg_Type c \<noteq> StorageTypeInKube" "sg_Type c \<noteq> StorageTypeHTTPMetric" by blast
  then show ?thesis
  proof cases
    case kube
    then have "fetch_inKube ki pc s = (q, t)" using assms(1) by (simp add: fetch_def)
    from fetch_inKube_ok [OF this assms(2-4) kube] show ?thesis .
  next
    case metric
    then have "fetch_metric pc s = (q, t)" using assms(1) by (simp add: fetch_def)
    from fetch_metric_ok [OF this assms(2-4) metric] show ?thesis .
  next
    case unknown
    then show ?thesis using assms by (simp add: fetch_def grows_def)
  qed
qed

lemma promMetric_Store_inKube:
  assumes "promMetric_Store sl dat arg s = (r, t)"
  shows "ss_inKube t = ss_inKube s"
proof -
  have reg: "MustRegister sl n u = (q, v) \<Longrightarrow> ss_inKube v = ss_inKube u" for n and u v :: "'a store_state" and q
    by (auto simp: MustRegister_def set_registry_def split: option.splits if_splits)
  have gauge: "getOrCreateGauge sl c u = (q, v) \<Longrightarrow> ss_inKube v = ss_inKube u" for c and u v :: "'a store_state" and q
    by (auto simp: getOrCreateGauge_def tryM_def split: option.splits prod.splits go.splits dest!: reg)
  show ?thesis
    using assms by (auto simp: promMetric_Store_def tryM_def gauge_Set_def split: if_splits prod.splits go.splits dest: gauge)
qed

lemma store_own_parts:
  assumes "store_own env ki sl dat c s = (r, t)"
  shows "grows s t" and "ss_inKube t = ss_inKube s"
proof -
  have "ss_inKube t = ss_inKube s \<and> (promMetric_IsInitialized s \<longrightarrow> promMetric_IsInitialized t)"
  proof (cases "sg_Type c = StorageTypeInKube")
    case True
    then have "inKube_Store env ki dat InKubeArg (s\<lparr>ss_config := c\<rparr>) = (r, t)" using assms by (simp add: store_own_def)
    from keepsD [OF inKube_Store_keeps this, of "(ss_inKube s, ss_promMetric s)"]
    show ?thesis by (simp add: metric_part_def promMetric_IsInitialized_def)
  next
    case False
    then have run: "promMetric_Store sl dat HTTPMetricArg (s\<lparr>ss_config := c\<rparr>) = (r, t)"
      using assms by (simp add: store_own_def)
    from promMetric_Store_inKube [OF run] promMetric_Store_stays(2) [OF run]
    show ?thesis by (simp add: promMetric_IsInitialized_def)
  qed
  then show "grows s t" and "ss_inKube t = ss_inKube s" by (simp_all add: grows_def)
qed

definition shared_ok :: "'k shared \<Rightarrow> bool" where
  "shared_ok s \<longleftrightarrow> ordered (sh_store s) \<and> (\<forall>w \<in> set (sh_workers s). complete (sh_store s) w)"

lemma worker_update:
  assumes "\<forall>w \<in> set ws. complete s w" and "grows s t" and "complete t w'"
  shows "\<forall>w \<in> set (ws[i := w']). complete t w"
  using assms complete_grows set_update_subset_insert by fastforce

lemma worker_step_ok:
  assumes "worker_step env ki sl s t" and "shared_ok s"
  shows "shared_ok t"
  using assms
proof (induction rule: worker_step.induct)
  case (fetches s i c pc q t)
  then have ok: "ordered (sh_store s)" "\<forall>w \<in> set (sh_workers s). complete (sh_store s) w"
    by (simp_all add: shared_ok_def)
  have "complete (sh_store s) (c, pc)" using ok(2) nth_mem [OF fetches(2)] unfolding fetches(3) by blast
  from fetch_ok [OF fetches(5,4) ok(1) this] worker_update [OF ok(2), of t "(c, q)" i] show ?case
    by (simp add: shared_ok_def)
next
  case (stores s i c dat r t)
  then have ok: "ordered (sh_store s)" "\<forall>w \<in> set (sh_workers s). complete (sh_store s) w"
    by (simp_all add: shared_ok_def)
  note parts = store_own_parts [OF stores(4)]
  have "complete t (ss_config t, outcome_pc Resting r)" by (simp add: complete_def)
  from worker_update [OF ok(2) parts(1) this] ok(1) parts(2) show ?case by (simp add: shared_ok_def ordered_def)
qed

lemma worker_reachable_ok: "worker_reachable env ki sl s t \<Longrightarrow> shared_ok s \<Longrightarrow> shared_ok t"
  by (induction rule: worker_reachable.induct) (auto intro: worker_step_ok)

lemma worker_start_ok: "shared_ok (worker_start eps c p)"
  by (auto simp: shared_ok_def worker_start_def NewStorageFactory_def ordered_def complete_def)

section \<open>Two workers register the metrics\<close>

lemma worker_fetches:
  assumes "worker_reachable env ki sl s0 s" and "running s" and "i < length (sh_workers s)"
    and "sh_workers s ! i = (c, pc)" and "pc \<noteq> Handed" and "fetch ki (sg_Type c) pc (sh_store s) = (q, t)"
  shows "worker_reachable env ki sl s0 \<lparr>sh_store = t, sh_workers = (sh_workers s)[i := (c, q)]\<rparr>"
  by (rule continues [OF assms(1)], rule fetches [OF assms(2-6)])

lemma running_update:
  assumes "running s" and "\<forall>m. pc \<noteq> Crashed m"
  shows "running \<lparr>sh_store = t, sh_workers = (sh_workers s)[i := (c, pc)]\<rparr>"
proof -
  have "w \<in> set (sh_workers s)" if "w \<in> set ((sh_workers s)[i := (c, pc)])" "w \<noteq> (c, pc)" for w
    using that set_update_subset_insert by fastforce
  with assms show ?thesis by (fastforce simp: running_def)
qed

lemma worker_start_running: "running (worker_start eps c p)"
  by (auto simp: running_def worker_start_def)

section \<open>Properties\<close>



text \<open>
  Two endpoints that store in metrics can bring the sidecar down while they fetch the
  storage. Both find it uninitialized, and the second registration of \<^verbatim>\<open>/metrics\<close> panics. Had the
  second one asked after the first was done, both would have got it.
\<close>

lemma metric_workers_crash:
  assumes "i < length eps" and "j < length eps" and "i \<noteq> j"
    and "sg_Type (ep_StorageConfig (eps ! i)) = StorageTypeHTTPMetric"
    and "sg_Type (ep_StorageConfig (eps ! j)) = StorageTypeHTTPMetric" and "''/metrics'' \<notin> set (pr_mux p)"
  shows "(\<exists>s. worker_reachable env ki sl (worker_start eps c p) s \<and>
      sh_workers s ! j = (ep_StorageConfig (eps ! j), Crashed ''http: multiple registrations for /metrics'')) \<and>
    (\<exists>t. fetch_alone ki StorageTypeHTTPMetric (sh_store (worker_start eps c p)) = (Handed, t) \<and>
      fetch_alone ki StorageTypeHTTPMetric t = (Handed, t))"
proof
  let ?ci = "ep_StorageConfig (eps ! i)" and ?cj = "ep_StorageConfig (eps ! j)"
  let ?s0 = "worker_start eps c p" and ?st = "NewStorageFactory c p"
  let ?ws = "sh_workers ?s0"
  let ?s1 = "\<lparr>sh_store = ?st, sh_workers = ?ws[i := (?ci, SettingUp)]\<rparr>"
  let ?s2 = "\<lparr>sh_store = ?st, sh_workers = ?ws[i := (?ci, SettingUp), j := (?cj, SettingUp)]\<rparr>"
  let ?st3 = "?st\<lparr>ss_proc := p\<lparr>pr_mux := pr_mux p @ [''/metrics'']\<rparr>\<rparr>"
  let ?s3 = "\<lparr>sh_store = ?st3, sh_workers = ?ws[i := (?ci, SettingUp), j := (?cj, SettingUp), i := (?ci, Connected)]\<rparr>"
  let ?s4 = "\<lparr>sh_store = ?st3, sh_workers = (sh_workers ?s3)[j := (?cj, Crashed ''http: multiple registrations for /metrics'')]\<rparr>"
  have ws: "length ?ws = length eps" "sh_store ?s0 = ?st" "?ws ! i = (?ci, Resting)" "?ws ! j = (?cj, Resting)"
    using assms(1,2) by (simp_all add: worker_start_def)
  have proc: "ss_proc ?st = p" and fresh: "\<not> promMetric_IsInitialized ?st"
    by (simp_all add: NewStorageFactory_def promMetric_IsInitialized_def)
  have step: "fetch ki StorageTypeHTTPMetric Resting ?st = (SettingUp, ?st)"
    "fetch ki StorageTypeHTTPMetric SettingUp ?st = (Connected, ?st3)"
    "fetch ki StorageTypeHTTPMetric SettingUp ?st3 = (Crashed ''http: multiple registrations for /metrics'', ?st3)"
    using assms(6) fresh proc
    by (simp_all add: fetch_def on_proc_def zoomM_apply http_Handle_def outcome_pc_def)
  have r0: "running ?s0" by (rule worker_start_running)
  have r1: "running ?s1" by (rule running_update [OF r0]) simp
  have r2: "running ?s2" using running_update [OF r1, of SettingUp ?st j ?cj] by simp
  have r3: "running ?s3" using running_update [OF r2, of Connected ?st3 i ?ci] by simp
  have "worker_reachable env ki sl ?s0 ?s1"
    using worker_fetches [OF starts r0, where i = i] assms(1,4) ws step(1) by simp
  then have "worker_reachable env ki sl ?s0 ?s2"
    using worker_fetches [OF _ r1, where i = j] assms(1-3,5) ws step(1) by simp
  then have "worker_reachable env ki sl ?s0 ?s3"
    using worker_fetches [OF _ r2, where i = i] assms(1-4) ws step(2) by simp
  then have "worker_reachable env ki sl ?s0 ?s4"
    using worker_fetches [OF _ r3, where i = j] assms(1-3,5) ws step(3) by simp
  moreover have "sh_workers ?s4 ! j = (?cj, Crashed ''http: multiple registrations for /metrics'')"
    using assms(2) ws(1) by simp
  ultimately show "\<exists>s. worker_reachable env ki sl ?s0 s \<and>
      sh_workers s ! j = (?cj, Crashed ''http: multiple registrations for /metrics'')" by blast
  show "\<exists>t. fetch_alone ki StorageTypeHTTPMetric (sh_store ?s0) = (Handed, t) \<and>
      fetch_alone ki StorageTypeHTTPMetric t = (Handed, t)"
    using assms(6) fresh proc
    by (simp add: fetch_alone_metric ws(2) initialized_def metric_setup tryM_def outcome_pc_def
        promMetric_IsInitialized_def)
qed

lemma metric_workers_crash_example:
  "\<exists>s. worker_reachable pod_env mem_kube demo_store_lib
       (worker_start (replicate 2 (demo_endpoint\<lparr>ep_StorageConfig := demo_metric\<rparr>)) demo_metric demo_proc) s \<and>
     sh_workers s ! 1 = (demo_metric, Crashed ''http: multiple registrations for /metrics'')"
proof -
  let ?eps = "replicate 2 (demo_endpoint\<lparr>ep_StorageConfig := demo_metric\<rparr>)"
  have "sg_Type demo_metric = StorageTypeHTTPMetric" "''/metrics'' \<notin> set (pr_mux demo_proc)"
    by (simp_all add: demo_metric_def demo_proc_def)
  with metric_workers_crash [of 0 ?eps 1 demo_proc pod_env mem_kube demo_store_lib demo_metric] show ?thesis by simp
qed

end
