(* ===== verification/Spec2Isabelle.thy ===== *)
theory Spec2Isabelle
  imports KcInjectorProps KcInfo KcStrings KcPersistent KcHotServe KcStoreProps KcHttpProbe KcMain KcController
    KcDeepCopy KcDecode KcPod KcServe KcPoll KcRestart KcProbeMarks KcWorkers
begin

text \<open>
  A verification development of kidecar. A controller in the cluster injects a sidecar container
  into new pods; the sidecar runs plugins beside the main container.

  \<^bold>\<open>The parts and how they interact.\<close> The controller process (cmd/main.go) serves a mutating webhook
  for pods. It picks the first SidecarConfig resource that matches a pod, changes the pod and
  ensures a ConfigMap \<^verbatim>\<open>kidecar-config\<close> with the sidecar's configuration in the pod's namespace; a
  collector counts the pods of each resource. In the pod the sidecar process (cmd/sidecar/main.go)
  reads that ConfigMap's document, initializes its plugins and runs them until one of them sends
  something on the error channel. The built-in plugins probe HTTP endpoints and update a file on
  request; both resolve expressions in their configuration (pkg/template), store results in a
  Kubernetes object or a metric (pkg/store), and find out which pod they run in (pkg/info). The
  hot-update plugin persists its versions in a shared ConfigMap. A third kind of plugin runs a
  program.

  \<^bold>\<open>Theories\<close>, with the files under src/ they model:

  \<^item> KcPrelude: outcomes of a Go call, state passing actions, Go maps, the contract of the retry
    helper, the collections \<open>go_iff\<close> (when an action returns, fails or panics) and \<open>keeps_intro\<close>.
  \<^item> KcTypes: pods, ConfigMaps and the types of api/types.go and api/v1alpha1; the controller's
    client and library parameters.
  \<^item> KcConfigMap, KcConfigMapProps: pkg/injector/configmap.go, pkg/utils/hash.go.
  \<^item> KcInjector, KcInjectorProps: pkg/injector/pod.go, pkg/webhook/pod_inject.go.
  \<^item> KcMemApi: the assumed behaviour of the API server, and a server in memory for the witnesses.
  \<^item> KcInfo: pkg/info and the process-wide state of the sidecar.
  \<^item> KcStrings: Go's string functions and regular expressions, as far as they are used.
  \<^item> KcTemplate: pkg/template.
  \<^item> KcStoreConfig, KcStore, KcStoreProps: pkg/store/config.go, factory.go, in_kube.go,
    prom_metrics.go.
  \<^item> KcPersistent: pkg/store/persistent.go, pkg/constants.
  \<^item> KcStatus: the two status.go files. KcHotUpdate, KcHotUpdateProps: pkg/plugins/hot_update;
    KcHotServe: its handler in stages, for requests that interleave.
    KcRestart: a request and a later start together. KcHttpProbe: pkg/plugins/http_probe,
    pkg/extractor; KcProbeMarks: from an endpoint's answer to the pod; KcWorkers: the workers on
    their shared storages, in small steps.
  \<^item> KcBinary: pkg/plugins/binary, pkg/utils/convert.go and the \<^verbatim>\<open>Plugin\<close> interface.
  \<^item> KcAssembler: pkg/assembler/mgr.go, pkg/plugins/registry.go. KcMain: cmd/sidecar/main.go,
    pkg/manager/manager.go and \<^verbatim>\<open>Start\<close> of the assembler.
  \<^item> KcPoll: the pollers of the assembler in small steps, with the lock.
  \<^item> KcHeap: what a deep copy is, for any memory of cells. KcDeepCopy: the generated functions of
    api/v1alpha1/zz_generated.deepcopy.go.
  \<^item> KcJson: the decoder of encoding/json on JSON values. KcDecode: the \<^verbatim>\<open>json\<close> tags of the built-in
    plugins' configurations.
  \<^item> KcServe: the HTTP servers of the sidecar on the multiplexer they share.
  \<^item> KcCollector: pkg/collector/pods.go. KcController: cmd/main.go, internal/controller, the
    resource's webhook, the registration of its types (groupversion_info.go).
  \<^item> KcPod: the injected pod between the two processes, what its container finds in its files and
    its environment.
  \<^item> This theory: the way of a configuration from the resource to the running plugins and to what
    each of them runs with.

  \<^bold>\<open>How code becomes HOL.\<close> A struct is a record whose fields have a prefix for the type
  (\<open>sc_Status\<close> is \<^verbatim>\<open>SidecarConfig.Status\<close>). A function that cannot touch state is a HOL function into
  \<open>'a go\<close>: \<open>Ret\<close>, \<open>Fail\<close> for an error return, \<open>Panic\<close> for a panic (nil dereference, write to a nil
  map, index out of range, failed type assertion). A function with effects is an action
  \<open>'s \<Rightarrow> 'a go \<times> 's\<close>, so what an error return leaves behind is part of the model; \<open>tryM m h k\<close> is
  \<^verbatim>\<open>x, err := m(); if err != nil { return h(err) }\<close>. Error values keep the constant part of their
  message and the wrapped cause. A Go map is an association list that may be nil; its order stands
  for the order of a \<^verbatim>\<open>range\<close>, and where two loops go over one map the orders are parameters.
  Status counters are 32-bit words, the goroutine counters and gauge values 64-bit words, \<^verbatim>\<open>int\<close>
  configuration fields are integers, as no arithmetic is done on them. Objects that are shared
  (plugins in the registry and in the sidecar) live on a heap; storage configurations are changed
  in place through the plugin that owns them. Goroutines, timers and the ticks of pollers are steps
  of inductive relations (\<open>info_step\<close>, \<open>probe_step\<close>, \<open>sidecar_step\<close>, \<open>start_step\<close>,
  \<open>fine_step\<close>, \<open>worker_step\<close>, \<open>serve_step\<close>). The deep copies work on a heap of cells: slices, maps and pointers are
  references into it.

  \<^bold>\<open>Parameters.\<close> Code outside src/ is an argument: the API server and its clients (\<open>ctrl_client\<close>,
  \<open>kube_iface\<close>, \<open>manager_lib\<close>, \<open>setup_lib\<close>, \<open>scheme_lib\<close>), JSON, YAML, SHA-256 and label selectors (\<open>ctrl_lib\<close>,
  \<open>yaml_lib\<close>, \<open>config_lib\<close>), Prometheus (\<open>store_lib\<close>), the host (\<open>host\<close>, \<open>exec_lib\<close>), HTTP and gjson
  (\<open>probe_lib\<close>), \<^verbatim>\<open>semver.Compare\<close>, the text of JSON
  (\<open>json_text\<close>), the deep copies of the Kubernetes types (\<open>k8s\<close>). What the properties assume of them
  are predicates with a name
  (\<open>configmap_api\<close>, \<open>retries\<close>, \<open>owner_ok\<close>, \<open>pod_api\<close>, \<open>result_store\<close>, \<open>yaml_ok\<close>, \<open>semver_laws\<close>,
  \<open>range_order\<close>, \<open>json_text_ok\<close>, \<open>k8s_copies\<close>, \<open>yaml_maps\<close>, \<open>quiet_client\<close>, \<open>keeps_configmaps\<close>,
  \<open>scheme_laws\<close>, and of the cluster \<open>admits\<close> and \<open>node_starts\<close>), each met by a concrete
  function in a witness.

  \<^bold>\<open>What the lemmas show.\<close> The injection makes of a pod exactly what the specification \<open>injected_pod\<close>
  says, is idempotent, and marks no pod when it fails. The ConfigMap that is ensured carries the
  configuration and its hash, settles after one run, and a failure writes nothing. The sidecar
  that the node starts in an injected pod finds that document under its default path, runs the
  plugins of the resource and knows its own pod (\<open>injected_pod_runs_plugins\<close>); each plugin is
  started once and with the configuration that its entry in the resource decodes to
  (\<open>injected_pod_runs_configuration\<close>), and no poll can bring it down; the pollers
  exclude each other at the status map and behave as if a poll were one step. Every configuration of
  a built-in plugin survives being written and read. The deep copy of a resource shares no memory
  with it. The cached pod expires. A successful store leaves exactly the
  configured marks on the pod; the JSON patch addresses the right keys; the walk over a
  configuration resolves the target's namespace and name and keeps everything else. Persisted
  results are read back and disturb nobody else's. The version check is the regular language it
  says, and the version restored at start is a maximum; an update that was saved survives a restart.
  A probe that succeeds marks its pod with what the endpoint answered, and the workers that share a
  factory without a lock are never handed a storage that is half set up. The probe plugin's status
  and goroutine counter are true in every interleaving, and its life cycle ends. The collector writes the numbers
  of the pods. The stages of the hot-update handler are the handler, and of two requests at the same
  time the version of one can be saved with the URL of the other. Other lemmas pin down behaviour
  that contradicts the intent: the metric storage panics, two workers can both register its endpoint,
  a failed signal is answered 200, the hot-update plugin never says it runs, a binary plugin never has
  a status, a program that ends takes the sidecar along, the address of the metrics takes update requests, and
  when it is taken nobody hears of it.

  \<^bold>\<open>Interfaces\<close> are locales, interpreted on the model: \<open>writable_map\<close> for map copies, \<open>status_cell\<close> for
  the two status types, \<open>storage\<close> for the two storages, \<open>plugin_object\<close> for the plugins, \<open>codec\<close> for
  the types of the plugins' configurations. The law of a deep copy is the predicate \<open>copies\<close>, as
  the copies of the Kubernetes types that it is assumed of are parameters.

  \<^bold>\<open>Loops and bounds.\<close> Loops over slices and maps are structural recursion. The retry helper is any
  function that runs its argument a bounded number of times (\<open>retries\<close>; \<open>attempts\<close> is one). The walk
  over a configuration terminates by the size of the value. Loops that run as long as the process
  are step relations, or a given number of ticks (\<open>collector_Start\<close>). Time is in seconds and the
  cache's bound is \<open>cacheExpiration\<close>, 60. The life cycle of the probe plugin has at most two steps
  more than it has endpoints. No fuel is used.

  \<^bold>\<open>Not modelled.\<close> Logging. The decoding of YAML, and of JSON text into values. The end-to-end test helpers of test/utils,
  which run shell commands. HTTP itself: which handler answers on which address is in KcServe, a
  request of the hot-update handler interleaves with others at its accesses to the result record
  only, and the body of \<^verbatim>\<open>/metrics\<close> is left out. Data races: the write of the status map has a beginning and an end in
  KcPoll and the set-up of a storage is cut at its accesses in KcWorkers; every other access to a map
  or a status cell is atomic, also where the code takes no lock. Fields of Kubernetes objects that
  are only carried along are one opaque string.
\<close>

section \<open>From the resource to the running sidecar\<close>

lemma PodInjector_Default_Ret:
  "PodInjector_Default lib env \<lparr>pi_Client = Some cl\<rparr> (PodObject p, k) = (Ret (), (PodObject p', k')) \<Longrightarrow>
     InjectPod lib env cl (p, k) = (Ret (), (p', k'))"
  by (auto simp: PodInjector_Default_def tryM_def split: prod.splits go.splits)

lemma convertPlugins_entries:
  "convertPlugins lib ps acc = Ret qs \<Longrightarrow>
     map (\<lambda>p. (apc_Name p, apc_Binary p)) qs =
     map (\<lambda>p. (apc_Name p, apc_Binary p)) acc @ map (\<lambda>p. (pc_Name p, pc_Binary p)) ps"
  by (induction lib ps acc rule: convertPlugins.induct) (auto simp: go_iff)

lemma convertKubeConfig_entries:
  "convertKubeConfigToSidecarConfig lib config = Ret c \<Longrightarrow>
     entries c = map (\<lambda>p. (pc_Name p, pc_Binary p)) (kc_Plugins config)"
  by (auto simp: convertKubeConfigToSidecarConfig_def go_iff dest: convertPlugins_entries)

text \<open>The sidecar reads the document that the webhook has ensured.\<close>

lemma ensured_document:
  assumes "configmap_api cl store" and "retries IsConflict (cl_RetryOnConflict cl)" and "owner_ok lib"
    and "convertKubeConfigToSidecarConfig lib (spec_Kidecar (sc_Spec sc)) = Ret c"
    and "lib_YamlMarshal lib c = Ret y"
    and "\<And>cm. store k (ns, KidecarConfigmapName) = Some cm \<Longrightarrow> cm_consistent lib cm"
    and "\<And>x. lib_Sha256 lib x = lib_Sha256 lib y \<Longrightarrow> x = y"
    and "EnsureConfigmap lib cl ns sc k = (Ret (), k')"
    and "\<And>cm. store k' (ns, KidecarConfigmapName) = Some cm \<Longrightarrow>
       read path = Ret (gindex (cm_Data cm) ''config.yaml'')"
  shows "read path = Ret y"
proof -
  have "buildConfigYaml lib (spec_Kidecar (sc_Spec sc)) = Ret y"
    using assms(4,5) by (simp add: buildConfigYaml_def go_iff)
  from EnsureConfigmap_delivery [OF assms(1-3) this assms(6,8)]
  obtain cm where "store k' (ns, KidecarConfigmapName) = Some cm"
    "lib_Sha256 lib (gindex (cm_Data cm) ''config.yaml'') = lib_Sha256 lib y" by blast
  then show ?thesis using assms(7,9) by metis
qed

text \<open>
  The webhook and the sidecar fit together. Say the webhook has ensured the ConfigMap of
  a resource, the sidecar reads the ConfigMap's document as its configuration file, YAML gives back
  the names and programs that were written, and no other text has the document's hash. If the
  sidecar then comes up, its plugins are those of the resource: each name with the program of its
  last entry, or the built-in plugin of that name, and nothing else.
\<close>

lemma config_reaches_sidecar:
  assumes "configmap_api cl store" and "retries IsConflict (cl_RetryOnConflict cl)" and "owner_ok lib"
    and "convertKubeConfigToSidecarConfig lib (spec_Kidecar (sc_Spec sc)) = Ret c"
    and "lib_YamlMarshal lib c = Ret y"
    and "\<And>cm. store k (ns, KidecarConfigmapName) = Some cm \<Longrightarrow> cm_consistent lib cm"
    and "\<And>x. lib_Sha256 lib x = lib_Sha256 lib y \<Longrightarrow> x = y"
    and "EnsureConfigmap lib cl ns sc k = (Ret (), k')"
    and "\<And>cm. store k' (ns, KidecarConfigmapName) = Some cm \<Longrightarrow>
       mn_ReadFile ml path = Ret (gindex (cm_Data cm) ''config.yaml'')"
    and "\<And>c'. mn_Unmarshal ml y = Ret (Some c') \<Longrightarrow> entries c' = entries c"
    and "sidecar_main ml path p = (Serving st, p')" and "range_order (mn_order1 ml)"
  shows "plugin_table (rn_sidecar st) =
    table_of (map (\<lambda>p. (pc_Name p, pc_Binary p)) (kc_Plugins (spec_Kidecar (sc_Spec sc))))"
proof -
  have "mn_ReadFile ml path = Ret y"
    by (rule ensured_document [where read = "mn_ReadFile ml", OF assms(1-9)])
  with sidecar_main_table [OF assms(11,12)]
  obtain c' where "mn_Unmarshal ml y = Ret (Some c')" "plugin_table (rn_sidecar st) = table_of (entries c')"
    by auto
  with assms(10) convertKubeConfig_entries [OF assms(4)] show ?thesis by simp
qed

text \<open>The sidecar's container in an injected pod has the document that the webhook ensured as its file.\<close>

lemma injected_pod_reads:
  assumes "configmap_api cl store" and "keeps_configmaps cl store" and "retries IsConflict (cl_RetryOnConflict cl)"
    and "owner_ok lib" and "InjectPod lib wenv cl (p, k) = (Ret (), (p', k'))"
    and "GetSidecarConfigOfPod lib cl p k = (Ret (Some sc), k1)" and "\<not> annotated p"
    and "inj_InjectKidecar (spec_Injection (sc_Spec sc))"
    and "convertKubeConfigToSidecarConfig lib (spec_Kidecar (sc_Spec sc)) = Ret con"
    and "lib_YamlMarshal lib con = Ret y" and "y \<noteq> []"
    and "\<And>cm. store k (pod_Namespace p, KidecarConfigmapName) = Some cm \<Longrightarrow> cm_consistent lib cm"
    and "\<And>x. lib_Sha256 lib x = lib_Sha256 lib y \<Longrightarrow> x = y"
    and "admits p' n q" and "sidecar_container q c" and "node_starts (store k') q c read env"
  shows "read default_configPath = Ret y"
    and "n \<noteq> [] \<Longrightarrow> pod_Namespace p \<noteq> [] \<Longrightarrow> GetCurrentPodNamespaceAndName env = Ret (pod_Namespace p, n)"
proof -
  obtain u v where uv: "store u = store k" "EnsureConfigmap lib cl (pod_Namespace p) sc u = (Ret (), v)"
    "store k' = store v" "p' = injected_pod wenv sc p"
    using injection_ensures [OF assms(2,3,5-8)] by blast
  have built: "buildConfigYaml lib (spec_Kidecar (sc_Spec sc)) = Ret y" using assms(9,10) by (simp add: buildConfigYaml_def go_iff)
  have "\<And>cm. store u (pod_Namespace p, KidecarConfigmapName) = Some cm \<Longrightarrow> cm_consistent lib cm"
    using assms(12) uv(1) by simp
  from EnsureConfigmap_delivery [OF assms(1,3,4) built this uv(2)]
  obtain cm where cm: "store k' (pod_Namespace p, KidecarConfigmapName) = Some cm" "gindex (cm_Data cm) ''config.yaml'' = y"
    using assms(13) uv(3) by metis
  then have entry: "glookup (cm_Data cm) ''config.yaml'' = Some y"
    using assms(11) by (simp add: gindex_def split: option.splits)
  note own = admitted_sidecar [OF assms(8) assms(14) [unfolded uv(4)] assms(15)]
  have "shows_file (store k') q c ''/opt/kidecar/config.yaml'' y"
    by (rule kidecar_shows_config [OF own(1,2) _ entry]) (simp add: own(3) cm(1))
  then show "read default_configPath = Ret y" using assms(16) by (simp add: node_starts_def default_configPath_def)
  show "n \<noteq> [] \<Longrightarrow> pod_Namespace p \<noteq> [] \<Longrightarrow> GetCurrentPodNamespaceAndName env = Ret (pod_Namespace p, n)"
    using kidecar_knows_pod [OF own(1) assms(16)] own(3,4) by simp
qed

text \<open>
  C1: from the admission of a pod to the plugins in it. Say the webhook has injected the sidecar
  of a resource into a new pod, the API server has admitted the pod, given it its name and perhaps
  added to its containers, and the node has started the sidecar's container: it mounts the ConfigMap
  and resolves the environment.
  If the sidecar, started with the default path, comes up on a YAML that gives back the names and
  programs that were written, its plugins are those of the resource, each name with the program of
  its last entry or the built-in plugin of that name, and nothing else; and what it takes for its
  own pod is the pod it runs in.
\<close>

theorem injected_pod_runs_plugins:
  assumes "configmap_api cl store" and "keeps_configmaps cl store" and "retries IsConflict (cl_RetryOnConflict cl)"
    and "owner_ok lib" and "PodInjector_Default lib wenv \<lparr>pi_Client = Some cl\<rparr> (PodObject p, k) = (Ret (), (PodObject p', k'))"
    and "GetSidecarConfigOfPod lib cl p k = (Ret (Some sc), k1)" and "\<not> annotated p"
    and "inj_InjectKidecar (spec_Injection (sc_Spec sc))"
    and "convertKubeConfigToSidecarConfig lib (spec_Kidecar (sc_Spec sc)) = Ret con"
    and "lib_YamlMarshal lib con = Ret y" and "y \<noteq> []"
    and "\<And>cm. store k (pod_Namespace p, KidecarConfigmapName) = Some cm \<Longrightarrow> cm_consistent lib cm"
    and "\<And>x. lib_Sha256 lib x = lib_Sha256 lib y \<Longrightarrow> x = y"
    and "admits p' n q" and "sidecar_container q c"
    and "node_starts (store k') q c (mn_ReadFile ml) env" and "n \<noteq> []" and "pod_Namespace p \<noteq> []"
    and "\<And>c'. mn_Unmarshal ml y = Ret (Some c') \<Longrightarrow> entries c' = entries con"
    and "sidecar_main ml default_configPath pr = (Serving st, pr')" and "range_order (mn_order1 ml)"
  shows "plugin_table (rn_sidecar st) =
      table_of (map (\<lambda>p. (pc_Name p, pc_Binary p)) (kc_Plugins (spec_Kidecar (sc_Spec sc)))) \<and>
    GetCurrentPodNamespaceAndName env = Ret (pod_Namespace p, n)"
proof -
  have inject: "InjectPod lib wenv cl (p, k) = (Ret (), (p', k'))"
    using assms(5) by (rule PodInjector_Default_Ret)
  have reads: "mn_ReadFile ml default_configPath = Ret y"
    by (rule injected_pod_reads(1) [where read = "mn_ReadFile ml", OF assms(1-4) inject assms(6-16)])
  have own: "GetCurrentPodNamespaceAndName env = Ret (pod_Namespace p, n)"
    by (rule injected_pod_reads(2) [OF assms(1-4) inject assms(6-18)])
  from sidecar_main_table [OF assms(20,21)] reads
  obtain c' where "mn_Unmarshal ml y = Ret (Some c')" "plugin_table (rn_sidecar st) = table_of (entries c')"
    by auto
  with assms(19) convertKubeConfig_entries [OF assms(9)] own show ?thesis by simp
qed

text \<open>A resource with a program and a built-in plugin, and the sidecar of KcMain's demonstration.\<close>

definition demo_resource :: SidecarConfig where
  "demo_resource = demo_config\<lparr>sc_Spec := (sc_Spec demo_config)\<lparr>spec_Kidecar :=
     \<lparr>kc_Plugins =
        [\<lparr>pc_Name = ''sync'', pc_Config = None, pc_Binary = Some demo_binary, pc_BootOrder = 1\<rparr>,
         \<lparr>pc_Name = ''http_probe'', pc_Config = Some ''x'', pc_Binary = None, pc_BootOrder = 2\<rparr>],
      kc_RestartPolicy = ''Always'', kc_Resources = None, kc_SidecarStartOrder = []\<rparr>\<rparr>\<rparr>"

text \<open>The demonstration's resource, where the probe has the configuration of demo/probe.yaml.\<close>

definition demo_ctrl :: ctrl_lib where
  "demo_ctrl = mem_lib\<lparr>lib_JsonUnmarshal := (\<lambda>_. Ret (Some demo_document))\<rparr>"

definition demo_written :: ApiSidecarConfig where
  "demo_written =
     \<lparr>asc_Plugins =
        [\<lparr>apc_Name = ''sync'', apc_Binary = Some demo_binary, apc_Config = IMap None, apc_BootOrder = 1\<rparr>,
         \<lparr>apc_Name = ''http_probe'', apc_Binary = None, apc_Config = IMap (Some demo_document), apc_BootOrder = 2\<rparr>],
      asc_RestartPolicy = ''Always'', asc_Resources = None, asc_SidecarStartOrder = []\<rparr>"

definition demo_chain_main :: "apiserver main_lib" where
  "demo_chain_main = demo_main\<lparr>mn_Unmarshal := (\<lambda>_. Ret (Some demo_written)), mn_config := built_in demo_json\<rparr>"

lemma demo_ctrl_functions:
  "lib_YamlMarshal demo_ctrl = lib_YamlMarshal mem_lib" "lib_Sha256 demo_ctrl = lib_Sha256 mem_lib"
  "lib_SetOwnerReference demo_ctrl = lib_SetOwnerReference mem_lib"
  "lib_LabelSelectorAsSelector demo_ctrl = lib_LabelSelectorAsSelector mem_lib"
  "lib_JsonUnmarshal demo_ctrl bs = Ret (Some demo_document)" "newConfigmap demo_ctrl = newConfigmap mem_lib"
  by (simp_all add: demo_ctrl_def newConfigmap_def [abs_def] Hash_def)

lemma demo_ctrl_owner_ok: "owner_ok demo_ctrl"
  using mem_lib_owner_ok by (simp add: demo_ctrl_def owner_ok_def)

lemma demo_written_converted:
  "convertKubeConfigToSidecarConfig demo_ctrl (spec_Kidecar (sc_Spec demo_resource)) = Ret demo_written"
  by (simp add: convertKubeConfigToSidecarConfig_def convertRawToMap_def demo_ctrl_functions demo_resource_def
      demo_written_def tryG_def)

lemma demo_written_yaml: "lib_YamlMarshal demo_ctrl demo_written = Ret ''synchttp_probe''"
  by (simp add: demo_ctrl_functions demo_eval demo_written_def)

lemma demo_chain_runs: "\<exists>st p'. sidecar_main demo_chain_main default_configPath demo_proc = (Serving st, p')"
proof (rule sidecar_comes_up)
  show "fst (InitPlugins (mn_config demo_chain_main) (sidecar_SetupWithManager (demo_sidecar\<lparr>sd_config := Some demo_written\<rparr>))) = Ret ()"
    by (simp add: InitPlugins_def demo_written_def demo_sidecar_def NewSidecar_def builtin_plugins_def
        tryM_def add_binary_def AddPlugin_def probe_Name_def hotUpdateName_def configured_def built_in_def demo_json_def
        ConvertJsonObjectToStruct_def isPointerToStruct_def probe_Init_def demo_decodes Let_def demo_chain_main_def
        sidecar_SetupWithManager_def)
qed (simp_all add: demo_chain_main_def demo_main_def NewManager_def tryM_def)

text \<open>The demonstration's pod and a server with that resource only.\<close>

definition demo_server_chain :: apiserver where
  "demo_server_chain = demo_server\<lparr>srv_configs := [demo_resource]\<rparr>"

definition demo_ensured :: apiserver where
  "demo_ensured = demo_server_chain\<lparr>srv_configmaps :=
     [((''ns'', KidecarConfigmapName), newConfigmap demo_ctrl ''ns'' ''synchttp_probe'' demo_resource)]\<rparr>"

text \<open>Admission mounts a service account token into both containers and names the pod.\<close>

definition demo_token :: "container \<Rightarrow> container" where
  "demo_token c = c\<lparr>c_VolumeMounts := c_VolumeMounts c @
     [\<lparr>vm_Name = ''token'', vm_MountPath = serviceAccountTokenMountPath, vm_rest = []\<rparr>]\<rparr>"

definition demo_admitted :: pod where
  "demo_admitted =
     (let p = injected_pod demo_env demo_resource demo_pod
      in p\<lparr>pod_Name := ''p'', ps_Volumes := ps_Volumes p @ [\<lparr>v_Name = ''token'', v_ConfigMap = None, v_rest = []\<rparr>],
           ps_Containers := map demo_token (ps_Containers p)\<rparr>)"

lemma demo_resource_fields:
  "sc_Name demo_resource = sc_Name demo_config" "sc_Namespace demo_resource = sc_Namespace demo_config"
  "spec_Injection (sc_Spec demo_resource) = demo_inject"
  by (simp_all add: demo_resource_def demo_config_def)

lemma demo_chain_search:
  "GetSidecarConfigOfPod demo_ctrl mem_client demo_pod demo_server_chain = (Ret (Some demo_resource), demo_server_chain)"
  by (simp add: GetSidecarConfigOfPod_def tryM_def mem_client_calls demo_server_chain_def Match_def MatchLabelSelector_def
      demo_ctrl_functions mem_lib_functions demo_resource_fields demo_inject_def demo_selector_def demo_pod_def)

lemma demo_chain_bump:
  "attempts IsConflict 4 (bumpMatchedPods mem_client demo_resource) demo_ensured =
     (Ret (), snd (bumpMatchedPods mem_client demo_resource demo_ensured))"
  by (simp add: demo_eval bumpMatchedPods_def demo_server_chain_def demo_ensured_def demo_server_def demo_resource_fields)

lemma demo_chain_account:
  "injectServiceAccount mem_client ''sa'' False (demo_pod, demo_server_chain) =
     (Ret (), (setServiceAccount ''sa'' False demo_pod, demo_server_chain))"
  by (simp add: injectServiceAccount_def tryM_def on_api_def mem_client_calls demo_server_chain_def demo_server_def
      demo_pod_def)

lemma demo_chain_ensured: "EnsureConfigmap demo_ctrl mem_client ''ns'' demo_resource demo_server_chain = (Ret (), demo_ensured)"
proof -
  have y: "buildConfigYaml demo_ctrl (spec_Kidecar (sc_Spec demo_resource)) = Ret ''synchttp_probe''"
    by (simp add: buildConfigYaml_def demo_written_converted demo_written_yaml)
  show ?thesis
    by (simp add: y EnsureConfigmap_def createConfigmap_def demo_eval mem_store_def demo_server_chain_def demo_server_def
        demo_ensured_def newConfigmap_fields(1) [OF mem_lib_owner_ok] demo_ctrl_functions)
qed

lemma demo_chain_injects:
  "\<exists>k'. InjectPod demo_ctrl demo_env mem_client (demo_pod, demo_server_chain) =
     (Ret (), (injected_pod demo_env demo_resource demo_pod, k')) \<and> mem_store k' = mem_store demo_ensured"
proof -
  have ns: "pod_Namespace (addKidecarContainer demo_env demo_resource (setServiceAccount ''sa'' False demo_pod)) = ''ns''"
    by (simp add: pod_edits_eq Let_def demo_pod_def)
  have f: "inj_ServiceAccountName demo_inject = ''sa''" "inj_ForceInjectServiceAccount demo_inject = None"
    "inj_InjectKidecar demo_inject" by (simp_all add: demo_inject_def)
  obtain p' k' where run: "InjectPod demo_ctrl demo_env mem_client (demo_pod, demo_server_chain) = (Ret (), (p', k'))"
    "k' = snd (bumpMatchedPods mem_client demo_resource demo_ensured)"
    by (simp add: InjectPod_run demo_chain_search demo_not_annotated injectConfigured_split demo_resource_fields f
        deref_bool_def tryM_def demo_chain_account add_sidecar_def on_api_def ns demo_chain_ensured
        finish_injection_def catchM_def mem_client_calls demo_chain_bump)
  have "p' = injected_pod demo_env demo_resource demo_pod"
    using run(1) by (rule InjectPod_Ret_cases) (simp_all add: demo_chain_search demo_not_annotated)
  moreover have "mem_store k' = mem_store demo_ensured"
    unfolding run(2) by (rule ext) (simp add: demo_eval bumpMatchedPods_def mem_store_def demo_ensured_def demo_server_chain_def
        demo_server_def demo_resource_fields)
  ultimately show ?thesis using run(1) by blast
qed

text \<open>The node starts the container with the demonstration's document as the only file.\<close>

definition demo_kidecar :: container where
  "demo_kidecar = demo_token (kidecarContainer demo_env False)"

definition demo_pod_env :: environment where
  "demo_pod_env = resolved demo_admitted demo_kidecar"

lemma demo_admitted_fields:
  "ps_Volumes demo_admitted = [kidecarVolume, \<lparr>v_Name = ''token'', v_ConfigMap = None, v_rest = []\<rparr>]"
  "containers_of demo_admitted = [demo_token (strip_token_mount demo_container), demo_kidecar]"
  "pod_Namespace demo_admitted = ''ns''" "pod_Name demo_admitted = ''p''"
  by (simp_all add: demo_admitted_def containers_of_def injected_pod_def Let_def demo_resource_fields demo_inject_def
      demo_pod_def demo_kidecar_def)

lemma demo_injected_fields:
  "ps_Volumes (injected_pod demo_env demo_resource demo_pod) = [kidecarVolume]"
  "containers_of (injected_pod demo_env demo_resource demo_pod) = [strip_token_mount demo_container, kidecarContainer demo_env False]"
  "pod_Namespace (injected_pod demo_env demo_resource demo_pod) = ''ns''"
  by (simp_all add: containers_of_def injected_pod_def Let_def demo_resource_fields demo_inject_def demo_pod_def)

lemma demo_token_carried:
  "carried (strip_token_mount demo_container) (demo_token (strip_token_mount demo_container))"
  "carried (kidecarContainer demo_env False) demo_kidecar"
  by (auto simp: carried_def demo_token_def demo_kidecar_def kidecarContainer_def strip_token_mount_eq demo_container_def
      on_token_path_def serviceAccountTokenMountPath_def)

lemma demo_pod_starts:
  "admits (injected_pod demo_env demo_resource demo_pod) ''p'' demo_admitted"
  "sidecar_container demo_admitted demo_kidecar"
  "node_starts (mem_store demo_ensured) demo_admitted demo_kidecar (mn_ReadFile demo_chain_main) demo_pod_env"
proof -
  have names: "c_Name (demo_token c) = c_Name c" for c by (simp add: demo_token_def)
  show "admits (injected_pod demo_env demo_resource demo_pod) ''p'' demo_admitted"
    using demo_token_carried unfolding admits_def valid_names_def demo_admitted_fields demo_injected_fields
    by (simp add: names demo_kidecar_def kidecarContainer_def kidecarVolume_def KidecarConfigmapName_def
        strip_token_mount_eq demo_container_def)
  show "sidecar_container demo_admitted demo_kidecar"
    unfolding sidecar_container_def demo_admitted_fields by (simp add: names demo_kidecar_def kidecarContainer_def)
  show "node_starts (mem_store demo_ensured) demo_admitted demo_kidecar (mn_ReadFile demo_chain_main) demo_pod_env"
    unfolding node_starts_def shows_file_def demo_admitted_fields
    by (auto simp: demo_pod_env_def kidecarVolume_def mem_store_def demo_ensured_def
        named_def demo_chain_main_def demo_main_def newConfigmap_fields(2) [OF mem_lib_owner_ok] demo_ctrl_functions
        split: if_splits)
qed

lemma demo_chain_webhook:
  "\<exists>k'. PodInjector_Default demo_ctrl demo_env \<lparr>pi_Client = Some mem_client\<rparr> (PodObject demo_pod, demo_server_chain) =
      (Ret (), (PodObject (injected_pod demo_env demo_resource demo_pod), k')) \<and>
    node_starts (mem_store k') demo_admitted demo_kidecar
      (mn_ReadFile demo_chain_main) demo_pod_env"
proof -
  obtain k' where k': "InjectPod demo_ctrl demo_env mem_client (demo_pod, demo_server_chain) =
      (Ret (), (injected_pod demo_env demo_resource demo_pod, k'))" "mem_store k' = mem_store demo_ensured"
    using demo_chain_injects by blast
  then have "PodInjector_Default demo_ctrl demo_env \<lparr>pi_Client = Some mem_client\<rparr> (PodObject demo_pod, demo_server_chain) =
      (Ret (), (PodObject (injected_pod demo_env demo_resource demo_pod), k'))"
    by (simp add: PodInjector_Default_def tryM_def)
  with demo_pod_starts(3) k'(2) show ?thesis by auto
qed

lemma demo_chain_consistent:
  "mem_store demo_server_chain (pod_Namespace demo_pod, KidecarConfigmapName) = Some cm \<Longrightarrow> cm_consistent demo_ctrl cm"
  by (simp add: mem_store_def demo_server_chain_def demo_server_def)

theorem injected_pod_runs_plugins_witness:
  "\<exists>st. fst (sidecar_main demo_chain_main default_configPath demo_proc) = Serving st \<and>
     plugin_table (rn_sidecar st) = [''sync'' \<mapsto> Some demo_binary, ''http_probe'' \<mapsto> None] \<and>
     GetCurrentPodNamespaceAndName demo_pod_env = Ret (''ns'', ''p'')"
proof -
  obtain st p' where run: "sidecar_main demo_chain_main default_configPath demo_proc = (Serving st, p')"
    using demo_chain_runs by blast
  obtain k' where inject: "PodInjector_Default demo_ctrl demo_env \<lparr>pi_Client = Some mem_client\<rparr> (PodObject demo_pod, demo_server_chain) =
      (Ret (), (PodObject (injected_pod demo_env demo_resource demo_pod), k'))"
    and starts: "node_starts (mem_store k') demo_admitted demo_kidecar
      (mn_ReadFile demo_chain_main) demo_pod_env"
    using demo_chain_webhook by blast
  have order: "range_order (mn_order1 demo_chain_main)" by (simp add: demo_chain_main_def demo_main_def range_order_rev)
  have "plugin_table (rn_sidecar st) =
      table_of (map (\<lambda>p. (pc_Name p, pc_Binary p)) (kc_Plugins (spec_Kidecar (sc_Spec demo_resource)))) \<and>
    GetCurrentPodNamespaceAndName demo_pod_env = Ret (pod_Namespace demo_pod, ''p'')"
    by (rule injected_pod_runs_plugins [OF mem_client_configmap_api mem_client_keeps_configmaps mem_client_retries
          demo_ctrl_owner_ok inject demo_chain_search demo_not_annotated _ demo_written_converted demo_written_yaml
          _ demo_chain_consistent _ demo_pod_starts(1,2) starts _ _ _ run order])
      (simp_all add: demo_resource_fields demo_inject_def demo_ctrl_functions mem_lib_functions demo_pod_def demo_chain_main_def)
  with run show ?thesis by (simp add: table_of_def demo_resource_def fun_upd_twist demo_pod_def)
qed

section \<open>From the resource to the configuration of a plugin\<close>

definition converted_entry :: "ctrl_lib \<Rightarrow> PluginConfig \<Rightarrow> ApiPluginConfig \<Rightarrow> bool" where
  "converted_entry lib p q \<longleftrightarrow>
     apc_Name q = pc_Name p \<and> apc_Binary q = pc_Binary p \<and>
     (\<exists>m. convertRawToMap lib (pc_Config p) = Ret m \<and> apc_Config q = IMap m)"

lemma convertPlugins_all2:
  "convertPlugins lib ps acc = Ret qs \<Longrightarrow> \<exists>rs. qs = acc @ rs \<and> list_all2 (converted_entry lib) ps rs"
proof (induction lib ps acc arbitrary: qs rule: convertPlugins.induct)
  case (2 lib p ps acc)
  then obtain m where m: "convertRawToMap lib (pc_Config p) = Ret m" by (auto simp: go_iff)
  let ?q = "\<lparr>apc_Name = pc_Name p, apc_Binary = pc_Binary p, apc_Config = IMap m, apc_BootOrder = pc_BootOrder p\<rparr>"
  have "convertPlugins lib ps (acc @ [?q]) = Ret qs" using 2(2) m by simp
  then obtain rs where "qs = (acc @ [?q]) @ rs" "list_all2 (converted_entry lib) ps rs" using 2(1) by blast
  moreover have "converted_entry lib p ?q" using m by (simp add: converted_entry_def)
  ultimately show ?case by (intro exI [of _ "?q # rs"]) simp
qed simp

lemma find_all2:
  assumes "list_all2 R xs ys" and "find P xs = Some x" and "\<And>x y. R x y \<Longrightarrow> Q y = P x"
  shows "\<exists>y. find Q ys = Some y \<and> R x y"
  using assms by (induction rule: list_all2_induct) (auto split: if_splits)

lemma last_entry_converted:
  assumes "convertKubeConfigToSidecarConfig lib config = Ret c"
    and "find (\<lambda>p. pc_Name p = n) (rev (kc_Plugins config)) = Some p"
  shows "\<exists>q. find (\<lambda>e. apc_Name e = n) (rev (asc_Plugins c)) = Some q \<and> converted_entry lib p q"
proof -
  obtain rs where "asc_Plugins c = rs" "list_all2 (converted_entry lib) (kc_Plugins config) rs"
    using assms(1) convertPlugins_all2 [of lib "kc_Plugins config" "[]"]
    by (fastforce simp: convertKubeConfigToSidecarConfig_def go_iff)
  then have "list_all2 (converted_entry lib) (rev (kc_Plugins config)) (rev (asc_Plugins c))" by simp
  from find_all2 [OF this assms(2)] show ?thesis by (simp add: converted_entry_def)
qed

lemma written_configuration_runs:
  assumes "convertKubeConfigToSidecarConfig lib config = Ret c" and "mn_ReadFile ml path = Ret y"
    and "mn_Unmarshal ml y = Ret (Some c)" and "mn_config ml = built_in jt" and "json_text_ok jt"
    and "sidecar_main ml path p = (Serving st, p')"
    and "find (\<lambda>e. pc_Name e = n) (rev (kc_Plugins config)) = Some e" and "pc_Binary e = None"
  shows "\<exists>m r. convertRawToMap lib (pc_Config e) = Ret m \<and> map_of (sd_plugins (rn_sidecar st)) n = Some r \<and>
    runs_with (document m) (sd_heap (rn_sidecar st) ! r)"
proof -
  obtain q where q: "find (\<lambda>e. apc_Name e = n) (rev (asc_Plugins c)) = Some q" "converted_entry lib e q"
    using last_entry_converted [OF assms(1,7)] by blast
  then have "apc_Binary q = None" using assms(8) by (simp add: converted_entry_def)
  from plugin_runs_with_configuration [OF assms(6,4,5,2,3) q(1) this] q(2)
  show ?thesis by (auto simp: converted_entry_def)
qed

text \<open>
  What is in the resource is what a built-in plugin runs with, when the sidecar reads the document
  of the ConfigMap that the webhook has ensured.
\<close>

lemma resource_configuration_runs:
  assumes "configmap_api cl store" and "retries IsConflict (cl_RetryOnConflict cl)" and "owner_ok lib"
    and "convertKubeConfigToSidecarConfig lib (spec_Kidecar (sc_Spec sc)) = Ret c"
    and "lib_YamlMarshal lib c = Ret y"
    and "\<And>cm. store k (ns, KidecarConfigmapName) = Some cm \<Longrightarrow> cm_consistent lib cm"
    and "\<And>x. lib_Sha256 lib x = lib_Sha256 lib y \<Longrightarrow> x = y"
    and "EnsureConfigmap lib cl ns sc k = (Ret (), k')"
    and "\<And>cm. store k' (ns, KidecarConfigmapName) = Some cm \<Longrightarrow>
       mn_ReadFile ml path = Ret (gindex (cm_Data cm) ''config.yaml'')"
    and "mn_Unmarshal ml y = Ret (Some c)" and "mn_config ml = built_in jt" and "json_text_ok jt"
    and "sidecar_main ml path p = (Serving st, p')"
    and "find (\<lambda>e. pc_Name e = n) (rev (kc_Plugins (spec_Kidecar (sc_Spec sc)))) = Some e" and "pc_Binary e = None"
  shows "\<exists>m r. convertRawToMap lib (pc_Config e) = Ret m \<and> map_of (sd_plugins (rn_sidecar st)) n = Some r \<and>
    runs_with (document m) (sd_heap (rn_sidecar st) ! r)"
proof -
  have read: "mn_ReadFile ml path = Ret y"
    by (rule ensured_document [where read = "mn_ReadFile ml", OF assms(1-9)])
  show ?thesis by (rule written_configuration_runs [OF assms(4) read assms(10-15)])
qed



end
